(* ===== verification/Prelude.thy ===== *)
theory Prelude
  imports Main "HOL-Library.AList" "HOL-Library.Word" "HOL-Library.Product_Lexorder"
    "HOL-Library.List_Lexorder" "HOL-Library.Char_ord"
begin

text \<open>
  Shared ground of the development: the integer types of the C++ sources at
  their width, the result type that stands for a call which may throw, the two
  dictionary types (\<^verbatim>\<open>std::map\<close> as a list sorted by key,
  \<^verbatim>\<open>std::unordered_map\<close> as a list with distinct keys) with their lookup and
  update laws, and the sum of a measure over the entries of a dictionary, which
  the ledger components use for the total of an asset.
\<close>

named_theorems res_simps \<open>decomposition of successful runs\<close>
named_theorems dict_simps \<open>lookup after update\<close>

section \<open>Machine types\<close>

text \<open>\<^verbatim>\<open>int64_t\<close> and \<^verbatim>\<open>uint64_t\<close> are both words of width 64;
  the signed reading is \<^const>\<open>sint\<close> and signed comparison is
  \<^const>\<open>word_sless\<close> and \<^const>\<open>word_sle\<close>.\<close>

type_synonym int64 = "64 word"
type_synonym uint64 = "64 word"
type_synonym uint32 = "32 word"
type_synonym uint128 = "128 word"

definition INT64_MAX :: int where
  "INT64_MAX = 9223372036854775807"

definition INT64_MIN :: int where
  "INT64_MIN = - 9223372036854775808"

text \<open>C division truncates towards zero; \<^verbatim>\<open>quot_c\<close> is that quotient on
  unbounded integers and \<^verbatim>\<open>sdiv64\<close> the one of two \<^verbatim>\<open>int64_t\<close> operands.\<close>

definition quot_c :: "int \<Rightarrow> int \<Rightarrow> int" where
  "quot_c a b = sgn a * sgn b * (\<bar>a\<bar> div \<bar>b\<bar>)"

definition sdiv64 :: "int64 \<Rightarrow> int64 \<Rightarrow> int64" where
  "sdiv64 a b = word_of_int (quot_c (sint a) (sint b))"

lemma sint64_range: "INT64_MIN \<le> sint (a :: 64 word)" "sint (a :: 64 word) \<le> INT64_MAX"
  using sint_greater_eq [of a] sint_less [of a] by (simp_all add: INT64_MIN_def INT64_MAX_def)

lemma sint_word_of_int64:
  assumes "INT64_MIN \<le> x" "x \<le> INT64_MAX"
  shows "sint (word_of_int x :: 64 word) = x"
proof -
  have "signed_take_bit 63 x = x"
    using assms by (intro signed_take_bit_int_eq_self) (simp_all add: INT64_MIN_def INT64_MAX_def)
  then show ?thesis by (simp add: sint_sbintrunc')
qed

lemma sint64_add:
  assumes "INT64_MIN \<le> sint (a :: 64 word) + sint b" "sint a + sint b \<le> INT64_MAX"
  shows "sint (a + b) = sint a + sint b"
proof -
  have "a + b = word_of_int (sint a + sint b)"
    by (simp add: wi_hom_add [symmetric])
  then show ?thesis using sint_word_of_int64 [OF assms] by simp
qed

lemma sint64_diff:
  assumes "INT64_MIN \<le> sint (a :: 64 word) - sint b" "sint a - sint b \<le> INT64_MAX"
  shows "sint (a - b) = sint a - sint b"
proof -
  have "a - b = word_of_int (sint a - sint b)"
    by (simp add: wi_hom_sub [symmetric])
  then show ?thesis using sint_word_of_int64 [OF assms] by simp
qed

lemma quot_c_nonneg: "0 \<le> a \<Longrightarrow> 0 < b \<Longrightarrow> quot_c a b = a div b"
  by (cases "a = 0") (simp_all add: quot_c_def)

section \<open>Results that may throw\<close>

fun bindE :: "'e + 'a \<Rightarrow> ('a \<Rightarrow> 'e + 'b) \<Rightarrow> 'e + 'b" where
  "bindE (Inl e) f = Inl e"
| "bindE (Inr x) f = f x"

text \<open>A loop whose body may throw: the body is run on the elements in order and
  the first exception ends it.\<close>

fun foldE :: "('a \<Rightarrow> 's \<Rightarrow> 'e + 's) \<Rightarrow> 'a list \<Rightarrow> 's \<Rightarrow> 'e + 's" where
  "foldE f [] s = Inr s"
| "foldE f (x # xs) s = bindE (f x s) (foldE f xs)"

lemma bindE_Inr [simp, res_simps]:
  "bindE m f = Inr y \<longleftrightarrow> (\<exists>x. m = Inr x \<and> f x = Inr y)"
  by (cases m) auto

lemma bindE_Inl [simp]:
  "bindE m f = Inl e \<longleftrightarrow> m = Inl e \<or> (\<exists>x. m = Inr x \<and> f x = Inl e)"
  by (cases m) auto

text \<open>A guard that throws, and a lookup that throws if nothing is found.\<close>

lemma run_simps [res_simps]:
  "(if c then Inl x else m) = Inr y \<longleftrightarrow> \<not> c \<and> m = Inr y"
  "(if c then m else Inl x) = Inr y \<longleftrightarrow> c \<and> m = Inr y"
  "(case v of None \<Rightarrow> Inl x | Some w \<Rightarrow> f w) = Inr y \<longleftrightarrow> (\<exists>w. v = Some w \<and> f w = Inr y)"
  by (auto split: option.splits)

lemma bindE_assoc: "bindE (bindE m f) g = bindE m (\<lambda>x. bindE (f x) g)"
  by (cases m) simp_all

lemma foldE_append: "foldE f (xs @ ys) s = bindE (foldE f xs s) (foldE f ys)"
proof (induction xs arbitrary: s)
  case (Cons x xs)
  then have "foldE f (xs @ ys) = (\<lambda>s. bindE (foldE f xs s) (foldE f ys))" by blast
  then show ?case by (simp add: bindE_assoc)
qed simp

lemma foldE_invariant:
  assumes "foldE f xs s = Inr s'" "P s"
    and "\<And>x s s'. x \<in> set xs \<Longrightarrow> f x s = Inr s' \<Longrightarrow> P s \<Longrightarrow> P s'"
  shows "P s'"
  using assms by (induction xs arbitrary: s) auto

section \<open>Dictionaries\<close>

text \<open>\<^verbatim>\<open>std::map\<close>: entries in ascending key order, so that a range-based
  for loop over the map is a fold over the list.\<close>

fun map_put :: "'k::linorder \<Rightarrow> 'v \<Rightarrow> ('k \<times> 'v) list \<Rightarrow> ('k \<times> 'v) list" where
  "map_put k v [] = [(k, v)]"
| "map_put k v ((k', v') # m) =
    (if k < k' then (k, v) # (k', v') # m
     else if k = k' then (k, v) # m
     else (k', v') # map_put k v m)"

definition ordered_map :: "('k::linorder \<times> 'v) list \<Rightarrow> bool" where
  "ordered_map m = sorted_wrt (<) (map fst m)"

lemma ordered_map_Nil [simp]: "ordered_map []"
  by (simp add: ordered_map_def)

lemma set_fst_map_put: "fst ` set (map_put k v m) = insert k (fst ` set m)"
  by (induction k v m rule: map_put.induct) auto

lemma ordered_map_put [simp]: "ordered_map m \<Longrightarrow> ordered_map (map_put k v m)"
proof (induction m)
  case (Cons kv m)
  obtain k' v' where kv: "kv = (k', v')" by (cases kv)
  show ?case
  proof (cases "k' < k")
    case True
    moreover have "ordered_map (map_put k v m)"
      using Cons by (simp add: ordered_map_def)
    ultimately show ?thesis
      using Cons.prems kv set_fst_map_put [of k v m] by (auto simp: ordered_map_def)
  qed (use Cons.prems kv in \<open>auto simp: ordered_map_def\<close>)
qed (simp add: ordered_map_def)

lemma ordered_map_distinct: "ordered_map m \<Longrightarrow> distinct (map fst m)"
  by (simp add: ordered_map_def strict_sorted_iff)

lemma map_of_map_put [simp, dict_simps]:
  "ordered_map m \<Longrightarrow> map_of (map_put k v m) = (map_of m)(k \<mapsto> v)"
proof (induction m)
  case (Cons kv m)
  obtain k' v' where kv: "kv = (k', v')" by (cases kv)
  have "map_of (map_put k v m) = (map_of m)(k \<mapsto> v)"
    by (rule Cons.IH) (use Cons.prems in \<open>simp add: ordered_map_def\<close>)
  then show ?case
    by (auto simp: kv fun_eq_iff)
qed simp

text \<open>\<^verbatim>\<open>std::unordered_map\<close>: the library's association lists; the position of an
  entry stands for the unspecified iteration order.\<close>

definition dict_ok :: "('k \<times> 'v) list \<Rightarrow> bool" where
  "dict_ok m = distinct (map fst m)"

lemma dict_ok_Nil [simp]: "dict_ok []"
  by (simp add: dict_ok_def)

lemma dict_ok_update [simp]: "dict_ok m \<Longrightarrow> dict_ok (AList.update k v m)"
  by (simp add: dict_ok_def distinct_update)

lemma dict_ok_delete [simp]: "dict_ok m \<Longrightarrow> dict_ok (AList.delete k m)"
  by (simp add: dict_ok_def distinct_delete)

lemma map_of_update [simp, dict_simps]: "map_of (AList.update k v m) = (map_of m)(k \<mapsto> v)"
  by (rule update_conv')

lemma map_of_delete [simp, dict_simps]: "map_of (AList.delete k m) = (map_of m)(k := None)"
  by (rule delete_conv')

section \<open>Sums over dictionaries\<close>

text \<open>The sum over the entries of a dictionary of a value that depends on key and record.\<close>

definition dict_sum :: "('k \<Rightarrow> 'v \<Rightarrow> 'a::comm_monoid_add) \<Rightarrow> ('k \<rightharpoonup> 'v) \<Rightarrow> 'a" where
  "dict_sum f m = (\<Sum>k\<in>dom m. f k (the (m k)))"

definition opt_val :: "('v \<Rightarrow> 'a::comm_monoid_add) \<Rightarrow> 'v option \<Rightarrow> 'a" where
  "opt_val f x = (case x of None \<Rightarrow> 0 | Some v \<Rightarrow> f v)"

lemma opt_val_simps [simp]: "opt_val f None = 0" "opt_val f (Some v) = f v"
  by (simp_all add: opt_val_def)

lemma dict_sum_remove:
  fixes f :: "'k \<Rightarrow> 'v \<Rightarrow> 'a::ab_group_add"
  assumes "finite (dom m)"
  shows "(\<Sum>i\<in>dom m - {k}. f i (the (m i))) = dict_sum f m - opt_val (f k) (m k)"
  using assms by (cases "m k") (auto simp: dict_sum_def sum_diff1 dom_def)

lemma dict_sum_upd:
  fixes f :: "'k \<Rightarrow> 'v \<Rightarrow> 'a::ab_group_add"
  assumes "finite (dom m)"
  shows "dict_sum f (m(k \<mapsto> v)) = dict_sum f m - opt_val (f k) (m k) + f k v"
proof -
  have "dict_sum f (m(k \<mapsto> v)) = f k v + (\<Sum>i\<in>dom m - {k}. f i (the ((m(k \<mapsto> v)) i)))"
    unfolding dict_sum_def dom_fun_upd using assms by (simp add: sum.insert_remove)
  also have "(\<Sum>i\<in>dom m - {k}. f i (the ((m(k \<mapsto> v)) i))) = (\<Sum>i\<in>dom m - {k}. f i (the (m i)))"
    by (rule sum.cong) auto
  also note dict_sum_remove [OF assms]
  finally show ?thesis by (simp only: add.commute)
qed

lemma dict_sum_del:
  fixes f :: "'k \<Rightarrow> 'v \<Rightarrow> 'a::ab_group_add"
  assumes "finite (dom m)"
  shows "dict_sum f (m(k := None)) = dict_sum f m - opt_val (f k) (m k)"
proof -
  have "dict_sum f (m(k := None)) = (\<Sum>i\<in>dom m - {k}. f i (the (m i)))"
    unfolding dict_sum_def by (rule sum.cong) auto
  with dict_sum_remove [OF assms] show ?thesis by simp
qed

lemma dict_sum_map_of:
  assumes "distinct (map fst m)"
  shows "dict_sum f (map_of m) = sum_list (map (\<lambda>kv. f (fst kv) (snd kv)) m)"
  using assms
proof (induction m)
  case (Cons kv m)
  obtain k v where kv: "kv = (k, v)" by (cases kv)
  have fresh: "k \<notin> dom (map_of m)"
    using Cons.prems kv by (simp add: dom_map_of_conv_image_fst)
  have "dict_sum f ((map_of m)(k \<mapsto> v)) =
      f k v + (\<Sum>i\<in>dom (map_of m). f i (the (((map_of m)(k \<mapsto> v)) i)))"
    unfolding dict_sum_def using fresh by (simp add: finite_dom_map_of)
  also have "(\<Sum>i\<in>dom (map_of m). f i (the (((map_of m)(k \<mapsto> v)) i))) = dict_sum f (map_of m)"
    unfolding dict_sum_def using fresh by (intro sum.cong) auto
  finally show ?case
    using Cons kv by simp
qed (simp add: dict_sum_def)

section \<open>Records that stand for absence\<close>

text \<open>A store may keep a null record where another removes it; \<open>live\<close> is what both mean.\<close>

definition live :: "('v \<Rightarrow> bool) \<Rightarrow> 'v option \<Rightarrow> 'v option" where
  "live null x = (case x of None \<Rightarrow> None | Some v \<Rightarrow> if null v then None else Some v)"

lemma live_simps [simp]:
  "live null None = None" "null v \<Longrightarrow> live null (Some v) = None" "\<not> null v \<Longrightarrow> live null (Some v) = Some v"
  by (simp_all add: live_def)

lemma live_eq_Some: "live null x = Some v \<longleftrightarrow> x = Some v \<and> \<not> null v"
  by (auto simp: live_def split: option.splits)

lemma live_False [simp]: "live (\<lambda>v. False) x = x"
  by (simp add: live_def split: option.splits)

lemma live_idem [simp]: "live null (live null x) = live null x"
  by (simp add: live_def split: option.splits)

lemma dict_sum_live:
  fixes f :: "'k \<Rightarrow> 'v \<Rightarrow> 'a::ab_group_add"
  assumes "finite (dom m)" "\<And>k v. null v \<Longrightarrow> f k v = 0"
  shows "dict_sum f (\<lambda>k. live null (m k)) = dict_sum f m"
proof -
  have "(\<Sum>k\<in>dom (\<lambda>k. live null (m k)). f k (the (live null (m k)))) = (\<Sum>k\<in>dom m. f k (the (m k)))"
    using assms by (intro sum.mono_neutral_cong_left) (auto simp: live_def split: option.splits)
  then show ?thesis by (simp add: dict_sum_def)
qed

end
