(* ===== verification/Exceptions.thy ===== *)
theory Exceptions
  imports Prelude
begin

text \<open>
  The exceptions the blockchain library throws
  (\<^verbatim>\<open>libraries/blockchain/include/bts/blockchain/exceptions.hpp\<close>): each is
  declared with its numeric code, which identifies it, so that a library exception
  is \<open>bts_exception\<close> of that code and its name abbreviates it.
  \<open>assert_exception\<close> is a failed \<^verbatim>\<open>FC_ASSERT\<close>,
  \<open>key_not_found_exception\<close> and \<open>fc_exception\<close> are what the fc library itself
  throws, \<open>arithmetic_trap\<close> is an integer division by zero and
  \<open>undefined_behaviour\<close> a read outside an object.
  A call that may throw has the result type \<open>'a res\<close>.
\<close>

datatype exception =
    assert_exception
  | key_not_found_exception
  | fc_exception
  | arithmetic_trap
  | undefined_behaviour
  | bts_exception nat

type_synonym 'a res = "exception + 'a"

abbreviation invalid_pts_address :: exception where "invalid_pts_address \<equiv> bts_exception 30001"
abbreviation addition_overflow :: exception where "addition_overflow \<equiv> bts_exception 30002"
abbreviation subtraction_overflow :: exception where "subtraction_overflow \<equiv> bts_exception 30003"
abbreviation asset_type_mismatch :: exception where "asset_type_mismatch \<equiv> bts_exception 30004"
abbreviation unsupported_chain_operation :: exception where "unsupported_chain_operation \<equiv> bts_exception 30005"
abbreviation unknown_transaction :: exception where "unknown_transaction \<equiv> bts_exception 30006"
abbreviation duplicate_transaction :: exception where "duplicate_transaction \<equiv> bts_exception 30007"
abbreviation zero_amount :: exception where "zero_amount \<equiv> bts_exception 30008"
abbreviation zero_price :: exception where "zero_price \<equiv> bts_exception 30009"
abbreviation asset_divide_by_self :: exception where "asset_divide_by_self \<equiv> bts_exception 30010"
abbreviation asset_divide_by_zero :: exception where "asset_divide_by_zero \<equiv> bts_exception 30011"
abbreviation new_database_version :: exception where "new_database_version \<equiv> bts_exception 30012"
abbreviation unlinkable_block :: exception where "unlinkable_block \<equiv> bts_exception 30013"
abbreviation price_out_of_range :: exception where "price_out_of_range \<equiv> bts_exception 30014"
abbreviation block_numbers_not_sequential :: exception where "block_numbers_not_sequential \<equiv> bts_exception 30015"
abbreviation invalid_previous_block_id :: exception where "invalid_previous_block_id \<equiv> bts_exception 30016"
abbreviation invalid_block_time :: exception where "invalid_block_time \<equiv> bts_exception 30017"
abbreviation time_in_past :: exception where "time_in_past \<equiv> bts_exception 30018"
abbreviation time_in_future :: exception where "time_in_future \<equiv> bts_exception 30019"
abbreviation invalid_block_digest :: exception where "invalid_block_digest \<equiv> bts_exception 30020"
abbreviation invalid_delegate_signee :: exception where "invalid_delegate_signee \<equiv> bts_exception 30021"
abbreviation failed_checkpoint_verification :: exception where "failed_checkpoint_verification \<equiv> bts_exception 30022"
abbreviation wrong_chain_id :: exception where "wrong_chain_id \<equiv> bts_exception 30023"
abbreviation unknown_block :: exception where "unknown_block \<equiv> bts_exception 30024"
abbreviation block_older_than_undo_history :: exception where "block_older_than_undo_history \<equiv> bts_exception 30025"
abbreviation negative_deposit :: exception where "negative_deposit \<equiv> bts_exception 31001"
abbreviation not_a_delegate :: exception where "not_a_delegate \<equiv> bts_exception 31002"
abbreviation unknown_balance_record :: exception where "unknown_balance_record \<equiv> bts_exception 31003"
abbreviation insufficient_funds :: exception where "insufficient_funds \<equiv> bts_exception 31004"
abbreviation missing_signature :: exception where "missing_signature \<equiv> bts_exception 31005"
abbreviation invalid_claim_password :: exception where "invalid_claim_password \<equiv> bts_exception 31006"
abbreviation invalid_withdraw_condition :: exception where "invalid_withdraw_condition \<equiv> bts_exception 31007"
abbreviation negative_withdraw :: exception where "negative_withdraw \<equiv> bts_exception 31008"
abbreviation not_an_active_delegate :: exception where "not_an_active_delegate \<equiv> bts_exception 31009"
abbreviation expired_transaction :: exception where "expired_transaction \<equiv> bts_exception 31010"
abbreviation invalid_transaction_expiration :: exception where "invalid_transaction_expiration \<equiv> bts_exception 31011"
abbreviation oversized_transaction :: exception where "oversized_transaction \<equiv> bts_exception 31012"
abbreviation invalid_account_name :: exception where "invalid_account_name \<equiv> bts_exception 32001"
abbreviation unknown_account_id :: exception where "unknown_account_id \<equiv> bts_exception 32002"
abbreviation unknown_account_name :: exception where "unknown_account_name \<equiv> bts_exception 32003"
abbreviation missing_parent_account_signature :: exception where "missing_parent_account_signature \<equiv> bts_exception 32004"
abbreviation parent_account_retracted :: exception where "parent_account_retracted \<equiv> bts_exception 32005"
abbreviation account_expired :: exception where "account_expired \<equiv> bts_exception 32006"
abbreviation account_already_registered :: exception where "account_already_registered \<equiv> bts_exception 32007"
abbreviation account_key_in_use :: exception where "account_key_in_use \<equiv> bts_exception 32008"
abbreviation account_retracted :: exception where "account_retracted \<equiv> bts_exception 32009"
abbreviation unknown_parent_account_name :: exception where "unknown_parent_account_name \<equiv> bts_exception 32010"
abbreviation unknown_delegate_slate :: exception where "unknown_delegate_slate \<equiv> bts_exception 32011"
abbreviation too_may_delegates_in_slate :: exception where "too_may_delegates_in_slate \<equiv> bts_exception 32012"
abbreviation pay_balance_remaining :: exception where "pay_balance_remaining \<equiv> bts_exception 32013"
abbreviation not_a_delegate_signature :: exception where "not_a_delegate_signature \<equiv> bts_exception 33002"
abbreviation invalid_precision :: exception where "invalid_precision \<equiv> bts_exception 35001"
abbreviation invalid_asset_symbol :: exception where "invalid_asset_symbol \<equiv> bts_exception 35002"
abbreviation unknown_asset_id :: exception where "unknown_asset_id \<equiv> bts_exception 35003"
abbreviation asset_symbol_in_use :: exception where "asset_symbol_in_use \<equiv> bts_exception 35004"
abbreviation invalid_asset_amount :: exception where "invalid_asset_amount \<equiv> bts_exception 35005"
abbreviation negative_issue :: exception where "negative_issue \<equiv> bts_exception 35006"
abbreviation over_issue :: exception where "over_issue \<equiv> bts_exception 35007"
abbreviation unknown_asset_symbol :: exception where "unknown_asset_symbol \<equiv> bts_exception 35008"
abbreviation asset_id_in_use :: exception where "asset_id_in_use \<equiv> bts_exception 35009"
abbreviation not_user_issued :: exception where "not_user_issued \<equiv> bts_exception 35010"
abbreviation invalid_asset_name :: exception where "invalid_asset_name \<equiv> bts_exception 35011"
abbreviation delegate_vote_limit :: exception where "delegate_vote_limit \<equiv> bts_exception 36001"
abbreviation insufficient_fee :: exception where "insufficient_fee \<equiv> bts_exception 36002"
abbreviation negative_fee :: exception where "negative_fee \<equiv> bts_exception 36003"
abbreviation missing_deposit :: exception where "missing_deposit \<equiv> bts_exception 36004"
abbreviation insufficient_relay_fee :: exception where "insufficient_relay_fee \<equiv> bts_exception 36005"
abbreviation invalid_market :: exception where "invalid_market \<equiv> bts_exception 37001"
abbreviation unknown_market_order :: exception where "unknown_market_order \<equiv> bts_exception 37002"
abbreviation shorting_base_shares :: exception where "shorting_base_shares \<equiv> bts_exception 37003"
abbreviation insufficient_collateral :: exception where "insufficient_collateral \<equiv> bts_exception 37004"
abbreviation insufficient_depth :: exception where "insufficient_depth \<equiv> bts_exception 37005"
abbreviation insufficient_feeds :: exception where "insufficient_feeds \<equiv> bts_exception 37006"

end
