(* ===== verification/Fc.thy ===== *)
theory Fc
  imports Exceptions
begin

text \<open>
  The fc library is a separate project that the sources link against, so it is a
  parameter of the model: the record \<open>fc_base\<close> has one field per fc function
  the modelled code calls, and every definition that calls one takes the record as
  its first argument. What the code relies on is stated by the law predicates
  below, one per group of functions, which theorems name as hypotheses.
  \<open>fc_ref_base\<close> is a concrete instance that satisfies all of them.

  Byte arrays (\<^verbatim>\<open>vector<char>\<close>, hashes, keys, signatures) are lists of
  characters, \<^verbatim>\<open>fc::uint128\<close> is a word of width 128, \<^verbatim>\<open>fc::bigint\<close> an integer
  and \<^verbatim>\<open>fc::time_point_sec\<close> its number of seconds, a word of width 32.
\<close>

type_synonym bytes = string
type_synonym time_point_sec = uint32

text \<open>\<^verbatim>\<open>fc::variant\<close>, the JSON value type; the null variant is what a default
  constructed one holds.\<close>

datatype variant =
    variant_null
  | variant_int int
  | variant_string string
  | variant_array "variant list"
  | variant_object "(string \<times> variant) list"

record fc_base =
  u128_hi_lo :: "uint64 \<Rightarrow> uint64 \<Rightarrow> uint128"
  u128_of_int64 :: "int64 \<Rightarrow> uint128"
  u128_of_uint64 :: "uint64 \<Rightarrow> uint128"
  u128_add :: "uint128 \<Rightarrow> uint128 \<Rightarrow> uint128"
  u128_mul :: "uint128 \<Rightarrow> uint128 \<Rightarrow> uint128"
  u128_div :: "uint128 \<Rightarrow> uint128 \<Rightarrow> uint128 res"
  u128_mod :: "uint128 \<Rightarrow> uint128 \<Rightarrow> uint128 res"
  u128_high_bits :: "uint128 \<Rightarrow> uint64"
  u128_low_bits :: "uint128 \<Rightarrow> uint64"
  u128_to_uint64 :: "uint128 \<Rightarrow> uint64"
  u128_to_string :: "uint128 \<Rightarrow> string"
  big_of_int64 :: "int64 \<Rightarrow> int"
  big_of_uint64 :: "uint64 \<Rightarrow> int"
  big_of_u128 :: "uint128 \<Rightarrow> int"
  big_mul :: "int \<Rightarrow> int \<Rightarrow> int"
  big_div :: "int \<Rightarrow> int \<Rightarrow> int res"
  big_log2 :: "int \<Rightarrow> int"
  big_to_int64 :: "int \<Rightarrow> int64 res"
  big_to_u128 :: "int \<Rightarrow> uint128"
  tps_add :: "time_point_sec \<Rightarrow> uint32 \<Rightarrow> time_point_sec"
  tps_sub :: "time_point_sec \<Rightarrow> uint32 \<Rightarrow> time_point_sec"
  tps_elapsed :: "time_point_sec \<Rightarrow> time_point_sec \<Rightarrow> int"
  sha256_hash :: "bytes \<Rightarrow> bytes"
  sha512_hash :: "bytes \<Rightarrow> bytes"
  ripemd160_hash :: "bytes \<Rightarrow> bytes"
  from_base58 :: "string \<Rightarrow> bytes res"
  to_base58 :: "bytes \<Rightarrow> string"
  serialize_ecc_point :: "bytes \<Rightarrow> bytes"
  recover_public_key :: "bytes \<Rightarrow> bytes \<Rightarrow> bool \<Rightarrow> bytes res"
  variant_of_int :: "int \<Rightarrow> variant"
  variant_as_int :: "variant \<Rightarrow> int res"
  variant_of_ids :: "int list \<Rightarrow> variant"
  variant_as_ids :: "variant \<Rightarrow> int list res"
  variant_of_pairs :: "(int \<times> int) list \<Rightarrow> variant"
  variant_as_pairs :: "variant \<Rightarrow> (int \<times> int) list res"
  variant_as_bytes :: "variant \<Rightarrow> bytes res"
  variant_as_string :: "variant \<Rightarrow> string res"
  variant_get_object :: "variant \<Rightarrow> (string \<times> variant) list res"

section \<open>Laws\<close>

definition u128_laws :: "'z fc_base_scheme \<Rightarrow> bool" where
  "u128_laws F =
    ((\<forall>h l. u128_hi_lo F h l = word_of_int (uint h * 2 ^ 64 + uint l)) \<and>
     (\<forall>a. u128_of_int64 F a = scast a) \<and>
     (\<forall>a. u128_of_uint64 F a = ucast a) \<and>
     (\<forall>a b. u128_add F a b = a + b) \<and>
     (\<forall>a b. u128_mul F a b = a * b) \<and>
     (\<forall>a b. b \<noteq> 0 \<longrightarrow> u128_div F a b = Inr (a div b)) \<and>
     (\<forall>a b. b \<noteq> 0 \<longrightarrow> u128_mod F a b = Inr (a mod b)) \<and>
     (\<forall>a. u128_to_uint64 F a = ucast a))"

lemma u128_lawsD:
  assumes "u128_laws F"
  shows "u128_of_int64 F i = scast i" "u128_of_uint64 F u = ucast u"
    "u128_add F a b = a + b" "u128_mul F a b = a * b"
    "b \<noteq> 0 \<Longrightarrow> u128_div F a b = Inr (a div b)" "b \<noteq> 0 \<Longrightarrow> u128_mod F a b = Inr (a mod b)"
    "u128_to_uint64 F a = ucast a"
  using assms by (simp_all add: u128_laws_def)

text \<open>Decimal notation of a natural number, which \<^verbatim>\<open>operator std::string\<close> of
  \<^verbatim>\<open>fc::uint128\<close> produces.\<close>

fun dec_string :: "nat \<Rightarrow> string" where
  "dec_string n =
    (if n < 10 then [char_of (48 + n)]
     else dec_string (n div 10) @ [char_of (48 + n mod 10)])"

declare dec_string.simps [simp del]

definition u128_string_law :: "'z fc_base_scheme \<Rightarrow> bool" where
  "u128_string_law F = (\<forall>a. u128_to_string F a = dec_string (unat a))"

definition bigint_laws :: "'z fc_base_scheme \<Rightarrow> bool" where
  "bigint_laws F =
    ((\<forall>a. big_of_int64 F a = sint a) \<and>
     (\<forall>a. big_of_uint64 F a = uint a) \<and>
     (\<forall>a. big_of_u128 F a = uint a) \<and>
     (\<forall>a b. big_mul F a b = a * b) \<and>
     (\<forall>a b. b \<noteq> 0 \<longrightarrow> big_div F a b = Inr (quot_c a b)) \<and>
     (\<forall>a. \<bar>a\<bar> < 2 ^ 127 \<longrightarrow> big_log2 F a < 128) \<and>
     (\<forall>a. 2 ^ 128 \<le> \<bar>a\<bar> \<longrightarrow> 128 \<le> big_log2 F a) \<and>
     (\<forall>a. \<bar>a\<bar> < 2 ^ 63 \<longrightarrow> big_to_int64 F a = Inr (word_of_int a)) \<and>
     (\<forall>a. 0 \<le> a \<and> a < 2 ^ 128 \<longrightarrow> big_to_u128 F a = word_of_int a))"

definition time_laws :: "'z fc_base_scheme \<Rightarrow> bool" where
  "time_laws F =
    ((\<forall>t s. tps_add F t s = t + s) \<and>
     (\<forall>t s. tps_sub F t s = t - s) \<and>
     (\<forall>a b. tps_elapsed F a b = uint a - uint b))"

definition base58_law :: "'z fc_base_scheme \<Rightarrow> bool" where
  "base58_law F = (\<forall>b. from_base58 F (to_base58 F b) = Inr b)"

definition variant_laws :: "'z fc_base_scheme \<Rightarrow> bool" where
  "variant_laws F =
    ((\<forall>i. INT64_MIN \<le> i \<and> i \<le> INT64_MAX \<longrightarrow>
        variant_as_int F (variant_of_int F i) = Inr i \<and> variant_of_int F i \<noteq> variant_null) \<and>
     (\<forall>l. variant_as_ids F (variant_of_ids F l) = Inr l \<and> variant_of_ids F l \<noteq> variant_null) \<and>
     (\<forall>l. variant_as_pairs F (variant_of_pairs F l) = Inr l \<and> variant_of_pairs F l \<noteq> variant_null))"

section \<open>A concrete instance\<close>

fun ref_as_int :: "variant \<Rightarrow> int res" where
  "ref_as_int (variant_int i) = Inr i"
| "ref_as_int v = Inl fc_exception"

fun ref_as_ids :: "variant list \<Rightarrow> int list res" where
  "ref_as_ids [] = Inr []"
| "ref_as_ids (v # vs) = bindE (ref_as_int v) (\<lambda>i. bindE (ref_as_ids vs) (\<lambda>is. Inr (i # is)))"

fun ref_array :: "variant \<Rightarrow> variant list res" where
  "ref_array (variant_array vs) = Inr vs"
| "ref_array v = Inl fc_exception"

fun ref_as_pairs :: "variant list \<Rightarrow> (int \<times> int) list res" where
  "ref_as_pairs [] = Inr []"
| "ref_as_pairs (variant_array [variant_int a, variant_int b] # vs) =
    bindE (ref_as_pairs vs) (\<lambda>ps. Inr ((a, b) # ps))"
| "ref_as_pairs (v # vs) = Inl fc_exception"

fun ref_string :: "variant \<Rightarrow> string res" where
  "ref_string (variant_string s) = Inr s"
| "ref_string v = Inl fc_exception"

fun ref_object :: "variant \<Rightarrow> (string \<times> variant) list res" where
  "ref_object (variant_object m) = Inr m"
| "ref_object v = Inl fc_exception"

definition fc_ref_base :: fc_base where
  "fc_ref_base = \<lparr>
     u128_hi_lo = (\<lambda>h l. word_of_int (uint h * 2 ^ 64 + uint l)),
     u128_of_int64 = scast,
     u128_of_uint64 = ucast,
     u128_add = (\<lambda>a b. a + b),
     u128_mul = (\<lambda>a b. a * b),
     u128_div = (\<lambda>a b. if b = 0 then Inl fc_exception else Inr (a div b)),
     u128_mod = (\<lambda>a b. if b = 0 then Inl fc_exception else Inr (a mod b)),
     u128_high_bits = (\<lambda>a. word_of_int (uint a div 2 ^ 64)),
     u128_low_bits = (\<lambda>a. word_of_int (uint a)),
     u128_to_uint64 = ucast,
     u128_to_string = (\<lambda>a. dec_string (unat a)),
     big_of_int64 = sint,
     big_of_uint64 = uint,
     big_of_u128 = uint,
     big_mul = (\<lambda>a b. a * b),
     big_div = (\<lambda>a b. if b = 0 then Inl fc_exception else Inr (quot_c a b)),
     big_log2 = (\<lambda>a. if \<bar>a\<bar> < 2 ^ 128 then 0 else 128),
     big_to_int64 = (\<lambda>a. if \<bar>a\<bar> < 2 ^ 63 then Inr (word_of_int a) else Inl assert_exception),
     big_to_u128 = word_of_int,
     tps_add = (\<lambda>t s. t + s),
     tps_sub = (\<lambda>t s. t - s),
     tps_elapsed = (\<lambda>a b. uint a - uint b),
     sha256_hash = (\<lambda>b. b),
     sha512_hash = (\<lambda>b. b),
     ripemd160_hash = (\<lambda>b. b),
     from_base58 = Inr,
     to_base58 = (\<lambda>b. b),
     serialize_ecc_point = (\<lambda>b. b),
     recover_public_key = (\<lambda>sig digest canonical. Inr sig),
     variant_of_int = variant_int,
     variant_as_int = ref_as_int,
     variant_of_ids = (\<lambda>l. variant_array (map variant_int l)),
     variant_as_ids = (\<lambda>v. bindE (ref_array v) ref_as_ids),
     variant_of_pairs = (\<lambda>l. variant_array (map (\<lambda>(a, b). variant_array [variant_int a, variant_int b]) l)),
     variant_as_pairs = (\<lambda>v. bindE (ref_array v) ref_as_pairs),
     variant_as_bytes = ref_string,
     variant_as_string = ref_string,
     variant_get_object = ref_object \<rparr>"

lemma ref_as_ids_map: "ref_as_ids (map variant_int l) = Inr l"
  by (induction l) simp_all

lemma ref_as_pairs_map:
  "ref_as_pairs (map (\<lambda>(a, b). variant_array [variant_int a, variant_int b]) l) = Inr l"
  by (induction l) auto

lemma fc_ref_base_laws:
  "u128_laws fc_ref_base" "u128_string_law fc_ref_base" "bigint_laws fc_ref_base"
  "time_laws fc_ref_base" "base58_law fc_ref_base" "variant_laws fc_ref_base"
  by (simp_all add: fc_ref_base_def u128_laws_def u128_string_law_def bigint_laws_def time_laws_def
      base58_law_def variant_laws_def ref_as_ids_map ref_as_pairs_map)

end
