(* ===== verification/Asset.thy ===== *)
theory Asset
  imports Fc
begin

text \<open>
  \<^verbatim>\<open>libraries/blockchain/asset.cpp\<close> and \<^verbatim>\<open>asset.hpp\<close>: amounts of an asset, prices
  as fixed-point ratios scaled by \<open>BTS_PRICE_PRECISION\<close>, the overflow-checked
  arithmetic on amounts, the conversion of an amount at a price and the decimal
  notation of a ratio. The lemmas give the exact range in which addition and
  subtraction succeed, the rounding error of pricing and the parse/print round trip.
\<close>

type_synonym share_type = int64
type_synonym asset_id_type = int

record asset =
  amount :: share_type
  asset_id :: asset_id_type

record price =
  ratio :: uint128
  base_asset_id :: asset_id_type
  quote_asset_id :: asset_id_type

record feed_price = price +
  force_settle :: bool

definition BTS_BLOCKCHAIN_MAX_SHARES :: int where
  "BTS_BLOCKCHAIN_MAX_SHARES = 1000 * 1000 * 1000 * 1000 * 1000"

definition BTS_PRICE_PRECISION :: uint64 where
  "BTS_PRICE_PRECISION = word_of_int (BTS_BLOCKCHAIN_MAX_SHARES * 1000)"

section \<open>Amounts\<close>

abbreviation mk_asset :: "share_type \<Rightarrow> asset_id_type \<Rightarrow> asset" where
  "mk_asset a u \<equiv> \<lparr> amount = a, asset_id = u \<rparr>"

definition asset_plus :: "asset \<Rightarrow> asset \<Rightarrow> asset res" where
  "asset_plus a b =
    (if asset_id a \<noteq> asset_id b then Inl assert_exception
     else if (sint (amount b) > 0 \<and> sint (amount a) > INT64_MAX - sint (amount b)) \<or>
             (sint (amount b) < 0 \<and> sint (amount a) < INT64_MIN - sint (amount b))
     then Inl addition_overflow
     else Inr (a\<lparr> amount := amount a + amount b \<rparr>))"

definition asset_minus :: "asset \<Rightarrow> asset \<Rightarrow> asset res" where
  "asset_minus a b =
    (if asset_id a \<noteq> asset_id b then Inl assert_exception
     else if (sint (amount b) > 0 \<and> sint (amount a) < INT64_MIN + sint (amount b)) \<or>
             (sint (amount b) < 0 \<and> sint (amount a) > INT64_MAX + sint (amount b))
     then Inl subtraction_overflow
     else Inr (a\<lparr> amount := amount a - amount b \<rparr>))"

definition asset_neg :: "asset \<Rightarrow> asset" where
  "asset_neg a = mk_asset (- amount a) (asset_id a)"

text \<open>\<^verbatim>\<open>asset::operator*(uint64_t)\<close>: the product is built by the one-argument
  constructor, whose asset id defaults to 0.\<close>

definition asset_mul_u64 :: "asset \<Rightarrow> uint64 \<Rightarrow> asset" where
  "asset_mul_u64 a c = mk_asset (amount a * c) 0"

text \<open>\<^verbatim>\<open>asset::operator/(uint64_t)\<close>: the signed amount is converted to unsigned by
  the usual arithmetic conversions before it is divided.\<close>

definition asset_div_u64 :: "asset \<Rightarrow> uint64 \<Rightarrow> asset res" where
  "asset_div_u64 a c =
    (if c = 0 then Inl arithmetic_trap else Inr (a\<lparr> amount := amount a div c \<rparr>))"

definition asset_mul_u128 :: "'z fc_base_scheme \<Rightarrow> asset \<Rightarrow> uint128 \<Rightarrow> asset res" where
  "asset_mul_u128 F a fix6464 =
    bindE (big_div F (big_mul F (big_of_int64 F (amount a)) (big_of_u128 F fix6464))
                     (big_of_uint64 F BTS_PRICE_PRECISION))
      (\<lambda>bi. Inr (mk_asset (u128_high_bits F (big_to_u128 F bi)) (asset_id a)))"

definition asset_eq :: "asset \<Rightarrow> asset \<Rightarrow> bool" where
  "asset_eq l r = (amount l = amount r)"

definition asset_less :: "asset \<Rightarrow> asset \<Rightarrow> bool" where
  "asset_less l r = (amount l <s amount r)"

definition asset_greater :: "asset \<Rightarrow> asset \<Rightarrow> bool" where
  "asset_greater l r = (amount r <s amount l)"

definition asset_le :: "asset \<Rightarrow> asset \<Rightarrow> bool" where
  "asset_le l r = (asset_id l = asset_id r \<and> amount l \<le>s amount r)"

definition asset_ge :: "asset \<Rightarrow> asset \<Rightarrow> bool" where
  "asset_ge l r = (asset_id l = asset_id r \<and> amount r \<le>s amount l)"

section \<open>Prices\<close>

abbreviation mk_price :: "uint128 \<Rightarrow> asset_id_type \<Rightarrow> asset_id_type \<Rightarrow> price" where
  "mk_price r b q \<equiv> \<lparr> ratio = r, base_asset_id = b, quote_asset_id = q \<rparr>"

definition price_default :: price where
  "price_default = mk_price 0 0 0"

definition price_one :: "'z fc_base_scheme \<Rightarrow> uint128" where
  "price_one F = u128_hi_lo F 1 0"

definition price_infinite :: "'z fc_base_scheme \<Rightarrow> uint128" where
  "price_infinite F = u128_of_int64 F (- 1)"

definition asset_pair :: "price \<Rightarrow> asset_id_type \<times> asset_id_type" where
  "asset_pair p = (quote_asset_id p, base_asset_id p)"

definition price_plus :: "'z fc_base_scheme \<Rightarrow> price \<Rightarrow> price \<Rightarrow> price res" where
  "price_plus F l r =
    (if quote_asset_id l \<noteq> quote_asset_id r then Inl assert_exception
     else if base_asset_id l \<noteq> base_asset_id r then Inl assert_exception
     else Inr (l\<lparr> ratio := u128_add F (ratio l) (ratio r) \<rparr>))"

definition price_eq :: "price \<Rightarrow> price \<Rightarrow> bool" where
  "price_eq l r = (ratio l = ratio r)"

definition price_neq :: "price \<Rightarrow> price \<Rightarrow> bool" where
  "price_neq l r = (ratio l \<noteq> ratio r \<or> base_asset_id l \<noteq> base_asset_id r \<or>
                    quote_asset_id l \<noteq> quote_asset_id r)"

definition price_less :: "price \<Rightarrow> price \<Rightarrow> bool" where
  "price_less l r =
    (if quote_asset_id l < quote_asset_id r then True
     else if quote_asset_id l > quote_asset_id r then False
     else if base_asset_id l < base_asset_id r then True
     else if base_asset_id l > base_asset_id r then False
     else ratio l < ratio r)"

definition price_greater :: "price \<Rightarrow> price \<Rightarrow> bool" where
  "price_greater l r =
    (if quote_asset_id l > quote_asset_id r then True
     else if quote_asset_id l < quote_asset_id r then False
     else if base_asset_id l > base_asset_id r then True
     else if base_asset_id l < base_asset_id r then False
     else ratio l > ratio r)"

definition price_le :: "price \<Rightarrow> price \<Rightarrow> bool" where
  "price_le l r = (ratio l \<le> ratio r \<and> asset_pair l = asset_pair r)"

definition price_ge :: "price \<Rightarrow> price \<Rightarrow> bool" where
  "price_ge l r = (ratio l \<ge> ratio r \<and> asset_pair l = asset_pair r)"

text \<open>\<^verbatim>\<open>price operator/(asset, asset)\<close>: the asset with the larger id becomes the
  quote whatever the order of the operands.\<close>

definition asset_div_asset :: "'z fc_base_scheme \<Rightarrow> asset \<Rightarrow> asset \<Rightarrow> price res" where
  "asset_div_asset F a b =
    (if asset_id a = asset_id b then Inl asset_divide_by_self
     else let (l, r) = (if asset_id a < asset_id b then (b, a) else (a, b)) in
       if amount r = 0 then Inl asset_divide_by_zero
       else bindE (big_div F (big_mul F (big_of_int64 F (amount l))
                                        (big_of_uint64 F BTS_PRICE_PRECISION))
                             (big_of_int64 F (amount r)))
              (\<lambda>result. Inr (mk_price (big_to_u128 F result) (asset_id r) (asset_id l))))"

definition asset_mul_price :: "'z fc_base_scheme \<Rightarrow> asset \<Rightarrow> price \<Rightarrow> asset res" where
  "asset_mul_price F a p =
    (if asset_id a = base_asset_id p then
       bindE (big_div F (big_mul F (big_of_int64 F (amount a)) (big_of_u128 F (ratio p)))
                        (big_of_uint64 F BTS_PRICE_PRECISION))
         (\<lambda>amnt. if big_log2 F amnt \<ge> 128 then Inl addition_overflow
                 else bindE (big_to_int64 F amnt) (\<lambda>n. Inr (mk_asset n (quote_asset_id p))))
     else if asset_id a = quote_asset_id p then
       bindE (big_div F (big_mul F (big_of_int64 F (amount a)) (big_of_uint64 F BTS_PRICE_PRECISION))
                        (big_of_u128 F (ratio p)))
         (\<lambda>result. if big_log2 F result \<ge> 128 then Inl addition_overflow
                 else bindE (big_to_int64 F result) (\<lambda>n. Inr (mk_asset n (base_asset_id p))))
     else Inl asset_type_mismatch)"

definition asset_div_price :: "'z fc_base_scheme \<Rightarrow> asset \<Rightarrow> price \<Rightarrow> asset res" where
  "asset_div_price F a p = asset_mul_price F a p"

section \<open>Decimal notation of a ratio\<close>

definition is_dec_digit :: "char \<Rightarrow> bool" where
  "is_dec_digit c = (48 \<le> (of_char c :: nat) \<and> (of_char c :: nat) \<le> 57)"

definition dec_digit :: "char \<Rightarrow> uint64" where
  "dec_digit c = of_nat (of_char c - 48)"

text \<open>The loop that reads the digits before the point; the accumulator wraps.\<close>

fun scan_int_part :: "uint64 \<Rightarrow> string \<Rightarrow> uint64 \<times> string" where
  "scan_int_part int_part [] = (int_part, [])"
| "scan_int_part int_part (c # cs) =
    (if is_dec_digit c then scan_int_part (int_part * 10 + dec_digit c) cs
     else (int_part, c # cs))"

text \<open>The loop that reads the digits after the point and counts the power of ten.\<close>

fun scan_frac_part :: "int64 \<Rightarrow> int64 \<Rightarrow> string \<Rightarrow> int64 \<times> int64 \<times> string" where
  "scan_frac_part frac_part frac_magnitude [] = (frac_part, frac_magnitude, [])"
| "scan_frac_part frac_part frac_magnitude (c # cs) =
    (if is_dec_digit c
     then scan_frac_part (frac_part * 10 + dec_digit c) (frac_magnitude * 10) cs
     else (frac_part, frac_magnitude, c # cs))"

text \<open>The result is the price with the new ratio and the number of characters read.
  The C \<^verbatim>\<open>assert\<close> in the branch without an integer part is compiled out.\<close>

definition set_ratio_from_string ::
  "'z fc_base_scheme \<Rightarrow> string \<Rightarrow> price \<Rightarrow> (price \<times> nat) res" where
  "set_ratio_from_string F ratio_str p =
    (let (r, rest) =
       (case ratio_str of
          c # cs \<Rightarrow>
            if is_dec_digit c then
              let (int_part, rest) = scan_int_part (dec_digit c) cs
              in (u128_mul F (u128_of_uint64 F int_part) (u128_of_uint64 F BTS_PRICE_PRECISION), rest)
            else (0, ratio_str)
        | [] \<Rightarrow> (0, ratio_str))
     in case rest of
          c # cs \<Rightarrow>
            if c = CHR ''.'' then
              (case cs of
                 d # ds \<Rightarrow>
                   if is_dec_digit d then
                     let (frac_part, frac_magnitude, rest') = scan_frac_part (dec_digit d) 10 ds
                     in if frac_magnitude = 0 then Inl arithmetic_trap
                        else Inr (p\<lparr> ratio := u128_add F r (u128_mul F (u128_of_int64 F frac_part)
                                     (u128_of_uint64 F (BTS_PRICE_PRECISION div frac_magnitude))) \<rparr>,
                                  length ratio_str - length rest')
                   else Inr (p\<lparr> ratio := r \<rparr>, length ratio_str - length cs)
               | [] \<Rightarrow> Inr (p\<lparr> ratio := r \<rparr>, length ratio_str))
            else Inr (p\<lparr> ratio := r \<rparr>, length ratio_str - length rest)
        | [] \<Rightarrow> Inr (p\<lparr> ratio := r \<rparr>, length ratio_str))"

definition trim_zeros :: "string \<Rightarrow> string" where
  "trim_zeros number = rev (dropWhile (\<lambda>c. c = CHR ''0'') (rev number))"

definition ratio_string :: "'z fc_base_scheme \<Rightarrow> price \<Rightarrow> string res" where
  "ratio_string F p =
    bindE (u128_div F (ratio p) (u128_of_uint64 F BTS_PRICE_PRECISION)) (\<lambda>q.
    bindE (u128_mod F (ratio p) (u128_of_uint64 F BTS_PRICE_PRECISION)) (\<lambda>m.
      Inr (trim_zeros (u128_to_string F q @ ''.'' @
        drop 1 (u128_to_string F (u128_add F m (u128_of_uint64 F BTS_PRICE_PRECISION)))))))"

text \<open>The number a string of decimal digits denotes.\<close>

definition dval :: "string \<Rightarrow> nat" where
  "dval w = fold (\<lambda>c n. n * 10 + (of_char c - 48)) w 0"

section \<open>Addition and subtraction\<close>

text \<open>C25. \<^verbatim>\<open>asset::operator+=\<close> is exact: it succeeds on two amounts of one asset
  exactly when the mathematical sum fits in \<^verbatim>\<open>int64_t\<close>, and then it is that sum; it throws
  \<open>addition_overflow\<close> when the sum does not fit and an assertion failure on different assets.\<close>

theorem asset_plus_ok:
  "(case asset_plus a b of
      Inr c \<Rightarrow> asset_id a = asset_id b \<and> asset_id c = asset_id a \<and>
               sint (amount c) = sint (amount a) + sint (amount b)
    | Inl e \<Rightarrow> e = assert_exception \<and> asset_id a \<noteq> asset_id b \<or>
               e = addition_overflow \<and> asset_id a = asset_id b \<and>
               \<not> (INT64_MIN \<le> sint (amount a) + sint (amount b) \<and>
                  sint (amount a) + sint (amount b) \<le> INT64_MAX))"
  using sint64_range [of "amount a"] sint64_range [of "amount b"]
  by (auto simp: asset_plus_def intro!: sint64_add)

text \<open>C26. \<^verbatim>\<open>asset::operator-=\<close> is exact in the same sense, with \<open>subtraction_overflow\<close>.\<close>

theorem asset_minus_ok:
  "(case asset_minus a b of
      Inr c \<Rightarrow> asset_id a = asset_id b \<and> asset_id c = asset_id a \<and>
               sint (amount c) = sint (amount a) - sint (amount b)
    | Inl e \<Rightarrow> e = assert_exception \<and> asset_id a \<noteq> asset_id b \<or>
               e = subtraction_overflow \<and> asset_id a = asset_id b \<and>
               \<not> (INT64_MIN \<le> sint (amount a) - sint (amount b) \<and>
                  sint (amount a) - sint (amount b) \<le> INT64_MAX))"
  using sint64_range [of "amount a"] sint64_range [of "amount b"]
  by (auto simp: asset_minus_def intro!: sint64_diff)

section \<open>Pricing\<close>

lemma uint_precision: "uint BTS_PRICE_PRECISION = 10 ^ 18"
  by (simp add: BTS_PRICE_PRECISION_def BTS_BLOCKCHAIN_MAX_SHARES_def)

lemma bigint_small:
  assumes "bigint_laws F" "0 \<le> q" "q \<le> INT64_MAX"
  shows "\<not> 128 \<le> big_log2 F q" "big_to_int64 F q = Inr (word_of_int q)"
proof -
  have "\<bar>q\<bar> < 2 ^ 63" "\<bar>q\<bar> < 2 ^ 127"
    using assms by (simp_all add: INT64_MAX_def)
  with assms(1) show "\<not> 128 \<le> big_log2 F q" "big_to_int64 F q = Inr (word_of_int q)"
    by (simp_all only: bigint_laws_def not_le)
qed

lemma asset_div_asset_quote:
  assumes F: "bigint_laws F" and ids: "asset_id b < asset_id a"
    and pos: "0 \<le> sint (amount a)" "0 < sint (amount b)"
  shows "asset_div_asset F a b =
    Inr (mk_price (word_of_int (sint (amount a) * 10 ^ 18 div sint (amount b))) (asset_id b) (asset_id a))"
proof -
  let ?n = "sint (amount a)" and ?d = "sint (amount b)"
  have nz: "amount b \<noteq> 0" using pos by auto
  have q: "quot_c (?n * 10 ^ 18) ?d = ?n * 10 ^ 18 div ?d"
    using pos by (simp add: quot_c_nonneg)
  have "?n * 10 ^ 18 div ?d \<le> ?n * 10 ^ 18"
    using pos div_by_1 zdiv_mono2 [of "?n * 10 ^ 18" 1 ?d] by simp
  also have "\<dots> < 2 ^ 128" using sint64_range [of "amount a"] by (simp add: INT64_MAX_def)
  finally have lt: "?n * 10 ^ 18 div ?d < 2 ^ 128" .
  have ge: "0 \<le> ?n * 10 ^ 18 div ?d" using pos by (simp add: pos_imp_zdiv_nonneg_iff)
  show ?thesis
    using F ids nz pos q lt ge
    by (simp add: asset_div_asset_def bigint_laws_def uint_precision Let_def)
qed

lemma asset_mul_price_base:
  assumes F: "bigint_laws F" and ids: "asset_id a = base_asset_id p"
    and pos: "0 \<le> sint (amount a)"
    and small: "sint (amount a) * uint (ratio p) div 10 ^ 18 \<le> INT64_MAX"
  shows "asset_mul_price F a p =
    Inr (mk_asset (word_of_int (sint (amount a) * uint (ratio p) div 10 ^ 18)) (quote_asset_id p))"
proof -
  let ?q = "sint (amount a) * uint (ratio p) div 10 ^ 18"
  have ge: "0 \<le> ?q" using pos by (simp add: pos_imp_zdiv_nonneg_iff)
  have q: "quot_c (sint (amount a) * uint (ratio p)) (10 ^ 18) = ?q"
    using pos by (intro quot_c_nonneg) simp_all
  note bigint_small [OF F ge small]
  with F ids q show ?thesis
    by (simp add: asset_mul_price_def bigint_laws_def uint_precision)
qed

lemma asset_mul_price_quote:
  assumes F: "bigint_laws F" and ids: "asset_id a \<noteq> base_asset_id p" "asset_id a = quote_asset_id p"
    and pos: "0 \<le> sint (amount a)" "0 < ratio p"
    and small: "sint (amount a) * 10 ^ 18 div uint (ratio p) \<le> INT64_MAX"
  shows "asset_mul_price F a p =
    Inr (mk_asset (word_of_int (sint (amount a) * 10 ^ 18 div uint (ratio p))) (base_asset_id p))"
proof -
  let ?q = "sint (amount a) * 10 ^ 18 div uint (ratio p)"
  have r: "0 < uint (ratio p)" using pos by (simp add: word_less_def)
  have ge: "0 \<le> ?q" using pos r by (simp add: pos_imp_zdiv_nonneg_iff)
  have q: "quot_c (sint (amount a) * 10 ^ 18) (uint (ratio p)) = ?q"
    using pos r by (intro quot_c_nonneg) simp_all
  note bigint_small [OF F ge small]
  with F ids q r show ?thesis
    by (simp add: asset_mul_price_def bigint_laws_def uint_precision)
qed

lemma scaled_quotient_bounds:
  fixes a b s :: int
  assumes "0 \<le> a" "0 < b" "b \<le> s"
  shows "b * (a * s div b) div s \<le> a" "a - 1 \<le> b * (a * s div b) div s"
proof -
  have up: "b * (a * s div b) \<le> a * s"
    using assms by (metis mult.commute pos_mod_sign minus_mod_eq_mult_div diff_ge_0_iff_ge
        diff_diff_eq2 add_diff_cancel_left' minus_mult_div_eq_mod)
  then have "b * (a * s div b) div s \<le> a * s div s"
    using assms by (intro zdiv_mono1) simp_all
  then show "b * (a * s div b) div s \<le> a" using assms by simp
  have "a * s - b * (a * s div b) = a * s mod b"
    by (simp add: minus_mult_div_eq_mod)
  also have "\<dots> < b" using assms by simp
  finally have "(a - 1) * s \<le> b * (a * s div b)"
    using assms by (simp add: algebra_simps)
  then have "(a - 1) * s div s \<le> b * (a * s div b) div s"
    using assms by (intro zdiv_mono1) simp_all
  then show "a - 1 \<le> b * (a * s div b) div s" using assms by simp
qed

text \<open>C27. Pricing and converting back: for a non-negative quote amount \<open>a\<close> and a positive base
  amount \<open>b\<close> of at most \<open>10^18\<close> shares, \<^verbatim>\<open>a / b\<close> succeeds, \<^verbatim>\<open>b * (a / b)\<close> succeeds, and
  the result is \<open>a\<close> or one share less, never more.\<close>

theorem price_then_multiply:
  assumes F: "bigint_laws F" and ids: "asset_id b < asset_id a"
    and pos: "0 \<le> sint (amount a)" "0 < sint (amount b)" and small: "sint (amount b) \<le> 10 ^ 18"
  shows "\<exists>p c. asset_div_asset F a b = Inr p \<and> asset_mul_price F b p = Inr c \<and>
    asset_id c = asset_id a \<and> sint (amount a) - 1 \<le> sint (amount c) \<and>
    sint (amount c) \<le> sint (amount a)"
proof -
  let ?n = "sint (amount a)" and ?d = "sint (amount b)"
  let ?r = "?n * 10 ^ 18 div ?d" 
  let ?q = "?d * ?r div 10 ^ 18"
  let ?p = "mk_price (word_of_int ?r) (asset_id b) (asset_id a)"
  note q = scaled_quotient_bounds [OF pos small]
  have "?r \<le> ?n * 10 ^ 18"
    using pos div_by_1 zdiv_mono2 [of "?n * 10 ^ 18" 1 ?d] by simp
  also have "\<dots> < 2 ^ 128" using sint64_range [of "amount a"] by (simp add: INT64_MAX_def)
  finally have "?r < 2 ^ 128" .
  moreover have "0 \<le> ?r" using pos by (simp add: pos_imp_zdiv_nonneg_iff)
  ultimately have r: "uint (ratio ?p) = ?r"
    by (simp add: uint_word_of_int)
  have q0: "0 \<le> ?q" "?q \<le> INT64_MAX"
    using q pos \<open>0 \<le> ?r\<close> sint64_range(2) [of "amount a"] by (simp_all add: pos_imp_zdiv_nonneg_iff)
  have "asset_mul_price F b ?p = Inr (mk_asset (word_of_int ?q) (asset_id a))"
    using asset_mul_price_base [OF F, of b ?p] pos r q0 by simp
  moreover have "sint (word_of_int ?q :: 64 word) = ?q"
    using q0 by (intro sint_word_of_int64) (simp_all add: INT64_MIN_def)
  ultimately show ?thesis
    using asset_div_asset_quote [OF F ids pos] q by auto
qed

theorem price_then_multiply_witness:
  "\<exists>p c. asset_div_asset fc_ref_base (mk_asset 7 1) (mk_asset 3 0) = Inr p \<and>
    asset_mul_price fc_ref_base (mk_asset 3 0) p = Inr c \<and> asset_id c = 1 \<and>
    6 \<le> sint (amount c) \<and> sint (amount c) \<le> 7"
  using price_then_multiply [of fc_ref_base "mk_asset 3 0" "mk_asset 7 1"]
  by (simp add: fc_ref_base_laws)

lemma there_and_back_le:
  fixes n a b :: int
  assumes "0 \<le> n" "0 \<le> a" "0 < b"
  shows "n * a div b * b div a \<le> n" "0 \<le> n * a div b" "0 \<le> n * a div b * b div a"
proof -
  have q: "n * a div b * b \<le> n * a"
    using assms(3) by (metis pos_mod_sign minus_div_mult_eq_mod diff_ge_0_iff_ge)
  show "n * a div b * b div a \<le> n"
  proof (cases "a = 0")
    case False
    then have "n * a div b * b div a \<le> n * a div a" using q assms(2) by (intro zdiv_mono1) simp_all
    then show ?thesis using False by simp
  qed (use assms in simp)
  show "0 \<le> n * a div b" using assms by (simp add: pos_imp_zdiv_nonneg_iff)
  then show "0 \<le> n * a div b * b div a" using assms by (simp add: div_int_pos_iff)
qed

text \<open>C28. Converting an amount of either asset of a price into the other asset and back at that
  price never yields more than was put in, whenever the first conversion fits in \<^verbatim>\<open>int64_t\<close>; what
  the big integers of fc do with a larger one is not known here.\<close>

theorem multiply_there_and_back:
  assumes F: "bigint_laws F" and ids: "base_asset_id p \<noteq> quote_asset_id p"
    and pos: "0 \<le> sint (amount a)" "0 < ratio p"
    and there: "asset_id a = base_asset_id p \<and> sint (amount a) * uint (ratio p) div 10 ^ 18 \<le> INT64_MAX \<or>
      asset_id a = quote_asset_id p \<and> sint (amount a) * 10 ^ 18 div uint (ratio p) \<le> INT64_MAX"
  shows "\<exists>b c. asset_mul_price F a p = Inr b \<and> asset_mul_price F b p = Inr c \<and>
    asset_id b \<noteq> asset_id a \<and> asset_id c = asset_id a \<and> sint (amount c) \<le> sint (amount a)"
proof -
  let ?n = "sint (amount a)" and ?r = "uint (ratio p)"
  have r: "0 < ?r" using pos by (simp add: word_less_def)
  have fits: "sint (word_of_int z :: 64 word) = z" if "0 \<le> z" "z \<le> INT64_MAX" for z
    using that by (intro sint_word_of_int64) (simp_all add: INT64_MIN_def)
  have n: "?n \<le> INT64_MAX" by (rule sint64_range(2))
  from there show ?thesis
  proof
    assume base: "asset_id a = base_asset_id p \<and> ?n * ?r div 10 ^ 18 \<le> INT64_MAX"
    let ?q = "?n * ?r div 10 ^ 18" and ?b = "mk_asset (word_of_int (?n * ?r div 10 ^ 18)) (quote_asset_id p)"
    note bound = there_and_back_le [OF pos(1), of ?r "10 ^ 18"]
    have q: "0 \<le> ?q" "0 \<le> ?q * 10 ^ 18 div ?r" "?q * 10 ^ 18 div ?r \<le> ?n" using bound r by simp_all
    have sb: "sint (amount ?b) = ?q" using fits [of ?q] q base by simp
    have "asset_mul_price F ?b p = Inr (mk_asset (word_of_int (?q * 10 ^ 18 div ?r)) (base_asset_id p))"
      using asset_mul_price_quote [OF F, of ?b p] ids pos sb q n by simp
    then show ?thesis
      using asset_mul_price_base [OF F _ pos(1), of p] base ids q n fits [of "?q * 10 ^ 18 div ?r"] by simp
  next
    assume quote: "asset_id a = quote_asset_id p \<and> ?n * 10 ^ 18 div ?r \<le> INT64_MAX"
    let ?q = "?n * 10 ^ 18 div ?r" and ?b = "mk_asset (word_of_int (?n * 10 ^ 18 div ?r)) (base_asset_id p)"
    note bound = there_and_back_le [OF pos(1), of "10 ^ 18" ?r]
    have q: "0 \<le> ?q" "0 \<le> ?q * ?r div 10 ^ 18" "?q * ?r div 10 ^ 18 \<le> ?n" using bound r by simp_all
    have sb: "sint (amount ?b) = ?q" using fits [of ?q] q quote by simp
    have "asset_mul_price F ?b p = Inr (mk_asset (word_of_int (?q * ?r div 10 ^ 18)) (quote_asset_id p))"
      using asset_mul_price_base [OF F, of ?b p] ids pos sb q n by simp
    then show ?thesis
      using asset_mul_price_quote [OF F _ _ pos] quote ids q n fits [of "?q * ?r div 10 ^ 18"] by simp
  qed
qed

theorem multiply_there_and_back_witness:
  "(\<exists>b c. asset_mul_price fc_ref_base (mk_asset 5 0) (mk_price 2500000000000000000 0 1) = Inr b \<and>
    asset_mul_price fc_ref_base b (mk_price 2500000000000000000 0 1) = Inr c \<and>
    asset_id b \<noteq> 0 \<and> asset_id c = 0 \<and> sint (amount c) \<le> 5) \<and>
   (\<exists>b c. asset_mul_price fc_ref_base (mk_asset 7 1) (mk_price 2500000000000000000 0 1) = Inr b \<and>
    asset_mul_price fc_ref_base b (mk_price 2500000000000000000 0 1) = Inr c \<and>
    asset_id b \<noteq> 1 \<and> asset_id c = 1 \<and> sint (amount c) \<le> 7)"
  using multiply_there_and_back [of fc_ref_base "mk_price 2500000000000000000 0 1" "mk_asset 5 0"]
    multiply_there_and_back [of fc_ref_base "mk_price 2500000000000000000 0 1" "mk_asset 7 1"]
  by (simp add: fc_ref_base_laws INT64_MAX_def)

section \<open>Printing and parsing a ratio\<close>

lemma dval_Nil [simp]: "dval [] = 0"
  by (simp add: dval_def)

lemma dval_fold: "fold (\<lambda>c n. n * 10 + (of_char c - 48)) w k = k * 10 ^ length w + dval w"
proof (induction w arbitrary: k)
  case (Cons c w)
  show ?case
    by (simp add: dval_def Cons [of "k * 10 + _"] Cons [of "of_char c - 48"] algebra_simps)
qed (simp add: dval_def)

lemma dval_append: "dval (v @ w) = dval v * 10 ^ length w + dval w"
proof -
  have "dval (v @ w) = fold (\<lambda>c n. n * 10 + (of_char c - 48)) w (dval v)"
    by (simp add: dval_def)
  then show ?thesis by (simp add: dval_fold)
qed

lemma dval_Cons: "dval (c # w) = (of_char c - 48) * 10 ^ length w + dval w"
  using dval_append [of "[c]" w] by (simp add: dval_def)

lemma dval_less: "\<forall>c\<in>set w. is_dec_digit c \<Longrightarrow> dval w < 10 ^ length w"
proof (induction w)
  case (Cons c w)
  then have "(of_char c - 48 :: nat) \<le> 9" by (simp add: is_dec_digit_def le_diff_conv)
  then have "(of_char c - 48) * 10 ^ length w \<le> 9 * (10::nat) ^ length w" by (rule mult_right_mono) simp
  moreover have "dval w < 10 ^ length w" using Cons by simp
  ultimately have "dval (c # w) < 9 * 10 ^ length w + 10 ^ length w"
    unfolding dval_Cons by (rule add_le_less_mono)
  then show ?case by simp
qed simp

lemma of_char_digit: "n < 10 \<Longrightarrow> (of_char (char_of (48 + n)) :: nat) = 48 + n"
  by (simp add: of_char_of)

lemma dec_string_digits: "\<forall>c\<in>set (dec_string n). is_dec_digit c"
  by (induction n rule: dec_string.induct)
    (subst dec_string.simps, auto simp: is_dec_digit_def of_char_digit)

lemma dval_dec_string [simp]: "dval (dec_string n) = n"
proof (induction n rule: dec_string.induct)
  case (1 n)
  show ?case
  proof (cases "n < 10")
    case True
    then show ?thesis by (simp add: dec_string.simps [of n] dval_Cons of_char_digit)
  next
    case False
    then have "dval (dec_string n) = n div 10 * 10 + dval [char_of (48 + n mod 10)]"
      using 1 by (simp add: dec_string.simps [of n] dval_append)
    then show ?thesis by (simp add: dval_Cons of_char_digit)
  qed
qed

lemma dec_string_nonempty: "dec_string n \<noteq> []"
  by (subst dec_string.simps) simp

lemma length_dec_string: "10 ^ k \<le> n \<Longrightarrow> n < 10 ^ Suc k \<Longrightarrow> length (dec_string n) = Suc k"
proof (induction k arbitrary: n)
  case 0
  then show ?case by (subst dec_string.simps) simp
next
  case (Suc k)
  have "(1 :: nat) \<le> 10 ^ k" by simp
  then have "\<not> n < 10" using Suc.prems(1) unfolding power_Suc by linarith
  moreover have "10 ^ k \<le> n div 10"
    using div_le_mono [OF Suc.prems(1), of 10] by simp
  moreover have "n div 10 < 10 ^ Suc k"
    using Suc.prems(2) by (simp add: div_less_iff_less_mult)
  ultimately have "\<not> n < 10" "length (dec_string (n div 10)) = Suc k"
    using Suc.IH by simp_all
  then show ?case by (subst dec_string.simps) simp
qed

text \<open>The remainder, printed with a leading one and stripped of it, has eighteen digits.\<close>

lemma padded_fraction:
  assumes "m < 10 ^ 18"
  defines "w \<equiv> drop 1 (dec_string (m + 10 ^ 18))"
  shows "length w = 18" "dval w = m" "\<forall>c\<in>set w. is_dec_digit c"
proof -
  have len: "length (dec_string (m + 10 ^ 18)) = Suc 18"
    by (rule length_dec_string) (use assms in simp_all)
  then show l: "length w = 18" by (simp add: w_def)
  show d: "\<forall>c\<in>set w. is_dec_digit c"
    using dec_string_digits [of "m + 10 ^ 18"] by (auto simp: w_def dest: in_set_dropD)
  obtain c where "dec_string (m + 10 ^ 18) = c # w"
    using dec_string_nonempty [of "m + 10 ^ 18"] by (cases "dec_string (m + 10 ^ 18)") (auto simp: w_def)
  then have "m + 10 ^ 18 = (of_char c - 48) * 10 ^ 18 + dval w"
    by (metis dval_dec_string dval_Cons l)
  moreover have "dval w < 10 ^ 18" using dval_less [OF d] l by simp
  ultimately have "(m + 10 ^ 18) mod 10 ^ 18 = dval w" by simp
  then show "dval w = m" using assms(1) by simp
qed

lemma trim_zeros_snoc:
  "trim_zeros (w @ [c]) = (if c = CHR ''0'' then trim_zeros w else w @ [c])"
  by (simp add: trim_zeros_def)

lemma trim_zeros_split: "\<exists>j. w = trim_zeros w @ replicate j (CHR ''0'')"
proof (induction w rule: rev_induct)
  case Nil
  show ?case by (simp add: trim_zeros_def)
next
  case (snoc c w)
  then obtain j where j: "w = trim_zeros w @ replicate j (CHR ''0'')" by blast
  show ?case
  proof (cases "c = CHR ''0''")
    case True
    have "w @ [c] = trim_zeros w @ replicate (Suc j) (CHR ''0'')"
      unfolding True replicate_append_same [symmetric] replicate_Suc append_assoc [symmetric] j [symmetric] ..
    then show ?thesis unfolding trim_zeros_snoc if_P [OF True] by (rule exI)
  next
    case False
    then have "w @ [c] = trim_zeros (w @ [c]) @ replicate 0 (CHR ''0'')"
      by (simp add: trim_zeros_snoc)
    then show ?thesis ..
  qed
qed

lemma trim_zeros_point: "trim_zeros (u @ ''.'' @ w) = u @ ''.'' @ trim_zeros w"
  by (simp add: trim_zeros_def dropWhile_append)

lemma scan_int_part_digits:
  assumes "\<forall>c\<in>set w. is_dec_digit c" "\<forall>c cs. rest = c # cs \<longrightarrow> \<not> is_dec_digit c"
  shows "scan_int_part acc (w @ rest) = (acc * 10 ^ length w + of_nat (dval w), rest)"
  using assms
proof (induction w arbitrary: acc)
  case Nil
  then show ?case by (cases rest) auto
next
  case (Cons c w)
  then show ?case by (simp add: dval_Cons dec_digit_def distrib_right mult.assoc add.assoc)
qed

lemma scan_frac_part_digits:
  assumes "\<forall>c\<in>set w. is_dec_digit c"
  shows "scan_frac_part f m w = (f * 10 ^ length w + of_nat (dval w), m * 10 ^ length w, [])"
  using assms
  by (induction w arbitrary: f m) (auto simp: dval_Cons dec_digit_def distrib_right mult.assoc add.assoc)

lemma point_no_digit: "\<not> is_dec_digit (CHR ''.'')"
  by (simp add: is_dec_digit_def)

lemma set_ratio_from_string_point:
  assumes "u \<noteq> []" "\<forall>c\<in>set u. is_dec_digit c" "\<forall>c\<in>set w. is_dec_digit c" "(10 ^ length w :: 64 word) \<noteq> 0"
  shows "set_ratio_from_string F (u @ ''.'' @ w) p =
    Inr (p\<lparr> ratio :=
      (let r = u128_mul F (u128_of_uint64 F (of_nat (dval u))) (u128_of_uint64 F BTS_PRICE_PRECISION)
       in if w = [] then r
          else u128_add F r (u128_mul F (u128_of_int64 F (of_nat (dval w)))
                 (u128_of_uint64 F (BTS_PRICE_PRECISION div 10 ^ length w)))) \<rparr>,
      length u + 1 + length w)"
proof -
  obtain c cs where u: "u = c # cs" using assms(1) by (cases u) auto
  have c: "is_dec_digit c" "\<forall>c\<in>set cs. is_dec_digit c" using assms(2) u by auto
  have i: "scan_int_part (dec_digit c) (cs @ CHR ''.'' # w) = (of_nat (dval u), CHR ''.'' # w)"
    using scan_int_part_digits [OF c(2), of "CHR ''.'' # w"] point_no_digit
    by (simp add: u dval_Cons dec_digit_def)
  show ?thesis
  proof (cases w)
    case Nil
    then show ?thesis using i c by (simp add: set_ratio_from_string_def u)
  next
    case (Cons d ds)
    then have "scan_frac_part (dec_digit d) 10 ds = (of_nat (dval w), 10 ^ length w, [])"
      using scan_frac_part_digits [of ds "dec_digit d" 10] assms(3)
      by (simp add: dval_Cons dec_digit_def)
    then show ?thesis using i c assms(3,4) Cons by (simp add: set_ratio_from_string_def u)
  qed
qed

lemma uint_power_of_ten:
  assumes "k \<le> 18"
  shows "uint (10 ^ k :: 64 word) = 10 ^ k"
proof -
  have "(10 :: int) ^ k \<le> 10 ^ 18" by (rule power_increasing [OF assms]) simp
  then have "(10 :: int) ^ k < 2 ^ LENGTH(64)" by simp
  then have "uint (word_of_int (10 ^ k) :: 64 word) = 10 ^ k"
    by (intro word_of_int_inverse [OF refl]) simp_all
  then show ?thesis by (simp only: of_int_power of_int_numeral)
qed

lemma precision_div_power:
  assumes "k \<le> 18"
  shows "uint (BTS_PRICE_PRECISION div 10 ^ k) = 10 ^ (18 - k)" "(10 ^ k :: 64 word) \<noteq> 0"
proof -
  note u = uint_power_of_ten [OF assms]
  have "uint BTS_PRICE_PRECISION = 10 ^ 18"
    by (simp add: BTS_PRICE_PRECISION_def BTS_BLOCKCHAIN_MAX_SHARES_def)
  then show "uint (BTS_PRICE_PRECISION div 10 ^ k) = 10 ^ (18 - k)"
    unfolding uint_div u using assms by (simp only: power_diff)
  show "(10 ^ k :: 64 word) \<noteq> 0"
    using u by (metis power_not_zero unsigned_0 zero_neq_numeral)
qed

lemma scast_sint: "scast (x :: 64 word) = (word_of_int (sint x) :: 128 word)"
  by simp

lemma ucast_uint: "ucast (x :: 64 word) = (word_of_int (uint x) :: 128 word)"
  by simp

lemma dval_zeros [simp]: "dval (replicate j (CHR ''0'')) = 0"
  by (induction j) (simp_all add: dval_Cons)

lemma fraction_string:
  assumes "m < 10 ^ 18"
  defines "w \<equiv> trim_zeros (drop 1 (dec_string (m + 10 ^ 18)))"
  shows "length w \<le> 18" "dval w * 10 ^ (18 - length w) = m" "\<forall>c\<in>set w. is_dec_digit c"
proof -
  note f = padded_fraction [OF assms(1)]
  obtain j where j: "drop 1 (dec_string (m + 10 ^ 18)) = w @ replicate j (CHR ''0'')"
    using trim_zeros_split unfolding w_def by blast
  have len: "18 = length w + j"
    using arg_cong [OF j, of length] unfolding f(1) by (simp only: length_append length_replicate)
  then show "length w \<le> 18" by simp
  have "18 - length w = j" using len by simp
  moreover have "dval w * 10 ^ j = m"
    using f(2) unfolding j dval_append dval_zeros length_replicate by simp
  ultimately show "dval w * 10 ^ (18 - length w) = m" by (simp only:)
  show "\<forall>c\<in>set w. is_dec_digit c"
    using f(3) unfolding j by simp
qed

lemma fraction_small:
  assumes "length w \<le> 18" "\<forall>c\<in>set w. is_dec_digit c"
  shows "sint (of_nat (dval w) :: 64 word) = int (dval w)"
proof -
  have "dval w < 10 ^ length w" by (rule dval_less [OF assms(2)])
  also have "\<dots> \<le> 10 ^ 18" by (rule power_increasing [OF assms(1)]) simp
  finally have "int (dval w) \<le> INT64_MAX" by (simp add: INT64_MAX_def)
  then have "sint (word_of_int (int (dval w)) :: 64 word) = int (dval w)"
    by (intro sint_word_of_int64) (simp_all add: INT64_MIN_def)
  then show ?thesis by simp
qed

lemma ratio_string_eq:
  assumes F: "u128_laws F" "u128_string_law F"
  shows "ratio_string F p = Inr (dec_string (unat (ratio p) div 10 ^ 18) @ ''.'' @
    trim_zeros (drop 1 (dec_string (unat (ratio p) mod 10 ^ 18 + 10 ^ 18))))"
proof -
  let ?P = "10 ^ 18 :: 128 word"
  have P: "u128_of_uint64 F BTS_PRICE_PRECISION = ?P"
    by (simp add: u128_lawsD [OF F(1)] BTS_PRICE_PRECISION_def BTS_BLOCKCHAIN_MAX_SHARES_def)
  have nz: "?P \<noteq> 0" and uP: "unat ?P = 10 ^ 18" by simp_all
  have dm: "unat (ratio p div ?P) = unat (ratio p) div 10 ^ 18"
    "unat (ratio p mod ?P) = unat (ratio p) mod 10 ^ 18"
    by (simp_all only: unat_div unat_mod uP)
  have "unat (ratio p mod ?P) + unat ?P < 10 ^ 18 + 10 ^ 18"
    unfolding dm uP by (rule add_strict_right_mono) simp
  also have "\<dots> < 2 ^ LENGTH(128)" by simp
  finally have "unat (ratio p mod ?P + ?P) = unat (ratio p mod ?P) + unat ?P"
    by (rule iffD1 [OF unat_add_lem])
  then have "unat (ratio p mod ?P + ?P) = unat (ratio p) mod 10 ^ 18 + 10 ^ 18"
    unfolding dm uP .
  with F(2) dm show ?thesis
    unfolding ratio_string_def P u128_lawsD(5,6) [OF F(1) nz] bindE.simps u128_lawsD(3) [OF F(1)]
      trim_zeros_point [symmetric] u128_string_law_def
    by (simp only: )
qed

text \<open>C29. Printing a price ratio and parsing it reads the whole string and gives the ratio back
  exactly if its integer part fits in \<^verbatim>\<open>uint64_t\<close>; otherwise the integer part comes back reduced
  modulo $2^{64}$, with the same fraction.\<close>

theorem ratio_string_round_trip:
  assumes F: "u128_laws F" "u128_string_law F"
  shows "\<exists>s r. ratio_string F p = Inr s \<and>
    set_ratio_from_string F s q = Inr (q\<lparr> ratio := r \<rparr>, length s) \<and>
    unat r = unat (ratio p) div 10 ^ 18 mod 2 ^ 64 * 10 ^ 18 + unat (ratio p) mod 10 ^ 18 \<and>
    (r = ratio p \<longleftrightarrow> unat (ratio p) div 10 ^ 18 < 2 ^ 64)"
proof -
  define m where "m = unat (ratio p) mod 10 ^ 18"
  define n where "n = unat (ratio p) div 10 ^ 18"
  define w where "w = trim_zeros (drop 1 (dec_string (m + 10 ^ 18)))"
  define k where "k = length w"
  define r :: uint128 where "r = of_nat (n mod 2 ^ 64) * 10 ^ 18 + of_nat (dval w) * 10 ^ (18 - k)"
  have m: "m < 10 ^ 18" by (simp add: m_def)
  note f = fraction_string [OF m, folded w_def, folded k_def]
  note kk = precision_div_power [OF f(1)]
  have r: "r = of_nat (n mod 2 ^ 64 * 10 ^ 18 + m)"
    unfolding r_def f(2) [symmetric] by (simp only: of_nat_add of_nat_mult of_nat_power of_nat_numeral)
  have nm: "unat (ratio p) = n * 10 ^ 18 + m" by (simp add: n_def m_def)
  have le: "n mod 2 ^ 64 * 10 ^ 18 + m \<le> unat (ratio p)" unfolding nm by simp
  then have ur: "unat r = n mod 2 ^ 64 * 10 ^ 18 + m"
    unfolding r unat_of_nat by (intro mod_less) (rule le_less_trans [OF le unsigned_less])
  have iff: "r = ratio p \<longleftrightarrow> n < 2 ^ 64"
    unfolding word_unat_eq_iff ur nm by (simp add: mod_eq_self_iff_div_eq_0 div_eq_0_iff)
  have P: "u128_of_uint64 F BTS_PRICE_PRECISION = 10 ^ 18"
    by (simp add: u128_lawsD [OF F(1)] BTS_PRICE_PRECISION_def BTS_BLOCKCHAIN_MAX_SHARES_def)
  have N: "u128_of_uint64 F (of_nat n) = of_nat (n mod 2 ^ 64)"
    unfolding u128_lawsD(2) [OF F(1)] by (simp add: unsigned_of_nat take_bit_eq_mod)
  have D: "u128_of_int64 F (of_nat (dval w)) = of_nat (dval w)"
    unfolding u128_lawsD(1) [OF F(1)] scast_sint fraction_small [OF f(1) [unfolded k_def] f(3)]
    by (rule of_int_of_nat_eq)
  have K: "u128_of_uint64 F (BTS_PRICE_PRECISION div 10 ^ k) = 10 ^ (18 - k)"
    unfolding u128_lawsD(2) [OF F(1)] ucast_uint kk(1) by (simp only: of_int_power of_int_numeral)
  have "set_ratio_from_string F (dec_string n @ ''.'' @ w) q =
      Inr (q\<lparr> ratio := r \<rparr>, length (dec_string n @ ''.'' @ w))"
    unfolding set_ratio_from_string_point [OF dec_string_nonempty dec_string_digits f(3) kk(2) [unfolded k_def]]
      dval_dec_string P N D K [unfolded k_def] u128_lawsD(3,4) [OF F(1)] Let_def
    by (auto simp: k_def r_def)
  with ratio_string_eq [OF F, of p] ur iff show ?thesis
    unfolding m_def [symmetric] n_def [symmetric] w_def [symmetric] by blast
qed

theorem ratio_string_round_trip_witness:
  "\<exists>s. ratio_string fc_ref_base (mk_price 1250000000000000000 0 1) = Inr s \<and>
    set_ratio_from_string fc_ref_base s price_default =
      Inr (price_default\<lparr> ratio := 1250000000000000000 \<rparr>, length s)"
  using ratio_string_round_trip [of fc_ref_base "mk_price 1250000000000000000 0 1" price_default]
  by (simp add: fc_ref_base_laws)

end
