(* ===== verification/Address.thy ===== *)
theory Address
  imports Asset
begin

text \<open>
  \<^verbatim>\<open>libraries/blockchain/address.cpp\<close> and \<^verbatim>\<open>pts_address.cpp\<close>: an address is the
  twenty bytes of a RIPEMD-160 hash, obtained from a public key, from a legacy PTS
  address or (in \<^verbatim>\<open>Withdraw\<close>) from a withdraw condition, and written in base 58
  with a prefix and a four byte checksum.
\<close>

type_synonym address = bytes
type_synonym public_key_type = bytes
type_synonym digest_type = bytes

definition BTS_ADDRESS_PREFIX :: string where
  "BTS_ADDRESS_PREFIX = ''BTS''"

text \<open>The default constructed address and key: all bytes zero.\<close>

definition address_default :: address where
  "address_default = replicate 20 (CHR 0x00)"

definition public_key_default :: public_key_type where
  "public_key_default = replicate 33 (CHR 0x00)"

definition address_of_key :: "'z fc_base_scheme \<Rightarrow> public_key_type \<Rightarrow> address" where
  "address_of_key F pub = ripemd160_hash F (sha512_hash F pub)"

definition address_of_pts :: "'z fc_base_scheme \<Rightarrow> bytes \<Rightarrow> address" where
  "address_of_pts F ptsaddr = ripemd160_hash F ptsaddr"

text \<open>Version byte, hash of the key, and the first four bytes of a double SHA-256.\<close>

definition pts_checksum :: "'z fc_base_scheme \<Rightarrow> bytes \<Rightarrow> bytes" where
  "pts_checksum F body = take 4 (sha256_hash F (sha256_hash F body))"

definition pts_address :: "'z fc_base_scheme \<Rightarrow> public_key_type \<Rightarrow> bool \<Rightarrow> nat \<Rightarrow> bytes" where
  "pts_address F pub compressed version =
    (let sha2 = (if compressed then sha256_hash F pub else sha256_hash F (serialize_ecc_point F pub));
         rep = ripemd160_hash F sha2;
         body = char_of version # rep
     in body @ pts_checksum F body)"

definition pts_address_is_valid :: "'z fc_base_scheme \<Rightarrow> bytes \<Rightarrow> bool" where
  "pts_address_is_valid F addr = (take 4 (drop 21 addr) = pts_checksum F (take 21 addr))"

text \<open>\<^verbatim>\<open>pts_address(std::string)\<close> copies what was decoded over twenty-five bytes that
  are not initialised; the copy is completed with zero bytes here.\<close>

definition pts_address_of_string :: "'z fc_base_scheme \<Rightarrow> string \<Rightarrow> bytes res" where
  "pts_address_of_string F base58str =
    bindE (from_base58 F base58str) (\<lambda>v.
      let addr = take 25 (v @ replicate 25 (CHR 0x00))
      in if pts_address_is_valid F addr then Inr addr else Inl invalid_pts_address)"

definition pts_address_to_string :: "'z fc_base_scheme \<Rightarrow> bytes \<Rightarrow> string" where
  "pts_address_to_string F addr = to_base58 F addr"

text \<open>The check shared by \<^verbatim>\<open>is_valid\<close> and \<^verbatim>\<open>is_valid_v1\<close>, which differ in the prefix.
  The checksum is compared at offset 20 whatever the decoded length, which reads past
  the buffer when fewer than 24 bytes were decoded.\<close>

definition address_check :: "'z fc_base_scheme \<Rightarrow> string \<Rightarrow> string \<Rightarrow> bool res" where
  "address_check F prefix base58str =
    (if \<not> length base58str > length prefix then Inl assert_exception
     else if take (length prefix) base58str \<noteq> prefix then Inl assert_exception
     else bindE (from_base58 F (drop (length prefix) base58str)) (\<lambda>v.
       if \<not> length v > 4 then Inl assert_exception
       else if \<not> length v \<le> 24 then Inl assert_exception
       else if length v < 24 then Inl undefined_behaviour
       else if take 4 (drop 20 v) \<noteq> take 4 (ripemd160_hash F (take (length v - 4) v))
       then Inl assert_exception
       else Inr True))"

definition address_is_valid_v1 :: "'z fc_base_scheme \<Rightarrow> string \<Rightarrow> bool res" where
  "address_is_valid_v1 F base58str = address_check F ''BTSX'' base58str"

text \<open>\<^verbatim>\<open>catch( ... )\<close> catches every exception, but not the read past the buffer.\<close>

definition address_is_valid :: "'z fc_base_scheme \<Rightarrow> string \<Rightarrow> bool res" where
  "address_is_valid F base58str =
    (case address_is_valid_v1 F base58str of
       Inr b \<Rightarrow> Inr b
     | Inl e \<Rightarrow> if e = undefined_behaviour then Inl e else address_check F BTS_ADDRESS_PREFIX base58str)"

definition address_of_string :: "'z fc_base_scheme \<Rightarrow> string \<Rightarrow> address res" where
  "address_of_string F base58str =
    bindE (address_is_valid F base58str) (\<lambda>ok.
      if \<not> ok then Inl assert_exception
      else bindE (case address_is_valid_v1 F base58str of
                    Inr b \<Rightarrow> Inr (if b then ''BTSX'' else BTS_ADDRESS_PREFIX)
                  | Inl e \<Rightarrow> if e = undefined_behaviour then Inl e else Inr BTS_ADDRESS_PREFIX) (\<lambda>prefix.
           bindE (from_base58 F (drop (length prefix) base58str)) (\<lambda>v.
             Inr (take 20 (take (length v - 4) v @ address_default)))))"

definition address_to_string :: "'z fc_base_scheme \<Rightarrow> address \<Rightarrow> string" where
  "address_to_string F addr =
    BTS_ADDRESS_PREFIX @ to_base58 F (addr @ take 4 (ripemd160_hash F addr))"

text \<open>The five addresses a signature of one key stands for
  (\<^verbatim>\<open>transaction_evaluation_state::evaluate\<close>, \<^verbatim>\<open>balance_record::is_owner\<close>).\<close>

definition key_addresses :: "'z fc_base_scheme \<Rightarrow> public_key_type \<Rightarrow> address list" where
  "key_addresses F key =
    [address_of_key F key,
     address_of_pts F (pts_address F key False 56), address_of_pts F (pts_address F key True 56),
     address_of_pts F (pts_address F key False 0), address_of_pts F (pts_address F key True 0)]"

section \<open>Lemmas\<close>

lemma pts_address_valid_aux:
  assumes "\<forall>b. length (ripemd160_hash F b) = 20" "\<forall>b. length (sha256_hash F b) = 32"
  shows "length (pts_address F pub compressed version) = 25"
    "pts_address_is_valid F (pts_address F pub compressed version)"
  using assms by (simp_all add: pts_address_def pts_address_is_valid_def pts_checksum_def Let_def)

lemma address_check_own:
  assumes "base58_law F" "length a = 20" "\<forall>b. length (ripemd160_hash F b) = 20"
    and "to_base58 F (a @ take 4 (ripemd160_hash F a)) \<noteq> []"
  shows "address_check F BTS_ADDRESS_PREFIX (address_to_string F a) = Inr True"
  using assms by (simp add: address_check_def address_to_string_def BTS_ADDRESS_PREFIX_def base58_law_def)

text \<open>C30. The string of an address of twenty bytes is valid, and reading it gives the address back,
  for a base 58 codec that inverts itself and a hash of twenty bytes, if the text is not empty
  and the check for the older prefix \<^verbatim>\<open>BTSX\<close>, which the reader makes first, throws an exception
  without a read past its buffer.\<close>

theorem address_string_round_trip:
  assumes "base58_law F" "\<forall>b. length (ripemd160_hash F b) = 20" "length a = 20"
    and "to_base58 F (a @ take 4 (ripemd160_hash F a)) \<noteq> []"
    and "address_is_valid_v1 F (address_to_string F a) = Inl e" "e \<noteq> undefined_behaviour"
  shows "address_is_valid F (address_to_string F a) = Inr True \<and>
    address_of_string F (address_to_string F a) = Inr a"
proof -
  have "address_is_valid F (address_to_string F a) = Inr True"
    using address_check_own assms by (simp add: address_is_valid_def)
  with assms show ?thesis
    by (simp add: address_of_string_def address_to_string_def BTS_ADDRESS_PREFIX_def base58_law_def)
qed

theorem address_string_round_trip_witness:
  "let F = fc_ref_base\<lparr> ripemd160_hash := (\<lambda>b. replicate 20 (CHR ''r'')) \<rparr>; a = replicate 20 (CHR ''a'')
   in address_is_valid F (address_to_string F a) = Inr True \<and> address_of_string F (address_to_string F a) = Inr a"
  unfolding Let_def
  by (rule address_string_round_trip [where e = assert_exception])
    (simp_all add: fc_ref_base_def base58_law_def address_is_valid_v1_def address_check_def
      address_to_string_def BTS_ADDRESS_PREFIX_def numeral_eq_Suc)

end
