(* ===== verification/Withdraw.thy ===== *)
theory Withdraw
  imports Address
begin

text \<open>
  Withdraw conditions and balances: \<^verbatim>\<open>withdraw_types.hpp\<close>, \<^verbatim>\<open>withdraw_types.cpp\<close>,
  \<^verbatim>\<open>balance_record.hpp\<close> and \<^verbatim>\<open>balance_record.cpp\<close>. A condition is kept as in the source,
  a type tag with the packed bytes of the condition; packing and unpacking belong to
  the fc library and extend its parameter record. The type tag is a byte in the
  source; a byte outside the enumeration takes the same branches as
  \<open>withdraw_reserved_type\<close>.
\<close>

type_synonym slate_id_type = uint64
type_synonym balance_id_type = address

datatype withdraw_condition_types =
    withdraw_null_type
  | withdraw_signature_type
  | withdraw_vesting_type
  | withdraw_multisig_type
  | withdraw_password_type
  | withdraw_reserved_type
  | withdraw_escrow_type

record withdraw_condition =
  wc_asset_id :: asset_id_type
  wc_slate_id :: slate_id_type
  wc_type :: withdraw_condition_types
  wc_data :: bytes

record titan_memo =
  one_time_key :: public_key_type
  encrypted_memo_data :: bytes

record withdraw_with_signature =
  ws_owner :: address
  ws_memo :: "titan_memo option"

record withdraw_vesting =
  wv_owner :: address
  start_time :: time_point_sec
  duration :: uint32
  original_balance :: share_type

record withdraw_with_multisig =
  wm_required :: uint32
  wm_owners :: "address list"
  wm_memo :: "titan_memo option"

record withdraw_with_escrow =
  sender :: address
  receiver :: address
  escrow :: address
  agreement_digest :: digest_type
  we_memo :: "titan_memo option"

record withdraw_with_password =
  payee :: address
  payor :: address
  timeout :: time_point_sec
  password_hash :: bytes
  wp_memo :: "titan_memo option"

record fc_cond = fc_base +
  pack_withdraw_condition :: "withdraw_condition \<Rightarrow> bytes"
  pack_withdraw_with_signature :: "withdraw_with_signature \<Rightarrow> bytes"
  unpack_withdraw_with_signature :: "bytes \<Rightarrow> withdraw_with_signature res"
  unpack_withdraw_vesting :: "bytes \<Rightarrow> withdraw_vesting res"
  pack_withdraw_with_multisig :: "withdraw_with_multisig \<Rightarrow> bytes"
  unpack_withdraw_with_multisig :: "bytes \<Rightarrow> withdraw_with_multisig res"
  unpack_withdraw_with_escrow :: "bytes \<Rightarrow> withdraw_with_escrow res"
  unpack_withdraw_with_password :: "bytes \<Rightarrow> withdraw_with_password res"

section \<open>Conditions\<close>

definition withdraw_condition_default :: withdraw_condition where
  "withdraw_condition_default =
    \<lparr> wc_asset_id = 0, wc_slate_id = 0, wc_type = withdraw_null_type, wc_data = [] \<rparr>"

text \<open>The templates \<^verbatim>\<open>withdraw_condition(t, asset, slate)\<close> and \<^verbatim>\<open>as<T>()\<close>, one instance
  per withdraw type the code uses.\<close>

definition signature_condition ::
  "'z fc_cond_scheme \<Rightarrow> withdraw_with_signature \<Rightarrow> asset_id_type \<Rightarrow> slate_id_type \<Rightarrow> withdraw_condition" where
  "signature_condition F t asset_id_arg delegate_id_arg =
    \<lparr> wc_asset_id = asset_id_arg, wc_slate_id = delegate_id_arg, wc_type = withdraw_signature_type,
      wc_data = pack_withdraw_with_signature F t \<rparr>"

definition multisig_withdraw_condition ::
  "'z fc_cond_scheme \<Rightarrow> withdraw_with_multisig \<Rightarrow> asset_id_type \<Rightarrow> slate_id_type \<Rightarrow> withdraw_condition" where
  "multisig_withdraw_condition F t asset_id_arg delegate_id_arg =
    \<lparr> wc_asset_id = asset_id_arg, wc_slate_id = delegate_id_arg, wc_type = withdraw_multisig_type,
      wc_data = pack_withdraw_with_multisig F t \<rparr>"

definition as_signature :: "'z fc_cond_scheme \<Rightarrow> withdraw_condition \<Rightarrow> withdraw_with_signature res" where
  "as_signature F c =
    (if wc_type c \<noteq> withdraw_signature_type then Inl assert_exception
     else unpack_withdraw_with_signature F (wc_data c))"

definition as_vesting :: "'z fc_cond_scheme \<Rightarrow> withdraw_condition \<Rightarrow> withdraw_vesting res" where
  "as_vesting F c =
    (if wc_type c \<noteq> withdraw_vesting_type then Inl assert_exception
     else unpack_withdraw_vesting F (wc_data c))"

definition as_multisig :: "'z fc_cond_scheme \<Rightarrow> withdraw_condition \<Rightarrow> withdraw_with_multisig res" where
  "as_multisig F c =
    (if wc_type c \<noteq> withdraw_multisig_type then Inl assert_exception
     else unpack_withdraw_with_multisig F (wc_data c))"

definition as_escrow :: "'z fc_cond_scheme \<Rightarrow> withdraw_condition \<Rightarrow> withdraw_with_escrow res" where
  "as_escrow F c =
    (if wc_type c \<noteq> withdraw_escrow_type then Inl assert_exception
     else unpack_withdraw_with_escrow F (wc_data c))"

definition as_password :: "'z fc_cond_scheme \<Rightarrow> withdraw_condition \<Rightarrow> withdraw_with_password res" where
  "as_password F c =
    (if wc_type c \<noteq> withdraw_password_type then Inl assert_exception
     else unpack_withdraw_with_password F (wc_data c))"

definition address_of_condition :: "'z fc_cond_scheme \<Rightarrow> withdraw_condition \<Rightarrow> address" where
  "address_of_condition F c = ripemd160_hash F (sha512_hash F (pack_withdraw_condition F c))"

definition get_address :: "'z fc_cond_scheme \<Rightarrow> withdraw_condition \<Rightarrow> balance_id_type" where
  "get_address F c = address_of_condition F c"

section \<open>Balance records\<close>

record snapshot_record =
  original_address :: string
  snap_original_balance :: share_type

record balance_record =
  condition :: withdraw_condition
  balance :: share_type
  restricted_owner :: "address option"
  snapshot_info :: "snapshot_record option"
  deposit_date :: time_point_sec
  br_last_update :: time_point_sec

definition balance_record_of_condition :: "withdraw_condition \<Rightarrow> balance_record" where
  "balance_record_of_condition c =
    \<lparr> condition = c, balance = 0, restricted_owner = None, snapshot_info = None,
      deposit_date = 0, br_last_update = 0 \<rparr>"

definition balance_record_of_owner ::
  "'z fc_cond_scheme \<Rightarrow> address \<Rightarrow> asset \<Rightarrow> slate_id_type \<Rightarrow> balance_record" where
  "balance_record_of_owner F owner balance_arg delegate_id =
    (balance_record_of_condition
       (signature_condition F \<lparr> ws_owner = owner, ws_memo = None \<rparr> (asset_id balance_arg) delegate_id))
    \<lparr> balance := amount balance_arg \<rparr>"

definition balance_is_null :: "balance_record \<Rightarrow> bool" where
  "balance_is_null r = (balance r = 0)"

definition balance_make_null :: "balance_record \<Rightarrow> balance_record" where
  "balance_make_null r = r\<lparr> balance := 0 \<rparr>"

definition balance_id :: "'z fc_cond_scheme \<Rightarrow> balance_record \<Rightarrow> balance_id_type" where
  "balance_id F r = get_address F (condition r)"

definition balance_slate_id :: "balance_record \<Rightarrow> slate_id_type" where
  "balance_slate_id r = wc_slate_id (condition r)"

definition balance_asset_id :: "balance_record \<Rightarrow> asset_id_type" where
  "balance_asset_id r = wc_asset_id (condition r)"

definition owners :: "'z fc_cond_scheme \<Rightarrow> balance_record \<Rightarrow> address list res" where
  "owners F r =
    (case wc_type (condition r) of
       withdraw_signature_type \<Rightarrow> bindE (as_signature F (condition r)) (\<lambda>c. Inr [ws_owner c])
     | withdraw_vesting_type \<Rightarrow> bindE (as_vesting F (condition r)) (\<lambda>c. Inr [wv_owner c])
     | withdraw_multisig_type \<Rightarrow> bindE (as_multisig F (condition r)) (\<lambda>c. Inr (wm_owners c))
     | _ \<Rightarrow> Inl assert_exception)"

definition balance_owner :: "'z fc_cond_scheme \<Rightarrow> balance_record \<Rightarrow> address res" where
  "balance_owner F r =
    bindE (owners F r) (\<lambda>addrs. if addrs = [] then Inl assert_exception else Inr (hd addrs))"

definition is_owner_address :: "'z fc_cond_scheme \<Rightarrow> balance_record \<Rightarrow> address \<Rightarrow> bool res" where
  "is_owner_address F r addr = bindE (owners F r) (\<lambda>addrs. Inr (addr \<in> set addrs))"

definition is_owner_key :: "'z fc_cond_scheme \<Rightarrow> balance_record \<Rightarrow> public_key_type \<Rightarrow> bool res" where
  "is_owner_key F r key =
    bindE (owners F r) (\<lambda>addrs. Inr (\<exists>addr\<in>set addrs. addr \<in> set (key_addresses F key)))"

text \<open>The part of a vesting balance that has vested at a given time.\<close>

definition vesting_max_claimable ::
  "'z fc_cond_scheme \<Rightarrow> withdraw_vesting \<Rightarrow> time_point_sec \<Rightarrow> share_type res" where
  "vesting_max_claimable F vc at_time =
    (if tps_add F (start_time vc) (duration vc) \<le> at_time then Inr (original_balance vc)
     else if start_time vc < at_time then
       (let elapsed_time = tps_elapsed F at_time (start_time vc)
        in if \<not> (0 < elapsed_time \<and> elapsed_time < uint (duration vc)) then Inl assert_exception
           else let max_claimable =
                  sdiv64 (original_balance vc * word_of_int elapsed_time)
                         (word_of_int (uint (duration vc)))
                in if \<not> (0 \<le>s max_claimable \<and> max_claimable <s original_balance vc)
                   then Inl assert_exception else Inr max_claimable)
     else Inr 0)"

definition get_spendable_balance :: "'z fc_cond_scheme \<Rightarrow> balance_record \<Rightarrow> time_point_sec \<Rightarrow> asset res" where
  "get_spendable_balance F r at_time =
    (if wc_type (condition r) \<in> {withdraw_signature_type, withdraw_escrow_type, withdraw_multisig_type}
     then Inr (mk_asset (balance r) (wc_asset_id (condition r)))
     else if wc_type (condition r) = withdraw_vesting_type then
       bindE (as_vesting F (condition r)) (\<lambda>vc.
       bindE (vesting_max_claimable F vc at_time) (\<lambda>max_claimable.
       let claimed_so_far = original_balance vc - balance r
       in if \<not> (0 \<le>s claimed_so_far \<and> claimed_so_far \<le>s original_balance vc) then Inl assert_exception
          else let spendable_balance = max_claimable - claimed_so_far
               in if \<not> (0 \<le>s spendable_balance \<and> spendable_balance \<le>s original_balance vc)
                  then Inl assert_exception
                  else Inr (mk_asset spendable_balance (wc_asset_id (condition r)))))
     else Inr (mk_asset 0 0))"

section \<open>A concrete instance of the serialisation\<close>

text \<open>Bytes that list the owner, then a zero byte, then the rest; enough to evaluate
  the definitions on concrete conditions.\<close>

definition ref_split :: "bytes \<Rightarrow> bytes list" where
  "ref_split b = foldr (\<lambda>c acc. if c = CHR 0x00 then [] # acc else (c # hd acc) # tl acc) b [[]]"

fun ref_unpack_signature :: "bytes list \<Rightarrow> withdraw_with_signature res" where
  "ref_unpack_signature (o' # _) = Inr \<lparr> ws_owner = o', ws_memo = None \<rparr>"
| "ref_unpack_signature [] = Inl fc_exception"

fun ref_unpack_vesting :: "bytes list \<Rightarrow> withdraw_vesting res" where
  "ref_unpack_vesting [o', s, d, b] =
     Inr \<lparr> wv_owner = o', start_time = of_nat (length s), duration = of_nat (length d),
           original_balance = of_nat (length b) \<rparr>"
| "ref_unpack_vesting _ = Inl fc_exception"

fun ref_unpack_multisig :: "bytes list \<Rightarrow> withdraw_with_multisig res" where
  "ref_unpack_multisig (r # os) =
     Inr \<lparr> wm_required = of_nat (length r), wm_owners = os, wm_memo = None \<rparr>"
| "ref_unpack_multisig [] = Inl fc_exception"

fun ref_unpack_escrow :: "bytes list \<Rightarrow> withdraw_with_escrow res" where
  "ref_unpack_escrow [s, r, e, d] =
     Inr \<lparr> sender = s, receiver = r, escrow = e, agreement_digest = d, we_memo = None \<rparr>"
| "ref_unpack_escrow _ = Inl fc_exception"

fun ref_unpack_password :: "bytes list \<Rightarrow> withdraw_with_password res" where
  "ref_unpack_password [e, r, t, h] =
     Inr \<lparr> payee = e, payor = r, timeout = of_nat (length t), password_hash = h, wp_memo = None \<rparr>"
| "ref_unpack_password _ = Inl fc_exception"

definition ref_tag :: "withdraw_condition_types \<Rightarrow> char" where
  "ref_tag t = (case t of withdraw_null_type \<Rightarrow> CHR ''0'' | withdraw_signature_type \<Rightarrow> CHR ''1''
    | withdraw_vesting_type \<Rightarrow> CHR ''2'' | withdraw_multisig_type \<Rightarrow> CHR ''3''
    | withdraw_password_type \<Rightarrow> CHR ''4'' | withdraw_reserved_type \<Rightarrow> CHR ''5''
    | withdraw_escrow_type \<Rightarrow> CHR ''6'')"

definition fc_ref_cond :: fc_cond where
  "fc_ref_cond = fc_base.extend fc_ref_base \<lparr>
     pack_withdraw_condition = (\<lambda>c. ref_tag (wc_type c) #
       replicate (nat (wc_asset_id c)) (CHR ''a'') @ replicate (unat (wc_slate_id c)) (CHR ''s'') @
       CHR '':'' # wc_data c),
     pack_withdraw_with_signature = (\<lambda>t. ws_owner t),
     unpack_withdraw_with_signature = (\<lambda>b. ref_unpack_signature (ref_split b)),
     unpack_withdraw_vesting = (\<lambda>b. ref_unpack_vesting (ref_split b)),
     pack_withdraw_with_multisig = (\<lambda>t. concat (map (\<lambda>o'. CHR 0x00 # o') (wm_owners t))),
     unpack_withdraw_with_multisig = (\<lambda>b. ref_unpack_multisig (ref_split b)),
     unpack_withdraw_with_escrow = (\<lambda>b. ref_unpack_escrow (ref_split b)),
     unpack_withdraw_with_password = (\<lambda>b. ref_unpack_password (ref_split b)) \<rparr>"

section \<open>Lemmas\<close>

lemmas as_defs = as_signature_def as_vesting_def as_multisig_def as_escrow_def as_password_def

lemma vesting_max_claimable_range:
  assumes "vesting_max_claimable F vc at_time = Inr mx" "0 \<le>s original_balance vc"
  shows "0 \<le>s mx" "mx \<le>s original_balance vc"
  using assms
  by (auto simp: vesting_max_claimable_def Let_def word_sle_eq word_sless_alt split: if_split_asm)

lemma vesting_claim_bounds:
  fixes orig bal mx :: share_type
  assumes "0 \<le>s orig - bal" "orig - bal \<le>s orig" "0 \<le>s mx" "mx \<le>s orig"
    "0 \<le>s mx - (orig - bal)" "mx - (orig - bal) \<le>s orig"
  shows "0 \<le> sint (mx - (orig - bal))" "sint (mx - (orig - bal)) \<le> sint bal"
proof -
  let ?c = "orig - bal"
  have c: "0 \<le> sint ?c" "sint ?c \<le> sint orig" using assms by (simp_all add: word_sle_eq)
  have m: "0 \<le> sint mx" "sint mx \<le> sint orig" using assms by (simp_all add: word_sle_eq)
  have "sint (orig - ?c) = sint orig - sint ?c"
    by (rule sint64_diff) (use c sint64_range [of orig] in \<open>simp_all add: INT64_MIN_def\<close>)
  then have b: "sint bal = sint orig - sint ?c" by simp
  have "sint (mx - ?c) = sint mx - sint ?c"
    by (rule sint64_diff) (use c m sint64_range [of orig] sint64_range [of mx] in
        \<open>simp_all add: INT64_MIN_def INT64_MAX_def\<close>)
  then show "0 \<le> sint (mx - ?c)" "sint (mx - ?c) \<le> sint bal"
    using b m assms(5) by (simp_all add: word_sle_eq)
qed

text \<open>C31. A vesting balance never lets its owner spend more than it holds: whenever
  \<^verbatim>\<open>get_spendable_balance\<close> returns, the amount is non-negative and at most the balance of
  the record, and it is an amount of the record's asset.\<close>

theorem vesting_spendable_bounds:
  assumes "wc_type (condition r) = withdraw_vesting_type"
    and "get_spendable_balance F r at_time = Inr a"
  shows "asset_id a = wc_asset_id (condition r) \<and> 0 \<le> sint (amount a) \<and>
    sint (amount a) \<le> sint (balance r)"
proof -
  obtain vc mx where m: "vesting_max_claimable F vc at_time = Inr mx"
    and claimed: "0 \<le>s original_balance vc - balance r"
      "original_balance vc - balance r \<le>s original_balance vc"
    and spend: "0 \<le>s mx - (original_balance vc - balance r)"
      "mx - (original_balance vc - balance r) \<le>s original_balance vc"
    and a: "a = mk_asset (mx - (original_balance vc - balance r)) (wc_asset_id (condition r))"
    using assms by (auto simp: get_spendable_balance_def Let_def split: if_split_asm)
  have "0 \<le>s original_balance vc" using claimed by (simp add: word_sle_eq)
  then have "0 \<le>s mx" "mx \<le>s original_balance vc"
    using vesting_max_claimable_range [OF m] by simp_all
  then show ?thesis
    using vesting_claim_bounds [of "original_balance vc" "balance r" mx] claimed spend a by simp
qed

theorem vesting_spendable_bounds_witness:
  "\<exists>a. get_spendable_balance fc_ref_cond
      ((balance_record_of_condition \<lparr> wc_asset_id = 0, wc_slate_id = 0, wc_type = withdraw_vesting_type,
         wc_data = ''owner'' @ [CHR 0x00] @ ''ss'' @ [CHR 0x00] @ ''dddd'' @ [CHR 0x00] @ ''bbbbbbbb'' \<rparr>)
       \<lparr> balance := 7 \<rparr>) 4 = Inr a \<and> 0 \<le> sint (amount a) \<and> sint (amount a) \<le> 7"
proof -
  let ?r = "(balance_record_of_condition \<lparr> wc_asset_id = 0, wc_slate_id = 0, wc_type = withdraw_vesting_type,
         wc_data = ''owner'' @ [CHR 0x00] @ ''ss'' @ [CHR 0x00] @ ''dddd'' @ [CHR 0x00] @ ''bbbbbbbb'' \<rparr>)
       \<lparr> balance := 7 \<rparr>"
  have v: "wc_type (condition ?r) = withdraw_vesting_type" "balance ?r = 7"
    by (simp_all add: balance_record_of_condition_def)
  have e: "get_spendable_balance fc_ref_cond ?r 4 = Inr (mk_asset 3 0)"
    by code_simp
  show ?thesis
    using vesting_spendable_bounds [OF v(1) e] v(2) e by auto
qed

lemma balance_id_balance [simp]: "balance_id F (r\<lparr> balance := b \<rparr>) = balance_id F r"
  by (simp add: balance_id_def)

lemma balance_id_dates [simp]:
  "balance_id F (r\<lparr> deposit_date := t \<rparr>) = balance_id F r"
  "balance_id F (r\<lparr> br_last_update := t \<rparr>) = balance_id F r"
  "balance_id F (r\<lparr> restricted_owner := ro \<rparr>) = balance_id F r"
  by (simp_all add: balance_id_def)

lemma balance_id_make_null [simp]: "balance_id F (balance_make_null r) = balance_id F r"
  by (simp add: balance_make_null_def)

lemma balance_id_of_condition [simp]:
  "balance_id F (balance_record_of_condition c) = get_address F c"
  by (simp add: balance_id_def balance_record_of_condition_def)

end
