(* ===== verification/Account.thy ===== *)
theory Account
  imports Withdraw
begin

text \<open>
  \<^verbatim>\<open>account_record.hpp\<close> and \<^verbatim>\<open>account_record.cpp\<close>: registered accounts, the delegate
  information an account may carry, and burn records. A key history is a
  \<^verbatim>\<open>std::map\<close> from the time (or the block number) of a change to the key, so the
  current key is the value of its last entry.
\<close>

type_synonym account_id_type = int
type_synonym transaction_id_type = bytes
type_synonym signature_type = bytes

datatype account_type = titan_account | public_account | multisig_account

record multisig_meta_info =
  required :: uint32
  mm_owners :: "address list"

record account_meta_info =
  ami_type :: account_type
  ami_data :: bytes

record delegate_stats =
  votes_for :: share_type
  pay_rate :: "8 word"
  signing_key_history :: "(uint32 \<times> public_key_type) list"
  last_block_num_produced :: uint32
  next_secret_hash :: "bytes option"
  pay_balance :: share_type
  total_paid :: share_type
  total_burned :: share_type
  blocks_produced :: uint32
  blocks_missed :: uint32

definition delegate_stats_default :: delegate_stats where
  "delegate_stats_default =
    \<lparr> votes_for = 0, pay_rate = 0, signing_key_history = [], last_block_num_produced = 0,
      next_secret_hash = None, pay_balance = 0, total_paid = 0, total_burned = 0,
      blocks_produced = 0, blocks_missed = 0 \<rparr>"

record account_record =
  ar_id :: account_id_type
  ar_name :: string
  public_data :: variant
  owner_key :: public_key_type
  active_key_history :: "(time_point_sec \<times> public_key_type) list"
  registration_date :: time_point_sec
  ar_last_update :: time_point_sec
  delegate_info :: "delegate_stats option"
  meta_data :: "account_meta_info option"

definition account_record_default :: account_record where
  "account_record_default =
    \<lparr> ar_id = 0, ar_name = [], public_data = variant_null, owner_key = public_key_default,
      active_key_history = [], registration_date = 0, ar_last_update = 0, delegate_info = None,
      meta_data = None \<rparr>"

definition multisig_meta_info_default :: multisig_meta_info where
  "multisig_meta_info_default = \<lparr> required = 0, mm_owners = [] \<rparr>"

section \<open>Accounts\<close>

definition account_is_null :: "account_record \<Rightarrow> bool" where
  "account_is_null r = (owner_key r = public_key_default)"

definition account_make_null :: "account_record \<Rightarrow> account_record" where
  "account_make_null r = r\<lparr> owner_key := public_key_default \<rparr>"

definition owner_address :: "'z fc_base_scheme \<Rightarrow> account_record \<Rightarrow> address" where
  "owner_address F r = address_of_key F (owner_key r)"

definition is_delegate :: "account_record \<Rightarrow> bool" where
  "is_delegate r = (delegate_info r \<noteq> None)"

definition delegate_pay_balance :: "account_record \<Rightarrow> share_type res" where
  "delegate_pay_balance r =
    (case delegate_info r of None \<Rightarrow> Inl assert_exception | Some d \<Rightarrow> Inr (pay_balance d))"

definition net_votes :: "account_record \<Rightarrow> share_type res" where
  "net_votes r =
    (case delegate_info r of None \<Rightarrow> Inl assert_exception | Some d \<Rightarrow> Inr (votes_for d))"

definition adjust_votes_for :: "account_record \<Rightarrow> share_type \<Rightarrow> account_record res" where
  "adjust_votes_for r delta =
    (case delegate_info r of
       None \<Rightarrow> Inl assert_exception
     | Some d \<Rightarrow> Inr (r\<lparr> delegate_info := Some (d\<lparr> votes_for := votes_for d + delta \<rparr>) \<rparr>))"

definition set_active_key ::
  "account_record \<Rightarrow> time_point_sec \<Rightarrow> public_key_type \<Rightarrow> account_record res" where
  "set_active_key r now new_key =
    (if now = 0 then Inl assert_exception
     else Inr (r\<lparr> active_key_history := map_put now new_key (active_key_history r) \<rparr>))"

definition active_key :: "account_record \<Rightarrow> public_key_type" where
  "active_key r =
    (if active_key_history r \<noteq> [] then snd (last (active_key_history r)) else public_key_default)"

definition active_address :: "'z fc_base_scheme \<Rightarrow> account_record \<Rightarrow> address" where
  "active_address F r = address_of_key F (active_key r)"

definition is_retracted :: "account_record \<Rightarrow> bool" where
  "is_retracted r = (active_key r = public_key_default)"

definition delegate_pay_rate :: "account_record \<Rightarrow> 8 word" where
  "delegate_pay_rate r = (case delegate_info r of None \<Rightarrow> - 1 | Some d \<Rightarrow> pay_rate d)"

definition set_signing_key ::
  "account_record \<Rightarrow> uint32 \<Rightarrow> public_key_type \<Rightarrow> account_record res" where
  "set_signing_key r block_num key =
    (case delegate_info r of
       None \<Rightarrow> Inl assert_exception
     | Some d \<Rightarrow> Inr (r\<lparr> delegate_info :=
         Some (d\<lparr> signing_key_history := map_put block_num key (signing_key_history d) \<rparr>) \<rparr>))"

definition signing_key :: "account_record \<Rightarrow> public_key_type res" where
  "signing_key r =
    (case delegate_info r of
       None \<Rightarrow> Inl assert_exception
     | Some d \<Rightarrow> (if signing_key_history d = [] then Inl assert_exception
                 else Inr (snd (last (signing_key_history d)))))"

definition signing_address :: "'z fc_base_scheme \<Rightarrow> account_record \<Rightarrow> address res" where
  "signing_address F r = bindE (signing_key r) (\<lambda>k. Inr (address_of_key F k))"

definition is_public_account :: "account_record \<Rightarrow> bool" where
  "is_public_account r = (case meta_data r of None \<Rightarrow> False | Some i \<Rightarrow> ami_type i = public_account)"

section \<open>Burn records\<close>

record burn_record_key =
  burn_account_id :: account_id_type
  burn_transaction_id :: transaction_id_type

record burn_record_value =
  burn_amount :: asset
  burn_message :: string
  burn_signer :: "signature_type option"

definition burn_is_null :: "burn_record_value \<Rightarrow> bool" where
  "burn_is_null v = (amount (burn_amount v) = 0)"

definition burn_record_less :: "burn_record_key \<Rightarrow> burn_record_key \<Rightarrow> bool" where
  "burn_record_less a b =
    ((burn_account_id a, burn_transaction_id a) < (burn_account_id b, burn_transaction_id b))"

text \<open>The digest of an empty message is the default constructed one, all bytes zero.\<close>

definition signer_key :: "'z fc_base_scheme \<Rightarrow> burn_record_value \<Rightarrow> public_key_type res" where
  "signer_key F v =
    (case burn_signer v of
       None \<Rightarrow> Inl assert_exception
     | Some s \<Rightarrow>
         let digest = (if burn_message v \<noteq> [] then sha256_hash F (burn_message v)
                       else replicate 32 (CHR 0x00))
         in recover_public_key F s digest True)"

section \<open>Key histories\<close>

lemma map_put_not_Nil [simp]: "map_put k v m \<noteq> []"
  by (cases m) (auto split: if_splits)

lemma last_map_put:
  assumes "ordered_map m" "\<forall>k' \<in> fst ` set m. k' \<le> k"
  shows "last (map_put k v m) = (k, v)"
  using assms
proof (induction m)
  case (Cons kv m)
  obtain k' v' where kv: "kv = (k', v')" by (cases kv)
  have tl: "ordered_map m" "\<forall>k' \<in> fst ` set m. k' \<le> k" and "k' \<le> k"
    using Cons.prems kv by (auto simp: ordered_map_def)
  consider "k' = k" | "k' < k" using \<open>k' \<le> k\<close> by fastforce
  then show ?case
  proof cases
    case 1
    then have "m = []" using Cons.prems kv by (cases m) (auto simp: ordered_map_def)
    with 1 show ?thesis by (simp add: kv)
  next
    case 2
    then have "map_put k v (kv # m) = kv # map_put k v m" by (auto simp: kv)
    with Cons.IH [OF tl] show ?thesis by simp
  qed
qed simp

text \<open>Once set at the current time the key is the active one.\<close>

lemma active_key_set:
  assumes "set_active_key r now new_key = Inr r'" "ordered_map (active_key_history r)"
    and "\<forall>t \<in> fst ` set (active_key_history r). t \<le> now"
  shows "active_key r' = new_key"
  using assms by (auto simp: set_active_key_def active_key_def last_map_put split: if_split_asm)

lemma signing_key_set:
  assumes "set_signing_key r n key = Inr r'" "ordered_map (signing_key_history (the (delegate_info r)))"
    and "\<forall>b \<in> fst ` set (signing_key_history (the (delegate_info r))). b \<le> n"
  shows "signing_key r' = Inr key"
  using assms by (auto simp: set_signing_key_def signing_key_def last_map_put split: option.split_asm)

lemma set_active_key_keeps:
  assumes "set_active_key r now new_key = Inr r'"
  shows "ar_id r' = ar_id r" "ar_name r' = ar_name r" "owner_key r' = owner_key r"
    "delegate_info r' = delegate_info r"
  using assms by (auto simp: set_active_key_def split: if_split_asm)

lemma set_signing_key_keeps:
  assumes "set_signing_key r n key = Inr r'"
  shows "ar_id r' = ar_id r" "ar_name r' = ar_name r" "owner_key r' = owner_key r"
    "active_key r' = active_key r" "active_key_history r' = active_key_history r"
    "\<exists>d. delegate_info r = Some d \<and> delegate_info r' =
      Some (d\<lparr> signing_key_history := map_put n key (signing_key_history d) \<rparr>)"
  using assms by (auto simp: set_signing_key_def active_key_def split: option.split_asm)

end
