(* ===== verification/Asset_Record.thy ===== *)
theory Asset_Record
  imports Account
begin

text \<open>
  \<^verbatim>\<open>asset_record.hpp\<close> and \<^verbatim>\<open>asset_record.cpp\<close>: the record of an asset with its supply
  and its permission flags, and proposals on an asset. \<open>can_issue_iff\<close> shows that the
  overflow test of \<^verbatim>\<open>can_issue\<close> is exact.
\<close>

unbundle bit_operations_syntax

type_synonym object_id_type = uint64
type_synonym proposal_id_type = uint32

definition retractable :: uint32 where "retractable = 1"
definition restricted :: uint32 where "restricted = 2"
definition market_halt :: uint32 where "market_halt = 4"
definition balance_halt :: uint32 where "balance_halt = 8"
definition supply_unlimit :: uint32 where "supply_unlimit = 16"

definition god_issuer_id :: account_id_type where "god_issuer_id = 0"
definition null_issuer_id :: account_id_type where "null_issuer_id = - 1"
definition market_issuer_id :: account_id_type where "market_issuer_id = - 2"

record asset_record =
  asr_id :: asset_id_type
  symbol :: string
  asr_name :: string
  description :: string
  asr_public_data :: variant
  issuer_account_id :: account_id_type
  precision :: uint64
  asr_registration_date :: time_point_sec
  asr_last_update :: time_point_sec
  current_share_supply :: share_type
  maximum_share_supply :: share_type
  collected_fees :: share_type
  flags :: uint32
  issuer_permissions :: uint32
  transaction_fee :: share_type
  authority :: multisig_meta_info
  last_proposal_id :: proposal_id_type
  reserved :: bytes

text \<open>Default construction; \<^verbatim>\<open>flags\<close> and \<^verbatim>\<open>issuer_permissions\<close> have no initialiser in the
  source, so their start value is an argument.\<close>

definition asset_record_default :: "uint32 \<Rightarrow> uint32 \<Rightarrow> asset_record" where
  "asset_record_default fl perm =
    \<lparr> asr_id = 0, symbol = [], asr_name = [], description = [], asr_public_data = variant_null,
      issuer_account_id = 0, precision = 0, asr_registration_date = 0, asr_last_update = 0,
      current_share_supply = 0, maximum_share_supply = 0, collected_fees = 0, flags = fl,
      issuer_permissions = perm, transaction_fee = 0, authority = multisig_meta_info_default,
      last_proposal_id = 0, reserved = [] \<rparr>"

definition asset_make_null :: "asset_record \<Rightarrow> asset_record" where
  "asset_make_null r = r\<lparr> issuer_account_id := - 1 \<rparr>"

definition asset_is_null :: "asset_record \<Rightarrow> bool" where
  "asset_is_null r = (issuer_account_id r = null_issuer_id)"

definition is_market_issued :: "asset_record \<Rightarrow> bool" where
  "is_market_issued r = (issuer_account_id r = market_issuer_id)"

definition is_user_issued :: "asset_record \<Rightarrow> bool" where
  "is_user_issued r = (issuer_account_id r > god_issuer_id)"

definition is_retractable :: "asset_record \<Rightarrow> bool" where
  "is_retractable r = (is_user_issued r \<and> flags r AND retractable \<noteq> 0)"

definition is_restricted :: "asset_record \<Rightarrow> bool" where
  "is_restricted r = (is_user_issued r \<and> flags r AND restricted \<noteq> 0)"

definition is_market_frozen :: "asset_record \<Rightarrow> bool" where
  "is_market_frozen r = (is_user_issued r \<and> flags r AND market_halt \<noteq> 0)"

definition is_balance_frozen :: "asset_record \<Rightarrow> bool" where
  "is_balance_frozen r = (is_user_issued r \<and> flags r AND balance_halt \<noteq> 0)"

definition is_supply_unlimited :: "asset_record \<Rightarrow> bool" where
  "is_supply_unlimited r = (is_user_issued r \<and> flags r AND supply_unlimit \<noteq> 0)"

definition available_shares :: "asset_record \<Rightarrow> share_type" where
  "available_shares r = maximum_share_supply r - current_share_supply r"

definition can_issue_shares :: "asset_record \<Rightarrow> share_type \<Rightarrow> bool" where
  "can_issue_shares r amt =
    (if amt \<le>s 0 then False
     else let new_share_supply = current_share_supply r + amt
          in current_share_supply r <s new_share_supply \<and> new_share_supply \<le>s maximum_share_supply r)"

definition can_issue :: "asset_record \<Rightarrow> asset \<Rightarrow> bool" where
  "can_issue r a = (if asr_id r \<noteq> asset_id a then False else can_issue_shares r (amount a))"

section \<open>Proposals\<close>

record proposal_record =
  pr_asset_id :: asset_id_type
  proposal_id :: proposal_id_type
  info :: object_id_type
  pr_votes_for :: uint32
  votes_against :: uint32

definition mk_proposal_record ::
  "asset_id_type \<Rightarrow> proposal_id_type \<Rightarrow> object_id_type \<Rightarrow> proposal_record" where
  "mk_proposal_record i pid oid =
    \<lparr> pr_asset_id = i, proposal_id = pid, info = oid, pr_votes_for = 0, votes_against = 0 \<rparr>"

definition proposal_make_null :: "proposal_record \<Rightarrow> proposal_record" where
  "proposal_make_null p = p\<lparr> info := - 1 \<rparr>"

definition proposal_key :: "proposal_record \<Rightarrow> asset_id_type \<times> proposal_id_type" where
  "proposal_key p = (pr_asset_id p, proposal_id p)"

section \<open>Lemmas\<close>

lemma sint64_add_wrap:
  assumes "INT64_MAX < sint (a :: 64 word) + sint b" "0 \<le> sint b"
  shows "sint (a + b) < sint a"
proof -
  have r: "sint a \<le> INT64_MAX" "sint b \<le> INT64_MAX" "INT64_MIN \<le> sint a"
    by (rule sint64_range)+
  have "a + b = word_of_int (sint a + sint b - 2 ^ 64)"
    by (simp add: wi_hom_sub [symmetric] wi_hom_add [symmetric])
  also have "sint (word_of_int (sint a + sint b - 2 ^ 64) :: 64 word) = sint a + sint b - 2 ^ 64"
    using assms r by (intro sint_word_of_int64) (simp_all add: INT64_MAX_def INT64_MIN_def)
  finally show ?thesis using r by (simp add: INT64_MAX_def)
qed

text \<open>C32. \<^verbatim>\<open>can_issue\<close> is exact, overflow included: it accepts an amount if and only if the
  amount is of the asset itself, is positive, and the supply after issuing it, computed
  without wrap-around, stays within the maximum supply.\<close>

theorem can_issue_iff:
  "can_issue r a \<longleftrightarrow>
    asset_id a = asr_id r \<and> 0 < sint (amount a) \<and>
    sint (current_share_supply r) + sint (amount a) \<le> sint (maximum_share_supply r)"
proof (cases "sint (current_share_supply r) + sint (amount a) \<le> INT64_MAX")
  case True
  show ?thesis
  proof (cases "0 < sint (amount a)")
    case pos: True
    then have "sint (current_share_supply r + amount a) = sint (current_share_supply r) + sint (amount a)"
      using True sint64_range(1) [of "current_share_supply r"] by (intro sint64_add) simp_all
    with pos show ?thesis
      by (auto simp: can_issue_def can_issue_shares_def Let_def word_sle_eq word_sless_alt)
  qed (simp add: can_issue_def can_issue_shares_def word_sle_eq)
next
  case False
  then have wrap: "0 < sint (amount a) \<Longrightarrow>
      sint (current_share_supply r + amount a) < sint (current_share_supply r)"
    by (intro sint64_add_wrap) simp_all
  from False have "\<not> sint (current_share_supply r) + sint (amount a) \<le> sint (maximum_share_supply r)"
    using sint64_range(2) [of "maximum_share_supply r"] by linarith
  with wrap show ?thesis
    by (auto simp: can_issue_def can_issue_shares_def Let_def word_sle_eq word_sless_alt)
qed

end
