(* ===== verification/Market_Records.thy ===== *)
theory Market_Records
  imports Asset_Record
begin

text \<open>
  \<^verbatim>\<open>market_records.hpp\<close> and \<^verbatim>\<open>market_records.cpp\<close>: the keys and records of the order
  book (bids, asks, shorts, relative orders, collateral of margin positions), the
  status and history of a market, and the view of one order that the matching engine
  works with.
\<close>

record market_index_key =
  order_price :: price
  mk_owner :: address

definition market_index_key_default :: market_index_key where
  "market_index_key_default = \<lparr> order_price = price_default, mk_owner = address_default \<rparr>"

text \<open>\<^verbatim>\<open>std::tie\<close> compares the prices both ways and then the owners.\<close>

definition market_index_less :: "market_index_key \<Rightarrow> market_index_key \<Rightarrow> bool" where
  "market_index_less a b =
    (price_less (order_price a) (order_price b) \<or>
     \<not> price_less (order_price b) (order_price a) \<and> mk_owner a < mk_owner b)"

definition market_index_eq :: "market_index_key \<Rightarrow> market_index_key \<Rightarrow> bool" where
  "market_index_eq a b = (price_eq (order_price a) (order_price b) \<and> mk_owner a = mk_owner b)"

record expiration_index =
  ei_quote_id :: asset_id_type
  ei_expiration :: time_point_sec
  ei_key :: market_index_key

definition expiration_index_less :: "expiration_index \<Rightarrow> expiration_index \<Rightarrow> bool" where
  "expiration_index_less a b =
    (ei_quote_id a < ei_quote_id b \<or> ei_quote_id a = ei_quote_id b \<and>
      (ei_expiration a < ei_expiration b \<or> ei_expiration a = ei_expiration b \<and>
        market_index_less (ei_key a) (ei_key b)))"

datatype time_granularity_enum = each_block | each_hour | each_day

record market_history_key =
  mh_quote_id :: asset_id_type
  mh_base_id :: asset_id_type
  granularity :: time_granularity_enum
  mh_timestamp :: time_point_sec

record market_history_record =
  highest_bid :: price
  lowest_ask :: price
  opening_price :: price
  closing_price :: price
  volume :: share_type

record order_record =
  or_balance :: share_type
  limit_price :: "price option"
  or_last_update :: time_point_sec

definition order_record_default :: order_record where
  "order_record_default = \<lparr> or_balance = 0, limit_price = None, or_last_update = 0 \<rparr>"

definition order_is_null :: "order_record \<Rightarrow> bool" where
  "order_is_null r = (or_balance r = 0)"

record collateral_record =
  collateral_balance :: share_type
  payoff_balance :: share_type
  interest_rate :: price
  expiration :: time_point_sec

definition collateral_record_default :: collateral_record where
  "collateral_record_default =
    \<lparr> collateral_balance = 0, payoff_balance = 0, interest_rate = price_default, expiration = 0 \<rparr>"

definition collateral_is_null :: "collateral_record \<Rightarrow> bool" where
  "collateral_is_null r = (payoff_balance r = 0 \<and> collateral_balance r = 0)"

section \<open>Market status\<close>

record market_status =
  ms_quote_id :: asset_id_type
  ms_base_id :: asset_id_type
  current_feed_price :: "price option"
  last_valid_feed_price :: "price option"
  last_error :: "exception option"
  ask_depth :: share_type
  bid_depth :: share_type
  center_price :: price

definition market_status_default :: market_status where
  "market_status_default =
    \<lparr> ms_quote_id = 0, ms_base_id = 0, current_feed_price = None, last_valid_feed_price = None,
      last_error = None, ask_depth = 0, bid_depth = 0, center_price = price_default \<rparr>"

definition mk_market_status :: "asset_id_type \<Rightarrow> asset_id_type \<Rightarrow> market_status res" where
  "mk_market_status quote base =
    (if \<not> quote > base then Inl assert_exception
     else Inr (market_status_default\<lparr> ms_quote_id := quote, ms_base_id := base \<rparr>))"

definition market_status_is_null :: "market_status \<Rightarrow> bool" where
  "market_status_is_null s = (ms_quote_id s = ms_base_id s)"

definition update_feed_price :: "market_status \<Rightarrow> price option \<Rightarrow> market_status" where
  "update_feed_price s feed =
    (let s = s\<lparr> current_feed_price := feed \<rparr>
     in if current_feed_price s \<noteq> None then s\<lparr> last_valid_feed_price := current_feed_price s \<rparr> else s)"

definition minimum_ask :: "'z fc_base_scheme \<Rightarrow> market_status \<Rightarrow> price res" where
  "minimum_ask F s =
    (let avg = center_price s in
     bindE (u128_div F (u128_mul F (ratio avg) (u128_of_int64 F 9)) (u128_of_int64 F 10))
       (\<lambda>r. Inr (avg\<lparr> ratio := r \<rparr>)))"

definition maximum_bid :: "'z fc_base_scheme \<Rightarrow> market_status \<Rightarrow> price res" where
  "maximum_bid F s =
    (let avg = center_price s in
     bindE (u128_div F (u128_mul F (ratio avg) (u128_of_int64 F 10)) (u128_of_int64 F 9))
       (\<lambda>r. Inr (avg\<lparr> ratio := r \<rparr>)))"

section \<open>Orders\<close>

datatype order_type_enum =
    null_order | bid_order | ask_order | short_order | cover_order
  | relative_bid_order | relative_ask_order

record market_order =
  mo_type :: order_type_enum
  market_index :: market_index_key
  state :: order_record
  collateral :: "share_type option"
  mo_interest_rate :: "price option"
  mo_expiration :: "time_point_sec option"

record market_transaction =
  bid_owner :: address
  ask_owner :: address
  bid_price :: price
  ask_price :: price
  bid_paid :: asset
  bid_received :: asset
  short_collateral :: "asset option"
  ask_paid :: asset
  ask_received :: asset
  returned_collateral :: "asset option"
  bid_type :: order_type_enum
  ask_type :: order_type_enum
  fees_collected :: asset

definition get_balance :: "market_order \<Rightarrow> asset res" where
  "get_balance m =
    (case mo_type m of
       relative_bid_order \<Rightarrow> Inr (mk_asset (or_balance (state m)) (quote_asset_id (order_price (market_index m))))
     | bid_order \<Rightarrow> Inr (mk_asset (or_balance (state m)) (quote_asset_id (order_price (market_index m))))
     | relative_ask_order \<Rightarrow> Inr (mk_asset (or_balance (state m)) (base_asset_id (order_price (market_index m))))
     | ask_order \<Rightarrow> Inr (mk_asset (or_balance (state m)) (base_asset_id (order_price (market_index m))))
     | short_order \<Rightarrow> Inr (mk_asset (or_balance (state m)) (base_asset_id (order_price (market_index m))))
     | cover_order \<Rightarrow> Inr (mk_asset (or_balance (state m)) (quote_asset_id (order_price (market_index m))))
     | null_order \<Rightarrow> Inl assert_exception)"

text \<open>\<^verbatim>\<open>std::min\<close> and \<^verbatim>\<open>std::max\<close> at prices: the first operand unless the other one is
  strictly smaller (larger) for \<^verbatim>\<open>operator<\<close>.\<close>

definition price_min :: "price \<Rightarrow> price \<Rightarrow> price" where
  "price_min a b = (if price_less b a then b else a)"

definition price_max :: "price \<Rightarrow> price \<Rightarrow> price" where
  "price_max a b = (if price_less a b then b else a)"

definition get_price :: "'z fc_base_scheme \<Rightarrow> market_order \<Rightarrow> price \<Rightarrow> price res" where
  "get_price F m relative =
    (let p = order_price (market_index m);
         abs_price = (if price_neq relative price_default then price_plus F p relative else Inr p)
     in case mo_type m of
       relative_bid_order \<Rightarrow>
         bindE abs_price (\<lambda>ap.
           Inr (case limit_price (state m) of None \<Rightarrow> ap | Some l \<Rightarrow> price_min ap l))
     | relative_ask_order \<Rightarrow>
         bindE abs_price (\<lambda>ap.
           Inr (case limit_price (state m) of None \<Rightarrow> ap | Some l \<Rightarrow> price_max ap l))
     | short_order \<Rightarrow>
         if price_eq relative price_default then Inr p
         else (case limit_price (state m) of None \<Rightarrow> Inr relative | Some l \<Rightarrow> Inr (price_min l relative))
     | bid_order \<Rightarrow> Inr p
     | ask_order \<Rightarrow> Inr p
     | cover_order \<Rightarrow> Inr p
     | null_order \<Rightarrow> Inl assert_exception)"

definition get_highest_cover_price :: "'z fc_base_scheme \<Rightarrow> market_order \<Rightarrow> price res" where
  "get_highest_cover_price F m =
    (if mo_type m \<noteq> cover_order then Inl assert_exception
     else case collateral m of
       None \<Rightarrow> Inl undefined_behaviour
     | Some c \<Rightarrow> asset_div_asset F
         (mk_asset (or_balance (state m)) (quote_asset_id (order_price (market_index m)))) (mk_asset c 0))"

definition get_quantity :: "'z fc_base_scheme \<Rightarrow> market_order \<Rightarrow> price \<Rightarrow> asset res" where
  "get_quantity F m relative =
    (case mo_type m of
       relative_bid_order \<Rightarrow>
         bindE (get_balance m) (\<lambda>b. bindE (get_price F m relative) (asset_mul_price F b))
     | bid_order \<Rightarrow>
         bindE (get_balance m) (\<lambda>b. bindE (get_price F m relative) (asset_mul_price F b))
     | relative_ask_order \<Rightarrow> get_balance m
     | ask_order \<Rightarrow> get_balance m
     | short_order \<Rightarrow> get_balance m
     | cover_order \<Rightarrow>
         (case collateral m of
            None \<Rightarrow> Inl undefined_behaviour
          | Some c \<Rightarrow> Inr (mk_asset (sdiv64 (c * 3) 4) 0))
     | null_order \<Rightarrow> Inl assert_exception)"

definition get_quote_quantity :: "'z fc_base_scheme \<Rightarrow> market_order \<Rightarrow> price \<Rightarrow> asset res" where
  "get_quote_quantity F m relative =
    (case mo_type m of
       relative_bid_order \<Rightarrow> get_balance m
     | bid_order \<Rightarrow> get_balance m
     | relative_ask_order \<Rightarrow>
         bindE (get_balance m) (\<lambda>b. bindE (get_price F m relative) (asset_mul_price F b))
     | ask_order \<Rightarrow>
         bindE (get_balance m) (\<lambda>b. bindE (get_price F m relative) (asset_mul_price F b))
     | short_order \<Rightarrow>
         bindE (get_balance m) (\<lambda>b. bindE (get_price F m relative) (asset_mul_price F b))
     | cover_order \<Rightarrow> get_balance m
     | null_order \<Rightarrow> Inl assert_exception)"

section \<open>The order of the book\<close>

text \<open>The components by which keys are compared, as a tuple of the library's
  lexicographic order.\<close>

abbreviation index_tuple :: "market_index_key \<Rightarrow> asset_id_type \<times> asset_id_type \<times> uint128 \<times> address" where
  "index_tuple k \<equiv> (quote_asset_id (order_price k), base_asset_id (order_price k),
                    ratio (order_price k), mk_owner k)"

lemma market_index_less_tuple: "market_index_less a b \<longleftrightarrow> index_tuple a < index_tuple b"
  by (auto simp: market_index_less_def price_less_def less_prod_def' split: if_splits)

lemma incomparable_eq: "\<not> x < y \<and> \<not> y < x \<longleftrightarrow> x = y" for x y :: "'a::linorder"
  by auto

lemma index_tuple_inj: "index_tuple a = index_tuple b \<longleftrightarrow> a = b"
  by (cases a; cases b) (auto intro: price.equality)

text \<open>C33. \<^verbatim>\<open>operator<\<close> of \<^verbatim>\<open>market_index_key\<close> is a strict total order on the keys of the order
  book, and two keys are equivalent for it exactly when price and owner are the same, so a
  \<^verbatim>\<open>std::map\<close> keeps one order per key even though \<^verbatim>\<open>operator==\<close> looks at the ratio only.\<close>

theorem market_index_order:
  "transp market_index_less \<and>
   (\<not> market_index_less a b \<and> \<not> market_index_less b a \<longleftrightarrow> a = b)"
proof
  show "transp market_index_less"
    unfolding transp_def market_index_less_tuple by (blast intro: less_trans)
  show "\<not> market_index_less a b \<and> \<not> market_index_less b a \<longleftrightarrow> a = b"
    unfolding market_index_less_tuple index_tuple_inj [symmetric, of a b] by (rule incomparable_eq)
qed

text \<open>A relative order never trades beyond its limit.\<close>

lemma price_min_limit: "\<not> price_less l (price_min a l)"
  by (simp add: price_min_def price_less_def)

lemma price_max_limit: "\<not> price_less (price_max a l) l"
  by (simp add: price_max_def price_less_def)

lemma relative_price_within_limit:
  assumes "get_price F m relative = Inr p" "limit_price (state m) = Some l"
  shows "mo_type m = relative_bid_order \<Longrightarrow> \<not> price_less l p"
    "mo_type m = relative_ask_order \<Longrightarrow> \<not> price_less p l"
  using assms price_min_limit price_max_limit
  unfolding get_price_def Let_def by (simp_all, blast+)

end
