(* ===== verification/Operations.thy ===== *)
theory Operations
  imports Market_Records
begin

text \<open>
  The operations a transaction is made of (\<^verbatim>\<open>operations.hpp\<close>, \<^verbatim>\<open>operations.cpp\<close> and the
  structs of the \<^verbatim>\<open>*_operations.hpp\<close> headers), the records that only operations
  create (delegate slates, feeds), and transactions with the functions that build
  them (\<^verbatim>\<open>transaction.hpp\<close>, \<^verbatim>\<open>transaction.cpp\<close>). An operation is a type tag with packed
  bytes; \<^verbatim>\<open>fc::raw::pack\<close> and \<^verbatim>\<open>fc::raw::unpack\<close> at the operation types extend the
  parameter of the fc library.
\<close>

type_synonym feed_id_type = int

section \<open>Slates and feeds\<close>

record delegate_slate =
  supported_delegates :: "account_id_type list"

record feed_index =
  feed_id :: feed_id_type
  fi_delegate_id :: account_id_type

definition feed_index_less :: "feed_index \<Rightarrow> feed_index \<Rightarrow> bool" where
  "feed_index_less a b =
    (if feed_id a < feed_id b then True
     else if feed_id a \<noteq> feed_id b then False
     else fi_delegate_id a < fi_delegate_id b)"

record feed_record =
  feed :: feed_index
  feed_value :: variant
  feed_last_update :: time_point_sec

definition feed_is_null :: "feed_record \<Rightarrow> bool" where
  "feed_is_null r = (feed_value r = variant_null)"

definition feed_make_null :: "feed_record \<Rightarrow> feed_record" where
  "feed_make_null r = \<lparr> feed = feed r, feed_value = variant_null, feed_last_update = 0 \<rparr>"

section \<open>Operation types\<close>

datatype operation_type_enum =
    null_op_type
  | withdraw_op_type | deposit_op_type
  | register_account_op_type | update_account_op_type | withdraw_pay_op_type
  | create_asset_op_type | update_asset_op_type | issue_asset_op_type | create_asset_prop_op_type
  | reserved_op_2_type
  | bid_op_type | ask_op_type | short_op_type | short_op_v2_type | cover_op_type
  | add_collateral_op_type | reserved_op_3_type
  | define_delegate_slate_op_type | update_feed_op_type | burn_op_type
  | reserved_op_4_type | reserved_op_5_type
  | release_escrow_op_type | update_block_signing_key_type
  | relative_bid_op_type | relative_ask_op_type
  | update_balance_vote_op_type
  | set_object_op_type | authorize_op_type
  | update_asset_ext_op_type | cancel_order_op_type
  | set_edge_op_type
  | site_create_op_type | site_update_op_type
  | auction_start_op_type | auction_bid_op_type
  | make_sale_op_type | buy_sale_op_type

record operation =
  op_type :: operation_type_enum
  op_data :: bytes

section \<open>Operation structs\<close>

record define_delegate_slate_operation =
  slate :: delegate_slate

record withdraw_operation =
  wo_balance_id :: balance_id_type
  wo_amount :: share_type
  claim_input_data :: bytes

record deposit_operation =
  do_amount :: share_type
  do_condition :: withdraw_condition

record burn_operation =
  bo_amount :: asset
  bo_account_id :: account_id_type
  bo_message :: string
  message_signature :: "signature_type option"

record release_escrow_operation =
  escrow_id :: balance_id_type
  released_by :: address
  amount_to_receiver :: share_type
  amount_to_sender :: share_type

record update_balance_vote_operation =
  ubv_balance_id :: balance_id_type
  new_restricted_owner :: "address option"
  new_slate :: slate_id_type

record register_account_operation =
  ra_name :: string
  ra_public_data :: variant
  ra_owner_key :: public_key_type
  ra_active_key :: public_key_type
  ra_delegate_pay_rate :: "8 word"
  ra_meta_data :: "account_meta_info option"

record update_account_operation =
  ua_account_id :: account_id_type
  ua_public_data :: "variant option"
  ua_active_key :: "public_key_type option"
  ua_delegate_pay_rate :: "8 word"

record update_block_signing_key =
  ubsk_account_id :: account_id_type
  block_signing_key :: public_key_type

record withdraw_pay_operation =
  wp_amount :: share_type
  wp_account_id :: account_id_type

record create_asset_operation =
  ca_symbol :: string
  ca_name :: string
  ca_description :: string
  ca_public_data :: variant
  ca_issuer_account_id :: account_id_type
  ca_maximum_share_supply :: share_type
  ca_precision :: uint64

record create_asset_proposal =
  cap_asset_id :: asset_id_type
  cap_info :: object_id_type

record update_asset_operation =
  ua_asset_id :: asset_id_type
  ua_name :: "string option"
  ua_description :: "string option"
  ua_asset_public_data :: "variant option"
  ua_maximum_share_supply :: "share_type option"
  ua_precision :: "uint64 option"

record update_asset_ext_operation = update_asset_operation +
  ue_flags :: uint32
  ue_issuer_permissions :: uint32
  ue_issuer_account_id :: account_id_type
  ue_transaction_fee :: share_type
  ue_authority :: multisig_meta_info

record issue_asset_operation =
  ia_amount :: asset

record authorize_operation =
  au_asset_id :: asset_id_type
  au_owner :: address
  meta_id :: object_id_type

record bid_operation =
  bid_amount :: share_type
  bid_index :: market_index_key

record ask_operation =
  ask_amount :: share_type
  ask_index :: market_index_key

record relative_bid_operation =
  rbid_amount :: share_type
  rbid_index :: market_index_key
  rbid_limit_price :: "price option"

record relative_ask_operation =
  rask_amount :: share_type
  rask_index :: market_index_key
  rask_limit_price :: "price option"

record short_operation =
  short_amount :: share_type
  short_index :: market_index_key
  short_limit_price :: "price option"

record short_operation_v1 =
  short1_amount :: share_type
  short1_index :: market_index_key

record cover_operation =
  cover_amount :: share_type
  cover_index :: market_index_key
  new_cover_price :: "price option"

record add_collateral_operation =
  ac_amount :: share_type
  ac_cover_index :: market_index_key

record update_feed_operation =
  uf_feed :: feed_index
  uf_value :: variant

end
