(* ===== verification/Transaction.thy ===== *)
theory Transaction
  imports Operations
begin

text \<open>
  Transactions: \<^verbatim>\<open>transaction.hpp\<close> and \<^verbatim>\<open>transaction.cpp\<close>, the polymorphic \<^verbatim>\<open>operation\<close>
  with its packed payload, and \<^verbatim>\<open>operation_factory\<close>'s table of registered types. The
  payload types of \<^verbatim>\<open>operation::as<T>()\<close> are the constructors of \<open>operation_body\<close>;
  \<open>pack_op\<close> and \<open>unpack_op\<close> stand for \<^verbatim>\<open>fc::raw::pack\<close> and \<^verbatim>\<open>fc::raw::unpack\<close> at those
  types. \<open>build_then_read\<close> shows that what a builder appended is what
  \<^verbatim>\<open>operation::as\<close> gives back.
\<close>

datatype operation_body =
    op_withdraw withdraw_operation
  | op_deposit deposit_operation
  | op_register_account register_account_operation
  | op_update_account update_account_operation
  | op_withdraw_pay withdraw_pay_operation
  | op_create_asset create_asset_operation
  | op_update_asset update_asset_operation
  | op_issue_asset issue_asset_operation
  | op_create_asset_proposal create_asset_proposal
  | op_bid bid_operation
  | op_ask ask_operation
  | op_short short_operation
  | op_short_v1 short_operation_v1
  | op_cover cover_operation
  | op_add_collateral add_collateral_operation
  | op_define_delegate_slate define_delegate_slate_operation
  | op_update_feed update_feed_operation
  | op_burn burn_operation
  | op_release_escrow release_escrow_operation
  | op_update_block_signing_key update_block_signing_key
  | op_relative_bid relative_bid_operation
  | op_relative_ask relative_ask_operation
  | op_update_balance_vote update_balance_vote_operation
  | op_set_object bytes
  | op_authorize authorize_operation
  | op_update_asset_ext update_asset_ext_operation
  | op_set_edge bytes

text \<open>\<^verbatim>\<open>OperationType::type\<close>.\<close>

fun type_of_body :: "operation_body \<Rightarrow> operation_type_enum" where
  "type_of_body (op_withdraw _) = withdraw_op_type"
| "type_of_body (op_deposit _) = deposit_op_type"
| "type_of_body (op_register_account _) = register_account_op_type"
| "type_of_body (op_update_account _) = update_account_op_type"
| "type_of_body (op_withdraw_pay _) = withdraw_pay_op_type"
| "type_of_body (op_create_asset _) = create_asset_op_type"
| "type_of_body (op_update_asset _) = update_asset_op_type"
| "type_of_body (op_issue_asset _) = issue_asset_op_type"
| "type_of_body (op_create_asset_proposal _) = create_asset_prop_op_type"
| "type_of_body (op_bid _) = bid_op_type"
| "type_of_body (op_ask _) = ask_op_type"
| "type_of_body (op_short _) = short_op_v2_type"
| "type_of_body (op_short_v1 _) = short_op_type"
| "type_of_body (op_cover _) = cover_op_type"
| "type_of_body (op_add_collateral _) = add_collateral_op_type"
| "type_of_body (op_define_delegate_slate _) = define_delegate_slate_op_type"
| "type_of_body (op_update_feed _) = update_feed_op_type"
| "type_of_body (op_burn _) = burn_op_type"
| "type_of_body (op_release_escrow _) = release_escrow_op_type"
| "type_of_body (op_update_block_signing_key _) = update_block_signing_key_type"
| "type_of_body (op_relative_bid _) = relative_bid_op_type"
| "type_of_body (op_relative_ask _) = relative_ask_op_type"
| "type_of_body (op_update_balance_vote _) = update_balance_vote_op_type"
| "type_of_body (op_set_object _) = set_object_op_type"
| "type_of_body (op_authorize _) = authorize_op_type"
| "type_of_body (op_update_asset_ext _) = update_asset_ext_op_type"
| "type_of_body (op_set_edge _) = set_edge_op_type"

text \<open>The types registered with the factory when the library is loaded.\<close>

definition registered_operations :: "operation_type_enum list" where
  "registered_operations =
    [withdraw_op_type, deposit_op_type,
     register_account_op_type, update_account_op_type, withdraw_pay_op_type,
     create_asset_op_type, update_asset_op_type, issue_asset_op_type,
     bid_op_type, ask_op_type, short_op_v2_type, short_op_type, cover_op_type, add_collateral_op_type,
     define_delegate_slate_op_type, update_feed_op_type, burn_op_type, release_escrow_op_type,
     update_block_signing_key_type, relative_bid_op_type, relative_ask_op_type,
     update_balance_vote_op_type, set_object_op_type, authorize_op_type,
     update_asset_ext_op_type, create_asset_prop_op_type, set_edge_op_type]"

section \<open>Transactions\<close>

record transaction =
  trx_expiration :: time_point_sec
  delegate_slate_id :: "slate_id_type option"
  operations :: "operation list"

record signed_transaction = transaction +
  signatures :: "signature_type list"

record fc_ops = fc_cond +
  pack_op :: "operation_body \<Rightarrow> bytes"
  unpack_op :: "operation_type_enum \<Rightarrow> bytes \<Rightarrow> operation_body res"
  pack_transaction :: "transaction \<Rightarrow> bytes"
  pack_signed_transaction :: "signed_transaction \<Rightarrow> bytes"
  pack_sha256 :: "digest_type \<Rightarrow> bytes"
  pack_slate :: "delegate_slate \<Rightarrow> bytes"
  variant_as_price :: "variant \<Rightarrow> price res"
  sha256_word0 :: "bytes \<Rightarrow> uint64"

text \<open>What the code relies on: unpacking at the type of the payload inverts packing.\<close>

definition pack_op_law :: "'z fc_ops_scheme \<Rightarrow> bool" where
  "pack_op_law F = (\<forall>b. unpack_op F (type_of_body b) (pack_op F b) = Inr b)"

definition operation_of :: "'z fc_ops_scheme \<Rightarrow> operation_body \<Rightarrow> operation" where
  "operation_of F t = \<lparr> op_type = type_of_body t, op_data = pack_op F t \<rparr>"

text \<open>\<^verbatim>\<open>operation::as<T>\<close> for the payload type \<open>t\<close>; the source asserts that the tags agree.\<close>

definition operation_as :: "'z fc_ops_scheme \<Rightarrow> operation_type_enum \<Rightarrow> operation \<Rightarrow> operation_body res" where
  "operation_as F t op =
    (if op_type op \<noteq> t then Inl assert_exception else unpack_op F t (op_data op))"

definition transaction_digest :: "'z fc_ops_scheme \<Rightarrow> ('a) transaction_scheme \<Rightarrow> digest_type \<Rightarrow> digest_type" where
  "transaction_digest F trx chain_id =
    sha256_hash F (pack_transaction F (transaction.truncate trx) @ pack_sha256 F chain_id)"

definition signed_transaction_id :: "'z fc_ops_scheme \<Rightarrow> signed_transaction \<Rightarrow> transaction_id_type" where
  "signed_transaction_id F trx = ripemd160_hash F (sha512_hash F (pack_signed_transaction F trx))"

definition data_size :: "'z fc_ops_scheme \<Rightarrow> signed_transaction \<Rightarrow> nat" where
  "data_size F trx = length (pack_signed_transaction F trx)"

definition slate_id :: "'z fc_ops_scheme \<Rightarrow> delegate_slate \<Rightarrow> slate_id_type" where
  "slate_id F s =
    (if length (supported_delegates s) = 0 then 0
     else sha256_word0 F (sha256_hash F (pack_slate F s)))"

section \<open>Building transactions\<close>

definition append_op :: "'z fc_ops_scheme \<Rightarrow> operation_body \<Rightarrow> 'a transaction_scheme \<Rightarrow> 'a transaction_scheme" where
  "append_op F t trx = trx\<lparr> operations := operations trx @ [operation_of F t] \<rparr>"

definition trx_define_delegate_slate ::
  "'z fc_ops_scheme \<Rightarrow> delegate_slate \<Rightarrow> 'a transaction_scheme \<Rightarrow> 'a transaction_scheme res" where
  "trx_define_delegate_slate F s trx =
    (if \<not> length (supported_delegates s) > 0 then Inl assert_exception
     else Inr (append_op F (op_define_delegate_slate \<lparr> slate = s \<rparr>) trx))"

definition trx_burn ::
  "'z fc_ops_scheme \<Rightarrow> asset \<Rightarrow> account_id_type \<Rightarrow> string \<Rightarrow> signature_type option
    \<Rightarrow> 'a transaction_scheme \<Rightarrow> 'a transaction_scheme res" where
  "trx_burn F quantity for_or_against message sig trx =
    (if message \<noteq> [] \<and> asset_id quantity \<noteq> 0 then Inl assert_exception
     else Inr (append_op F (op_burn \<lparr> bo_amount = quantity, bo_account_id = for_or_against,
                 bo_message = message, message_signature = sig \<rparr>) trx))"

definition trx_bid ::
  "'z fc_ops_scheme \<Rightarrow> asset \<Rightarrow> price \<Rightarrow> address \<Rightarrow> 'a transaction_scheme \<Rightarrow> 'a transaction_scheme" where
  "trx_bid F quantity price_per_unit owner =
    append_op F (op_bid \<lparr> bid_amount = amount quantity,
      bid_index = \<lparr> order_price = price_per_unit, mk_owner = owner \<rparr> \<rparr>)"

definition trx_ask ::
  "'z fc_ops_scheme \<Rightarrow> asset \<Rightarrow> price \<Rightarrow> address \<Rightarrow> 'a transaction_scheme \<Rightarrow> 'a transaction_scheme" where
  "trx_ask F quantity price_per_unit owner =
    append_op F (op_ask \<lparr> ask_amount = amount quantity,
      ask_index = \<lparr> order_price = price_per_unit, mk_owner = owner \<rparr> \<rparr>)"

definition trx_relative_bid ::
  "'z fc_ops_scheme \<Rightarrow> asset \<Rightarrow> price \<Rightarrow> price option \<Rightarrow> address
    \<Rightarrow> 'a transaction_scheme \<Rightarrow> 'a transaction_scheme" where
  "trx_relative_bid F quantity delta_price_per_unit limit owner =
    append_op F (op_relative_bid \<lparr> rbid_amount = amount quantity,
      rbid_index = \<lparr> order_price = delta_price_per_unit, mk_owner = owner \<rparr>, rbid_limit_price = limit \<rparr>)"

definition trx_relative_ask ::
  "'z fc_ops_scheme \<Rightarrow> asset \<Rightarrow> price \<Rightarrow> price option \<Rightarrow> address
    \<Rightarrow> 'a transaction_scheme \<Rightarrow> 'a transaction_scheme" where
  "trx_relative_ask F quantity delta_price_per_unit limit owner =
    append_op F (op_relative_ask \<lparr> rask_amount = amount quantity,
      rask_index = \<lparr> order_price = delta_price_per_unit, mk_owner = owner \<rparr>, rask_limit_price = limit \<rparr>)"

definition trx_short_sell ::
  "'z fc_ops_scheme \<Rightarrow> asset \<Rightarrow> price \<Rightarrow> address \<Rightarrow> price option
    \<Rightarrow> 'a transaction_scheme \<Rightarrow> 'a transaction_scheme" where
  "trx_short_sell F quantity rate owner limit =
    append_op F (op_short \<lparr> short_amount = amount quantity,
      short_index = \<lparr> order_price = rate, mk_owner = owner \<rparr>, short_limit_price = limit \<rparr>)"

definition trx_withdraw ::
  "'z fc_ops_scheme \<Rightarrow> balance_id_type \<Rightarrow> share_type \<Rightarrow> 'a transaction_scheme \<Rightarrow> 'a transaction_scheme res" where
  "trx_withdraw F account amt trx =
    (if \<not> 0 <s amt then Inl assert_exception
     else Inr (append_op F (op_withdraw \<lparr> wo_balance_id = account, wo_amount = amt,
                 claim_input_data = [] \<rparr>) trx))"

definition trx_withdraw_pay ::
  "'z fc_ops_scheme \<Rightarrow> account_id_type \<Rightarrow> share_type \<Rightarrow> 'a transaction_scheme \<Rightarrow> 'a transaction_scheme res" where
  "trx_withdraw_pay F account amt trx =
    (if \<not> 0 <s amt then Inl assert_exception
     else Inr (append_op F (op_withdraw_pay \<lparr> wp_amount = amt, wp_account_id = account \<rparr>) trx))"

definition mk_deposit_operation ::
  "'z fc_ops_scheme \<Rightarrow> address \<Rightarrow> asset \<Rightarrow> slate_id_type \<Rightarrow> deposit_operation res" where
  "mk_deposit_operation F owner amnt sl =
    (if \<not> 0 <s amount amnt then Inl assert_exception
     else Inr \<lparr> do_amount = amount amnt,
       do_condition = signature_condition F \<lparr> ws_owner = owner, ws_memo = None \<rparr> (asset_id amnt) sl \<rparr>)"

definition trx_deposit ::
  "'z fc_ops_scheme \<Rightarrow> address \<Rightarrow> asset \<Rightarrow> slate_id_type \<Rightarrow> 'a transaction_scheme \<Rightarrow> 'a transaction_scheme res" where
  "trx_deposit F owner amnt sl trx =
    (if \<not> 0 <s amount amnt then Inl assert_exception
     else bindE (mk_deposit_operation F owner amnt sl) (\<lambda>d. Inr (append_op F (op_deposit d) trx)))"

definition trx_deposit_multisig ::
  "'z fc_ops_scheme \<Rightarrow> multisig_meta_info \<Rightarrow> asset \<Rightarrow> slate_id_type
    \<Rightarrow> 'a transaction_scheme \<Rightarrow> 'a transaction_scheme res" where
  "trx_deposit_multisig F multsig_info amnt sl trx =
    (if \<not> 0 <s amount amnt then Inl assert_exception
     else Inr (append_op F (op_deposit \<lparr> do_amount = amount amnt,
       do_condition = multisig_withdraw_condition F
         \<lparr> wm_required = required multsig_info, wm_owners = mm_owners multsig_info, wm_memo = None \<rparr>
         (asset_id amnt) sl \<rparr>) trx))"

definition trx_release_escrow ::
  "'z fc_ops_scheme \<Rightarrow> address \<Rightarrow> address \<Rightarrow> share_type \<Rightarrow> share_type
    \<Rightarrow> 'a transaction_scheme \<Rightarrow> 'a transaction_scheme" where
  "trx_release_escrow F escrow_account by_addr to_sender to_receiver =
    append_op F (op_release_escrow \<lparr> escrow_id = escrow_account, released_by = by_addr,
      amount_to_receiver = to_receiver, amount_to_sender = to_sender \<rparr>)"

definition trx_register_account ::
  "'z fc_ops_scheme \<Rightarrow> string \<Rightarrow> variant \<Rightarrow> public_key_type \<Rightarrow> public_key_type \<Rightarrow> 8 word
    \<Rightarrow> account_meta_info option \<Rightarrow> 'a transaction_scheme \<Rightarrow> 'a transaction_scheme" where
  "trx_register_account F n pdata master active rate meta_inf =
    append_op F (op_register_account \<lparr> ra_name = n, ra_public_data = pdata, ra_owner_key = master,
      ra_active_key = active, ra_delegate_pay_rate = rate, ra_meta_data = meta_inf \<rparr>)"

definition trx_update_account ::
  "'z fc_ops_scheme \<Rightarrow> account_id_type \<Rightarrow> 8 word \<Rightarrow> variant option \<Rightarrow> public_key_type option
    \<Rightarrow> 'a transaction_scheme \<Rightarrow> 'a transaction_scheme" where
  "trx_update_account F account rate pdata active =
    append_op F (op_update_account \<lparr> ua_account_id = account, ua_public_data = pdata,
      ua_active_key = active, ua_delegate_pay_rate = rate \<rparr>)"

definition trx_create_asset ::
  "'z fc_ops_scheme \<Rightarrow> string \<Rightarrow> string \<Rightarrow> string \<Rightarrow> variant \<Rightarrow> account_id_type \<Rightarrow> share_type \<Rightarrow> uint64
    \<Rightarrow> 'a transaction_scheme \<Rightarrow> 'a transaction_scheme res" where
  "trx_create_asset F symb n descr data issuer_id max_share_supply prec trx =
    (if \<not> 0 <s max_share_supply then Inl assert_exception
     else if \<not> sint max_share_supply \<le> BTS_BLOCKCHAIN_MAX_SHARES then Inl assert_exception
     else Inr (append_op F (op_create_asset \<lparr> ca_symbol = symb, ca_name = n, ca_description = descr,
       ca_public_data = data, ca_issuer_account_id = issuer_id,
       ca_maximum_share_supply = max_share_supply, ca_precision = prec \<rparr>) trx))"

definition trx_issue :: "'z fc_ops_scheme \<Rightarrow> asset \<Rightarrow> 'a transaction_scheme \<Rightarrow> 'a transaction_scheme" where
  "trx_issue F amount_to_issue = append_op F (op_issue_asset \<lparr> ia_amount = amount_to_issue \<rparr>)"

definition trx_cover ::
  "'z fc_ops_scheme \<Rightarrow> asset \<Rightarrow> market_index_key \<Rightarrow> 'a transaction_scheme \<Rightarrow> 'a transaction_scheme" where
  "trx_cover F cover_amnt order_idx =
    append_op F (op_cover \<lparr> cover_amount = amount cover_amnt, cover_index = order_idx, new_cover_price = None \<rparr>)"

definition trx_add_collateral ::
  "'z fc_ops_scheme \<Rightarrow> share_type \<Rightarrow> market_index_key \<Rightarrow> 'a transaction_scheme \<Rightarrow> 'a transaction_scheme" where
  "trx_add_collateral F collateral_amount order_idx =
    append_op F (op_add_collateral \<lparr> ac_amount = collateral_amount, ac_cover_index = order_idx \<rparr>)"

definition trx_publish_feed ::
  "'z fc_ops_scheme \<Rightarrow> feed_id_type \<Rightarrow> account_id_type \<Rightarrow> variant
    \<Rightarrow> 'a transaction_scheme \<Rightarrow> 'a transaction_scheme" where
  "trx_publish_feed F fid delegate v =
    append_op F (op_update_feed \<lparr> uf_feed = \<lparr> feed_id = fid, fi_delegate_id = delegate \<rparr>, uf_value = v \<rparr>)"

definition trx_update_signing_key ::
  "'z fc_ops_scheme \<Rightarrow> account_id_type \<Rightarrow> public_key_type \<Rightarrow> 'a transaction_scheme \<Rightarrow> 'a transaction_scheme" where
  "trx_update_signing_key F account key =
    append_op F (op_update_block_signing_key \<lparr> ubsk_account_id = account, block_signing_key = key \<rparr>)"

definition trx_authorize_key ::
  "'z fc_ops_scheme \<Rightarrow> asset_id_type \<Rightarrow> address \<Rightarrow> object_id_type
    \<Rightarrow> 'a transaction_scheme \<Rightarrow> 'a transaction_scheme" where
  "trx_authorize_key F aid owner meta =
    append_op F (op_authorize \<lparr> au_asset_id = aid, au_owner = owner, meta_id = meta \<rparr>)"

text \<open>\<^verbatim>\<open>transaction::is_cancel\<close>: the amount of an order operation, read from the payload.\<close>

fun order_amount :: "operation_body \<Rightarrow> share_type option" where
  "order_amount (op_bid b) = Some (bid_amount b)"
| "order_amount (op_ask a) = Some (ask_amount a)"
| "order_amount (op_short s) = Some (short_amount s)"
| "order_amount (op_short_v1 s) = Some (short1_amount s)"
| "order_amount _ = None"

definition is_cancel_op :: "'z fc_ops_scheme \<Rightarrow> operation \<Rightarrow> bool res" where
  "is_cancel_op F op =
    (if op_type op \<in> {bid_op_type, ask_op_type, short_op_type, short_op_v2_type}
     then bindE (operation_as F (op_type op) op) (\<lambda>b.
       Inr (case order_amount b of None \<Rightarrow> False | Some a \<Rightarrow> a <s 0))
     else Inr False)"

fun is_cancel_ops :: "'z fc_ops_scheme \<Rightarrow> operation list \<Rightarrow> bool res" where
  "is_cancel_ops F [] = Inr False"
| "is_cancel_ops F (op # ops) =
    bindE (is_cancel_op F op) (\<lambda>c. if c then Inr True else is_cancel_ops F ops)"

definition is_cancel :: "'z fc_ops_scheme \<Rightarrow> 'a transaction_scheme \<Rightarrow> bool res" where
  "is_cancel F trx = is_cancel_ops F (operations trx)"

section \<open>A concrete instance of the serialisation\<close>

text \<open>Operations are packed as their position in a given list of payloads, so that concrete
  transactions over that list can be evaluated.\<close>

definition fc_ref_ops :: "operation_body list \<Rightarrow> fc_ops" where
  "fc_ref_ops bodies = fc_cond.extend fc_ref_cond \<lparr>
     pack_op = (\<lambda>b. replicate (length (takeWhile (\<lambda>x. x \<noteq> b) bodies)) (CHR ''o'')),
     unpack_op = (\<lambda>t d. if length d < length bodies \<and> type_of_body (bodies ! length d) = t
       then Inr (bodies ! length d) else Inl fc_exception),
     pack_transaction = (\<lambda>t. concat (map (\<lambda>o'. CHR ''.'' # op_data o') (operations t))),
     pack_signed_transaction = (\<lambda>t. concat (map (\<lambda>o'. CHR ''.'' # op_data o') (operations t)) @ concat (signatures t)),
     pack_sha256 = (\<lambda>d. d),
     pack_slate = (\<lambda>s. map (\<lambda>i. CHR ''d'') (supported_delegates s)),
     variant_as_price = (\<lambda>v. Inl fc_exception),
     sha256_word0 = (\<lambda>d. of_nat (length d)) \<rparr>"

section \<open>Lemmas\<close>

lemma build_then_read:
  assumes "pack_op_law F"
  shows "operation_as F (type_of_body b) (last (operations (append_op F b trx))) = Inr b"
  using assms by (simp add: pack_op_law_def append_op_def operation_as_def operation_of_def)

lemma registered_type_of_body: "type_of_body b \<in> set registered_operations"
  by (cases b) (simp_all add: registered_operations_def)

end
