(* ===== verification/Chain_State.thy ===== *)
theory Chain_State
  imports Transaction
begin

text \<open>
  The state of the chain: \<^verbatim>\<open>chain_database\<close> with its tables
  (\<^verbatim>\<open>chain_database_impl.hpp\<close>, the record functions of \<^verbatim>\<open>chain_database.cpp\<close>) and
  \<^verbatim>\<open>pending_chain_state\<close>, a set of changes on top of a previous state. A \<open>chain\<close> is what
  a \<^verbatim>\<open>chain_interface_ptr\<close> refers to: the database, or a pending state with the state
  below it. Reading a record looks into the top state first and falls through; storing
  one changes the top state only.

  Every table is an association list; \<^verbatim>\<open>level_map\<close> and \<^verbatim>\<open>cached_level_map\<close> appear by what
  they promise (\<^verbatim>\<open>remove\<close> of a missing key does nothing, \<^verbatim>\<open>fetch\<close> of one throws).
\<close>

section \<open>Records of the database\<close>

datatype chain_property_enum =
    last_asset_id_property
  | last_account_id_property
  | last_random_seed_id_property
  | active_delegate_list_id_property
  | chain_id_property
  | confirmation_requirement_property
  | database_version_property
  | dirty_markets_property
  | last_feed_id_property
  | last_object_id_property

text \<open>Of a \<^verbatim>\<open>transaction_record\<close> the chain reads the transaction only; the remaining
  fields are a copy of the evaluation state for clients.\<close>

record transaction_record =
  trx :: signed_transaction
  chain_location :: "uint32 \<times> uint32"

record slot_record =
  slot_start_time :: time_point_sec
  block_producer_id :: account_id_type
  slot_block_id :: "bytes option"

definition slot_record_default :: slot_record where
  "slot_record_default = \<lparr> slot_start_time = 0, block_producer_id = 0, slot_block_id = None \<rparr>"

definition slot_is_null :: "slot_record \<Rightarrow> bool" where
  "slot_is_null r = (slot_start_time r = 0)"

record vote_del =
  vd_votes :: share_type
  vd_delegate_id :: account_id_type

definition vote_del_less :: "vote_del \<Rightarrow> vote_del \<Rightarrow> bool" where
  "vote_del_less a b =
    (if vd_votes a \<noteq> vd_votes b then vd_votes b <s vd_votes a
     else vd_delegate_id a < vd_delegate_id b)"

record chain_database =
  chain_id :: digest_type
  track_stats :: bool
  wall_clock :: time_point_sec
  head_block_num :: uint32
  head_block_timestamp :: time_point_sec
  asset_db :: "(asset_id_type \<times> asset_record) list"
  symbol_index_db :: "(string \<times> asset_id_type) list"
  balance_db :: "(balance_id_type \<times> balance_record) list"
  account_db :: "(account_id_type \<times> account_record) list"
  account_index_db :: "(string \<times> account_id_type) list"
  address_to_account_db :: "(address \<times> account_id_type) list"
  delegate_vote_index_db :: "vote_del list"
  slot_record_db :: "(time_point_sec \<times> slot_record) list"
  burn_db :: "(burn_record_key \<times> burn_record_value) list"
  ask_db :: "(market_index_key \<times> order_record) list"
  bid_db :: "(market_index_key \<times> order_record) list"
  relative_ask_db :: "(market_index_key \<times> order_record) list"
  relative_bid_db :: "(market_index_key \<times> order_record) list"
  short_db :: "(market_index_key \<times> order_record) list"
  collateral_db :: "(market_index_key \<times> collateral_record) list"
  collateral_expiration_index :: "expiration_index list"
  feed_db :: "(feed_index \<times> feed_record) list"
  auth_db :: "((asset_id_type \<times> address) \<times> object_id_type) list"
  asset_proposal_db :: "((asset_id_type \<times> proposal_id_type) \<times> proposal_record) list"
  market_status_db :: "((asset_id_type \<times> asset_id_type) \<times> market_status) list"
  market_history_db :: "(market_history_key \<times> market_history_record) list"
  recent_operations_db :: "(operation_type_enum \<times> operation list) list"
  slate_db :: "(slate_id_type \<times> delegate_slate) list"
  property_db :: "(chain_property_enum \<times> variant) list"
  market_transactions_db :: "(uint32 \<times> market_transaction list) list"
  unique_transactions_db :: "(time_point_sec \<times> digest_type list) list"
  id_to_transaction_record_db :: "(transaction_id_type \<times> transaction_record) list"
  address_to_trx_index :: "(address \<times> transaction_id_type) list"

record pending_chain_state =
  market_transactions :: "market_transaction list"
  assets :: "(asset_id_type \<times> asset_record) list"
  slates :: "(slate_id_type \<times> delegate_slate) list"
  accounts :: "(account_id_type \<times> account_record) list"
  balances :: "(balance_id_type \<times> balance_record) list"
  account_id_index :: "(string \<times> account_id_type) list"
  symbol_id_index :: "(string \<times> asset_id_type) list"
  transactions :: "(transaction_id_type \<times> transaction_record) list"
  unique_transactions :: "digest_type list"
  properties :: "(chain_property_enum \<times> variant) list"
  key_to_account :: "(address \<times> account_id_type) list"
  bids :: "(market_index_key \<times> order_record) list"
  asks :: "(market_index_key \<times> order_record) list"
  shorts :: "(market_index_key \<times> order_record) list"
  collaterals :: "(market_index_key \<times> collateral_record) list"
  slots :: "(time_point_sec \<times> slot_record) list"
  market_history :: "(market_history_key \<times> market_history_record) list"
  market_statuses :: "((asset_id_type \<times> asset_id_type) \<times> market_status) list"
  recent_operations :: "(operation_type_enum \<times> operation list) list"
  feeds :: "(feed_index \<times> feed_record) list"
  burns :: "(burn_record_key \<times> burn_record_value) list"
  relative_bids :: "(market_index_key \<times> order_record) list"
  relative_asks :: "(market_index_key \<times> order_record) list"
  authorizations :: "((asset_id_type \<times> address) \<times> object_id_type) list"
  asset_proposals :: "((asset_id_type \<times> proposal_id_type) \<times> proposal_record) list"
  dirty_markets :: "(asset_id_type \<times> asset_id_type) list"

definition pending_empty :: pending_chain_state where
  "pending_empty =
    \<lparr> market_transactions = [], assets = [], slates = [], accounts = [], balances = [],
      account_id_index = [], symbol_id_index = [], transactions = [], unique_transactions = [],
      properties = [], key_to_account = [], bids = [], asks = [], shorts = [], collaterals = [],
      slots = [], market_history = [], market_statuses = [], recent_operations = [], feeds = [],
      burns = [], relative_bids = [], relative_asks = [], authorizations = [],
      asset_proposals = [], dirty_markets = [] \<rparr>"

datatype chain = DB chain_database | Pending pending_chain_state chain

text \<open>\<^verbatim>\<open>pending_chain_state(prev_state)\<close>: a fresh pending state.\<close>

abbreviation fresh_pending :: "chain \<Rightarrow> chain" where
  "fresh_pending prev \<equiv> Pending pending_empty prev"

text \<open>A database with no records, the ground of the examples.\<close>

definition db_empty :: chain_database where
  "db_empty =
    \<lparr> chain_id = [], track_stats = True, wall_clock = 0, head_block_num = 0, head_block_timestamp = 0,
      asset_db = [], symbol_index_db = [], balance_db = [], account_db = [], account_index_db = [],
      address_to_account_db = [], delegate_vote_index_db = [], slot_record_db = [], burn_db = [],
      ask_db = [], bid_db = [], relative_ask_db = [], relative_bid_db = [], short_db = [],
      collateral_db = [], collateral_expiration_index = [], feed_db = [], auth_db = [],
      asset_proposal_db = [], market_status_db = [], market_history_db = [],
      recent_operations_db = [], slate_db = [], property_db = [], market_transactions_db = [],
      unique_transactions_db = [], id_to_transaction_record_db = [], address_to_trx_index = [] \<rparr>"

end
