(* ===== verification/Chain_Access.thy ===== *)
theory Chain_Access
  imports Chain_State
begin

text \<open>
  Reading and storing records: the \<^verbatim>\<open>get_*\<close>, \<^verbatim>\<open>fetch_*\<close>, \<^verbatim>\<open>store_*\<close> and \<^verbatim>\<open>set_*\<close> functions of
  \<^verbatim>\<open>chain_interface\<close>. Each has two implementations: the one of \<^verbatim>\<open>chain_database\<close>
  (\<^verbatim>\<open>chain_database.cpp\<close>) is the definition with the prefix \<open>db_\<close>, the one of
  \<^verbatim>\<open>pending_chain_state\<close> (\<^verbatim>\<open>pending_chain_state.cpp\<close>) is the second equation of the function
  of the source's name, whose first equation stands for the virtual call. The database
  removes a record that is null; a pending state keeps it, so that the removal reaches
  the database when the changes are applied.
\<close>

named_theorems db_defs \<open>the database implementations\<close>

section \<open>Time and height\<close>

definition BTS_BLOCKCHAIN_BLOCK_INTERVAL_SEC :: uint32 where
  "BTS_BLOCKCHAIN_BLOCK_INTERVAL_SEC = 10"

definition get_slot_number :: "time_point_sec \<Rightarrow> uint32" where
  "get_slot_number timestamp = timestamp div BTS_BLOCKCHAIN_BLOCK_INTERVAL_SEC"

definition get_slot_start_time :: "uint32 \<Rightarrow> time_point_sec" where
  "get_slot_start_time slot_number = slot_number * BTS_BLOCKCHAIN_BLOCK_INTERVAL_SEC"

fun get_head_block_num :: "chain \<Rightarrow> uint32" where
  "get_head_block_num (DB d) = head_block_num d"
| "get_head_block_num (Pending p prev) = get_head_block_num prev"

definition db_now :: "chain_database \<Rightarrow> time_point_sec" where
  "db_now d =
    (if head_block_num d \<le> 0
     then get_slot_start_time (get_slot_number (wall_clock d) - 1)
     else head_block_timestamp d)"

fun now :: "chain \<Rightarrow> time_point_sec" where
  "now (DB d) = db_now d"
| "now (Pending p prev) = now prev"

section \<open>Reading records\<close>

definition db_get_asset_record :: "chain_database \<Rightarrow> asset_id_type \<Rightarrow> asset_record option" where [db_defs]:
  "db_get_asset_record d k = map_of (asset_db d) k"

fun get_asset_record :: "chain \<Rightarrow> asset_id_type \<Rightarrow> asset_record option" where
  "get_asset_record (DB d) k = db_get_asset_record d k"
| "get_asset_record (Pending p prev) k =
    (case map_of (assets p) k of Some r \<Rightarrow> Some r | None \<Rightarrow> get_asset_record prev k)"

definition db_get_balance_record :: "chain_database \<Rightarrow> balance_id_type \<Rightarrow> balance_record option" where [db_defs]:
  "db_get_balance_record d k = map_of (balance_db d) k"

fun get_balance_record :: "chain \<Rightarrow> balance_id_type \<Rightarrow> balance_record option" where
  "get_balance_record (DB d) k = db_get_balance_record d k"
| "get_balance_record (Pending p prev) k =
    (case map_of (balances p) k of Some r \<Rightarrow> Some r | None \<Rightarrow> get_balance_record prev k)"

definition db_get_account_record :: "chain_database \<Rightarrow> account_id_type \<Rightarrow> account_record option" where [db_defs]:
  "db_get_account_record d k = map_of (account_db d) k"

fun get_account_record :: "chain \<Rightarrow> account_id_type \<Rightarrow> account_record option" where
  "get_account_record (DB d) k = db_get_account_record d k"
| "get_account_record (Pending p prev) k =
    (case map_of (accounts p) k of Some r \<Rightarrow> Some r | None \<Rightarrow> get_account_record prev k)"

definition db_get_delegate_slate :: "chain_database \<Rightarrow> slate_id_type \<Rightarrow> delegate_slate option" where [db_defs]:
  "db_get_delegate_slate d k = map_of (slate_db d) k"

fun get_delegate_slate :: "chain \<Rightarrow> slate_id_type \<Rightarrow> delegate_slate option" where
  "get_delegate_slate (DB d) k = db_get_delegate_slate d k"
| "get_delegate_slate (Pending p prev) k =
    (case map_of (slates p) k of Some r \<Rightarrow> Some r | None \<Rightarrow> get_delegate_slate prev k)"

definition db_get_bid_record :: "chain_database \<Rightarrow> market_index_key \<Rightarrow> order_record option" where [db_defs]:
  "db_get_bid_record d k = map_of (bid_db d) k"

fun get_bid_record :: "chain \<Rightarrow> market_index_key \<Rightarrow> order_record option" where
  "get_bid_record (DB d) k = db_get_bid_record d k"
| "get_bid_record (Pending p prev) k =
    (case map_of (bids p) k of Some r \<Rightarrow> Some r | None \<Rightarrow> get_bid_record prev k)"

definition db_get_ask_record :: "chain_database \<Rightarrow> market_index_key \<Rightarrow> order_record option" where [db_defs]:
  "db_get_ask_record d k = map_of (ask_db d) k"

fun get_ask_record :: "chain \<Rightarrow> market_index_key \<Rightarrow> order_record option" where
  "get_ask_record (DB d) k = db_get_ask_record d k"
| "get_ask_record (Pending p prev) k =
    (case map_of (asks p) k of Some r \<Rightarrow> Some r | None \<Rightarrow> get_ask_record prev k)"

definition db_get_relative_bid_record :: "chain_database \<Rightarrow> market_index_key \<Rightarrow> order_record option" where [db_defs]:
  "db_get_relative_bid_record d k = map_of (relative_bid_db d) k"

fun get_relative_bid_record :: "chain \<Rightarrow> market_index_key \<Rightarrow> order_record option" where
  "get_relative_bid_record (DB d) k = db_get_relative_bid_record d k"
| "get_relative_bid_record (Pending p prev) k =
    (case map_of (relative_bids p) k of Some r \<Rightarrow> Some r | None \<Rightarrow> get_relative_bid_record prev k)"

definition db_get_relative_ask_record :: "chain_database \<Rightarrow> market_index_key \<Rightarrow> order_record option" where [db_defs]:
  "db_get_relative_ask_record d k = map_of (relative_ask_db d) k"

fun get_relative_ask_record :: "chain \<Rightarrow> market_index_key \<Rightarrow> order_record option" where
  "get_relative_ask_record (DB d) k = db_get_relative_ask_record d k"
| "get_relative_ask_record (Pending p prev) k =
    (case map_of (relative_asks p) k of Some r \<Rightarrow> Some r | None \<Rightarrow> get_relative_ask_record prev k)"

definition db_get_short_record :: "chain_database \<Rightarrow> market_index_key \<Rightarrow> order_record option" where [db_defs]:
  "db_get_short_record d k = map_of (short_db d) k"

fun get_short_record :: "chain \<Rightarrow> market_index_key \<Rightarrow> order_record option" where
  "get_short_record (DB d) k = db_get_short_record d k"
| "get_short_record (Pending p prev) k =
    (case map_of (shorts p) k of Some r \<Rightarrow> Some r | None \<Rightarrow> get_short_record prev k)"

definition db_get_collateral_record :: "chain_database \<Rightarrow> market_index_key \<Rightarrow> collateral_record option" where [db_defs]:
  "db_get_collateral_record d k = map_of (collateral_db d) k"

fun get_collateral_record :: "chain \<Rightarrow> market_index_key \<Rightarrow> collateral_record option" where
  "get_collateral_record (DB d) k = db_get_collateral_record d k"
| "get_collateral_record (Pending p prev) k =
    (case map_of (collaterals p) k of Some r \<Rightarrow> Some r | None \<Rightarrow> get_collateral_record prev k)"

definition db_get_feed :: "chain_database \<Rightarrow> feed_index \<Rightarrow> feed_record option" where [db_defs]:
  "db_get_feed d k = map_of (feed_db d) k"

fun get_feed :: "chain \<Rightarrow> feed_index \<Rightarrow> feed_record option" where
  "get_feed (DB d) k = db_get_feed d k"
| "get_feed (Pending p prev) k =
    (case map_of (feeds p) k of Some r \<Rightarrow> Some r | None \<Rightarrow> get_feed prev k)"

definition db_get_market_status :: "chain_database \<Rightarrow> asset_id_type \<times> asset_id_type \<Rightarrow> market_status option" where [db_defs]:
  "db_get_market_status d k = map_of (market_status_db d) k"

fun get_market_status :: "chain \<Rightarrow> asset_id_type \<times> asset_id_type \<Rightarrow> market_status option" where
  "get_market_status (DB d) k = db_get_market_status d k"
| "get_market_status (Pending p prev) k =
    (case map_of (market_statuses p) k of Some r \<Rightarrow> Some r | None \<Rightarrow> get_market_status prev k)"

definition db_fetch_asset_proposal :: "chain_database \<Rightarrow> asset_id_type \<times> proposal_id_type \<Rightarrow> proposal_record option" where [db_defs]:
  "db_fetch_asset_proposal d k = map_of (asset_proposal_db d) k"

fun fetch_asset_proposal :: "chain \<Rightarrow> asset_id_type \<times> proposal_id_type \<Rightarrow> proposal_record option" where
  "fetch_asset_proposal (DB d) k = db_fetch_asset_proposal d k"
| "fetch_asset_proposal (Pending p prev) k =
    (case map_of (asset_proposals p) k of Some r \<Rightarrow> Some r | None \<Rightarrow> fetch_asset_proposal prev k)"

text \<open>A pending authorization of \<^verbatim>\<open>-1\<close> hides one of the state below.\<close>

definition db_get_authorization :: "chain_database \<Rightarrow> asset_id_type \<times> address \<Rightarrow> object_id_type option" where [db_defs]:
  "db_get_authorization d k = map_of (auth_db d) k"

fun get_authorization :: "chain \<Rightarrow> asset_id_type \<times> address \<Rightarrow> object_id_type option" where
  "get_authorization (DB d) k = db_get_authorization d k"
| "get_authorization (Pending p prev) k =
    (case map_of (authorizations p) k of
       None \<Rightarrow> get_authorization prev k
     | Some oid \<Rightarrow> (if oid \<noteq> - 1 then Some oid else None))"

text \<open>The three look-ups through an index: by symbol, by account name, by key address. The
  identifier found in the index of a state is looked up from that state downwards.\<close>

definition BTS_BLOCKCHAIN_SYMBOL :: string where
  "BTS_BLOCKCHAIN_SYMBOL = ''BTS''"

definition symbol_alias :: "string \<Rightarrow> string" where
  "symbol_alias s = (if s = ''BTSX'' then BTS_BLOCKCHAIN_SYMBOL else s)"

definition db_get_asset_record_by_symbol :: "chain_database \<Rightarrow> string \<Rightarrow> asset_record option" where
  "db_get_asset_record_by_symbol d s =
    (case map_of (symbol_index_db d) (symbol_alias s) of
       None \<Rightarrow> None | Some i \<Rightarrow> db_get_asset_record d i)"

fun get_asset_record_by_symbol :: "chain \<Rightarrow> string \<Rightarrow> asset_record option" where
  "get_asset_record_by_symbol (DB d) s = db_get_asset_record_by_symbol d s"
| "get_asset_record_by_symbol (Pending p prev) s =
    (case map_of (symbol_id_index p) (symbol_alias s) of
       None \<Rightarrow> get_asset_record_by_symbol prev s
     | Some i \<Rightarrow> get_asset_record (Pending p prev) i)"

definition db_get_account_record_by_name :: "chain_database \<Rightarrow> string \<Rightarrow> account_record option" where
  "db_get_account_record_by_name d n =
    (case map_of (account_index_db d) n of
       None \<Rightarrow> None | Some i \<Rightarrow> db_get_account_record d i)"

fun get_account_record_by_name :: "chain \<Rightarrow> string \<Rightarrow> account_record option" where
  "get_account_record_by_name (DB d) n = db_get_account_record_by_name d n"
| "get_account_record_by_name (Pending p prev) n =
    (case map_of (account_id_index p) n of
       None \<Rightarrow> get_account_record_by_name prev n
     | Some i \<Rightarrow> get_account_record (Pending p prev) i)"

definition db_get_account_record_by_address :: "chain_database \<Rightarrow> address \<Rightarrow> account_record option" where
  "db_get_account_record_by_address d a =
    (case map_of (address_to_account_db d) a of
       None \<Rightarrow> None | Some i \<Rightarrow> db_get_account_record d i)"

fun get_account_record_by_address :: "chain \<Rightarrow> address \<Rightarrow> account_record option" where
  "get_account_record_by_address (DB d) a = db_get_account_record_by_address d a"
| "get_account_record_by_address (Pending p prev) a =
    (case map_of (key_to_account p) a of
       None \<Rightarrow> get_account_record_by_address prev a
     | Some i \<Rightarrow> get_account_record (Pending p prev) i)"

definition db_get_property :: "chain_database \<Rightarrow> chain_property_enum \<Rightarrow> variant res" where
  "db_get_property d i =
    (case map_of (property_db d) i of None \<Rightarrow> Inl key_not_found_exception | Some v \<Rightarrow> Inr v)"

fun get_property :: "chain \<Rightarrow> chain_property_enum \<Rightarrow> variant res" where
  "get_property (DB d) i = db_get_property d i"
| "get_property (Pending p prev) i =
    (case map_of (properties p) i of None \<Rightarrow> get_property prev i | Some v \<Rightarrow> Inr v)"

definition db_get_slot_record :: "chain_database \<Rightarrow> time_point_sec \<Rightarrow> slot_record option res" where
  "db_get_slot_record d t =
    (if \<not> track_stats d then Inl assert_exception else Inr (map_of (slot_record_db d) t))"

fun get_slot_record :: "chain \<Rightarrow> time_point_sec \<Rightarrow> slot_record option res" where
  "get_slot_record (DB d) t = db_get_slot_record d t"
| "get_slot_record (Pending p prev) t =
    (case map_of (slots p) t of Some r \<Rightarrow> Inr (Some r) | None \<Rightarrow> get_slot_record prev t)"

text \<open>A pending state does not fall through to the state below here.\<close>

definition db_get_market_history_record ::
  "chain_database \<Rightarrow> market_history_key \<Rightarrow> market_history_record option res" where
  "db_get_market_history_record d k =
    (if \<not> track_stats d then Inl assert_exception else Inr (map_of (market_history_db d) k))"

fun get_market_history_record :: "chain \<Rightarrow> market_history_key \<Rightarrow> market_history_record option res" where
  "get_market_history_record (DB d) k = db_get_market_history_record d k"
| "get_market_history_record (Pending p prev) k = Inr (map_of (market_history p) k)"

definition db_fetch_burn_record :: "chain_database \<Rightarrow> burn_record_key \<Rightarrow> burn_record_value option res" where
  "db_fetch_burn_record d k =
    (if \<not> track_stats d then Inl assert_exception else Inr (map_of (burn_db d) k))"

fun fetch_burn_record :: "chain \<Rightarrow> burn_record_key \<Rightarrow> burn_record_value option res" where
  "fetch_burn_record (DB d) k = db_fetch_burn_record d k"
| "fetch_burn_record (Pending p prev) k =
    (case map_of (burns p) k of Some v \<Rightarrow> Inr (Some v) | None \<Rightarrow> fetch_burn_record prev k)"

text \<open>\<^verbatim>\<open>get_transaction\<close> with \<^verbatim>\<open>exact = true\<close>, as the chain itself calls it.\<close>

definition db_get_transaction ::
  "'z fc_ops_scheme \<Rightarrow> chain_database \<Rightarrow> transaction_id_type \<Rightarrow> transaction_record option res" where
  "db_get_transaction F d i =
    (if \<not> track_stats d then Inl assert_exception
     else case map_of (id_to_transaction_record_db d) i of
       None \<Rightarrow> Inr None
     | Some r \<Rightarrow> (if signed_transaction_id F (trx r) \<noteq> i then Inl assert_exception else Inr (Some r)))"

fun get_transaction :: "'z fc_ops_scheme \<Rightarrow> chain \<Rightarrow> transaction_id_type \<Rightarrow> transaction_record option res" where
  "get_transaction F (DB d) i = db_get_transaction F d i"
| "get_transaction F (Pending p prev) i =
    (case map_of (transactions p) i of Some r \<Rightarrow> Inr (Some r) | None \<Rightarrow> get_transaction F prev i)"

definition db_is_known_transaction :: "chain_database \<Rightarrow> time_point_sec \<Rightarrow> digest_type \<Rightarrow> bool" where
  "db_is_known_transaction d e i =
    (case map_of (unique_transactions_db d) e of None \<Rightarrow> False | Some s \<Rightarrow> i \<in> set s)"

fun is_known_transaction :: "chain \<Rightarrow> time_point_sec \<Rightarrow> digest_type \<Rightarrow> bool" where
  "is_known_transaction (DB d) e i = db_is_known_transaction d e i"
| "is_known_transaction (Pending p prev) e i =
    (if i \<in> set (unique_transactions p) then True else is_known_transaction prev e i)"

definition db_get_recent_operations :: "chain_database \<Rightarrow> operation_type_enum \<Rightarrow> operation list" where
  "db_get_recent_operations d t =
    (case map_of (recent_operations_db d) t of None \<Rightarrow> [] | Some q \<Rightarrow> q)"

fun get_recent_operations :: "chain \<Rightarrow> operation_type_enum \<Rightarrow> operation list" where
  "get_recent_operations (DB d) t = db_get_recent_operations d t"
| "get_recent_operations (Pending p prev) t =
    (case map_of (recent_operations p) t of None \<Rightarrow> [] | Some q \<Rightarrow> q)"

section \<open>Storing records\<close>

definition put_unless :: "bool \<Rightarrow> 'k \<Rightarrow> 'v \<Rightarrow> ('k \<times> 'v) list \<Rightarrow> ('k \<times> 'v) list" where
  "put_unless is_null k v m = (if is_null then AList.delete k m else AList.update k v m)"

definition db_store_asset_record :: "asset_record \<Rightarrow> chain_database \<Rightarrow> chain_database" where [db_defs]:
  "db_store_asset_record r d = 
    (if asset_is_null r
     then d\<lparr> asset_db := AList.delete (asr_id r) (asset_db d),
            symbol_index_db := AList.delete (symbol r) (symbol_index_db d) \<rparr>
     else d\<lparr> asset_db := AList.update (asr_id r) r (asset_db d),
            symbol_index_db := AList.update (symbol r) (asr_id r) (symbol_index_db d) \<rparr>)"

fun store_asset_record :: "asset_record \<Rightarrow> chain \<Rightarrow> chain" where
  "store_asset_record r (DB d) = DB (db_store_asset_record r d)"
| "store_asset_record r (Pending p prev) =
    Pending (p\<lparr> assets := AList.update (asr_id r) r (assets p) \<rparr>) prev"

definition db_store_balance_record :: "'z fc_cond_scheme \<Rightarrow> balance_record \<Rightarrow> chain_database \<Rightarrow> chain_database" where [db_defs]:
  "db_store_balance_record F r d = d\<lparr> balance_db := AList.update (balance_id F r) r (balance_db d) \<rparr>"

fun store_balance_record :: "'z fc_cond_scheme \<Rightarrow> balance_record \<Rightarrow> chain \<Rightarrow> chain" where
  "store_balance_record F r (DB d) = DB (db_store_balance_record F r d)"
| "store_balance_record F r (Pending p prev) =
    Pending (p\<lparr> balances := AList.update (balance_id F r) r (balances p) \<rparr>) prev"

definition db_store_delegate_slate :: "slate_id_type \<Rightarrow> delegate_slate \<Rightarrow> chain_database \<Rightarrow> chain_database" where [db_defs]:
  "db_store_delegate_slate i s d = 
    d\<lparr> slate_db := put_unless (length (supported_delegates s) = 0) i s (slate_db d) \<rparr>"

fun store_delegate_slate :: "slate_id_type \<Rightarrow> delegate_slate \<Rightarrow> chain \<Rightarrow> chain" where
  "store_delegate_slate i s (DB d) = DB (db_store_delegate_slate i s d)"
| "store_delegate_slate i s (Pending p prev) =
    Pending (p\<lparr> slates := AList.update i s (slates p) \<rparr>) prev"

definition db_store_bid_record :: "market_index_key \<Rightarrow> order_record \<Rightarrow> chain_database \<Rightarrow> chain_database" where [db_defs]:
  "db_store_bid_record k r d = d\<lparr> bid_db := put_unless (order_is_null r) k r (bid_db d) \<rparr>"

fun store_bid_record :: "market_index_key \<Rightarrow> order_record \<Rightarrow> chain \<Rightarrow> chain" where
  "store_bid_record k r (DB d) = DB (db_store_bid_record k r d)"
| "store_bid_record k r (Pending p prev) =
    Pending (p\<lparr> bids := AList.update k r (bids p),
         dirty_markets := List.insert (asset_pair (order_price k)) (dirty_markets p) \<rparr>) prev"

definition db_store_ask_record :: "market_index_key \<Rightarrow> order_record \<Rightarrow> chain_database \<Rightarrow> chain_database" where [db_defs]:
  "db_store_ask_record k r d = d\<lparr> ask_db := put_unless (order_is_null r) k r (ask_db d) \<rparr>"

fun store_ask_record :: "market_index_key \<Rightarrow> order_record \<Rightarrow> chain \<Rightarrow> chain" where
  "store_ask_record k r (DB d) = DB (db_store_ask_record k r d)"
| "store_ask_record k r (Pending p prev) =
    Pending (p\<lparr> asks := AList.update k r (asks p),
         dirty_markets := List.insert (asset_pair (order_price k)) (dirty_markets p) \<rparr>) prev"

definition db_store_relative_bid_record :: "market_index_key \<Rightarrow> order_record \<Rightarrow> chain_database \<Rightarrow> chain_database" where [db_defs]:
  "db_store_relative_bid_record k r d = d\<lparr> relative_bid_db := put_unless (order_is_null r) k r (relative_bid_db d) \<rparr>"

fun store_relative_bid_record :: "market_index_key \<Rightarrow> order_record \<Rightarrow> chain \<Rightarrow> chain" where
  "store_relative_bid_record k r (DB d) = DB (db_store_relative_bid_record k r d)"
| "store_relative_bid_record k r (Pending p prev) =
    Pending (p\<lparr> relative_bids := AList.update k r (relative_bids p),
         dirty_markets := List.insert (asset_pair (order_price k)) (dirty_markets p) \<rparr>) prev"

definition db_store_relative_ask_record :: "market_index_key \<Rightarrow> order_record \<Rightarrow> chain_database \<Rightarrow> chain_database" where [db_defs]:
  "db_store_relative_ask_record k r d = d\<lparr> relative_ask_db := put_unless (order_is_null r) k r (relative_ask_db d) \<rparr>"

fun store_relative_ask_record :: "market_index_key \<Rightarrow> order_record \<Rightarrow> chain \<Rightarrow> chain" where
  "store_relative_ask_record k r (DB d) = DB (db_store_relative_ask_record k r d)"
| "store_relative_ask_record k r (Pending p prev) =
    Pending (p\<lparr> relative_asks := AList.update k r (relative_asks p),
         dirty_markets := List.insert (asset_pair (order_price k)) (dirty_markets p) \<rparr>) prev"

definition db_store_short_record :: "market_index_key \<Rightarrow> order_record \<Rightarrow> chain_database \<Rightarrow> chain_database" where [db_defs]:
  "db_store_short_record k r d = d\<lparr> short_db := put_unless (order_is_null r) k r (short_db d) \<rparr>"

fun store_short_record :: "market_index_key \<Rightarrow> order_record \<Rightarrow> chain \<Rightarrow> chain" where
  "store_short_record k r (DB d) = DB (db_store_short_record k r d)"
| "store_short_record k r (Pending p prev) =
    Pending (p\<lparr> shorts := AList.update k r (shorts p),
         dirty_markets := List.insert (asset_pair (order_price k)) (dirty_markets p) \<rparr>) prev"

text \<open>The expiration index is touched only when the stored expiration changes.\<close>

definition expiration_entry :: "market_index_key \<Rightarrow> time_point_sec \<Rightarrow> expiration_index" where
  "expiration_entry k t =
    \<lparr> ei_quote_id = quote_asset_id (order_price k), ei_expiration = t, ei_key = k \<rparr>"

definition reindex_expiration ::
  "market_index_key \<Rightarrow> collateral_record \<Rightarrow> collateral_record option \<Rightarrow> expiration_index list \<Rightarrow> expiration_index list" where
  "reindex_expiration k r old_record idx =
    (case old_record of
       None \<Rightarrow> idx
     | Some old \<Rightarrow>
         if expiration old \<noteq> expiration r then
           (let idx = removeAll (expiration_entry k (expiration old)) idx
            in if collateral_is_null r then idx else List.insert (expiration_entry k (expiration r)) idx)
         else idx)"

definition db_store_collateral_record :: "market_index_key \<Rightarrow> collateral_record \<Rightarrow> chain_database \<Rightarrow> chain_database" where [db_defs]:
  "db_store_collateral_record k r d = 
    d\<lparr> collateral_expiration_index :=
        reindex_expiration k r (map_of (collateral_db d) k) (collateral_expiration_index d),
      collateral_db := put_unless (collateral_is_null r) k r (collateral_db d) \<rparr>"

fun store_collateral_record :: "market_index_key \<Rightarrow> collateral_record \<Rightarrow> chain \<Rightarrow> chain" where
  "store_collateral_record k r (DB d) = DB (db_store_collateral_record k r d)"
| "store_collateral_record k r (Pending p prev) =
    Pending (p\<lparr> collaterals := AList.update k r (collaterals p),
         dirty_markets := List.insert (asset_pair (order_price k)) (dirty_markets p) \<rparr>) prev"

definition db_set_feed :: "feed_record \<Rightarrow> chain_database \<Rightarrow> chain_database" where [db_defs]:
  "db_set_feed r d = d\<lparr> feed_db := put_unless (feed_is_null r) (feed r) r (feed_db d) \<rparr>"

fun set_feed :: "feed_record \<Rightarrow> chain \<Rightarrow> chain" where
  "set_feed r (DB d) = DB (db_set_feed r d)"
| "set_feed r (Pending p prev) =
    Pending (p\<lparr> feeds := AList.update (feed r) r (feeds p) \<rparr>) prev"

definition db_store_market_status :: "market_status \<Rightarrow> chain_database \<Rightarrow> chain_database" where [db_defs]:
  "db_store_market_status s d = 
    d\<lparr> market_status_db :=
        put_unless (market_status_is_null s) (ms_quote_id s, ms_base_id s) s (market_status_db d) \<rparr>"

fun store_market_status :: "market_status \<Rightarrow> chain \<Rightarrow> chain" where
  "store_market_status s (DB d) = DB (db_store_market_status s d)"
| "store_market_status s (Pending p prev) =
    Pending (p\<lparr> market_statuses := AList.update (ms_quote_id s, ms_base_id s) s (market_statuses p) \<rparr>) prev"

definition db_store_asset_proposal :: "proposal_record \<Rightarrow> chain_database \<Rightarrow> chain_database" where [db_defs]:
  "db_store_asset_proposal r d = 
    d\<lparr> asset_proposal_db := put_unless (info r = - 1) (proposal_key r) r (asset_proposal_db d) \<rparr>"

fun store_asset_proposal :: "proposal_record \<Rightarrow> chain \<Rightarrow> chain" where
  "store_asset_proposal r (DB d) = DB (db_store_asset_proposal r d)"
| "store_asset_proposal r (Pending p prev) =
    Pending (p\<lparr> asset_proposals := AList.update (pr_asset_id r, proposal_id r) r (asset_proposals p) \<rparr>) prev"

definition db_authorize :: "asset_id_type \<times> address \<Rightarrow> object_id_type \<Rightarrow> chain_database \<Rightarrow> chain_database" where [db_defs]:
  "db_authorize k oid d = d\<lparr> auth_db := put_unless (oid = - 1) k oid (auth_db d) \<rparr>"

fun authorize :: "asset_id_type \<times> address \<Rightarrow> object_id_type \<Rightarrow> chain \<Rightarrow> chain" where
  "authorize k oid (DB d) = DB (db_authorize k oid d)"
| "authorize k oid (Pending p prev) =
    Pending (p\<lparr> authorizations := AList.update k oid (authorizations p) \<rparr>) prev"

definition deauthorize :: "asset_id_type \<times> address \<Rightarrow> chain \<Rightarrow> chain" where
  "deauthorize k = authorize k (- 1)"

definition db_set_property :: "chain_property_enum \<Rightarrow> variant \<Rightarrow> chain_database \<Rightarrow> chain_database" where [db_defs]:
  "db_set_property i v d = d\<lparr> property_db := put_unless (v = variant_null) i v (property_db d) \<rparr>"

fun set_property :: "chain_property_enum \<Rightarrow> variant \<Rightarrow> chain \<Rightarrow> chain" where
  "set_property i v (DB d) = DB (db_set_property i v d)"
| "set_property i v (Pending p prev) =
    Pending (p\<lparr> properties := AList.update i v (properties p) \<rparr>) prev"

definition db_store_slot_record :: "slot_record \<Rightarrow> chain_database \<Rightarrow> chain_database" where [db_defs]:
  "db_store_slot_record r d = 
    (if \<not> track_stats d then d
     else d\<lparr> slot_record_db := put_unless (slot_is_null r) (slot_start_time r) r (slot_record_db d) \<rparr>)"

fun store_slot_record :: "slot_record \<Rightarrow> chain \<Rightarrow> chain" where
  "store_slot_record r (DB d) = DB (db_store_slot_record r d)"
| "store_slot_record r (Pending p prev) =
    Pending (p\<lparr> slots := AList.update (slot_start_time r) r (slots p) \<rparr>) prev"

definition db_store_market_history_record :: "market_history_key \<Rightarrow> market_history_record \<Rightarrow> chain_database \<Rightarrow> chain_database" where [db_defs]:
  "db_store_market_history_record k r d = 
    (if \<not> track_stats d then d
     else d\<lparr> market_history_db := put_unless (volume r = 0) k r (market_history_db d) \<rparr>)"

fun store_market_history_record :: "market_history_key \<Rightarrow> market_history_record \<Rightarrow> chain \<Rightarrow> chain" where
  "store_market_history_record k r (DB d) = DB (db_store_market_history_record k r d)"
| "store_market_history_record k r (Pending p prev) =
    Pending (p\<lparr> market_history := AList.update k r (market_history p) \<rparr>) prev"

definition db_store_burn_record :: "burn_record_key \<Rightarrow> burn_record_value \<Rightarrow> chain_database \<Rightarrow> chain_database" where [db_defs]:
  "db_store_burn_record k v d = 
    (if \<not> track_stats d then d
     else d\<lparr> burn_db := put_unless (burn_is_null v) k v (burn_db d) \<rparr>)"

fun store_burn_record :: "burn_record_key \<Rightarrow> burn_record_value \<Rightarrow> chain \<Rightarrow> chain" where
  "store_burn_record k v (DB d) = DB (db_store_burn_record k v d)"
| "store_burn_record k v (Pending p prev) =
    Pending (p\<lparr> burns := AList.update k v (burns p) \<rparr>) prev"

definition db_set_market_dirty :: "asset_id_type \<Rightarrow> asset_id_type \<Rightarrow> chain_database \<Rightarrow> chain_database res" where [db_defs]:
  "db_set_market_dirty quote_id base_id d = Inl assert_exception"

fun set_market_dirty :: "asset_id_type \<Rightarrow> asset_id_type \<Rightarrow> chain \<Rightarrow> chain res" where
  "set_market_dirty quote_id base_id (DB d) = bindE (db_set_market_dirty quote_id base_id d) (\<lambda>d. Inr (DB d))"
| "set_market_dirty quote_id base_id (Pending p prev) =
    Inr (Pending (p\<lparr> dirty_markets := List.insert (quote_id, base_id) (dirty_markets p) \<rparr>) prev)"

definition db_set_market_transactions :: "market_transaction list \<Rightarrow> chain_database \<Rightarrow> chain_database res" where [db_defs]:
  "db_set_market_transactions ts d = 
    (if \<not> track_stats d then Inl assert_exception
     else Inr (d\<lparr> market_transactions_db :=
            put_unless (ts = []) (head_block_num d + 1) ts (market_transactions_db d) \<rparr>))"

fun set_market_transactions :: "market_transaction list \<Rightarrow> chain \<Rightarrow> chain res" where
  "set_market_transactions ts (DB d) = bindE (db_set_market_transactions ts d) (\<lambda>d. Inr (DB d))"
| "set_market_transactions ts (Pending p prev) =
    Inr (Pending (p\<lparr> market_transactions := ts \<rparr>) prev)"

definition db_index_transaction :: "address \<Rightarrow> transaction_id_type \<Rightarrow> chain_database \<Rightarrow> chain_database" where [db_defs]:
  "db_index_transaction a i d =
    (if track_stats d then d\<lparr> address_to_trx_index := List.insert (a, i) (address_to_trx_index d) \<rparr> else d)"

fun index_transaction :: "address \<Rightarrow> transaction_id_type \<Rightarrow> chain \<Rightarrow> chain" where
  "index_transaction a i (DB d) = DB (db_index_transaction a i d)"
| "index_transaction a i (Pending p prev) = Pending p (index_transaction a i prev)"

section \<open>Recent operations\<close>

definition MAX_RECENT_OPERATIONS :: nat where
  "MAX_RECENT_OPERATIONS = 20"

definition push_recent :: "operation \<Rightarrow> operation list \<Rightarrow> operation list" where
  "push_recent o' q =
    (let q = q @ [o'] in if length q > MAX_RECENT_OPERATIONS then tl q else q)"

definition update_recent ::
  "operation \<Rightarrow> (operation_type_enum \<times> operation list) list \<Rightarrow> (operation_type_enum \<times> operation list) list" where
  "update_recent o' m =
    AList.update (op_type o')
      (push_recent o' (case map_of m (op_type o') of None \<Rightarrow> [] | Some q \<Rightarrow> q)) m"

definition db_store_recent_operation :: "operation \<Rightarrow> chain_database \<Rightarrow> chain_database" where [db_defs]:
  "db_store_recent_operation o' d = d\<lparr> recent_operations_db := update_recent o' (recent_operations_db d) \<rparr>"

fun store_recent_operation :: "operation \<Rightarrow> chain \<Rightarrow> chain" where
  "store_recent_operation o' (DB d) = DB (db_store_recent_operation o' d)"
| "store_recent_operation o' (Pending p prev) =
    Pending (p\<lparr> recent_operations := update_recent o' (recent_operations p) \<rparr>) prev"

section \<open>Accounts\<close>

text \<open>The five local functions of \<^verbatim>\<open>chain_database::store_account_record\<close>, in its order.
  \<^verbatim>\<open>remove_record\<close> and \<^verbatim>\<open>store_record\<close> are written as one sequence of table operations each.\<close>

definition db_unindex_address :: "address \<Rightarrow> chain_database \<Rightarrow> chain_database" where [db_defs]:
  "db_unindex_address a d = d\<lparr> address_to_account_db := AList.delete a (address_to_account_db d) \<rparr>"

definition db_index_address :: "address \<Rightarrow> account_id_type \<Rightarrow> chain_database \<Rightarrow> chain_database" where [db_defs]:
  "db_index_address a i d = d\<lparr> address_to_account_db := AList.update a i (address_to_account_db d) \<rparr>"

definition db_unindex_vote :: "share_type \<Rightarrow> account_id_type \<Rightarrow> chain_database \<Rightarrow> chain_database" where [db_defs]:
  "db_unindex_vote v i d = d\<lparr> delegate_vote_index_db :=
     removeAll \<lparr> vd_votes = v, vd_delegate_id = i \<rparr> (delegate_vote_index_db d) \<rparr>"

definition db_index_vote :: "share_type \<Rightarrow> account_id_type \<Rightarrow> chain_database \<Rightarrow> chain_database" where [db_defs]:
  "db_index_vote v i d = d\<lparr> delegate_vote_index_db :=
     List.insert \<lparr> vd_votes = v, vd_delegate_id = i \<rparr> (delegate_vote_index_db d) \<rparr>"

definition db_remove_record :: "'z fc_base_scheme \<Rightarrow> account_record \<Rightarrow> chain_database \<Rightarrow> chain_database res" where
  "db_remove_record F r d =
    (let d = d\<lparr> account_db := AList.delete (ar_id r) (account_db d),
                account_index_db := AList.delete (ar_name r) (account_index_db d) \<rparr>;
         d = db_unindex_address (owner_address F r) d;
         d = (if \<not> is_retracted r then db_unindex_address (active_address F r) d else d)
     in if is_delegate r then
          bindE (signing_address F r) (\<lambda>a.
            let d = db_unindex_address a d
            in if \<not> is_retracted r then bindE (net_votes r) (\<lambda>v. Inr (db_unindex_vote v (ar_id r) d))
               else Inr d)
        else Inr d)"

definition db_store_record :: "'z fc_base_scheme \<Rightarrow> account_record \<Rightarrow> chain_database \<Rightarrow> chain_database res" where
  "db_store_record F r d =
    (let d = d\<lparr> account_db := AList.update (ar_id r) r (account_db d),
                account_index_db := AList.update (ar_name r) (ar_id r) (account_index_db d) \<rparr>;
         d = db_index_address (owner_address F r) (ar_id r) d;
         d = (if \<not> is_retracted r then db_index_address (active_address F r) (ar_id r) d else d)
     in if is_delegate r then
          bindE (signing_address F r) (\<lambda>a.
            let d = db_index_address a (ar_id r) d
            in if \<not> is_retracted r then bindE (net_votes r) (\<lambda>v. Inr (db_index_vote v (ar_id r) d))
               else Inr d)
        else Inr d)"

definition db_index_active_keys ::
  "'z fc_base_scheme \<Rightarrow> account_record \<Rightarrow> account_record \<Rightarrow> chain_database \<Rightarrow> chain_database" where
  "db_index_active_keys F prev_record new_record d =
    (if is_retracted prev_record \<and> is_retracted new_record then d
     else if \<not> is_retracted prev_record \<and> is_retracted new_record
     then db_unindex_address (active_address F prev_record) d
     else if is_retracted prev_record \<and> \<not> is_retracted new_record
     then db_index_address (active_address F new_record) (ar_id new_record) d
     else if active_address F prev_record \<noteq> active_address F new_record
     then db_index_address (active_address F new_record) (ar_id new_record)
            (db_unindex_address (active_address F prev_record) d)
     else d)"

definition db_index_signing_keys ::
  "'z fc_base_scheme \<Rightarrow> account_record \<Rightarrow> account_record \<Rightarrow> chain_database \<Rightarrow> chain_database res" where
  "db_index_signing_keys F prev_record new_record d =
    (if \<not> is_delegate prev_record \<and> \<not> is_delegate new_record then Inr d
     else if is_delegate prev_record \<and> \<not> is_delegate new_record
     then bindE (signing_address F prev_record) (\<lambda>a. Inr (db_unindex_address a d))
     else if \<not> is_delegate prev_record \<and> is_delegate new_record
     then bindE (signing_address F new_record) (\<lambda>a. Inr (db_index_address a (ar_id new_record) d))
     else bindE (signing_address F prev_record) (\<lambda>prev_signing_address.
          bindE (signing_address F new_record) (\<lambda>new_signing_address.
            if prev_signing_address \<noteq> new_signing_address
            then Inr (db_index_address new_signing_address (ar_id new_record)
                   (db_unindex_address prev_signing_address d))
            else Inr d)))"

definition db_index_votes ::
  "account_record \<Rightarrow> account_record \<Rightarrow> chain_database \<Rightarrow> chain_database res" where
  "db_index_votes prev_record new_record d =
    (if \<not> is_delegate prev_record \<and> \<not> is_delegate new_record then Inr d
     else if is_delegate prev_record \<and> \<not> is_delegate new_record
     then (if \<not> is_retracted prev_record
           then bindE (net_votes prev_record) (\<lambda>v. Inr (db_unindex_vote v (ar_id prev_record) d))
           else Inr d)
     else if \<not> is_delegate prev_record \<and> is_delegate new_record
     then (if \<not> is_retracted new_record
           then bindE (net_votes new_record) (\<lambda>v. Inr (db_index_vote v (ar_id new_record) d))
           else Inr d)
     else bindE (net_votes prev_record) (\<lambda>prev_votes.
          bindE (net_votes new_record) (\<lambda>new_votes.
            if prev_votes \<noteq> new_votes
            then (let d = (if \<not> is_retracted prev_record
                           then db_unindex_vote prev_votes (ar_id prev_record) d else d)
                  in Inr (if \<not> is_retracted new_record
                          then db_index_vote new_votes (ar_id new_record) d else d))
            else Inr d)))"

definition db_store_account_record ::
  "'z fc_base_scheme \<Rightarrow> account_record \<Rightarrow> chain_database \<Rightarrow> chain_database res" where
  "db_store_account_record F r d =
    (case db_get_account_record d (ar_id r) of
       None \<Rightarrow> (if account_is_null r then Inr d else db_store_record F r d)
     | Some prev \<Rightarrow>
         if account_is_null r then db_remove_record F prev d
         else
           let d = d\<lparr> account_db := AList.update (ar_id r) r (account_db d) \<rparr>;
               d = (if ar_name prev \<noteq> ar_name r
                    then d\<lparr> account_index_db := AList.update (ar_name r) (ar_id r)
                              (AList.delete (ar_name prev) (account_index_db d)) \<rparr>
                    else d);
               d = (if owner_key prev \<noteq> owner_key r
                    then db_index_address (owner_address F r) (ar_id r)
                           (db_unindex_address (owner_address F prev) d)
                    else d);
               d = db_index_active_keys F prev r d
           in bindE (db_index_signing_keys F prev r d) (db_index_votes prev r))"

definition pending_store_account_record ::
  "'z fc_base_scheme \<Rightarrow> account_record \<Rightarrow> pending_chain_state \<Rightarrow> pending_chain_state res" where
  "pending_store_account_record F r p =
    (let p = p\<lparr> accounts := AList.update (ar_id r) r (accounts p),
                account_id_index := AList.update (ar_name r) (ar_id r) (account_id_index p),
                key_to_account := AList.update (owner_address F r) (ar_id r) (key_to_account p) \<rparr>;
         p = (if \<not> is_retracted r
              then p\<lparr> key_to_account := AList.update (active_address F r) (ar_id r) (key_to_account p) \<rparr>
              else p)
     in if is_delegate r
        then bindE (signing_address F r) (\<lambda>a.
          Inr (p\<lparr> key_to_account := AList.update a (ar_id r) (key_to_account p) \<rparr>))
        else Inr p)"

fun store_account_record :: "'z fc_base_scheme \<Rightarrow> account_record \<Rightarrow> chain \<Rightarrow> chain res" where
  "store_account_record F r (DB d) = bindE (db_store_account_record F r d) (\<lambda>d. Inr (DB d))"
| "store_account_record F r (Pending p prev) =
    bindE (pending_store_account_record F r p) (\<lambda>p. Inr (Pending p prev))"

section \<open>Transactions\<close>

definition BTS_V0_4_26_FORK_BLOCK_NUM :: uint32 where
  "BTS_V0_4_26_FORK_BLOCK_NUM = 1246900"

definition db_store_transaction ::
  "'z fc_ops_scheme \<Rightarrow> transaction_id_type \<Rightarrow> transaction_record \<Rightarrow> chain_database \<Rightarrow> chain_database res" where
  "db_store_transaction F record_id r d =
    (if length (operations (trx r)) = 0 then
       Inr (if track_stats d
            then d\<lparr> id_to_transaction_record_db := AList.delete record_id (id_to_transaction_record_db d) \<rparr>
            else d)
     else if record_id \<noteq> signed_transaction_id F (trx r) then Inl assert_exception
     else bindE
       (if trx_expiration (trx r) > db_now d then
          (let old = (case map_of (unique_transactions_db d) (trx_expiration (trx r)) of
                        None \<Rightarrow> [] | Some s \<Rightarrow> s);
               dig = transaction_digest F (trx r) (chain_id d);
               d' = d\<lparr> unique_transactions_db := AList.update (trx_expiration (trx r))
                         (List.insert dig old) (unique_transactions_db d) \<rparr>
           in if head_block_num d \<ge> BTS_V0_4_26_FORK_BLOCK_NUM \<and> dig \<in> set old \<and>
                 map_of (id_to_transaction_record_db d) record_id \<noteq> None
              then Inl duplicate_transaction else Inr d')
        else Inr d)
       (\<lambda>d. Inr (if track_stats d
                then d\<lparr> id_to_transaction_record_db :=
                         AList.update record_id r (id_to_transaction_record_db d) \<rparr>
                else d)))"

text \<open>The part of \<^verbatim>\<open>pending_chain_state::store_transaction\<close> that does not look below: the
  record, and its operations among the recent ones.\<close>

definition pending_record_transaction ::
  "transaction_id_type \<Rightarrow> transaction_record \<Rightarrow> pending_chain_state \<Rightarrow> pending_chain_state" where
  "pending_record_transaction i r p =
    fold (\<lambda>o' p. p\<lparr> recent_operations := update_recent o' (recent_operations p) \<rparr>) (operations (trx r))
      (p\<lparr> transactions := AList.update i r (transactions p) \<rparr>)"

fun store_transaction ::
  "'z fc_ops_scheme \<Rightarrow> transaction_id_type \<Rightarrow> transaction_record \<Rightarrow> chain \<Rightarrow> chain res" where
  "store_transaction F i r (DB d) = bindE (db_store_transaction F i r d) (\<lambda>d. Inr (DB d))"
| "store_transaction F i r (Pending p prev) =
    bindE (get_property prev chain_id_property) (\<lambda>prop.
    bindE (variant_as_bytes F prop) (\<lambda>cid.
      let dig = transaction_digest F (trx r) cid
      in if get_head_block_num prev \<ge> BTS_V0_4_26_FORK_BLOCK_NUM \<and> dig \<in> set (unique_transactions p)
         then Inl assert_exception
         else Inr (Pending (pending_record_transaction i r
                (p\<lparr> unique_transactions := List.insert dig (unique_transactions p) \<rparr>)) prev)))"

end
