(* ===== verification/Chain_Laws.thy ===== *)
theory Chain_Laws
  imports Chain_Access
begin

text \<open>
  The contract of the record tables. \<open>record_table\<close> is the interface the evaluation
  code relies on: after a store, reading gives the stored record under its key (absent
  if the record is null) and everything else as before. It is interpreted on every
  table of the chain state, for the database and the pending state at once. Inside the
  locale we derive what a sequence of stores does and how a store changes a sum over
  the table, which the ledger uses. The frame lemmas say which reads a store cannot
  change.
\<close>

section \<open>The interface\<close>

locale record_table =
  fixes get :: "chain \<Rightarrow> 'k \<Rightarrow> 'v option"
    and put :: "'k \<Rightarrow> 'v \<Rightarrow> chain \<Rightarrow> chain res"
    and null :: "'v \<Rightarrow> bool"
    and keyed :: "'k \<Rightarrow> 'v \<Rightarrow> bool"
  assumes get_put: "put k v s = Inr s' \<Longrightarrow> keyed k v \<Longrightarrow> (\<And>i w. get s i = Some w \<Longrightarrow> keyed i w) \<Longrightarrow>
      get s' = (get s)(k \<mapsto> v) \<or> null v \<and> get s' = (get s)(k := None)"
    and finite_get: "finite (dom (get s))"
begin

text \<open>The table of a state is well formed if every record stands under its own key.\<close>

definition wf_table :: "chain \<Rightarrow> bool" where
  "wf_table s = (\<forall>k v. get s k = Some v \<longrightarrow> keyed k v)"

lemma wf_put: "put k v s = Inr s' \<Longrightarrow> keyed k v \<Longrightarrow> wf_table s \<Longrightarrow> wf_table s'"
  using get_put [of k v s s'] by (auto simp: wf_table_def split: if_split_asm)

lemma wf_get: "wf_table s \<Longrightarrow> get s k = Some v \<Longrightarrow> keyed k v"
  by (simp add: wf_table_def)

lemma live_put:
  assumes "put k v s = Inr s'" "keyed k v" "wf_table s"
  shows "live null (get s' k') = (if k' = k then live null (Some v) else live null (get s k'))"
proof -
  have "get s' = (get s)(k \<mapsto> v) \<or> null v \<and> get s' = (get s)(k := None)"
    by (rule get_put [OF assms(1,2)]) (use assms(3) in \<open>simp add: wf_table_def\<close>)
  then show ?thesis by auto
qed

lemma sum_put:
  fixes f :: "'k \<Rightarrow> 'v \<Rightarrow> 'a::ab_group_add"
  assumes put: "put k v s = Inr s'" "keyed k v" "wf_table s" and zero: "null v \<Longrightarrow> f k v = 0"
  shows "dict_sum f (get s') = dict_sum f (get s) - opt_val (f k) (get s k) + f k v"
proof -
  have "get s' = (get s)(k \<mapsto> v) \<or> null v \<and> get s' = (get s)(k := None)"
    by (rule get_put [OF put(1,2)]) (use put(3) in \<open>simp add: wf_table_def\<close>)
  then show ?thesis
    using dict_sum_upd [OF finite_get, of f s k v] dict_sum_del [OF finite_get, of f s k] zero by auto
qed

text \<open>Storing every entry of a dictionary overlays it.\<close>

lemma get_put_all:
  assumes "foldE (\<lambda>(k, v). put k v) m s = Inr s'" "distinct (map fst m)"
    and "\<And>k v. (k, v) \<in> set m \<Longrightarrow> keyed k v" "wf_table s"
  shows "live null (get s' i) =
    (case map_of m i of None \<Rightarrow> live null (get s i) | Some v \<Rightarrow> live null (Some v)) \<and> wf_table s'"
  using assms
proof (induction m arbitrary: s)
  case (Cons kv m)
  obtain k v where kv: "kv = (k, v)" by (cases kv)
  obtain s1 where s1: "put k v s = Inr s1" and rest: "foldE (\<lambda>(k, v). put k v) m s1 = Inr s'"
    using Cons.prems(1) kv by auto
  have k: "keyed k v" using Cons.prems(3) kv by simp
  have "live null (get s' i) =
      (case map_of m i of None \<Rightarrow> live null (get s1 i) | Some v \<Rightarrow> live null (Some v)) \<and> wf_table s'"
    using Cons.IH [OF rest] Cons.prems(2,3) wf_put [OF s1 k Cons.prems(4)] by simp
  moreover have "map_of m k = None"
    using Cons.prems(2) kv by (simp add: map_of_eq_None_iff)
  ultimately show ?case
    using live_put [OF s1 k Cons.prems(4), of i] kv by (cases "i = k") (auto split: option.split)
qed simp

end

text \<open>A store that cannot throw, in the shape of the interface.\<close>

abbreviation total_put :: "('k \<Rightarrow> 'v \<Rightarrow> chain \<Rightarrow> chain) \<Rightarrow> 'k \<Rightarrow> 'v \<Rightarrow> chain \<Rightarrow> chain res" where
  "total_put f \<equiv> \<lambda>k v s. Inr (f k v s)"

lemma foldE_total: "foldE (\<lambda>x s. Inr (f x s)) xs s = Inr (fold f xs s)"
  by (induction xs arbitrary: s) simp_all

lemma foldE_total_pairs: "foldE (\<lambda>(k, v) s. Inr (f k v s)) m s = Inr (fold (\<lambda>(k, v). f k v) m s)"
  by (induction m arbitrary: s) auto

lemma map_of_put_unless [simp]:
  "map_of (put_unless b k v m) = (if b then (map_of m)(k := None) else (map_of m)(k \<mapsto> v))"
  by (simp add: put_unless_def)

section \<open>Finiteness\<close>

text \<open>Reading is the table of the database, overlaid with the pending tables above it.\<close>

lemma gets_DB:
  "get_asset_record (DB d) = map_of (asset_db d)"
  "get_balance_record (DB d) = map_of (balance_db d)"
  "get_account_record (DB d) = map_of (account_db d)"
  "get_delegate_slate (DB d) = map_of (slate_db d)"
  "get_bid_record (DB d) = map_of (bid_db d)"
  "get_ask_record (DB d) = map_of (ask_db d)"
  "get_relative_bid_record (DB d) = map_of (relative_bid_db d)"
  "get_relative_ask_record (DB d) = map_of (relative_ask_db d)"
  "get_short_record (DB d) = map_of (short_db d)"
  "get_collateral_record (DB d) = map_of (collateral_db d)"
  "get_feed (DB d) = map_of (feed_db d)"
  "get_market_status (DB d) = map_of (market_status_db d)"
  "fetch_asset_proposal (DB d) = map_of (asset_proposal_db d)"
  by (simp_all add: fun_eq_iff db_defs)

lemma gets_Pending:
  "get_asset_record (Pending p s) = get_asset_record s ++ map_of (assets p)"
  "get_balance_record (Pending p s) = get_balance_record s ++ map_of (balances p)"
  "get_account_record (Pending p s) = get_account_record s ++ map_of (accounts p)"
  "get_delegate_slate (Pending p s) = get_delegate_slate s ++ map_of (slates p)"
  "get_bid_record (Pending p s) = get_bid_record s ++ map_of (bids p)"
  "get_ask_record (Pending p s) = get_ask_record s ++ map_of (asks p)"
  "get_relative_bid_record (Pending p s) = get_relative_bid_record s ++ map_of (relative_bids p)"
  "get_relative_ask_record (Pending p s) = get_relative_ask_record s ++ map_of (relative_asks p)"
  "get_short_record (Pending p s) = get_short_record s ++ map_of (shorts p)"
  "get_collateral_record (Pending p s) = get_collateral_record s ++ map_of (collaterals p)"
  "get_feed (Pending p s) = get_feed s ++ map_of (feeds p)"
  "get_market_status (Pending p s) = get_market_status s ++ map_of (market_statuses p)"
  "fetch_asset_proposal (Pending p s) = fetch_asset_proposal s ++ map_of (asset_proposals p)"
  by (simp_all add: fun_eq_iff map_add_def)

lemma finite_gets:
  fixes s :: chain
  shows "finite (dom (get_asset_record s))"
    "finite (dom (get_balance_record s))"
    "finite (dom (get_account_record s))"
    "finite (dom (get_delegate_slate s))"
    "finite (dom (get_bid_record s))"
    "finite (dom (get_ask_record s))"
    "finite (dom (get_relative_bid_record s))"
    "finite (dom (get_relative_ask_record s))"
    "finite (dom (get_short_record s))"
    "finite (dom (get_collateral_record s))"
    "finite (dom (get_feed s))"
    "finite (dom (get_market_status s))"
    "finite (dom (fetch_asset_proposal s))"
  by (induction s) (simp_all add: gets_DB gets_Pending finite_dom_map_of)

lemma finite_authorizations: "finite (dom (get_authorization s))"
proof (induction s)
  case (DB d)
  have "get_authorization (DB d) = map_of (auth_db d)" by (simp add: fun_eq_iff db_defs)
  then show ?case by (simp add: finite_dom_map_of)
next
  case (Pending p prev)
  have "dom (get_authorization (Pending p prev)) \<subseteq> dom (map_of (authorizations p)) \<union> dom (get_authorization prev)"
    by (auto split: option.splits)
  moreover have "finite (dom (map_of (authorizations p)) \<union> dom (get_authorization prev))"
    using Pending by (simp add: finite_dom_map_of)
  ultimately show ?case by (rule finite_subset)
qed

section \<open>Account tables of the database\<close>

text \<open>Storing an account changes its four tables only.\<close>

definition without_accounts :: "chain_database \<Rightarrow> chain_database" where
  "without_accounts d = d\<lparr> account_db := [], account_index_db := [], address_to_account_db := [],
     delegate_vote_index_db := [] \<rparr>"

lemma without_accounts_updates [simp]:
  "without_accounts (db_unindex_address a d) = without_accounts d"
  "without_accounts (db_index_address a i d) = without_accounts d"
  "without_accounts (db_unindex_vote v i d) = without_accounts d"
  "without_accounts (db_index_vote v i d) = without_accounts d"
  "without_accounts (d\<lparr> account_db := x \<rparr>) = without_accounts d"
  "without_accounts (d\<lparr> account_index_db := y \<rparr>) = without_accounts d"
  unfolding without_accounts_def db_defs by simp_all

lemma account_db_updates [simp]:
  "account_db (db_unindex_address a d) = account_db d"
  "account_db (db_index_address a i d) = account_db d"
  "account_db (db_unindex_vote v i d) = account_db d"
  "account_db (db_index_vote v i d) = account_db d"
  unfolding db_defs by simp_all

lemma db_index_active_keys_frame [simp]:
  "without_accounts (db_index_active_keys F r r' d) = without_accounts d"
  "account_db (db_index_active_keys F r r' d) = account_db d"
  by (simp_all add: db_index_active_keys_def)

lemma db_index_signing_keys_frame:
  assumes "db_index_signing_keys F r r' d = Inr d'"
  shows "without_accounts d' = without_accounts d" "account_db d' = account_db d"
  using assms by (auto simp: db_index_signing_keys_def split: if_split_asm)

lemma db_index_votes_frame:
  assumes "db_index_votes r r' d = Inr d'"
  shows "without_accounts d' = without_accounts d" "account_db d' = account_db d"
  using assms by (auto simp: db_index_votes_def Let_def split: if_split_asm)

lemma db_remove_record_frame:
  assumes "db_remove_record F r d = Inr d'"
  shows "without_accounts d' = without_accounts d" "account_db d' = AList.delete (ar_id r) (account_db d)"
  using assms by (auto simp: db_remove_record_def Let_def split: if_split_asm)

lemma db_store_record_frame:
  assumes "db_store_record F r d = Inr d'"
  shows "without_accounts d' = without_accounts d" "account_db d' = AList.update (ar_id r) r (account_db d)"
  using assms by (auto simp: db_store_record_def Let_def split: if_split_asm)

text \<open>The state in which an existing account is updated before its keys and votes are
  indexed.\<close>

lemma db_store_account_record_update:
  assumes "db_store_account_record F r d = Inr d'" "db_get_account_record d (ar_id r) = Some old"
    "\<not> account_is_null r"
  shows "\<exists>d1 d2. without_accounts d1 = without_accounts d \<and>
      account_db d1 = AList.update (ar_id r) r (account_db d) \<and>
      db_index_signing_keys F old r d1 = Inr d2 \<and> db_index_votes old r d2 = Inr d'"
proof -
  define d1 where "d1 =
    (let d = d\<lparr> account_db := AList.update (ar_id r) r (account_db d) \<rparr>;
         d = (if ar_name old \<noteq> ar_name r
              then d\<lparr> account_index_db := AList.update (ar_name r) (ar_id r)
                        (AList.delete (ar_name old) (account_index_db d)) \<rparr>
              else d);
         d = (if owner_key old \<noteq> owner_key r
              then db_index_address (owner_address F r) (ar_id r)
                     (db_unindex_address (owner_address F old) d)
              else d)
     in db_index_active_keys F old r d)"
  have "bindE (db_index_signing_keys F old r d1) (db_index_votes old r) = Inr d'"
    using assms unfolding db_store_account_record_def d1_def Let_def by (simp only: option.case if_False)
  moreover have "without_accounts d1 = without_accounts d"
    unfolding d1_def Let_def by simp
  moreover have "account_db d1 = AList.update (ar_id r) r (account_db d)"
    unfolding d1_def Let_def by simp
  ultimately show ?thesis unfolding bindE_Inr by blast
qed

lemma db_store_account_record_frame:
  assumes "db_store_account_record F r d = Inr d'"
  shows "without_accounts d' = without_accounts d"
proof (cases "db_get_account_record d (ar_id r)")
  case None
  then show ?thesis
    using assms db_store_record_frame(1) [of F r d d']
    by (cases "account_is_null r") (simp_all add: db_store_account_record_def)
next
  case old: (Some old)
  show ?thesis
  proof (cases "account_is_null r")
    case True
    then show ?thesis
      using assms old db_remove_record_frame(1) [of F old d d'] by (simp add: db_store_account_record_def)
  next
    case False
    obtain d1 d2 where d1: "without_accounts d1 = without_accounts d"
      and d2: "db_index_signing_keys F old r d1 = Inr d2" and d': "db_index_votes old r d2 = Inr d'"
      using db_store_account_record_update [OF assms old False] by blast
    show ?thesis
      using db_index_votes_frame(1) [OF d'] db_index_signing_keys_frame(1) [OF d2] d1 by simp
  qed
qed

lemma db_store_account_record_account:
  assumes "db_store_account_record F r d = Inr d'"
    and keyed: "\<And>i a. map_of (account_db d) i = Some a \<Longrightarrow> ar_id a = i"
  shows "map_of (account_db d') =
    (map_of (account_db d))(ar_id r := (if account_is_null r then None else Some r))"
proof (cases "db_get_account_record d (ar_id r)")
  case None
  then have "map_of (account_db d) (ar_id r) = None" by (simp add: db_get_account_record_def)
  then show ?thesis
    using assms(1) None db_store_record_frame(2) [of F r d d']
    by (cases "account_is_null r") (simp_all add: db_store_account_record_def fun_upd_idem)
next
  case old: (Some old)
  show ?thesis
  proof (cases "account_is_null r")
    case True
    then have "db_remove_record F old d = Inr d'"
      using assms(1) old by (simp add: db_store_account_record_def)
    note frame = db_remove_record_frame(2) [OF this]
    have "ar_id old = ar_id r" using keyed old by (simp add: db_get_account_record_def)
    then show ?thesis using True frame by simp
  next
    case False
    obtain d1 d2 where d1: "account_db d1 = AList.update (ar_id r) r (account_db d)"
      and d2: "db_index_signing_keys F old r d1 = Inr d2" and d': "db_index_votes old r d2 = Inr d'"
      using db_store_account_record_update [OF assms(1) old False] by blast
    have "account_db d' = AList.update (ar_id r) r (account_db d)"
      using db_index_votes_frame(2) [OF d'] db_index_signing_keys_frame(2) [OF d2] d1 by simp
    then show ?thesis using False by simp
  qed
qed

section \<open>Every table satisfies the contract\<close>

text \<open>Reading the table just written.\<close>

lemma store_asset_record_get:
  "get_asset_record (store_asset_record v s) = (get_asset_record s)(asr_id v \<mapsto> v) \<or>
    asset_is_null v \<and> get_asset_record (store_asset_record v s) = (get_asset_record s)(asr_id v := None)"
  by (cases s) (simp_all add: gets_DB gets_Pending db_defs proposal_key_def)

lemma store_balance_record_get:
  "get_balance_record (store_balance_record F v s) = (get_balance_record s)(balance_id F v \<mapsto> v)"
  by (cases s) (simp_all add: gets_DB gets_Pending db_defs)

lemma store_delegate_slate_get:
  "get_delegate_slate (store_delegate_slate k v s) = (get_delegate_slate s)(k \<mapsto> v) \<or>
    length (supported_delegates v) = 0 \<and> get_delegate_slate (store_delegate_slate k v s) = (get_delegate_slate s)(k := None)"
  by (cases s) (simp_all add: gets_DB gets_Pending db_defs proposal_key_def)

lemma store_bid_record_get:
  "get_bid_record (store_bid_record k v s) = (get_bid_record s)(k \<mapsto> v) \<or>
    order_is_null v \<and> get_bid_record (store_bid_record k v s) = (get_bid_record s)(k := None)"
  by (cases s) (simp_all add: gets_DB gets_Pending db_defs proposal_key_def)

lemma store_ask_record_get:
  "get_ask_record (store_ask_record k v s) = (get_ask_record s)(k \<mapsto> v) \<or>
    order_is_null v \<and> get_ask_record (store_ask_record k v s) = (get_ask_record s)(k := None)"
  by (cases s) (simp_all add: gets_DB gets_Pending db_defs proposal_key_def)

lemma store_relative_bid_record_get:
  "get_relative_bid_record (store_relative_bid_record k v s) = (get_relative_bid_record s)(k \<mapsto> v) \<or>
    order_is_null v \<and> get_relative_bid_record (store_relative_bid_record k v s) = (get_relative_bid_record s)(k := None)"
  by (cases s) (simp_all add: gets_DB gets_Pending db_defs proposal_key_def)

lemma store_relative_ask_record_get:
  "get_relative_ask_record (store_relative_ask_record k v s) = (get_relative_ask_record s)(k \<mapsto> v) \<or>
    order_is_null v \<and> get_relative_ask_record (store_relative_ask_record k v s) = (get_relative_ask_record s)(k := None)"
  by (cases s) (simp_all add: gets_DB gets_Pending db_defs proposal_key_def)

lemma store_short_record_get:
  "get_short_record (store_short_record k v s) = (get_short_record s)(k \<mapsto> v) \<or>
    order_is_null v \<and> get_short_record (store_short_record k v s) = (get_short_record s)(k := None)"
  by (cases s) (simp_all add: gets_DB gets_Pending db_defs proposal_key_def)

lemma store_collateral_record_get:
  "get_collateral_record (store_collateral_record k v s) = (get_collateral_record s)(k \<mapsto> v) \<or>
    collateral_is_null v \<and> get_collateral_record (store_collateral_record k v s) = (get_collateral_record s)(k := None)"
  by (cases s) (simp_all add: gets_DB gets_Pending db_defs proposal_key_def)

lemma set_feed_get:
  "get_feed (set_feed v s) = (get_feed s)(feed v \<mapsto> v) \<or>
    feed_is_null v \<and> get_feed (set_feed v s) = (get_feed s)(feed v := None)"
  by (cases s) (simp_all add: gets_DB gets_Pending db_defs proposal_key_def)

lemma store_market_status_get:
  "get_market_status (store_market_status v s) = (get_market_status s)((ms_quote_id v, ms_base_id v) \<mapsto> v) \<or>
    market_status_is_null v \<and> get_market_status (store_market_status v s) = (get_market_status s)((ms_quote_id v, ms_base_id v) := None)"
  by (cases s) (simp_all add: gets_DB gets_Pending db_defs proposal_key_def)

lemma store_asset_proposal_get:
  "fetch_asset_proposal (store_asset_proposal v s) = (fetch_asset_proposal s)(proposal_key v \<mapsto> v) \<or>
    info v = - 1 \<and> fetch_asset_proposal (store_asset_proposal v s) = (fetch_asset_proposal s)(proposal_key v := None)"
  by (cases s) (simp_all add: gets_DB gets_Pending db_defs proposal_key_def)

lemma authorize_get:
  "get_authorization (authorize k v s) =
    (if v = - 1 then (get_authorization s)(k := None) else (get_authorization s)(k \<mapsto> v))"
  by (cases s) (auto simp: db_defs fun_eq_iff)

lemma store_account_record_get:
  assumes "store_account_record F v s = Inr s'"
    and "\<And>i w. get_account_record s i = Some w \<Longrightarrow> ar_id w = i"
  shows "get_account_record s' = (get_account_record s)(ar_id v \<mapsto> v) \<or>
    account_is_null v \<and> get_account_record s' = (get_account_record s)(ar_id v := None)"
proof (cases s)
  case (DB d)
  then obtain d' where "db_store_account_record F v d = Inr d'" "s' = DB d'" using assms by auto
  with db_store_account_record_account [of F v d d'] assms(2) DB show ?thesis
    by (simp add: gets_DB)
next
  case (Pending p prev)
  then show ?thesis
    using assms(1)
    by (auto simp: pending_store_account_record_def Let_def gets_Pending split: if_split_asm)
qed

interpretation asset_tab: record_table get_asset_record
  "\<lambda>k v s. Inr (store_asset_record v s)" "asset_is_null" "\<lambda>k v. asr_id v = k"
  by unfold_locales (use store_asset_record_get in \<open>auto simp: finite_gets\<close>)

interpretation balance_tab: record_table get_balance_record
  "\<lambda>k v s. Inr (store_balance_record F v s)" "balance_is_null" "\<lambda>k v. balance_id F v = k" for F
  by unfold_locales (simp_all add: store_balance_record_get finite_gets)

interpretation slate_tab: record_table get_delegate_slate
  "\<lambda>k v s. Inr (store_delegate_slate k v s)" "\<lambda>v. length (supported_delegates v) = 0" "\<lambda>k v. True"
  by unfold_locales (use store_delegate_slate_get in \<open>auto simp: finite_gets\<close>)

interpretation bid_tab: record_table get_bid_record
  "\<lambda>k v s. Inr (store_bid_record k v s)" "order_is_null" "\<lambda>k v. True"
  by unfold_locales (use store_bid_record_get in \<open>auto simp: finite_gets\<close>)

interpretation ask_tab: record_table get_ask_record
  "\<lambda>k v s. Inr (store_ask_record k v s)" "order_is_null" "\<lambda>k v. True"
  by unfold_locales (use store_ask_record_get in \<open>auto simp: finite_gets\<close>)

interpretation relative_bid_tab: record_table get_relative_bid_record
  "\<lambda>k v s. Inr (store_relative_bid_record k v s)" "order_is_null" "\<lambda>k v. True"
  by unfold_locales (use store_relative_bid_record_get in \<open>auto simp: finite_gets\<close>)

interpretation relative_ask_tab: record_table get_relative_ask_record
  "\<lambda>k v s. Inr (store_relative_ask_record k v s)" "order_is_null" "\<lambda>k v. True"
  by unfold_locales (use store_relative_ask_record_get in \<open>auto simp: finite_gets\<close>)

interpretation short_tab: record_table get_short_record
  "\<lambda>k v s. Inr (store_short_record k v s)" "order_is_null" "\<lambda>k v. True"
  by unfold_locales (use store_short_record_get in \<open>auto simp: finite_gets\<close>)

interpretation collateral_tab: record_table get_collateral_record
  "\<lambda>k v s. Inr (store_collateral_record k v s)" "collateral_is_null" "\<lambda>k v. True"
  by unfold_locales (use store_collateral_record_get in \<open>auto simp: finite_gets\<close>)

interpretation feed_tab: record_table get_feed
  "\<lambda>k v s. Inr (set_feed v s)" "feed_is_null" "\<lambda>k v. feed v = k"
  by unfold_locales (use set_feed_get in \<open>auto simp: finite_gets\<close>)

interpretation market_status_tab: record_table get_market_status
  "\<lambda>k v s. Inr (store_market_status v s)" "market_status_is_null" "\<lambda>k v. (ms_quote_id v, ms_base_id v) = k"
  by unfold_locales (metis store_market_status_get sum.inject(2), rule finite_gets)

interpretation proposal_tab: record_table fetch_asset_proposal
  "\<lambda>k v s. Inr (store_asset_proposal v s)" "\<lambda>v. info v = - 1" "\<lambda>k v. proposal_key v = k"
  by unfold_locales (metis store_asset_proposal_get sum.inject(2), rule finite_gets)

interpretation authorization_tab: record_table get_authorization
  "\<lambda>k v s. Inr (authorize k v s)" "\<lambda>v. v = - 1" "\<lambda>k v. True"
  by unfold_locales (use authorize_get in \<open>auto simp: finite_authorizations\<close>)

interpretation account_tab: record_table get_account_record
  "\<lambda>k v. store_account_record F v" account_is_null "\<lambda>k v. ar_id v = k" for F
  by unfold_locales (use store_account_record_get in blast, rule finite_gets)

text \<open>Properties as a table: a property the database does not have is absent.\<close>

definition property_of :: "chain \<Rightarrow> chain_property_enum \<Rightarrow> variant option" where
  "property_of s i = (case get_property s i of Inl e \<Rightarrow> None | Inr v \<Rightarrow> Some v)"

lemma property_of_eqs:
  "property_of (DB d) = map_of (property_db d)"
  "property_of (Pending p s) = property_of s ++ map_of (properties p)"
  by (simp_all add: fun_eq_iff property_of_def db_get_property_def map_add_def split: option.split)

lemma finite_properties: "finite (dom (property_of s))"
  by (induction s) (simp_all add: property_of_eqs finite_dom_map_of)

lemma set_property_get:
  "property_of (set_property k v s) = (property_of s)(k \<mapsto> v) \<or>
    v = variant_null \<and> property_of (set_property k v s) = (property_of s)(k := None)"
  by (cases s) (simp_all add: property_of_eqs db_defs)

interpretation property_tab: record_table property_of
  "\<lambda>k v s. Inr (set_property k v s)" "\<lambda>v. v = variant_null" "\<lambda>k v. True"
  by unfold_locales (use set_property_get in \<open>auto simp: finite_properties\<close>)

section \<open>Frames\<close>

text \<open>What a store cannot change: reading any other table, the properties, the time and
  the height of the chain.\<close>

lemmas db_index_defs = db_now_def db_get_property_def db_get_account_record_by_name_def
  db_get_account_record_by_address_def db_get_asset_record_by_symbol_def

lemma store_asset_record_frame [simp]:
  "get_balance_record (store_asset_record v s) = get_balance_record s"
  "get_account_record (store_asset_record v s) = get_account_record s"
  "get_delegate_slate (store_asset_record v s) = get_delegate_slate s"
  "get_bid_record (store_asset_record v s) = get_bid_record s"
  "get_ask_record (store_asset_record v s) = get_ask_record s"
  "get_relative_bid_record (store_asset_record v s) = get_relative_bid_record s"
  "get_relative_ask_record (store_asset_record v s) = get_relative_ask_record s"
  "get_short_record (store_asset_record v s) = get_short_record s"
  "get_collateral_record (store_asset_record v s) = get_collateral_record s"
  "get_feed (store_asset_record v s) = get_feed s"
  "get_market_status (store_asset_record v s) = get_market_status s"
  "fetch_asset_proposal (store_asset_record v s) = fetch_asset_proposal s"
  "get_authorization (store_asset_record v s) k' = get_authorization s k'"
  "get_property (store_asset_record v s) i' = get_property s i'"
  "get_account_record_by_name (store_asset_record v s) n = get_account_record_by_name s n"
  "get_account_record_by_address (store_asset_record v s) a = get_account_record_by_address s a"
  "now (store_asset_record v s) = now s"
  "get_head_block_num (store_asset_record v s) = get_head_block_num s"
  by (cases s; simp add: gets_DB gets_Pending db_defs db_index_defs cong: option.case_cong)+

lemma store_balance_record_frame [simp]:
  "get_asset_record (store_balance_record F v s) = get_asset_record s"
  "get_account_record (store_balance_record F v s) = get_account_record s"
  "get_delegate_slate (store_balance_record F v s) = get_delegate_slate s"
  "get_bid_record (store_balance_record F v s) = get_bid_record s"
  "get_ask_record (store_balance_record F v s) = get_ask_record s"
  "get_relative_bid_record (store_balance_record F v s) = get_relative_bid_record s"
  "get_relative_ask_record (store_balance_record F v s) = get_relative_ask_record s"
  "get_short_record (store_balance_record F v s) = get_short_record s"
  "get_collateral_record (store_balance_record F v s) = get_collateral_record s"
  "get_feed (store_balance_record F v s) = get_feed s"
  "get_market_status (store_balance_record F v s) = get_market_status s"
  "fetch_asset_proposal (store_balance_record F v s) = fetch_asset_proposal s"
  "get_authorization (store_balance_record F v s) k' = get_authorization s k'"
  "get_property (store_balance_record F v s) i' = get_property s i'"
  "get_account_record_by_name (store_balance_record F v s) n = get_account_record_by_name s n"
  "get_account_record_by_address (store_balance_record F v s) a = get_account_record_by_address s a"
  "get_asset_record_by_symbol (store_balance_record F v s) n = get_asset_record_by_symbol s n"
  "now (store_balance_record F v s) = now s"
  "get_head_block_num (store_balance_record F v s) = get_head_block_num s"
  by (cases s; simp add: gets_DB gets_Pending db_defs db_index_defs cong: option.case_cong)+

lemma store_delegate_slate_frame [simp]:
  "get_asset_record (store_delegate_slate k v s) = get_asset_record s"
  "get_balance_record (store_delegate_slate k v s) = get_balance_record s"
  "get_account_record (store_delegate_slate k v s) = get_account_record s"
  "get_bid_record (store_delegate_slate k v s) = get_bid_record s"
  "get_ask_record (store_delegate_slate k v s) = get_ask_record s"
  "get_relative_bid_record (store_delegate_slate k v s) = get_relative_bid_record s"
  "get_relative_ask_record (store_delegate_slate k v s) = get_relative_ask_record s"
  "get_short_record (store_delegate_slate k v s) = get_short_record s"
  "get_collateral_record (store_delegate_slate k v s) = get_collateral_record s"
  "get_feed (store_delegate_slate k v s) = get_feed s"
  "get_market_status (store_delegate_slate k v s) = get_market_status s"
  "fetch_asset_proposal (store_delegate_slate k v s) = fetch_asset_proposal s"
  "get_authorization (store_delegate_slate k v s) k' = get_authorization s k'"
  "get_property (store_delegate_slate k v s) i' = get_property s i'"
  "get_account_record_by_name (store_delegate_slate k v s) n = get_account_record_by_name s n"
  "get_account_record_by_address (store_delegate_slate k v s) a = get_account_record_by_address s a"
  "get_asset_record_by_symbol (store_delegate_slate k v s) n = get_asset_record_by_symbol s n"
  "now (store_delegate_slate k v s) = now s"
  "get_head_block_num (store_delegate_slate k v s) = get_head_block_num s"
  by (cases s; simp add: gets_DB gets_Pending db_defs db_index_defs cong: option.case_cong)+

lemma store_collateral_record_frame [simp]:
  "get_asset_record (store_collateral_record k v s) = get_asset_record s"
  "get_balance_record (store_collateral_record k v s) = get_balance_record s"
  "get_account_record (store_collateral_record k v s) = get_account_record s"
  "get_delegate_slate (store_collateral_record k v s) = get_delegate_slate s"
  "get_bid_record (store_collateral_record k v s) = get_bid_record s"
  "get_ask_record (store_collateral_record k v s) = get_ask_record s"
  "get_relative_bid_record (store_collateral_record k v s) = get_relative_bid_record s"
  "get_relative_ask_record (store_collateral_record k v s) = get_relative_ask_record s"
  "get_short_record (store_collateral_record k v s) = get_short_record s"
  "get_feed (store_collateral_record k v s) = get_feed s"
  "get_market_status (store_collateral_record k v s) = get_market_status s"
  "fetch_asset_proposal (store_collateral_record k v s) = fetch_asset_proposal s"
  "get_authorization (store_collateral_record k v s) k' = get_authorization s k'"
  "get_property (store_collateral_record k v s) i' = get_property s i'"
  "get_account_record_by_name (store_collateral_record k v s) n = get_account_record_by_name s n"
  "get_account_record_by_address (store_collateral_record k v s) a = get_account_record_by_address s a"
  "get_asset_record_by_symbol (store_collateral_record k v s) n = get_asset_record_by_symbol s n"
  "now (store_collateral_record k v s) = now s"
  "get_head_block_num (store_collateral_record k v s) = get_head_block_num s"
  by (cases s; simp add: gets_DB gets_Pending db_defs db_index_defs cong: option.case_cong)+

lemma set_feed_frame [simp]:
  "get_asset_record (set_feed v s) = get_asset_record s"
  "get_balance_record (set_feed v s) = get_balance_record s"
  "get_account_record (set_feed v s) = get_account_record s"
  "get_delegate_slate (set_feed v s) = get_delegate_slate s"
  "get_bid_record (set_feed v s) = get_bid_record s"
  "get_ask_record (set_feed v s) = get_ask_record s"
  "get_relative_bid_record (set_feed v s) = get_relative_bid_record s"
  "get_relative_ask_record (set_feed v s) = get_relative_ask_record s"
  "get_short_record (set_feed v s) = get_short_record s"
  "get_collateral_record (set_feed v s) = get_collateral_record s"
  "get_market_status (set_feed v s) = get_market_status s"
  "fetch_asset_proposal (set_feed v s) = fetch_asset_proposal s"
  "get_authorization (set_feed v s) k' = get_authorization s k'"
  "get_property (set_feed v s) i' = get_property s i'"
  "get_account_record_by_name (set_feed v s) n = get_account_record_by_name s n"
  "get_account_record_by_address (set_feed v s) a = get_account_record_by_address s a"
  "get_asset_record_by_symbol (set_feed v s) n = get_asset_record_by_symbol s n"
  "now (set_feed v s) = now s"
  "get_head_block_num (set_feed v s) = get_head_block_num s"
  by (cases s; simp add: gets_DB gets_Pending db_defs db_index_defs cong: option.case_cong)+

lemma store_market_status_frame [simp]:
  "get_asset_record (store_market_status v s) = get_asset_record s"
  "get_balance_record (store_market_status v s) = get_balance_record s"
  "get_account_record (store_market_status v s) = get_account_record s"
  "get_delegate_slate (store_market_status v s) = get_delegate_slate s"
  "get_bid_record (store_market_status v s) = get_bid_record s"
  "get_ask_record (store_market_status v s) = get_ask_record s"
  "get_relative_bid_record (store_market_status v s) = get_relative_bid_record s"
  "get_relative_ask_record (store_market_status v s) = get_relative_ask_record s"
  "get_short_record (store_market_status v s) = get_short_record s"
  "get_collateral_record (store_market_status v s) = get_collateral_record s"
  "get_feed (store_market_status v s) = get_feed s"
  "fetch_asset_proposal (store_market_status v s) = fetch_asset_proposal s"
  "get_authorization (store_market_status v s) k' = get_authorization s k'"
  "get_property (store_market_status v s) i' = get_property s i'"
  "get_account_record_by_name (store_market_status v s) n = get_account_record_by_name s n"
  "get_account_record_by_address (store_market_status v s) a = get_account_record_by_address s a"
  "get_asset_record_by_symbol (store_market_status v s) n = get_asset_record_by_symbol s n"
  "now (store_market_status v s) = now s"
  "get_head_block_num (store_market_status v s) = get_head_block_num s"
  by (cases s; simp add: gets_DB gets_Pending db_defs db_index_defs cong: option.case_cong)+

lemma store_asset_proposal_frame [simp]:
  "get_asset_record (store_asset_proposal v s) = get_asset_record s"
  "get_balance_record (store_asset_proposal v s) = get_balance_record s"
  "get_account_record (store_asset_proposal v s) = get_account_record s"
  "get_delegate_slate (store_asset_proposal v s) = get_delegate_slate s"
  "get_bid_record (store_asset_proposal v s) = get_bid_record s"
  "get_ask_record (store_asset_proposal v s) = get_ask_record s"
  "get_relative_bid_record (store_asset_proposal v s) = get_relative_bid_record s"
  "get_relative_ask_record (store_asset_proposal v s) = get_relative_ask_record s"
  "get_short_record (store_asset_proposal v s) = get_short_record s"
  "get_collateral_record (store_asset_proposal v s) = get_collateral_record s"
  "get_feed (store_asset_proposal v s) = get_feed s"
  "get_market_status (store_asset_proposal v s) = get_market_status s"
  "get_authorization (store_asset_proposal v s) k' = get_authorization s k'"
  "get_property (store_asset_proposal v s) i' = get_property s i'"
  "get_account_record_by_name (store_asset_proposal v s) n = get_account_record_by_name s n"
  "get_account_record_by_address (store_asset_proposal v s) a = get_account_record_by_address s a"
  "get_asset_record_by_symbol (store_asset_proposal v s) n = get_asset_record_by_symbol s n"
  "now (store_asset_proposal v s) = now s"
  "get_head_block_num (store_asset_proposal v s) = get_head_block_num s"
  by (cases s; simp add: gets_DB gets_Pending db_defs db_index_defs cong: option.case_cong)+

lemma authorize_frame [simp]:
  "get_asset_record (authorize k v s) = get_asset_record s"
  "get_balance_record (authorize k v s) = get_balance_record s"
  "get_account_record (authorize k v s) = get_account_record s"
  "get_delegate_slate (authorize k v s) = get_delegate_slate s"
  "get_bid_record (authorize k v s) = get_bid_record s"
  "get_ask_record (authorize k v s) = get_ask_record s"
  "get_relative_bid_record (authorize k v s) = get_relative_bid_record s"
  "get_relative_ask_record (authorize k v s) = get_relative_ask_record s"
  "get_short_record (authorize k v s) = get_short_record s"
  "get_collateral_record (authorize k v s) = get_collateral_record s"
  "get_feed (authorize k v s) = get_feed s"
  "get_market_status (authorize k v s) = get_market_status s"
  "fetch_asset_proposal (authorize k v s) = fetch_asset_proposal s"
  "get_property (authorize k v s) i' = get_property s i'"
  "get_account_record_by_name (authorize k v s) n = get_account_record_by_name s n"
  "get_account_record_by_address (authorize k v s) a = get_account_record_by_address s a"
  "get_asset_record_by_symbol (authorize k v s) n = get_asset_record_by_symbol s n"
  "now (authorize k v s) = now s"
  "get_head_block_num (authorize k v s) = get_head_block_num s"
  by (cases s; simp add: gets_DB gets_Pending db_defs db_index_defs cong: option.case_cong)+

lemma set_property_frame [simp]:
  "get_asset_record (set_property k v s) = get_asset_record s"
  "get_balance_record (set_property k v s) = get_balance_record s"
  "get_account_record (set_property k v s) = get_account_record s"
  "get_delegate_slate (set_property k v s) = get_delegate_slate s"
  "get_bid_record (set_property k v s) = get_bid_record s"
  "get_ask_record (set_property k v s) = get_ask_record s"
  "get_relative_bid_record (set_property k v s) = get_relative_bid_record s"
  "get_relative_ask_record (set_property k v s) = get_relative_ask_record s"
  "get_short_record (set_property k v s) = get_short_record s"
  "get_collateral_record (set_property k v s) = get_collateral_record s"
  "get_feed (set_property k v s) = get_feed s"
  "get_market_status (set_property k v s) = get_market_status s"
  "fetch_asset_proposal (set_property k v s) = fetch_asset_proposal s"
  "get_authorization (set_property k v s) k' = get_authorization s k'"
  "get_account_record_by_name (set_property k v s) n = get_account_record_by_name s n"
  "get_account_record_by_address (set_property k v s) a = get_account_record_by_address s a"
  "get_asset_record_by_symbol (set_property k v s) n = get_asset_record_by_symbol s n"
  "now (set_property k v s) = now s"
  "get_head_block_num (set_property k v s) = get_head_block_num s"
  by (cases s; simp add: gets_DB gets_Pending db_defs db_index_defs cong: option.case_cong)+

lemma store_slot_record_frame [simp]:
  "get_asset_record (store_slot_record v s) = get_asset_record s"
  "get_balance_record (store_slot_record v s) = get_balance_record s"
  "get_account_record (store_slot_record v s) = get_account_record s"
  "get_delegate_slate (store_slot_record v s) = get_delegate_slate s"
  "get_bid_record (store_slot_record v s) = get_bid_record s"
  "get_ask_record (store_slot_record v s) = get_ask_record s"
  "get_relative_bid_record (store_slot_record v s) = get_relative_bid_record s"
  "get_relative_ask_record (store_slot_record v s) = get_relative_ask_record s"
  "get_short_record (store_slot_record v s) = get_short_record s"
  "get_collateral_record (store_slot_record v s) = get_collateral_record s"
  "get_feed (store_slot_record v s) = get_feed s"
  "get_market_status (store_slot_record v s) = get_market_status s"
  "fetch_asset_proposal (store_slot_record v s) = fetch_asset_proposal s"
  "get_authorization (store_slot_record v s) k' = get_authorization s k'"
  "get_property (store_slot_record v s) i' = get_property s i'"
  "get_account_record_by_name (store_slot_record v s) n = get_account_record_by_name s n"
  "get_account_record_by_address (store_slot_record v s) a = get_account_record_by_address s a"
  "get_asset_record_by_symbol (store_slot_record v s) n = get_asset_record_by_symbol s n"
  "now (store_slot_record v s) = now s"
  "get_head_block_num (store_slot_record v s) = get_head_block_num s"
  by (cases s; simp add: gets_DB gets_Pending db_defs db_index_defs cong: option.case_cong)+

lemma store_market_history_record_frame [simp]:
  "get_asset_record (store_market_history_record k v s) = get_asset_record s"
  "get_balance_record (store_market_history_record k v s) = get_balance_record s"
  "get_account_record (store_market_history_record k v s) = get_account_record s"
  "get_delegate_slate (store_market_history_record k v s) = get_delegate_slate s"
  "get_bid_record (store_market_history_record k v s) = get_bid_record s"
  "get_ask_record (store_market_history_record k v s) = get_ask_record s"
  "get_relative_bid_record (store_market_history_record k v s) = get_relative_bid_record s"
  "get_relative_ask_record (store_market_history_record k v s) = get_relative_ask_record s"
  "get_short_record (store_market_history_record k v s) = get_short_record s"
  "get_collateral_record (store_market_history_record k v s) = get_collateral_record s"
  "get_feed (store_market_history_record k v s) = get_feed s"
  "get_market_status (store_market_history_record k v s) = get_market_status s"
  "fetch_asset_proposal (store_market_history_record k v s) = fetch_asset_proposal s"
  "get_authorization (store_market_history_record k v s) k' = get_authorization s k'"
  "get_property (store_market_history_record k v s) i' = get_property s i'"
  "get_account_record_by_name (store_market_history_record k v s) n = get_account_record_by_name s n"
  "get_account_record_by_address (store_market_history_record k v s) a = get_account_record_by_address s a"
  "get_asset_record_by_symbol (store_market_history_record k v s) n = get_asset_record_by_symbol s n"
  "now (store_market_history_record k v s) = now s"
  "get_head_block_num (store_market_history_record k v s) = get_head_block_num s"
  by (cases s; simp add: gets_DB gets_Pending db_defs db_index_defs cong: option.case_cong)+

lemma store_burn_record_frame [simp]:
  "get_asset_record (store_burn_record k v s) = get_asset_record s"
  "get_balance_record (store_burn_record k v s) = get_balance_record s"
  "get_account_record (store_burn_record k v s) = get_account_record s"
  "get_delegate_slate (store_burn_record k v s) = get_delegate_slate s"
  "get_bid_record (store_burn_record k v s) = get_bid_record s"
  "get_ask_record (store_burn_record k v s) = get_ask_record s"
  "get_relative_bid_record (store_burn_record k v s) = get_relative_bid_record s"
  "get_relative_ask_record (store_burn_record k v s) = get_relative_ask_record s"
  "get_short_record (store_burn_record k v s) = get_short_record s"
  "get_collateral_record (store_burn_record k v s) = get_collateral_record s"
  "get_feed (store_burn_record k v s) = get_feed s"
  "get_market_status (store_burn_record k v s) = get_market_status s"
  "fetch_asset_proposal (store_burn_record k v s) = fetch_asset_proposal s"
  "get_authorization (store_burn_record k v s) k' = get_authorization s k'"
  "get_property (store_burn_record k v s) i' = get_property s i'"
  "get_account_record_by_name (store_burn_record k v s) n = get_account_record_by_name s n"
  "get_account_record_by_address (store_burn_record k v s) a = get_account_record_by_address s a"
  "get_asset_record_by_symbol (store_burn_record k v s) n = get_asset_record_by_symbol s n"
  "now (store_burn_record k v s) = now s"
  "get_head_block_num (store_burn_record k v s) = get_head_block_num s"
  by (cases s; simp add: gets_DB gets_Pending db_defs db_index_defs cong: option.case_cong)+

lemma store_recent_operation_frame [simp]:
  "get_asset_record (store_recent_operation v s) = get_asset_record s"
  "get_balance_record (store_recent_operation v s) = get_balance_record s"
  "get_account_record (store_recent_operation v s) = get_account_record s"
  "get_delegate_slate (store_recent_operation v s) = get_delegate_slate s"
  "get_bid_record (store_recent_operation v s) = get_bid_record s"
  "get_ask_record (store_recent_operation v s) = get_ask_record s"
  "get_relative_bid_record (store_recent_operation v s) = get_relative_bid_record s"
  "get_relative_ask_record (store_recent_operation v s) = get_relative_ask_record s"
  "get_short_record (store_recent_operation v s) = get_short_record s"
  "get_collateral_record (store_recent_operation v s) = get_collateral_record s"
  "get_feed (store_recent_operation v s) = get_feed s"
  "get_market_status (store_recent_operation v s) = get_market_status s"
  "fetch_asset_proposal (store_recent_operation v s) = fetch_asset_proposal s"
  "get_authorization (store_recent_operation v s) k' = get_authorization s k'"
  "get_property (store_recent_operation v s) i' = get_property s i'"
  "get_account_record_by_name (store_recent_operation v s) n = get_account_record_by_name s n"
  "get_account_record_by_address (store_recent_operation v s) a = get_account_record_by_address s a"
  "get_asset_record_by_symbol (store_recent_operation v s) n = get_asset_record_by_symbol s n"
  "now (store_recent_operation v s) = now s"
  "get_head_block_num (store_recent_operation v s) = get_head_block_num s"
  by (cases s; simp add: gets_DB gets_Pending db_defs db_index_defs cong: option.case_cong)+

lemma store_bid_record_frame [simp]:
  "get_asset_record (store_bid_record k v s) = get_asset_record s"
  "get_balance_record (store_bid_record k v s) = get_balance_record s"
  "get_account_record (store_bid_record k v s) = get_account_record s"
  "get_delegate_slate (store_bid_record k v s) = get_delegate_slate s"
  "get_ask_record (store_bid_record k v s) = get_ask_record s"
  "get_relative_bid_record (store_bid_record k v s) = get_relative_bid_record s"
  "get_relative_ask_record (store_bid_record k v s) = get_relative_ask_record s"
  "get_short_record (store_bid_record k v s) = get_short_record s"
  "get_collateral_record (store_bid_record k v s) = get_collateral_record s"
  "get_feed (store_bid_record k v s) = get_feed s"
  "get_market_status (store_bid_record k v s) = get_market_status s"
  "fetch_asset_proposal (store_bid_record k v s) = fetch_asset_proposal s"
  "get_authorization (store_bid_record k v s) k' = get_authorization s k'"
  "get_property (store_bid_record k v s) i' = get_property s i'"
  "get_account_record_by_name (store_bid_record k v s) n = get_account_record_by_name s n"
  "get_account_record_by_address (store_bid_record k v s) a = get_account_record_by_address s a"
  "get_asset_record_by_symbol (store_bid_record k v s) n = get_asset_record_by_symbol s n"
  "now (store_bid_record k v s) = now s"
  "get_head_block_num (store_bid_record k v s) = get_head_block_num s"
  by (cases s; simp add: gets_DB gets_Pending db_defs db_index_defs cong: option.case_cong)+

lemma store_ask_record_frame [simp]:
  "get_asset_record (store_ask_record k v s) = get_asset_record s"
  "get_balance_record (store_ask_record k v s) = get_balance_record s"
  "get_account_record (store_ask_record k v s) = get_account_record s"
  "get_delegate_slate (store_ask_record k v s) = get_delegate_slate s"
  "get_bid_record (store_ask_record k v s) = get_bid_record s"
  "get_relative_bid_record (store_ask_record k v s) = get_relative_bid_record s"
  "get_relative_ask_record (store_ask_record k v s) = get_relative_ask_record s"
  "get_short_record (store_ask_record k v s) = get_short_record s"
  "get_collateral_record (store_ask_record k v s) = get_collateral_record s"
  "get_feed (store_ask_record k v s) = get_feed s"
  "get_market_status (store_ask_record k v s) = get_market_status s"
  "fetch_asset_proposal (store_ask_record k v s) = fetch_asset_proposal s"
  "get_authorization (store_ask_record k v s) k' = get_authorization s k'"
  "get_property (store_ask_record k v s) i' = get_property s i'"
  "get_account_record_by_name (store_ask_record k v s) n = get_account_record_by_name s n"
  "get_account_record_by_address (store_ask_record k v s) a = get_account_record_by_address s a"
  "get_asset_record_by_symbol (store_ask_record k v s) n = get_asset_record_by_symbol s n"
  "now (store_ask_record k v s) = now s"
  "get_head_block_num (store_ask_record k v s) = get_head_block_num s"
  by (cases s; simp add: gets_DB gets_Pending db_defs db_index_defs cong: option.case_cong)+

lemma store_relative_bid_record_frame [simp]:
  "get_asset_record (store_relative_bid_record k v s) = get_asset_record s"
  "get_balance_record (store_relative_bid_record k v s) = get_balance_record s"
  "get_account_record (store_relative_bid_record k v s) = get_account_record s"
  "get_delegate_slate (store_relative_bid_record k v s) = get_delegate_slate s"
  "get_bid_record (store_relative_bid_record k v s) = get_bid_record s"
  "get_ask_record (store_relative_bid_record k v s) = get_ask_record s"
  "get_relative_ask_record (store_relative_bid_record k v s) = get_relative_ask_record s"
  "get_short_record (store_relative_bid_record k v s) = get_short_record s"
  "get_collateral_record (store_relative_bid_record k v s) = get_collateral_record s"
  "get_feed (store_relative_bid_record k v s) = get_feed s"
  "get_market_status (store_relative_bid_record k v s) = get_market_status s"
  "fetch_asset_proposal (store_relative_bid_record k v s) = fetch_asset_proposal s"
  "get_authorization (store_relative_bid_record k v s) k' = get_authorization s k'"
  "get_property (store_relative_bid_record k v s) i' = get_property s i'"
  "get_account_record_by_name (store_relative_bid_record k v s) n = get_account_record_by_name s n"
  "get_account_record_by_address (store_relative_bid_record k v s) a = get_account_record_by_address s a"
  "get_asset_record_by_symbol (store_relative_bid_record k v s) n = get_asset_record_by_symbol s n"
  "now (store_relative_bid_record k v s) = now s"
  "get_head_block_num (store_relative_bid_record k v s) = get_head_block_num s"
  by (cases s; simp add: gets_DB gets_Pending db_defs db_index_defs cong: option.case_cong)+

lemma store_relative_ask_record_frame [simp]:
  "get_asset_record (store_relative_ask_record k v s) = get_asset_record s"
  "get_balance_record (store_relative_ask_record k v s) = get_balance_record s"
  "get_account_record (store_relative_ask_record k v s) = get_account_record s"
  "get_delegate_slate (store_relative_ask_record k v s) = get_delegate_slate s"
  "get_bid_record (store_relative_ask_record k v s) = get_bid_record s"
  "get_ask_record (store_relative_ask_record k v s) = get_ask_record s"
  "get_relative_bid_record (store_relative_ask_record k v s) = get_relative_bid_record s"
  "get_short_record (store_relative_ask_record k v s) = get_short_record s"
  "get_collateral_record (store_relative_ask_record k v s) = get_collateral_record s"
  "get_feed (store_relative_ask_record k v s) = get_feed s"
  "get_market_status (store_relative_ask_record k v s) = get_market_status s"
  "fetch_asset_proposal (store_relative_ask_record k v s) = fetch_asset_proposal s"
  "get_authorization (store_relative_ask_record k v s) k' = get_authorization s k'"
  "get_property (store_relative_ask_record k v s) i' = get_property s i'"
  "get_account_record_by_name (store_relative_ask_record k v s) n = get_account_record_by_name s n"
  "get_account_record_by_address (store_relative_ask_record k v s) a = get_account_record_by_address s a"
  "get_asset_record_by_symbol (store_relative_ask_record k v s) n = get_asset_record_by_symbol s n"
  "now (store_relative_ask_record k v s) = now s"
  "get_head_block_num (store_relative_ask_record k v s) = get_head_block_num s"
  by (cases s; simp add: gets_DB gets_Pending db_defs db_index_defs cong: option.case_cong)+

lemma store_short_record_frame [simp]:
  "get_asset_record (store_short_record k v s) = get_asset_record s"
  "get_balance_record (store_short_record k v s) = get_balance_record s"
  "get_account_record (store_short_record k v s) = get_account_record s"
  "get_delegate_slate (store_short_record k v s) = get_delegate_slate s"
  "get_bid_record (store_short_record k v s) = get_bid_record s"
  "get_ask_record (store_short_record k v s) = get_ask_record s"
  "get_relative_bid_record (store_short_record k v s) = get_relative_bid_record s"
  "get_relative_ask_record (store_short_record k v s) = get_relative_ask_record s"
  "get_collateral_record (store_short_record k v s) = get_collateral_record s"
  "get_feed (store_short_record k v s) = get_feed s"
  "get_market_status (store_short_record k v s) = get_market_status s"
  "fetch_asset_proposal (store_short_record k v s) = fetch_asset_proposal s"
  "get_authorization (store_short_record k v s) k' = get_authorization s k'"
  "get_property (store_short_record k v s) i' = get_property s i'"
  "get_account_record_by_name (store_short_record k v s) n = get_account_record_by_name s n"
  "get_account_record_by_address (store_short_record k v s) a = get_account_record_by_address s a"
  "get_asset_record_by_symbol (store_short_record k v s) n = get_asset_record_by_symbol s n"
  "now (store_short_record k v s) = now s"
  "get_head_block_num (store_short_record k v s) = get_head_block_num s"
  by (cases s; simp add: gets_DB gets_Pending db_defs db_index_defs cong: option.case_cong)+

lemma without_accounts_fields:
  assumes "without_accounts d' = without_accounts d"
  shows "chain_id d' = chain_id d"
    "track_stats d' = track_stats d"
    "wall_clock d' = wall_clock d"
    "head_block_num d' = head_block_num d"
    "head_block_timestamp d' = head_block_timestamp d"
    "asset_db d' = asset_db d"
    "symbol_index_db d' = symbol_index_db d"
    "balance_db d' = balance_db d"
    "slot_record_db d' = slot_record_db d"
    "burn_db d' = burn_db d"
    "ask_db d' = ask_db d"
    "bid_db d' = bid_db d"
    "relative_ask_db d' = relative_ask_db d"
    "relative_bid_db d' = relative_bid_db d"
    "short_db d' = short_db d"
    "collateral_db d' = collateral_db d"
    "collateral_expiration_index d' = collateral_expiration_index d"
    "feed_db d' = feed_db d"
    "auth_db d' = auth_db d"
    "asset_proposal_db d' = asset_proposal_db d"
    "market_status_db d' = market_status_db d"
    "market_history_db d' = market_history_db d"
    "recent_operations_db d' = recent_operations_db d"
    "slate_db d' = slate_db d"
    "property_db d' = property_db d"
    "market_transactions_db d' = market_transactions_db d"
    "unique_transactions_db d' = unique_transactions_db d"
    "id_to_transaction_record_db d' = id_to_transaction_record_db d"
    "address_to_trx_index d' = address_to_trx_index d"
  using assms unfolding without_accounts_def by (cases d; cases d'; simp)+

lemma gets_without_accounts:
  assumes "without_accounts d' = without_accounts d"
  shows "get_asset_record (DB d') = get_asset_record (DB d)"
    "get_balance_record (DB d') = get_balance_record (DB d)"
    "get_delegate_slate (DB d') = get_delegate_slate (DB d)"
    "get_bid_record (DB d') = get_bid_record (DB d)"
    "get_ask_record (DB d') = get_ask_record (DB d)"
    "get_relative_bid_record (DB d') = get_relative_bid_record (DB d)"
    "get_relative_ask_record (DB d') = get_relative_ask_record (DB d)"
    "get_short_record (DB d') = get_short_record (DB d)"
    "get_collateral_record (DB d') = get_collateral_record (DB d)"
    "get_feed (DB d') = get_feed (DB d)"
    "get_market_status (DB d') = get_market_status (DB d)"
    "fetch_asset_proposal (DB d') = fetch_asset_proposal (DB d)"
    "get_authorization (DB d') k' = get_authorization (DB d) k'"
    "get_property (DB d') i' = get_property (DB d) i'"
    "get_asset_record_by_symbol (DB d') n = get_asset_record_by_symbol (DB d) n"
    "now (DB d') = now (DB d)"
    "get_head_block_num (DB d') = get_head_block_num (DB d)"
  using without_accounts_fields [OF assms]
  by (simp_all add: gets_DB db_defs db_index_defs cong: option.case_cong)

lemma pending_store_account_record_fields:
  assumes "pending_store_account_record F v p = Inr p'"
  shows "market_transactions p' = market_transactions p"
    "assets p' = assets p"
    "slates p' = slates p"
    "balances p' = balances p"
    "symbol_id_index p' = symbol_id_index p"
    "transactions p' = transactions p"
    "unique_transactions p' = unique_transactions p"
    "properties p' = properties p"
    "bids p' = bids p"
    "asks p' = asks p"
    "shorts p' = shorts p"
    "collaterals p' = collaterals p"
    "slots p' = slots p"
    "market_history p' = market_history p"
    "market_statuses p' = market_statuses p"
    "recent_operations p' = recent_operations p"
    "feeds p' = feeds p"
    "burns p' = burns p"
    "relative_bids p' = relative_bids p"
    "relative_asks p' = relative_asks p"
    "authorizations p' = authorizations p"
    "asset_proposals p' = asset_proposals p"
    "dirty_markets p' = dirty_markets p"
  using assms unfolding pending_store_account_record_def Let_def by (auto split: if_split_asm)

lemma gets_pending_account:
  assumes "pending_store_account_record F v p = Inr p'"
  shows "get_asset_record (Pending p' prev) = get_asset_record (Pending p prev)"
    "get_balance_record (Pending p' prev) = get_balance_record (Pending p prev)"
    "get_delegate_slate (Pending p' prev) = get_delegate_slate (Pending p prev)"
    "get_bid_record (Pending p' prev) = get_bid_record (Pending p prev)"
    "get_ask_record (Pending p' prev) = get_ask_record (Pending p prev)"
    "get_relative_bid_record (Pending p' prev) = get_relative_bid_record (Pending p prev)"
    "get_relative_ask_record (Pending p' prev) = get_relative_ask_record (Pending p prev)"
    "get_short_record (Pending p' prev) = get_short_record (Pending p prev)"
    "get_collateral_record (Pending p' prev) = get_collateral_record (Pending p prev)"
    "get_feed (Pending p' prev) = get_feed (Pending p prev)"
    "get_market_status (Pending p' prev) = get_market_status (Pending p prev)"
    "fetch_asset_proposal (Pending p' prev) = fetch_asset_proposal (Pending p prev)"
    "get_authorization (Pending p' prev) k' = get_authorization (Pending p prev) k'"
    "get_property (Pending p' prev) i' = get_property (Pending p prev) i'"
    "get_asset_record_by_symbol (Pending p' prev) n = get_asset_record_by_symbol (Pending p prev) n"
    "now (Pending p' prev) = now (Pending p prev)"
    "get_head_block_num (Pending p' prev) = get_head_block_num (Pending p prev)"
  using pending_store_account_record_fields [OF assms]
  by (simp_all add: gets_Pending cong: option.case_cong)

lemma store_account_record_cases:
  assumes "store_account_record F v s = Inr s'"
  obtains (db) d d' where "s = DB d" "s' = DB d'" "without_accounts d' = without_accounts d"
    | (pending) p p' prev where "s = Pending p prev" "s' = Pending p' prev"
        "pending_store_account_record F v p = Inr p'"
  using assms by (cases s) (auto dest: db_store_account_record_frame)

lemma store_account_record_frame:
  assumes "store_account_record F v s = Inr s'"
  shows "get_asset_record s' = get_asset_record s"
    "get_balance_record s' = get_balance_record s"
    "get_delegate_slate s' = get_delegate_slate s"
    "get_bid_record s' = get_bid_record s"
    "get_ask_record s' = get_ask_record s"
    "get_relative_bid_record s' = get_relative_bid_record s"
    "get_relative_ask_record s' = get_relative_ask_record s"
    "get_short_record s' = get_short_record s"
    "get_collateral_record s' = get_collateral_record s"
    "get_feed s' = get_feed s"
    "get_market_status s' = get_market_status s"
    "fetch_asset_proposal s' = fetch_asset_proposal s"
    "get_authorization s' k' = get_authorization s k'"
    "get_property s' i' = get_property s i'"
    "get_asset_record_by_symbol s' n = get_asset_record_by_symbol s n"
    "now s' = now s"
    "get_head_block_num s' = get_head_block_num s"
proof -
  have "get_asset_record s' = get_asset_record s \<and>
    get_balance_record s' = get_balance_record s \<and>
    get_delegate_slate s' = get_delegate_slate s \<and>
    get_bid_record s' = get_bid_record s \<and>
    get_ask_record s' = get_ask_record s \<and>
    get_relative_bid_record s' = get_relative_bid_record s \<and>
    get_relative_ask_record s' = get_relative_ask_record s \<and>
    get_short_record s' = get_short_record s \<and>
    get_collateral_record s' = get_collateral_record s \<and>
    get_feed s' = get_feed s \<and>
    get_market_status s' = get_market_status s \<and>
    fetch_asset_proposal s' = fetch_asset_proposal s \<and>
    get_authorization s' k' = get_authorization s k' \<and>
    get_property s' i' = get_property s i' \<and>
    get_asset_record_by_symbol s' n = get_asset_record_by_symbol s n \<and>
    now s' = now s \<and>
    get_head_block_num s' = get_head_block_num s"
    using assms
  proof (cases rule: store_account_record_cases)
    case (db d d')
    show ?thesis unfolding db(1,2) by (intro conjI gets_without_accounts [OF db(3)])
  next
    case (pending p p' prev)
    show ?thesis unfolding pending(1,2) by (intro conjI gets_pending_account [OF pending(3)])
  qed
  then show "get_asset_record s' = get_asset_record s"
    "get_balance_record s' = get_balance_record s"
    "get_delegate_slate s' = get_delegate_slate s"
    "get_bid_record s' = get_bid_record s"
    "get_ask_record s' = get_ask_record s"
    "get_relative_bid_record s' = get_relative_bid_record s"
    "get_relative_ask_record s' = get_relative_ask_record s"
    "get_short_record s' = get_short_record s"
    "get_collateral_record s' = get_collateral_record s"
    "get_feed s' = get_feed s"
    "get_market_status s' = get_market_status s"
    "fetch_asset_proposal s' = fetch_asset_proposal s"
    "get_authorization s' k' = get_authorization s k'"
    "get_property s' i' = get_property s i'"
    "get_asset_record_by_symbol s' n = get_asset_record_by_symbol s n"
    "now s' = now s"
    "get_head_block_num s' = get_head_block_num s" by blast+
qed

text \<open>Storing a transaction changes the tables of transactions and recent operations only.\<close>

definition without_transactions :: "chain_database \<Rightarrow> chain_database" where
  "without_transactions d = d\<lparr> unique_transactions_db := [], id_to_transaction_record_db := [] \<rparr>"

lemma without_transactions_updates [simp]:
  "without_transactions (d\<lparr> unique_transactions_db := x \<rparr>) = without_transactions d"
  "without_transactions (d\<lparr> id_to_transaction_record_db := y \<rparr>) = without_transactions d"
  by (simp_all add: without_transactions_def)

lemma db_store_transaction_frame:
  assumes "db_store_transaction F i r d = Inr d'"
  shows "without_transactions d' = without_transactions d"
  using assms by (auto simp: db_store_transaction_def Let_def split: if_split_asm)

lemma without_transactions_fields:
  assumes "without_transactions d' = without_transactions d"
  shows "chain_id d' = chain_id d"
    "track_stats d' = track_stats d"
    "wall_clock d' = wall_clock d"
    "head_block_num d' = head_block_num d"
    "head_block_timestamp d' = head_block_timestamp d"
    "asset_db d' = asset_db d"
    "symbol_index_db d' = symbol_index_db d"
    "balance_db d' = balance_db d"
    "slot_record_db d' = slot_record_db d"
    "burn_db d' = burn_db d"
    "ask_db d' = ask_db d"
    "bid_db d' = bid_db d"
    "relative_ask_db d' = relative_ask_db d"
    "relative_bid_db d' = relative_bid_db d"
    "short_db d' = short_db d"
    "collateral_db d' = collateral_db d"
    "collateral_expiration_index d' = collateral_expiration_index d"
    "feed_db d' = feed_db d"
    "auth_db d' = auth_db d"
    "asset_proposal_db d' = asset_proposal_db d"
    "market_status_db d' = market_status_db d"
    "market_history_db d' = market_history_db d"
    "recent_operations_db d' = recent_operations_db d"
    "slate_db d' = slate_db d"
    "property_db d' = property_db d"
    "market_transactions_db d' = market_transactions_db d"
    "address_to_trx_index d' = address_to_trx_index d"
    "account_db d' = account_db d"
    "account_index_db d' = account_index_db d"
    "address_to_account_db d' = address_to_account_db d"
    "delegate_vote_index_db d' = delegate_vote_index_db d"
  using assms unfolding without_transactions_def by (cases d; cases d'; simp)+

lemma pending_record_transaction_frame:
  "market_transactions (pending_record_transaction i r p) = market_transactions p"
  "assets (pending_record_transaction i r p) = assets p"
  "slates (pending_record_transaction i r p) = slates p"
  "accounts (pending_record_transaction i r p) = accounts p"
  "balances (pending_record_transaction i r p) = balances p"
  "account_id_index (pending_record_transaction i r p) = account_id_index p"
  "symbol_id_index (pending_record_transaction i r p) = symbol_id_index p"
  "properties (pending_record_transaction i r p) = properties p"
  "key_to_account (pending_record_transaction i r p) = key_to_account p"
  "bids (pending_record_transaction i r p) = bids p"
  "asks (pending_record_transaction i r p) = asks p"
  "shorts (pending_record_transaction i r p) = shorts p"
  "collaterals (pending_record_transaction i r p) = collaterals p"
  "slots (pending_record_transaction i r p) = slots p"
  "market_history (pending_record_transaction i r p) = market_history p"
  "market_statuses (pending_record_transaction i r p) = market_statuses p"
  "feeds (pending_record_transaction i r p) = feeds p"
  "burns (pending_record_transaction i r p) = burns p"
  "relative_bids (pending_record_transaction i r p) = relative_bids p"
  "relative_asks (pending_record_transaction i r p) = relative_asks p"
  "authorizations (pending_record_transaction i r p) = authorizations p"
  "asset_proposals (pending_record_transaction i r p) = asset_proposals p"
  "dirty_markets (pending_record_transaction i r p) = dirty_markets p"
proof -
  have "f (fold (\<lambda>o' p. p\<lparr> recent_operations := update_recent o' (recent_operations p) \<rparr>) xs p) = f p"
    if "\<And>q p. f (p\<lparr> recent_operations := q \<rparr>) = f p"
    for f :: "pending_chain_state \<Rightarrow> 'b" and xs and p :: pending_chain_state
    using that by (induction xs arbitrary: p) simp_all
  note * = this
  show "market_transactions (pending_record_transaction i r p) = market_transactions p"
    "assets (pending_record_transaction i r p) = assets p"
    "slates (pending_record_transaction i r p) = slates p"
    "accounts (pending_record_transaction i r p) = accounts p"
    "balances (pending_record_transaction i r p) = balances p"
    "account_id_index (pending_record_transaction i r p) = account_id_index p"
    "symbol_id_index (pending_record_transaction i r p) = symbol_id_index p"
    "properties (pending_record_transaction i r p) = properties p"
    "key_to_account (pending_record_transaction i r p) = key_to_account p"
    "bids (pending_record_transaction i r p) = bids p"
    "asks (pending_record_transaction i r p) = asks p"
    "shorts (pending_record_transaction i r p) = shorts p"
    "collaterals (pending_record_transaction i r p) = collaterals p"
    "slots (pending_record_transaction i r p) = slots p"
    "market_history (pending_record_transaction i r p) = market_history p"
    "market_statuses (pending_record_transaction i r p) = market_statuses p"
    "feeds (pending_record_transaction i r p) = feeds p"
    "burns (pending_record_transaction i r p) = burns p"
    "relative_bids (pending_record_transaction i r p) = relative_bids p"
    "relative_asks (pending_record_transaction i r p) = relative_asks p"
    "authorizations (pending_record_transaction i r p) = authorizations p"
    "asset_proposals (pending_record_transaction i r p) = asset_proposals p"
    "dirty_markets (pending_record_transaction i r p) = dirty_markets p"
    unfolding pending_record_transaction_def by (rule trans [OF *]; simp)+
qed

lemma gets_without_transactions:
  assumes "without_transactions d' = without_transactions d"
  shows "get_asset_record (DB d') = get_asset_record (DB d)"
    "get_balance_record (DB d') = get_balance_record (DB d)"
    "get_account_record (DB d') = get_account_record (DB d)"
    "get_delegate_slate (DB d') = get_delegate_slate (DB d)"
    "get_bid_record (DB d') = get_bid_record (DB d)"
    "get_ask_record (DB d') = get_ask_record (DB d)"
    "get_relative_bid_record (DB d') = get_relative_bid_record (DB d)"
    "get_relative_ask_record (DB d') = get_relative_ask_record (DB d)"
    "get_short_record (DB d') = get_short_record (DB d)"
    "get_collateral_record (DB d') = get_collateral_record (DB d)"
    "get_feed (DB d') = get_feed (DB d)"
    "get_market_status (DB d') = get_market_status (DB d)"
    "fetch_asset_proposal (DB d') = fetch_asset_proposal (DB d)"
    "get_authorization (DB d') k' = get_authorization (DB d) k'"
    "get_property (DB d') i' = get_property (DB d) i'"
    "get_account_record_by_name (DB d') n = get_account_record_by_name (DB d) n"
    "get_account_record_by_address (DB d') a = get_account_record_by_address (DB d) a"
    "get_asset_record_by_symbol (DB d') n = get_asset_record_by_symbol (DB d) n"
    "now (DB d') = now (DB d)"
    "get_head_block_num (DB d') = get_head_block_num (DB d)"
  using without_transactions_fields [OF assms]
  by (simp_all add: gets_DB db_defs db_index_defs cong: option.case_cong)

lemma gets_pending_transaction:
  "get_asset_record (Pending (pending_record_transaction i r (p\<lparr> unique_transactions := u \<rparr>)) prev) = get_asset_record (Pending p prev)"
    "get_balance_record (Pending (pending_record_transaction i r (p\<lparr> unique_transactions := u \<rparr>)) prev) = get_balance_record (Pending p prev)"
    "get_account_record (Pending (pending_record_transaction i r (p\<lparr> unique_transactions := u \<rparr>)) prev) = get_account_record (Pending p prev)"
    "get_delegate_slate (Pending (pending_record_transaction i r (p\<lparr> unique_transactions := u \<rparr>)) prev) = get_delegate_slate (Pending p prev)"
    "get_bid_record (Pending (pending_record_transaction i r (p\<lparr> unique_transactions := u \<rparr>)) prev) = get_bid_record (Pending p prev)"
    "get_ask_record (Pending (pending_record_transaction i r (p\<lparr> unique_transactions := u \<rparr>)) prev) = get_ask_record (Pending p prev)"
    "get_relative_bid_record (Pending (pending_record_transaction i r (p\<lparr> unique_transactions := u \<rparr>)) prev) = get_relative_bid_record (Pending p prev)"
    "get_relative_ask_record (Pending (pending_record_transaction i r (p\<lparr> unique_transactions := u \<rparr>)) prev) = get_relative_ask_record (Pending p prev)"
    "get_short_record (Pending (pending_record_transaction i r (p\<lparr> unique_transactions := u \<rparr>)) prev) = get_short_record (Pending p prev)"
    "get_collateral_record (Pending (pending_record_transaction i r (p\<lparr> unique_transactions := u \<rparr>)) prev) = get_collateral_record (Pending p prev)"
    "get_feed (Pending (pending_record_transaction i r (p\<lparr> unique_transactions := u \<rparr>)) prev) = get_feed (Pending p prev)"
    "get_market_status (Pending (pending_record_transaction i r (p\<lparr> unique_transactions := u \<rparr>)) prev) = get_market_status (Pending p prev)"
    "fetch_asset_proposal (Pending (pending_record_transaction i r (p\<lparr> unique_transactions := u \<rparr>)) prev) = fetch_asset_proposal (Pending p prev)"
    "get_authorization (Pending (pending_record_transaction i r (p\<lparr> unique_transactions := u \<rparr>)) prev) k' = get_authorization (Pending p prev) k'"
    "get_property (Pending (pending_record_transaction i r (p\<lparr> unique_transactions := u \<rparr>)) prev) i' = get_property (Pending p prev) i'"
    "get_account_record_by_name (Pending (pending_record_transaction i r (p\<lparr> unique_transactions := u \<rparr>)) prev) n = get_account_record_by_name (Pending p prev) n"
    "get_account_record_by_address (Pending (pending_record_transaction i r (p\<lparr> unique_transactions := u \<rparr>)) prev) a = get_account_record_by_address (Pending p prev) a"
    "get_asset_record_by_symbol (Pending (pending_record_transaction i r (p\<lparr> unique_transactions := u \<rparr>)) prev) n = get_asset_record_by_symbol (Pending p prev) n"
    "now (Pending (pending_record_transaction i r (p\<lparr> unique_transactions := u \<rparr>)) prev) = now (Pending p prev)"
    "get_head_block_num (Pending (pending_record_transaction i r (p\<lparr> unique_transactions := u \<rparr>)) prev) = get_head_block_num (Pending p prev)"
  by (simp_all add: gets_Pending pending_record_transaction_frame cong: option.case_cong)

lemma store_transaction_cases:
  assumes "store_transaction F i r s = Inr s'"
  obtains (db) d d' where "s = DB d" "s' = DB d'" "without_transactions d' = without_transactions d"
    | (pending) p u prev where "s = Pending p prev"
        "s' = Pending (pending_record_transaction i r (p\<lparr> unique_transactions := u \<rparr>)) prev"
  using assms by (cases s) (auto simp: Let_def split: if_split_asm dest: db_store_transaction_frame)

lemma store_transaction_frame:
  assumes "store_transaction F i r s = Inr s'"
  shows "get_asset_record s' = get_asset_record s"
    "get_balance_record s' = get_balance_record s"
    "get_account_record s' = get_account_record s"
    "get_delegate_slate s' = get_delegate_slate s"
    "get_bid_record s' = get_bid_record s"
    "get_ask_record s' = get_ask_record s"
    "get_relative_bid_record s' = get_relative_bid_record s"
    "get_relative_ask_record s' = get_relative_ask_record s"
    "get_short_record s' = get_short_record s"
    "get_collateral_record s' = get_collateral_record s"
    "get_feed s' = get_feed s"
    "get_market_status s' = get_market_status s"
    "fetch_asset_proposal s' = fetch_asset_proposal s"
    "get_authorization s' k' = get_authorization s k'"
    "get_property s' i' = get_property s i'"
    "get_account_record_by_name s' n = get_account_record_by_name s n"
    "get_account_record_by_address s' a = get_account_record_by_address s a"
    "get_asset_record_by_symbol s' n = get_asset_record_by_symbol s n"
    "now s' = now s"
    "get_head_block_num s' = get_head_block_num s"
proof -
  have "get_asset_record s' = get_asset_record s \<and>
    get_balance_record s' = get_balance_record s \<and>
    get_account_record s' = get_account_record s \<and>
    get_delegate_slate s' = get_delegate_slate s \<and>
    get_bid_record s' = get_bid_record s \<and>
    get_ask_record s' = get_ask_record s \<and>
    get_relative_bid_record s' = get_relative_bid_record s \<and>
    get_relative_ask_record s' = get_relative_ask_record s \<and>
    get_short_record s' = get_short_record s \<and>
    get_collateral_record s' = get_collateral_record s \<and>
    get_feed s' = get_feed s \<and>
    get_market_status s' = get_market_status s \<and>
    fetch_asset_proposal s' = fetch_asset_proposal s \<and>
    get_authorization s' k' = get_authorization s k' \<and>
    get_property s' i' = get_property s i' \<and>
    get_account_record_by_name s' n = get_account_record_by_name s n \<and>
    get_account_record_by_address s' a = get_account_record_by_address s a \<and>
    get_asset_record_by_symbol s' n = get_asset_record_by_symbol s n \<and>
    now s' = now s \<and>
    get_head_block_num s' = get_head_block_num s"
    using assms
  proof (cases rule: store_transaction_cases)
    case (db d d')
    show ?thesis unfolding db(1,2) by (intro conjI gets_without_transactions [OF db(3)])
  next
    case (pending p u prev)
    show ?thesis unfolding pending by (intro conjI gets_pending_transaction)
  qed
  then show "get_asset_record s' = get_asset_record s"
    "get_balance_record s' = get_balance_record s"
    "get_account_record s' = get_account_record s"
    "get_delegate_slate s' = get_delegate_slate s"
    "get_bid_record s' = get_bid_record s"
    "get_ask_record s' = get_ask_record s"
    "get_relative_bid_record s' = get_relative_bid_record s"
    "get_relative_ask_record s' = get_relative_ask_record s"
    "get_short_record s' = get_short_record s"
    "get_collateral_record s' = get_collateral_record s"
    "get_feed s' = get_feed s"
    "get_market_status s' = get_market_status s"
    "fetch_asset_proposal s' = fetch_asset_proposal s"
    "get_authorization s' k' = get_authorization s k'"
    "get_property s' i' = get_property s i'"
    "get_account_record_by_name s' n = get_account_record_by_name s n"
    "get_account_record_by_address s' a = get_account_record_by_address s a"
    "get_asset_record_by_symbol s' n = get_asset_record_by_symbol s n"
    "now s' = now s"
    "get_head_block_num s' = get_head_block_num s" by blast+
qed

lemma set_market_transactions_frame:
  assumes "set_market_transactions ts s = Inr s'"
  shows "get_asset_record s' = get_asset_record s"
    "get_balance_record s' = get_balance_record s"
    "get_account_record s' = get_account_record s"
    "get_delegate_slate s' = get_delegate_slate s"
    "get_bid_record s' = get_bid_record s"
    "get_ask_record s' = get_ask_record s"
    "get_relative_bid_record s' = get_relative_bid_record s"
    "get_relative_ask_record s' = get_relative_ask_record s"
    "get_short_record s' = get_short_record s"
    "get_collateral_record s' = get_collateral_record s"
    "get_feed s' = get_feed s"
    "get_market_status s' = get_market_status s"
    "fetch_asset_proposal s' = fetch_asset_proposal s"
    "get_authorization s' k' = get_authorization s k'"
    "get_property s' i' = get_property s i'"
    "get_account_record_by_name s' n = get_account_record_by_name s n"
    "get_account_record_by_address s' a = get_account_record_by_address s a"
    "get_asset_record_by_symbol s' n = get_asset_record_by_symbol s n"
    "now s' = now s"
    "get_head_block_num s' = get_head_block_num s"
  using assms
  by (cases s; auto simp: gets_DB gets_Pending db_defs db_index_defs split: if_split_asm
      cong: option.case_cong)+

end
