(* ===== verification/Chain_Inv.thy ===== *)
theory Chain_Inv
  imports Chain_Laws
begin

text \<open>
  The type invariant of the chain state. In a well formed state every table has at most
  one record per key, and a record whose key is one of its own fields stands under that
  field. Every store keeps the invariant, for the database and the pending state; the
  operations of the later theories assume it and re-establish it.
\<close>

section \<open>Keyed dictionaries\<close>

definition keyed_dict :: "('k \<Rightarrow> 'v \<Rightarrow> bool) \<Rightarrow> ('k \<times> 'v) list \<Rightarrow> bool" where
  "keyed_dict kd m = (dict_ok m \<and> (\<forall>(k, v) \<in> set m. kd k v))"

lemma keyed_dict_Nil [simp]: "keyed_dict kd []"
  by (simp add: keyed_dict_def)

lemma keyed_dict_get: "keyed_dict kd m \<Longrightarrow> map_of m k = Some v \<Longrightarrow> kd k v"
  by (auto simp: keyed_dict_def dest: map_of_SomeD)

lemma keyed_dict_iff: "keyed_dict kd m \<longleftrightarrow> dict_ok m \<and> (\<forall>k v. map_of m k = Some v \<longrightarrow> kd k v)"
  by (auto simp: keyed_dict_def dict_ok_def dest: map_of_SomeD)

lemma keyed_dict_update [simp]: "keyed_dict kd m \<Longrightarrow> kd k v \<Longrightarrow> keyed_dict kd (AList.update k v m)"
  by (auto simp: keyed_dict_iff)

lemma keyed_dict_delete [simp]: "keyed_dict kd m \<Longrightarrow> keyed_dict kd (AList.delete k m)"
  by (auto simp: keyed_dict_iff split: if_split_asm)

lemma keyed_dict_put_unless [simp]: "keyed_dict kd m \<Longrightarrow> kd k v \<Longrightarrow> keyed_dict kd (put_unless b k v m)"
  by (simp add: put_unless_def)

abbreviation any_key :: "'k \<Rightarrow> 'v \<Rightarrow> bool" where
  "any_key k v \<equiv> True"

section \<open>Well formed states\<close>

definition db_wf :: "'z fc_cond_scheme \<Rightarrow> chain_database \<Rightarrow> bool" where
  "db_wf F d =
    (keyed_dict (\<lambda>k r. asr_id r = k) (asset_db d) \<and>
     keyed_dict (\<lambda>k r. balance_id F r = k) (balance_db d) \<and>
     keyed_dict (\<lambda>k r. ar_id r = k) (account_db d) \<and>
     keyed_dict any_key (slate_db d) \<and>
     keyed_dict any_key (bid_db d) \<and> keyed_dict any_key (ask_db d) \<and>
     keyed_dict any_key (relative_bid_db d) \<and> keyed_dict any_key (relative_ask_db d) \<and>
     keyed_dict any_key (short_db d) \<and> keyed_dict any_key (collateral_db d) \<and>
     keyed_dict (\<lambda>k r. feed r = k) (feed_db d) \<and>
     keyed_dict (\<lambda>k s. (ms_quote_id s, ms_base_id s) = k) (market_status_db d) \<and>
     keyed_dict (\<lambda>k r. proposal_key r = k) (asset_proposal_db d) \<and>
     keyed_dict any_key (auth_db d) \<and> keyed_dict any_key (property_db d) \<and>
     keyed_dict (\<lambda>t q. length q \<le> MAX_RECENT_OPERATIONS) (recent_operations_db d))"

definition pending_wf :: "'z fc_cond_scheme \<Rightarrow> pending_chain_state \<Rightarrow> bool" where
  "pending_wf F p =
    (keyed_dict (\<lambda>k r. asr_id r = k) (assets p) \<and>
     keyed_dict (\<lambda>k r. balance_id F r = k) (balances p) \<and>
     keyed_dict (\<lambda>k r. ar_id r = k) (accounts p) \<and>
     keyed_dict any_key (slates p) \<and>
     keyed_dict any_key (bids p) \<and> keyed_dict any_key (asks p) \<and>
     keyed_dict any_key (relative_bids p) \<and> keyed_dict any_key (relative_asks p) \<and>
     keyed_dict any_key (shorts p) \<and> keyed_dict any_key (collaterals p) \<and>
     keyed_dict (\<lambda>k r. feed r = k) (feeds p) \<and>
     keyed_dict (\<lambda>k s. (ms_quote_id s, ms_base_id s) = k) (market_statuses p) \<and>
     keyed_dict (\<lambda>k r. proposal_key r = k) (asset_proposals p) \<and>
     keyed_dict any_key (authorizations p) \<and> keyed_dict any_key (properties p) \<and>
     keyed_dict (\<lambda>t q. length q \<le> MAX_RECENT_OPERATIONS) (recent_operations p))"

fun chain_wf :: "'z fc_cond_scheme \<Rightarrow> chain \<Rightarrow> bool" where
  "chain_wf F (DB d) = db_wf F d"
| "chain_wf F (Pending p prev) = (pending_wf F p \<and> chain_wf F prev)"

lemma pending_wf_empty [simp]: "pending_wf F pending_empty"
  by (simp add: pending_wf_def pending_empty_def)

text \<open>In a well formed state reading gives keyed records: the well-formedness of each
  table in the sense of the interface.\<close>

lemma wf_gets:
  assumes "chain_wf F s"
  shows "get_asset_record s i = Some r1 \<Longrightarrow> asr_id r1 = i"
    "get_balance_record s b = Some r2 \<Longrightarrow> balance_id F r2 = b"
    "get_account_record s a = Some r3 \<Longrightarrow> ar_id r3 = a"
    "get_feed s f = Some r4 \<Longrightarrow> feed r4 = f"
    "get_market_status s q = Some r5 \<Longrightarrow> (ms_quote_id r5, ms_base_id r5) = q"
    "fetch_asset_proposal s j = Some r6 \<Longrightarrow> proposal_key r6 = j"
  using assms
  by (induction s) (auto simp: gets_DB gets_Pending db_wf_def pending_wf_def map_add_Some_iff
      dest: keyed_dict_get)

lemma wf_tables:
  assumes "chain_wf (F :: 'z fc_cond_scheme) s"
  shows "asset_tab.wf_table s" "balance_tab.wf_table TYPE('z) F s" "account_tab.wf_table s"
    "feed_tab.wf_table s" "market_status_tab.wf_table s" "proposal_tab.wf_table s"
  using wf_gets [OF assms]
  by (auto simp: asset_tab.wf_table_def balance_tab.wf_table_def account_tab.wf_table_def
      feed_tab.wf_table_def market_status_tab.wf_table_def proposal_tab.wf_table_def)

lemma wf_tables_any [simp]:
  "slate_tab.wf_table s" "bid_tab.wf_table s" "ask_tab.wf_table s" "relative_bid_tab.wf_table s"
  "relative_ask_tab.wf_table s" "short_tab.wf_table s" "collateral_tab.wf_table s"
  "authorization_tab.wf_table s" "property_tab.wf_table s"
  by (simp_all add: slate_tab.wf_table_def bid_tab.wf_table_def ask_tab.wf_table_def
      relative_bid_tab.wf_table_def relative_ask_tab.wf_table_def short_tab.wf_table_def
      collateral_tab.wf_table_def authorization_tab.wf_table_def property_tab.wf_table_def)

section \<open>Stores keep the invariant\<close>

lemma length_push_recent: "length q \<le> MAX_RECENT_OPERATIONS \<Longrightarrow> length (push_recent o' q) \<le> MAX_RECENT_OPERATIONS"
  by (simp add: push_recent_def Let_def)

lemma update_recent_wf:
  assumes "keyed_dict (\<lambda>t q. length q \<le> MAX_RECENT_OPERATIONS) m"
  shows "keyed_dict (\<lambda>t q. length q \<le> MAX_RECENT_OPERATIONS) (update_recent o' m)"
  unfolding update_recent_def
  by (rule keyed_dict_update [OF assms])
     (use assms in \<open>auto intro!: length_push_recent dest: keyed_dict_get split: option.split\<close>)

lemmas wf_defs = db_wf_def pending_wf_def

text \<open>The type invariant of the chain state is kept by every store that cannot throw:
  each table keeps one record per key, records with their own key stay under it, and no
  queue of recent operations grows beyond its bound.\<close>

lemma store_wf [simp]:
  assumes "chain_wf F s"
  shows "chain_wf F (store_asset_record r1 s)"
    "chain_wf F (store_balance_record F r2 s)"
    "chain_wf F (store_delegate_slate i1 r3 s)"
    "chain_wf F (store_bid_record k r4 s)"
    "chain_wf F (store_ask_record k r4 s)"
    "chain_wf F (store_relative_bid_record k r4 s)"
    "chain_wf F (store_relative_ask_record k r4 s)"
    "chain_wf F (store_short_record k r4 s)"
    "chain_wf F (store_collateral_record k r5 s)"
    "chain_wf F (set_feed r6 s)"
    "chain_wf F (store_market_status r7 s)"
    "chain_wf F (store_asset_proposal r8 s)"
    "chain_wf F (authorize k1 r9 s)"
    "chain_wf F (set_property i2 r10 s)"
    "chain_wf F (store_slot_record r11 s)"
    "chain_wf F (store_market_history_record k2 r12 s)"
    "chain_wf F (store_burn_record k3 r13 s)"
    "chain_wf F (store_recent_operation r14 s)"
  using assms
  by (cases s; simp add: wf_defs db_defs update_recent_wf proposal_key_def)+

lemma index_transaction_wf [simp]: "chain_wf F (index_transaction a t s) = chain_wf F s"
  by (induction s) (simp_all add: wf_defs db_defs)

lemma db_store_account_record_db:
  assumes "db_store_account_record F r d = Inr d'"
  obtains "account_db d' = account_db d" | i where "account_db d' = AList.delete i (account_db d)"
    | "account_db d' = AList.update (ar_id r) r (account_db d)"
proof (cases "db_get_account_record d (ar_id r)")
  case None
  then show ?thesis
    using assms that(1,3) db_store_record_frame(2) [of F r d d']
    by (cases "account_is_null r") (simp_all add: db_store_account_record_def)
next
  case old: (Some old)
  show ?thesis
  proof (cases "account_is_null r")
    case True
    then show ?thesis
      using assms old that(2) db_remove_record_frame(2) [of F old d d']
      by (simp add: db_store_account_record_def)
  next
    case False
    obtain d1 d2 where d1: "account_db d1 = AList.update (ar_id r) r (account_db d)"
      and d2: "db_index_signing_keys F old r d1 = Inr d2" and d': "db_index_votes old r d2 = Inr d'"
      using db_store_account_record_update [OF assms old False] by blast
    then show ?thesis
      using that(3) db_index_votes_frame(2) [OF d'] db_index_signing_keys_frame(2) [OF d2] by simp
  qed
qed

lemma store_account_record_wf:
  assumes "store_account_record G r s = Inr s'" "chain_wf F s"
  shows "chain_wf F s'"
proof (cases s)
  case (DB d)
  then obtain d' where d': "db_store_account_record G r d = Inr d'" "s' = DB d'"
    using assms(1) by auto
  note fields = without_accounts_fields [OF db_store_account_record_frame [OF d'(1)]]
  have "keyed_dict (\<lambda>k r. ar_id r = k) (account_db d')"
    using d'(1) assms(2) DB by (cases rule: db_store_account_record_db) (simp_all add: db_wf_def)
  then show ?thesis
    using assms(2) d'(2) DB by (simp add: db_wf_def fields)
next
  case (Pending p prev)
  then obtain p' where p': "pending_store_account_record G r p = Inr p'" "s' = Pending p' prev"
    using assms(1) by auto
  have "accounts p' = AList.update (ar_id r) r (accounts p)"
    using p'(1) unfolding pending_store_account_record_def Let_def by (auto split: if_split_asm)
  then show ?thesis
    using assms(2) p'(2) Pending pending_store_account_record_fields [OF p'(1)]
    by (simp add: pending_wf_def)
qed

lemma pending_record_transaction_recent:
  assumes "keyed_dict (\<lambda>t q. length q \<le> MAX_RECENT_OPERATIONS) (recent_operations p)"
  shows "keyed_dict (\<lambda>t q. length q \<le> MAX_RECENT_OPERATIONS)
    (recent_operations (pending_record_transaction i r p))"
proof -
  have "keyed_dict (\<lambda>t q. length q \<le> MAX_RECENT_OPERATIONS)
      (recent_operations (fold (\<lambda>o' p. p\<lparr> recent_operations := update_recent o' (recent_operations p) \<rparr>) os p))"
    if "keyed_dict (\<lambda>t q. length q \<le> MAX_RECENT_OPERATIONS) (recent_operations p)"
    for os and p :: pending_chain_state
    using that by (induction os arbitrary: p) (simp_all add: update_recent_wf)
  then show ?thesis
    using assms by (simp add: pending_record_transaction_def)
qed

lemma pending_record_transaction_wf:
  "pending_wf F p \<Longrightarrow> pending_wf F (pending_record_transaction i r p)"
  by (simp add: pending_wf_def pending_record_transaction_frame pending_record_transaction_recent)

lemma store_transaction_wf:
  assumes "store_transaction G i r s = Inr s'" "chain_wf F s"
  shows "chain_wf F s'"
  using assms
proof (cases rule: store_transaction_cases)
  case (db d d')
  then show ?thesis
    using assms(2) without_transactions_fields [OF db(3)] by (simp add: db_wf_def)
next
  case (pending p u prev)
  have "pending_wf F (p\<lparr> unique_transactions := u \<rparr>) = pending_wf F p"
    by (simp add: pending_wf_def)
  then show ?thesis
    using assms(2) pending pending_record_transaction_wf by simp
qed

lemma set_market_transactions_wf:
  "set_market_transactions ts s = Inr s' \<Longrightarrow> chain_wf F s \<Longrightarrow> chain_wf F s'"
  by (cases s) (auto simp: db_defs wf_defs split: if_split_asm)

end
