(* ===== verification/Chain_Interface.thy ===== *)
theory Chain_Interface
  imports Chain_Inv
begin

text \<open>
  The operations \<^verbatim>\<open>chain_interface\<close> implements itself, for the database and a pending state
  alike (\<^verbatim>\<open>chain_interface.cpp\<close>, \<^verbatim>\<open>chain_interface_v1.cpp\<close>): which account names and asset
  symbols are valid, what registration costs, how identifiers are drawn, and the typed
  properties. \<open>is_valid_account_name_iff\<close> compares the recursive test of names with a
  grammar over the labels of the name; \<open>max_delegate_pay_halves\<close> gives the closed form of
  the halving loop.
\<close>

section \<open>Account names\<close>

text \<open>The classification functions of \<^verbatim>\<open>ctype.h\<close> in the C locale.\<close>

definition isupper :: "char \<Rightarrow> bool" where
  "isupper c = (65 \<le> (of_char c :: nat) \<and> (of_char c :: nat) \<le> 90)"

definition islower :: "char \<Rightarrow> bool" where
  "islower c = (97 \<le> (of_char c :: nat) \<and> (of_char c :: nat) \<le> 122)"

definition isalpha :: "char \<Rightarrow> bool" where
  "isalpha c = (isupper c \<or> islower c)"

definition isalnum :: "char \<Rightarrow> bool" where
  "isalnum c = (isalpha c \<or> is_dec_digit c)"

abbreviation dot :: char where "dot \<equiv> CHR ''.''"

definition get_parent_account_name :: "string \<Rightarrow> string option" where
  "get_parent_account_name account_name =
    (case dropWhile (\<lambda>c. c \<noteq> dot) account_name of [] \<Rightarrow> None | d # rest \<Rightarrow> Some rest)"

definition BTS_BLOCKCHAIN_MIN_NAME_SIZE :: nat where "BTS_BLOCKCHAIN_MIN_NAME_SIZE = 1"
definition BTS_BLOCKCHAIN_MAX_NAME_SIZE :: nat where "BTS_BLOCKCHAIN_MAX_NAME_SIZE = 63"

definition valid_subname :: "string \<Rightarrow> bool" where
  "valid_subname subname =
    (if \<not> isalnum (last subname) \<or> isupper (last subname) then False
     else list_all (\<lambda>c. isalnum c \<and> \<not> isupper c \<or> c = CHR ''-'') subname)"

function is_valid_account_name :: "string \<Rightarrow> bool" where
  "is_valid_account_name name =
    (if length name < BTS_BLOCKCHAIN_MIN_NAME_SIZE then False
     else if length name > BTS_BLOCKCHAIN_MAX_NAME_SIZE then False
     else if \<not> isalpha (hd name) then False
     else if \<not> isalnum (last name) \<or> isupper (last name) then False
     else
       let subname = takeWhile (\<lambda>c. c \<noteq> dot) name;
           supername = (case dropWhile (\<lambda>c. c \<noteq> dot) name of [] \<Rightarrow> [] | d # rest \<Rightarrow> rest)
       in if \<not> valid_subname subname then False
          else if supername = [] then True
          else is_valid_account_name supername)"
  by pat_completeness auto

termination is_valid_account_name
proof (relation "measure length", goal_cases)
  case (2 name subname supername)
  then have "name \<noteq> []" by (auto simp: BTS_BLOCKCHAIN_MIN_NAME_SIZE_def)
  moreover have "length (dropWhile (\<lambda>c. c \<noteq> dot) name) \<le> length name"
    by (rule length_dropWhile_le)
  ultimately show ?case
    using 2 by (cases "dropWhile (\<lambda>c. c \<noteq> dot) name") auto
qed simp

declare is_valid_account_name.simps [simp del]

section \<open>Asset symbols\<close>

definition BTS_V0_4_24_FORK_BLOCK_NUM :: uint32 where "BTS_V0_4_24_FORK_BLOCK_NUM = 991700"
definition BTS_V0_4_28_FORK_BLOCK_NUM :: uint32 where "BTS_V0_4_28_FORK_BLOCK_NUM = 9999999"
definition BTS_BLOCKCHAIN_MIN_SYMBOL_SIZE :: nat where "BTS_BLOCKCHAIN_MIN_SYMBOL_SIZE = 3"
definition BTS_BLOCKCHAIN_MAX_SYMBOL_SIZE :: nat where "BTS_BLOCKCHAIN_MAX_SYMBOL_SIZE = 8"

text \<open>The loop over the characters, with the number of dots seen so far.\<close>

fun symbol_chars :: "nat \<Rightarrow> string \<Rightarrow> bool" where
  "symbol_chars dots [] = True"
| "symbol_chars dots (c # cs) =
    (if c = dot then (if dots + 1 > 1 then False else symbol_chars (dots + 1) cs)
     else if \<not> isalnum c \<or> \<not> isupper c then False
     else symbol_chars dots cs)"

definition is_valid_symbol_name :: "chain \<Rightarrow> string \<Rightarrow> bool res" where
  "is_valid_symbol_name s sym_name =
    (if sym_name = ''BTSX'' then Inl assert_exception
     else if length sym_name < BTS_BLOCKCHAIN_MIN_SYMBOL_SIZE \<or> length sym_name > BTS_BLOCKCHAIN_MAX_SYMBOL_SIZE
     then Inr False
     else if \<not> symbol_chars 0 sym_name then Inr False
     else if last sym_name = dot then Inr False
     else if hd sym_name = dot then Inr False
     else if get_head_block_num s \<ge> BTS_V0_4_28_FORK_BLOCK_NUM \<and> length sym_name \<ge> 3 \<and> take 3 sym_name = ''BIT''
     then Inr False
     else Inr True)"

section \<open>Pay and fees\<close>

definition BTS_BLOCKCHAIN_PRECISION :: share_type where "BTS_BLOCKCHAIN_PRECISION = 100000"
definition BTS_MAX_DELEGATE_PAY_PER_BLOCK :: share_type where "BTS_MAX_DELEGATE_PAY_PER_BLOCK = 5000000"
definition BTS_BLOCKCHAIN_BLOCKS_PER_DAY :: share_type where "BTS_BLOCKCHAIN_BLOCKS_PER_DAY = 8640"
definition BTS_BLOCKCHAIN_NUM_DELEGATES :: nat where "BTS_BLOCKCHAIN_NUM_DELEGATES = 101"
definition BTS_BLOCKCHAIN_DELEGATE_REGISTRATION_FEE :: share_type where
  "BTS_BLOCKCHAIN_DELEGATE_REGISTRATION_FEE = 720"
definition BTS_BLOCKCHAIN_ASSET_REGISTRATION_FEE :: share_type where
  "BTS_BLOCKCHAIN_ASSET_REGISTRATION_FEE = 120960"

text \<open>The halving loop, one step per full period of four years.\<close>

fun halve_pay :: "nat \<Rightarrow> share_type \<Rightarrow> share_type" where
  "halve_pay 0 pay_per_block = pay_per_block"
| "halve_pay (Suc n) pay_per_block = halve_pay n (sdiv64 pay_per_block 2)"

definition pay_start_timestamp :: time_point_sec where "pay_start_timestamp = 1415188800"
definition seconds_per_period :: uint32 where "seconds_per_period = 126144000"

definition get_max_delegate_pay_issued_per_block :: "'z fc_base_scheme \<Rightarrow> chain \<Rightarrow> share_type" where
  "get_max_delegate_pay_issued_per_block F s =
    (if now s \<ge> pay_start_timestamp then
       (let elapsed_time = (word_of_int (tps_elapsed F (now s) pay_start_timestamp) :: uint32);
            num_full_periods = elapsed_time div seconds_per_period
        in halve_pay (unat num_full_periods) BTS_MAX_DELEGATE_PAY_PER_BLOCK)
     else BTS_MAX_DELEGATE_PAY_PER_BLOCK)"

definition get_delegate_pay_rate_v1 :: "chain \<Rightarrow> share_type res" where
  "get_delegate_pay_rate_v1 s =
    (case get_asset_record s 0 of
       None \<Rightarrow> Inl assert_exception
     | Some base_record \<Rightarrow> Inr (sdiv64 (collected_fees base_record) (BTS_BLOCKCHAIN_BLOCKS_PER_DAY * 14)))"

definition get_delegate_registration_fee_v1 :: "8 word \<Rightarrow> chain \<Rightarrow> share_type res" where
  "get_delegate_registration_fee_v1 rate s =
    bindE (get_delegate_pay_rate_v1 s) (\<lambda>pay.
      let unscaled_fee = sdiv64 (pay * BTS_BLOCKCHAIN_DELEGATE_REGISTRATION_FEE)
                           (of_nat BTS_BLOCKCHAIN_NUM_DELEGATES)
      in Inr (sdiv64 (unscaled_fee * ucast rate) 100))"

definition get_asset_registration_fee_v1 :: "chain \<Rightarrow> share_type res" where
  "get_asset_registration_fee_v1 s =
    bindE (get_delegate_pay_rate_v1 s) (\<lambda>pay. Inr (pay * BTS_BLOCKCHAIN_ASSET_REGISTRATION_FEE))"

definition get_delegate_registration_fee :: "'z fc_base_scheme \<Rightarrow> 8 word \<Rightarrow> chain \<Rightarrow> share_type res" where
  "get_delegate_registration_fee F rate s =
    (if get_head_block_num s < BTS_V0_4_24_FORK_BLOCK_NUM then get_delegate_registration_fee_v1 rate s
     else
       let blocks_per_two_weeks = 14 * BTS_BLOCKCHAIN_BLOCKS_PER_DAY;
           max_total_pay_per_two_weeks = blocks_per_two_weeks * get_max_delegate_pay_issued_per_block F s;
           max_pay_per_two_weeks = sdiv64 max_total_pay_per_two_weeks (of_nat BTS_BLOCKCHAIN_NUM_DELEGATES);
           registration_fee = sdiv64 (max_pay_per_two_weeks * ucast rate) 100
       in if 0 <s registration_fee then Inr registration_fee else Inl assert_exception)"

definition get_asset_registration_fee :: "8 word \<Rightarrow> chain \<Rightarrow> share_type res" where
  "get_asset_registration_fee symbol_length s =
    (if get_head_block_num s < BTS_V0_4_24_FORK_BLOCK_NUM then get_asset_registration_fee_v1 s
     else
       let long_symbol_price = 500 * BTS_BLOCKCHAIN_PRECISION;
           short_symbol_price = 1000 * long_symbol_price
       in if \<not> 0 <s long_symbol_price then Inl assert_exception
          else if \<not> long_symbol_price <s short_symbol_price then Inl assert_exception
          else Inr (if symbol_length \<le> 5 then short_symbol_price else long_symbol_price))"

section \<open>Identifiers\<close>

text \<open>Identifiers of assets and accounts are signed and have 32 bits; a sum beyond them is undefined
  behaviour.\<close>

definition id_of_int :: "int \<Rightarrow> int res" where
  "id_of_int i = (if - (2 ^ 31) \<le> i \<and> i < 2 ^ 31 then Inr i else Inl undefined_behaviour)"

definition last_asset_id :: "'z fc_base_scheme \<Rightarrow> chain \<Rightarrow> asset_id_type res" where
  "last_asset_id F s = bindE (get_property s last_asset_id_property) (variant_as_int F)"

definition new_asset_id :: "'z fc_base_scheme \<Rightarrow> chain \<Rightarrow> (asset_id_type \<times> chain) res" where
  "new_asset_id F s =
    bindE (last_asset_id F s) (\<lambda>i.
    bindE (id_of_int (i + 1)) (\<lambda>next_id.
      Inr (next_id, set_property last_asset_id_property (variant_of_int F next_id) s)))"

definition last_account_id :: "'z fc_base_scheme \<Rightarrow> chain \<Rightarrow> account_id_type res" where
  "last_account_id F s = bindE (get_property s last_account_id_property) (variant_as_int F)"

definition new_account_id :: "'z fc_base_scheme \<Rightarrow> chain \<Rightarrow> (account_id_type \<times> chain) res" where
  "new_account_id F s =
    bindE (last_account_id F s) (\<lambda>i.
    bindE (id_of_int (i + 1)) (\<lambda>next_id.
      Inr (next_id, set_property last_account_id_property (variant_of_int F next_id) s)))"

section \<open>Typed properties\<close>

definition get_active_delegates :: "'z fc_base_scheme \<Rightarrow> chain \<Rightarrow> account_id_type list res" where
  "get_active_delegates F s = bindE (get_property s active_delegate_list_id_property) (variant_as_ids F)"

definition set_active_delegates :: "'z fc_base_scheme \<Rightarrow> account_id_type list \<Rightarrow> chain \<Rightarrow> chain" where
  "set_active_delegates F delegate_ids =
    set_property active_delegate_list_id_property (variant_of_ids F delegate_ids)"

definition is_active_delegate :: "'z fc_base_scheme \<Rightarrow> account_id_type \<Rightarrow> chain \<Rightarrow> bool res" where
  "is_active_delegate F i s = bindE (get_active_delegates F s) (\<lambda>active. Inr (i \<in> set active))"

definition get_required_confirmations :: "'z fc_base_scheme \<Rightarrow> chain \<Rightarrow> int64 res" where
  "get_required_confirmations F s =
    bindE (get_property s confirmation_requirement_property) (\<lambda>v.
    bindE (variant_as_int F v) (\<lambda>i. Inr (word_of_int i)))"

text \<open>The set of dirty markets is stored in ascending order; any failure to read it is
  swallowed and reads as no dirty market.\<close>

definition set_dirty_markets :: "'z fc_base_scheme \<Rightarrow> (asset_id_type \<times> asset_id_type) list \<Rightarrow> chain \<Rightarrow> chain" where
  "set_dirty_markets F d = set_property dirty_markets_property (variant_of_pairs F (sort (remdups d)))"

definition get_dirty_markets :: "'z fc_base_scheme \<Rightarrow> chain \<Rightarrow> (asset_id_type \<times> asset_id_type) list" where
  "get_dirty_markets F s =
    (case bindE (get_property s dirty_markets_property) (variant_as_pairs F) of
       Inl e \<Rightarrow> [] | Inr d \<Rightarrow> sort (remdups d))"

section \<open>Names and their labels\<close>

text \<open>A reference definition: a name is split at its dots, and each label starts with a
  lower-case letter, ends with one or a digit, and holds only those and dashes.\<close>

fun labels :: "string \<Rightarrow> string list" where
  "labels [] = [[]]"
| "labels (c # cs) = (if c = dot then [] # labels cs else (c # hd (labels cs)) # tl (labels cs))"

definition label_ok :: "string \<Rightarrow> bool" where
  "label_ok l =
    (l \<noteq> [] \<and> islower (hd l) \<and> (islower (last l) \<or> is_dec_digit (last l)) \<and>
     list_all (\<lambda>c. islower c \<or> is_dec_digit c \<or> c = CHR ''-'') l)"

lemma labels_not_Nil [simp]: "labels s \<noteq> []"
  by (cases s) auto

lemma labels_Nil_iff [simp]: "labels s = [[]] \<longleftrightarrow> s = []"
  by (cases s) auto

lemma labels_unfold:
  "labels s = takeWhile (\<lambda>c. c \<noteq> dot) s #
    (case dropWhile (\<lambda>c. c \<noteq> dot) s of [] \<Rightarrow> [] | d # rest \<Rightarrow> labels rest)"
  by (induction s) auto

lemma char_classes:
  "isalnum c \<and> \<not> isupper c \<longleftrightarrow> islower c \<or> is_dec_digit c"
  "islower c \<Longrightarrow> isalpha c" "isalpha c \<Longrightarrow> \<not> isupper c \<Longrightarrow> islower c"
  "\<not> isupper dot" "\<not> islower dot" "\<not> is_dec_digit dot" "\<not> islower (CHR ''-'')" "\<not> is_dec_digit (CHR ''-'')"
  "\<not> isalpha (CHR ''-'')"
  by (auto simp: isalnum_def isalpha_def isupper_def islower_def is_dec_digit_def)

lemma valid_subname_iff:
  assumes "subname \<noteq> []" "isalpha (hd subname)"
  shows "valid_subname subname \<longleftrightarrow> label_ok subname"
proof -
  have "valid_subname subname \<longleftrightarrow> (islower (last subname) \<or> is_dec_digit (last subname)) \<and>
      list_all (\<lambda>c. islower c \<or> is_dec_digit c \<or> c = CHR ''-'') subname"
    unfolding valid_subname_def list_all_iff using char_classes(1) by metis
  moreover have "islower (hd subname)"
    if "list_all (\<lambda>c. islower c \<or> is_dec_digit c \<or> c = CHR ''-'') subname"
  proof -
    have "islower (hd subname) \<or> is_dec_digit (hd subname) \<or> hd subname = CHR ''-''"
      using that assms(1) by (simp add: list_all_iff)
    then show ?thesis
      using assms(2) by (auto simp: isalpha_def isupper_def islower_def is_dec_digit_def)
  qed
  ultimately show ?thesis
    using assms(1) by (auto simp: label_ok_def)
qed

lemma label_ok_charsD: "label_ok l \<Longrightarrow> isalpha (hd l) \<and> (islower (last l) \<or> is_dec_digit (last l)) \<and> l \<noteq> []"
  by (simp add: label_ok_def char_classes)

lemma last_labels: "s \<noteq> [] \<Longrightarrow> last s \<noteq> dot \<Longrightarrow> last (last (labels s)) = last s \<and> last (labels s) \<noteq> []"
proof (induction s)
  case (Cons c cs)
  show ?case
  proof (cases "cs = []")
    case False
    with Cons have IH: "last (last (labels cs)) = last cs" "last (labels cs) \<noteq> []" by auto
    then show ?thesis
      using False Cons.prems labels_not_Nil [of cs]
      by (cases "labels cs") auto
  qed (use Cons.prems in auto)
qed simp

lemma last_dot_labels: "s \<noteq> [] \<Longrightarrow> last s = dot \<Longrightarrow> last (labels s) = []"
proof (induction s)
  case (Cons c cs)
  show ?case
  proof (cases "cs = []")
    case False
    with Cons have "last (labels cs) = []" by auto
    then show ?thesis
      using False labels_not_Nil [of cs] Cons.prems by (cases "labels cs") auto
  qed (use Cons.prems in auto)
qed simp

lemma labels_ok_ends:
  assumes "list_all label_ok (labels name)"
  shows "name \<noteq> []" "isalpha (hd name)" "isalnum (last name)" "\<not> isupper (last name)"
proof -
  have first: "label_ok (takeWhile (\<lambda>c. c \<noteq> dot) name)"
    using assms by (subst (asm) labels_unfold) simp
  then show ne: "name \<noteq> []" by (auto simp: label_ok_def)
  then show "isalpha (hd name)"
    using label_ok_charsD [OF first] by (cases name) (auto split: if_splits)
  have lst: "label_ok (last (labels name))"
    using assms by (simp add: list_all_iff)
  then have "last name \<noteq> dot"
    using last_dot_labels [OF ne] by (auto simp: label_ok_def)
  then have "last (last (labels name)) = last name"
    using last_labels [OF ne] by simp
  then have "isalnum (last name) \<and> \<not> isupper (last name)"
    using label_ok_charsD [OF lst] char_classes(1) by metis
  then show "isalnum (last name)" "\<not> isupper (last name)" by simp_all
qed

lemma valid_name_labels:
  "is_valid_account_name name \<longleftrightarrow>
    length name \<le> BTS_BLOCKCHAIN_MAX_NAME_SIZE \<and> list_all label_ok (labels name)"
proof (induction name rule: is_valid_account_name.induct)
  case (1 name)
  let ?sub = "takeWhile (\<lambda>c. c \<noteq> dot) name"
  let ?super = "case dropWhile (\<lambda>c. c \<noteq> dot) name of [] \<Rightarrow> [] | d # rest \<Rightarrow> rest"
  let ?ends = "name \<noteq> [] \<and> isalpha (hd name) \<and> isalnum (last name) \<and> \<not> isupper (last name)"
  show ?case
  proof (cases "?ends \<and> length name \<le> BTS_BLOCKCHAIN_MAX_NAME_SIZE")
    case False
    then show ?thesis
      using labels_ok_ends [of name]
      by (subst is_valid_account_name.simps) (auto simp: Let_def BTS_BLOCKCHAIN_MIN_NAME_SIZE_def)
  next
    case True
    then have sub: "?sub \<noteq> []" "hd ?sub = hd name"
      using char_classes(4,5) by (cases name; auto simp: isalpha_def)+
    have dot_end: "?super = [] \<longleftrightarrow> dropWhile (\<lambda>c. c \<noteq> dot) name = []"
    proof (cases "dropWhile (\<lambda>c. c \<noteq> dot) name")
      case (Cons d rest)
      have "d = dot" using Cons hd_dropWhile [of "\<lambda>c. c \<noteq> dot" name] by auto
      moreover have "last name = last (d # rest)"
        using Cons by (metis last_appendR list.distinct(1) takeWhile_dropWhile_id)
      ultimately show ?thesis
        using True Cons char_classes(4,5,6) by (auto simp: isalnum_def isalpha_def)
    qed (simp del: dropWhile_eq_Nil_conv)
    have len: "length ?super \<le> length name"
      using length_dropWhile_le [of "\<lambda>c. c \<noteq> dot" name] by (auto split: list.split)
    have valid: "is_valid_account_name name \<longleftrightarrow>
        label_ok ?sub \<and> (?super = [] \<or> is_valid_account_name ?super)"
      using True valid_subname_iff [OF sub(1)] sub(2)
      by (subst is_valid_account_name.simps) (auto simp: Let_def BTS_BLOCKCHAIN_MIN_NAME_SIZE_def Suc_le_eq)
    have IH: "is_valid_account_name ?super \<longleftrightarrow> list_all label_ok (labels ?super)"
      if "label_ok ?sub" "?super \<noteq> []"
    proof -
      have "valid_subname ?sub"
        using that(1) valid_subname_iff [OF sub(1)] sub(2) True by simp
      then have "is_valid_account_name ?super \<longleftrightarrow>
          length ?super \<le> BTS_BLOCKCHAIN_MAX_NAME_SIZE \<and> list_all label_ok (labels ?super)"
        using "1.IH" True that(2) by (auto simp: BTS_BLOCKCHAIN_MIN_NAME_SIZE_def Suc_le_eq)
      then show ?thesis using len True by simp
    qed
    have "list_all label_ok (labels name) \<longleftrightarrow>
        label_ok ?sub \<and> (?super = [] \<or> list_all label_ok (labels ?super))"
    proof (cases "dropWhile (\<lambda>c. c \<noteq> dot) name")
      case Nil
      then show ?thesis using labels_unfold [of name] by (simp del: dropWhile_eq_Nil_conv)
    next
      case (Cons d rest)
      then have "?super \<noteq> []" using dot_end by simp
      with Cons show ?thesis using labels_unfold [of name] by simp
    qed
    then show ?thesis
      using valid IH True by blast
  qed
qed

text \<open>C21. The recursive test of account names is the grammar: a name is valid exactly if it
  has at most 63 characters and every label between its dots is well formed.\<close>

theorem is_valid_account_name_iff:
  "is_valid_account_name name =
    (length name \<le> BTS_BLOCKCHAIN_MAX_NAME_SIZE \<and> list_all label_ok (labels name))"
  using valid_name_labels by blast

lemma parent_labels:
  assumes "get_parent_account_name name = Some parent"
  shows "labels name = takeWhile (\<lambda>c. c \<noteq> dot) name # labels parent" "length parent < length name"
proof -
  obtain d where d: "dropWhile (\<lambda>c. c \<noteq> dot) name = d # parent"
    using assms by (auto simp: get_parent_account_name_def split: list.splits)
  then show "labels name = takeWhile (\<lambda>c. c \<noteq> dot) name # labels parent"
    by (subst labels_unfold) simp
  show "length parent < length name"
    using length_dropWhile_le [of "\<lambda>c. c \<noteq> dot" name] d by simp
qed

text \<open>C22. The parent of a valid account name is a valid and shorter account name, so the
  chain of ancestors of an account ends.\<close>

theorem parent_account_name_valid:
  assumes "is_valid_account_name name" "get_parent_account_name name = Some parent"
  shows "is_valid_account_name parent \<and> length parent < length name"
  using assms parent_labels [OF assms(2)] by (auto simp: valid_name_labels)

theorem parent_account_name_valid_witness:
  "is_valid_account_name ''c.bob'' \<and> length ''c.bob'' < length ''a-1.c.bob''"
proof -
  have "is_valid_account_name ''a-1.c.bob''"
    by (simp add: valid_name_labels BTS_BLOCKCHAIN_MAX_NAME_SIZE_def label_ok_def islower_def is_dec_digit_def)
  moreover have "get_parent_account_name ''a-1.c.bob'' = Some ''c.bob''"
    by (simp add: get_parent_account_name_def)
  ultimately show ?thesis using parent_account_name_valid by blast
qed

section \<open>Pay and fees\<close>

lemma halve_pay_div: "0 \<le> sint p \<Longrightarrow> sint (halve_pay n p) = sint p div 2 ^ n"
proof (induction n arbitrary: p)
  case (Suc n)
  have half: "sint (sdiv64 p 2) = sint p div 2"
  proof -
    have q: "quot_c (sint p) 2 = sint p div 2" using Suc.prems by (simp add: quot_c_nonneg)
    have "sint (sdiv64 p 2) = sint (word_of_int (sint p div 2) :: int64)"
      by (simp add: sdiv64_def q)
    also have "\<dots> = sint p div 2"
      by (rule sint_word_of_int64) (use sint64_range [of p] Suc.prems in \<open>simp_all add: INT64_MIN_def INT64_MAX_def\<close>)
    finally show ?thesis .
  qed
  then show ?case
    using Suc by (simp add: zdiv_zmult2_eq)
qed simp

lemma elapsed_periods:
  assumes "(t0 :: uint32) \<le> t"
  shows "unat ((word_of_int (uint t - uint t0) :: uint32) div p) = (unat t - unat t0) div unat p"
proof -
  have "(word_of_int (uint t - uint t0) :: uint32) = t - t0" by simp
  moreover have "unat (t - t0) = unat t - unat t0" using assms by (rule unat_sub)
  ultimately show ?thesis by (simp add: unat_div)
qed

lemma max_delegate_pay:
  assumes "time_laws F"
  shows "sint (get_max_delegate_pay_issued_per_block F s) =
    5000000 div 2 ^ ((unat (now s) - 1415188800) div 126144000)"
proof (cases "now s \<ge> pay_start_timestamp")
  case True
  have "tps_elapsed F (now s) pay_start_timestamp = uint (now s) - uint pay_start_timestamp"
    using assms by (simp add: time_laws_def)
  moreover have "sint BTS_MAX_DELEGATE_PAY_PER_BLOCK = 5000000"
    by (simp add: BTS_MAX_DELEGATE_PAY_PER_BLOCK_def)
  ultimately show ?thesis
    using True elapsed_periods [OF True]
    by (simp add: get_max_delegate_pay_issued_per_block_def Let_def halve_pay_div
        pay_start_timestamp_def seconds_per_period_def)
next
  case False
  then have "unat (now s) < 1415188800"
    by (simp add: pay_start_timestamp_def not_le word_less_nat_alt)
  then show ?thesis
    using False by (simp add: get_max_delegate_pay_issued_per_block_def BTS_MAX_DELEGATE_PAY_PER_BLOCK_def)
qed

text \<open>C24. The pay a block may issue starts at 50 shares and is halved, rounding down, once per
  full period of four years since the start: the loop computes exactly that quotient.\<close>

theorem max_delegate_pay_halves:
  assumes "time_laws F"
  shows "sint (get_max_delegate_pay_issued_per_block F s) =
    5000000 div 2 ^ ((unat (now s) - 1415188800) div 126144000)"
  using max_delegate_pay [OF assms] .

abbreviation db_at :: "uint32 \<Rightarrow> time_point_sec \<Rightarrow> chain" where
  "db_at num t \<equiv> DB (db_empty\<lparr> head_block_num := num, head_block_timestamp := t \<rparr>)"

theorem max_delegate_pay_halves_witness:
  "sint (get_max_delegate_pay_issued_per_block fc_ref_base (db_at 1 1700000000)) = 1250000"
  using max_delegate_pay_halves [OF fc_ref_base_laws(4), of "db_at 1 1700000000"]
  by (simp add: db_now_def)

lemma zdiv_le_self: "0 \<le> a \<Longrightarrow> 0 < b \<Longrightarrow> a div b \<le> (a :: int)"
  using zdiv_mono2 [of a 1 b] by simp

lemma sint_sdiv64_nonneg:
  assumes "0 \<le> sint a" "0 < sint b"
  shows "sint (sdiv64 a b) = sint a div sint b"
proof -
  have "quot_c (sint a) (sint b) = sint a div sint b"
    using assms by (rule quot_c_nonneg)
  moreover have "sint a div sint b \<le> sint a"
    using assms by (rule zdiv_le_self)
  moreover have "0 \<le> sint a div sint b"
    using assms by (simp add: pos_imp_zdiv_nonneg_iff)
  ultimately show ?thesis
    using sint64_range [of a] assms
    by (simp add: sdiv64_def sint_word_of_int64 INT64_MIN_def)
qed

lemma sint_mul_word_of_int:
  assumes "INT64_MIN \<le> sint (a :: int64) * sint b" "sint a * sint b \<le> INT64_MAX"
  shows "sint (a * b) = sint a * sint b"
proof -
  have "a * b = word_of_int (sint a * sint b)" by simp
  then show ?thesis using sint_word_of_int64 [OF assms] by simp
qed

lemma uint_rate_less: "uint (rate :: 8 word) \<le> 255"
  using uint_lt2p [of rate] by simp

lemma sint_ucast_rate: "sint (ucast (rate :: 8 word) :: int64) = uint rate"
  using sint_word_of_int64 [of "uint rate"] uint_rate_less [of rate] uint_ge_0 [of rate]
  by (simp add: INT64_MIN_def INT64_MAX_def)

text \<open>C23. Since block 991700 the registration fee of a delegate is the pay of one delegate for
  two weeks, scaled by the pay rate in percent; it is computed without overflow, and a fee
  of zero is refused.\<close>

theorem delegate_registration_fee:
  assumes laws: "time_laws F" and fork: "BTS_V0_4_24_FORK_BLOCK_NUM \<le> get_head_block_num s"
    and pay: "p = 5000000 div 2 ^ ((unat (now s) - 1415188800) div 126144000)"
    and fee: "fee = 120960 * p div 101 * uint rate div 100"
  shows "get_delegate_registration_fee F rate s =
    (if 0 < fee then Inr (word_of_int fee) else Inl assert_exception)"
proof -
  have p: "sint (get_max_delegate_pay_issued_per_block F s) = p" "0 \<le> p" "p \<le> 5000000"
    using max_delegate_pay [OF laws, of s] pay
    by (simp_all add: pos_imp_zdiv_nonneg_iff zdiv_le_self)
  let ?t = "14 * BTS_BLOCKCHAIN_BLOCKS_PER_DAY * get_max_delegate_pay_issued_per_block F s"
  have "sint (14 * BTS_BLOCKCHAIN_BLOCKS_PER_DAY) = 120960"
    by (simp add: BTS_BLOCKCHAIN_BLOCKS_PER_DAY_def)
  then have t: "sint ?t = 120960 * p"
    using p by (subst sint_mul_word_of_int) (simp_all add: INT64_MIN_def INT64_MAX_def)
  let ?m = "sdiv64 ?t (of_nat BTS_BLOCKCHAIN_NUM_DELEGATES)"
  have m: "sint ?m = 120960 * p div 101"
    using t p by (subst sint_sdiv64_nonneg) (simp_all add: BTS_BLOCKCHAIN_NUM_DELEGATES_def)
  have m_bounds: "0 \<le> 120960 * p div 101" "120960 * p div 101 \<le> 5988118812"
    using p by (simp_all add: pos_imp_zdiv_nonneg_iff)
  have prod: "0 \<le> 120960 * p div 101 * uint rate" "120960 * p div 101 * uint rate \<le> 5988118812 * 255"
    using m_bounds uint_rate_less [of rate] by (simp, intro mult_mono) simp_all
  have mr: "sint (?m * ucast rate) = 120960 * p div 101 * uint rate"
    using prod by (subst sint_mul_word_of_int) (simp_all add: m sint_ucast_rate INT64_MIN_def INT64_MAX_def)
  have sf: "sint (sdiv64 (?m * ucast rate) 100) = fee"
    using mr prod fee by (subst sint_sdiv64_nonneg) simp_all
  have "sdiv64 (?m * ucast rate) 100 = word_of_int fee"
    by (simp flip: sf)
  moreover have "0 <s sdiv64 (?m * ucast rate) 100 \<longleftrightarrow> 0 < fee"
    by (simp add: word_sless_alt sf)
  ultimately show ?thesis
    using fork by (auto simp: get_delegate_registration_fee_def Let_def)
qed

theorem delegate_registration_fee_witness:
  "get_delegate_registration_fee fc_ref_base 50 (db_at 1000000 1420000000) = Inr 2994059405"
  by (subst delegate_registration_fee [OF fc_ref_base_laws(4) _ refl refl])
     (simp_all add: BTS_V0_4_24_FORK_BLOCK_NUM_def db_now_def)

section \<open>Properties read back\<close>

lemma get_set_property:
  assumes "v \<noteq> variant_null"
  shows "get_property (set_property i v s) i = Inr v"
  using assms by (cases s) (simp_all add: db_defs db_get_property_def)

lemma get_set_property_other [simp]:
  "i \<noteq> j \<Longrightarrow> get_property (set_property i v s) j = get_property s j"
  by (cases s) (simp_all add: db_defs db_get_property_def)

lemma id_of_int_run: "id_of_int i = Inr j \<longleftrightarrow> j = i \<and> - (2 ^ 31) \<le> i \<and> i < 2 ^ 31"
  by (auto simp: id_of_int_def)

text \<open>Drawing an identifier gives the successor of the last one and makes it the last one.\<close>

lemma new_id_last:
  assumes "variant_laws F"
  shows "new_asset_id F s = Inr (i, s') \<Longrightarrow> last_asset_id F s = Inr (i - 1) \<and> last_asset_id F s' = Inr i"
    "new_account_id F s = Inr (j, s') \<Longrightarrow> last_account_id F s = Inr (j - 1) \<and> last_account_id F s' = Inr j"
  using assms
  by (auto simp: variant_laws_def new_asset_id_def last_asset_id_def new_account_id_def id_of_int_run
      last_account_id_def get_set_property INT64_MIN_def INT64_MAX_def)

end
