(* ===== verification/Pending_State.thy ===== *)
theory Pending_State
  imports Chain_Interface
begin

text \<open>
  Committing and undoing a set of changes: \<^verbatim>\<open>apply_changes\<close> and \<^verbatim>\<open>get_undo_state\<close> of
  \<^verbatim>\<open>pending_chain_state.cpp\<close>. The contract is stated over the \<open>view\<close> of a state: its tables
  as maps in which a null record and a missing one are the same. Every store acts on the
  view as the update of one map, so applying the changes of a pending state gives the view
  the pending state had, and applying the undo state gives back the view below it.

  An exception ends the loops with \<open>Inl\<close>; what the loops before it stored is then not
  part of the model. Object records are not modelled, as the operations that create them
  are disabled.
\<close>

section \<open>The operations\<close>

text \<open>The loops of \<^verbatim>\<open>apply_changes\<close> in the order of the source; a pending state always has
  a state below it here.\<close>

definition apply_changes :: "'z fc_ops_scheme \<Rightarrow> pending_chain_state \<Rightarrow> chain \<Rightarrow> chain res" where
  "apply_changes F p prev_state =
    (let s = fold (\<lambda>(i, v). set_property i v) (properties p) prev_state;
         s = fold (\<lambda>(i, r). store_asset_record r) (assets p) s
     in bindE (foldE (\<lambda>(i, r). store_account_record F r) (accounts p) s) (\<lambda>s.
       let s = fold (\<lambda>(i, r). store_balance_record F r) (balances p) s;
           s = fold (\<lambda>(k, oid). authorize k oid) (authorizations p) s;
           s = fold (\<lambda>(k, r). store_bid_record k r) (bids p) s;
           s = fold (\<lambda>(k, r). store_relative_bid_record k r) (relative_bids p) s;
           s = fold (\<lambda>(k, r). store_ask_record k r) (asks p) s;
           s = fold (\<lambda>(k, r). store_relative_ask_record k r) (relative_asks p) s;
           s = fold (\<lambda>(k, r). store_short_record k r) (shorts p) s;
           s = fold (\<lambda>(k, r). store_collateral_record k r) (collaterals p) s
       in bindE (foldE (\<lambda>(i, r). store_transaction F i r) (transactions p) s) (\<lambda>s.
         let s = fold (\<lambda>(i, r). store_delegate_slate i r) (slates p) s;
             s = fold (\<lambda>(t, r). store_slot_record r) (slots p) s;
             s = fold (\<lambda>(k, r). store_market_history_record k r) (market_history p) s;
             s = fold (\<lambda>(k, r). store_market_status r) (market_statuses p) s;
             s = fold (\<lambda>(k, r). store_asset_proposal r) (asset_proposals p) s;
             s = fold (\<lambda>(k, r). set_feed r) (feeds p) s;
             s = fold (\<lambda>(t, q). fold store_recent_operation q) (recent_operations p) s;
             s = fold (\<lambda>(k, v). store_burn_record k v) (burns p) s
         in bindE (set_market_transactions (market_transactions p) s) (\<lambda>s.
           Inr (set_dirty_markets F (dirty_markets p) s)))))"

text \<open>The undo state is a pending state without a state below it, so storing a transaction
  there only records it.\<close>

fun undo_store_transaction :: "transaction_id_type \<Rightarrow> transaction_record \<Rightarrow> chain \<Rightarrow> chain" where
  "undo_store_transaction i r (Pending p prev) = Pending (pending_record_transaction i r p) prev"
| "undo_store_transaction i r (DB d) = DB d"

definition transaction_record_default :: transaction_record where
  "transaction_record_default =
    \<lparr> trx = \<lparr> trx_expiration = 0, delegate_slate_id = None, operations = [], signatures = [] \<rparr>,
      chain_location = (0, 0) \<rparr>"

definition burn_value_default :: burn_record_value where
  "burn_value_default = \<lparr> burn_amount = mk_asset 0 0, burn_message = [], burn_signer = None \<rparr>"

definition get_undo_state ::
  "'z fc_ops_scheme \<Rightarrow> pending_chain_state \<Rightarrow> chain \<Rightarrow> chain \<Rightarrow> chain res" where
  "get_undo_state F p prev_state undo_state =
    bindE (foldE (\<lambda>(i, v) u. bindE (get_property prev_state i) (\<lambda>prev_value.
        Inr (set_property i prev_value u))) (properties p) undo_state) (\<lambda>u.
    let u = fold (\<lambda>(i, r). store_asset_record
              (case get_asset_record prev_state i of Some v \<Rightarrow> v | None \<Rightarrow> asset_make_null r)) (assets p) u;
        u = fold (\<lambda>(i, r). store_delegate_slate i
              (case get_delegate_slate prev_state i of Some v \<Rightarrow> v
               | None \<Rightarrow> \<lparr> supported_delegates = [] \<rparr>)) (slates p) u
    in bindE (foldE (\<lambda>(i, r). store_account_record F
              (case get_account_record prev_state i of Some v \<Rightarrow> v | None \<Rightarrow> account_make_null r)) (accounts p) u) (\<lambda>u.
    let u = fold (\<lambda>(k, r). store_asset_proposal
              (case fetch_asset_proposal prev_state k of Some v \<Rightarrow> v | None \<Rightarrow> proposal_make_null r)) (asset_proposals p) u;
        u = fold (\<lambda>(i, r). store_balance_record F
              (case get_balance_record prev_state i of Some v \<Rightarrow> v | None \<Rightarrow> balance_make_null r)) (balances p) u;
        u = fold (\<lambda>(k, oid) u. case get_authorization prev_state k of
              Some v \<Rightarrow> authorize k v u | None \<Rightarrow> deauthorize k u) (authorizations p) u
    in bindE (foldE (\<lambda>(i, r) u. bindE (get_transaction F prev_state i) (\<lambda>prev_value.
        Inr (undo_store_transaction i
              (case prev_value of Some v \<Rightarrow> v | None \<Rightarrow> transaction_record_default) u))) (transactions p) u) (\<lambda>u.
    let u = fold (\<lambda>(k, r). store_bid_record k
              (case get_bid_record prev_state k of Some v \<Rightarrow> v | None \<Rightarrow> order_record_default)) (bids p) u;
        u = fold (\<lambda>(k, r). store_relative_bid_record k
              (case get_relative_bid_record prev_state k of Some v \<Rightarrow> v | None \<Rightarrow> order_record_default)) (relative_bids p) u;
        u = fold (\<lambda>(k, r). store_ask_record k
              (case get_ask_record prev_state k of Some v \<Rightarrow> v | None \<Rightarrow> order_record_default)) (asks p) u;
        u = fold (\<lambda>(k, r). store_relative_ask_record k
              (case get_relative_ask_record prev_state k of Some v \<Rightarrow> v | None \<Rightarrow> order_record_default)) (relative_asks p) u;
        u = fold (\<lambda>(k, r). store_short_record k
              (case get_short_record prev_state k of Some v \<Rightarrow> v | None \<Rightarrow> order_record_default)) (shorts p) u;
        u = fold (\<lambda>(k, r). store_collateral_record k
              (case get_collateral_record prev_state k of Some v \<Rightarrow> v | None \<Rightarrow> collateral_record_default)) (collaterals p) u
    in bindE (foldE (\<lambda>(t, r) u. bindE (get_slot_record prev_state t) (\<lambda>prev_value.
        Inr (store_slot_record (case prev_value of Some v \<Rightarrow> v | None \<Rightarrow> slot_record_default) u))) (slots p) u) (\<lambda>u.
    let u = fold (\<lambda>(k, r). store_market_status
              (case get_market_status prev_state k of Some v \<Rightarrow> v | None \<Rightarrow> market_status_default)) (market_statuses p) u;
        u = fold (\<lambda>(k, r). set_feed
              (case get_feed prev_state k of Some v \<Rightarrow> v
               | None \<Rightarrow> \<lparr> feed = k, feed_value = variant_null, feed_last_update = 0 \<rparr>)) (feeds p) u;
        u = fold (\<lambda>(k, v). store_burn_record k burn_value_default) (burns p) u
    in Inr (set_dirty_markets F (get_dirty_markets F prev_state) u)))))"

section \<open>Views\<close>

text \<open>The tables the evaluation of transactions reads, as maps of live records.\<close>

record chain_view =

  v_properties :: "chain_property_enum \<Rightarrow> variant option"
  v_assets :: "asset_id_type \<Rightarrow> asset_record option"
  v_accounts :: "account_id_type \<Rightarrow> account_record option"
  v_balances :: "balance_id_type \<Rightarrow> balance_record option"
  v_authorizations :: "(asset_id_type \<times> address) \<Rightarrow> object_id_type option"
  v_bids :: "market_index_key \<Rightarrow> order_record option"
  v_relative_bids :: "market_index_key \<Rightarrow> order_record option"
  v_asks :: "market_index_key \<Rightarrow> order_record option"
  v_relative_asks :: "market_index_key \<Rightarrow> order_record option"
  v_shorts :: "market_index_key \<Rightarrow> order_record option"
  v_collaterals :: "market_index_key \<Rightarrow> collateral_record option"
  v_slates :: "slate_id_type \<Rightarrow> delegate_slate option"
  v_market_statuses :: "(asset_id_type \<times> asset_id_type) \<Rightarrow> market_status option"
  v_proposals :: "(asset_id_type \<times> proposal_id_type) \<Rightarrow> proposal_record option"
  v_feeds :: "feed_index \<Rightarrow> feed_record option"
  v_now :: time_point_sec
  v_head :: uint32

definition view :: "chain \<Rightarrow> chain_view" where
  "view s =
    \<lparr> v_properties = (\<lambda>k. live (\<lambda>v. v = variant_null) (property_of s k)),
      v_assets = (\<lambda>k. live asset_is_null (get_asset_record s k)),
      v_accounts = (\<lambda>k. live account_is_null (get_account_record s k)),
      v_balances = (\<lambda>k. live balance_is_null (get_balance_record s k)),
      v_authorizations = (\<lambda>k. live (\<lambda>oid. oid = - 1) (get_authorization s k)),
      v_bids = (\<lambda>k. live order_is_null (get_bid_record s k)),
      v_relative_bids = (\<lambda>k. live order_is_null (get_relative_bid_record s k)),
      v_asks = (\<lambda>k. live order_is_null (get_ask_record s k)),
      v_relative_asks = (\<lambda>k. live order_is_null (get_relative_ask_record s k)),
      v_shorts = (\<lambda>k. live order_is_null (get_short_record s k)),
      v_collaterals = (\<lambda>k. live collateral_is_null (get_collateral_record s k)),
      v_slates = (\<lambda>k. live (\<lambda>v. supported_delegates v = []) (get_delegate_slate s k)),
      v_market_statuses = (\<lambda>k. live market_status_is_null (get_market_status s k)),
      v_proposals = (\<lambda>k. live (\<lambda>v. info v = - 1) (fetch_asset_proposal s k)),
      v_feeds = (\<lambda>k. live feed_is_null (get_feed s k)),
      v_now = now s, v_head = get_head_block_num s \<rparr>"

text \<open>What a store does to a table of a view, and what a dictionary of stores does.\<close>

definition vput :: "('v \<Rightarrow> bool) \<Rightarrow> 'k \<Rightarrow> 'v \<Rightarrow> ('k \<Rightarrow> 'v option) \<Rightarrow> 'k \<Rightarrow> 'v option" where
  "vput null k v t = t(k := live null (Some v))"

definition overlay :: "('v \<Rightarrow> bool) \<Rightarrow> ('k \<Rightarrow> 'v option) \<Rightarrow> ('k \<Rightarrow> 'v option) \<Rightarrow> 'k \<Rightarrow> 'v option" where
  "overlay null m t = (\<lambda>k. case m k of None \<Rightarrow> t k | Some v \<Rightarrow> live null (Some v))"

text \<open>The tables of a pending state on top of a view.\<close>

definition overlay_view :: "pending_chain_state \<Rightarrow> chain_view \<Rightarrow> chain_view" where
  "overlay_view p w = w\<lparr>

      v_properties := overlay (\<lambda>v. v = variant_null) (map_of (properties p)) (v_properties w),
      v_assets := overlay asset_is_null (map_of (assets p)) (v_assets w),
      v_accounts := overlay account_is_null (map_of (accounts p)) (v_accounts w),
      v_balances := overlay balance_is_null (map_of (balances p)) (v_balances w),
      v_authorizations := overlay (\<lambda>oid. oid = - 1) (map_of (authorizations p)) (v_authorizations w),
      v_bids := overlay order_is_null (map_of (bids p)) (v_bids w),
      v_relative_bids := overlay order_is_null (map_of (relative_bids p)) (v_relative_bids w),
      v_asks := overlay order_is_null (map_of (asks p)) (v_asks w),
      v_relative_asks := overlay order_is_null (map_of (relative_asks p)) (v_relative_asks w),
      v_shorts := overlay order_is_null (map_of (shorts p)) (v_shorts w),
      v_collaterals := overlay collateral_is_null (map_of (collaterals p)) (v_collaterals w),
      v_slates := overlay (\<lambda>v. supported_delegates v = []) (map_of (slates p)) (v_slates w),
      v_market_statuses := overlay market_status_is_null (map_of (market_statuses p)) (v_market_statuses w),
      v_proposals := overlay (\<lambda>v. info v = - 1) (map_of (asset_proposals p)) (v_proposals w),
      v_feeds := overlay feed_is_null (map_of (feeds p)) (v_feeds w) \<rparr>"

lemma live_map_add: "live null ((t ++ m) k) = overlay null m (\<lambda>k. live null (t k)) k"
  by (simp add: overlay_def map_add_def split: option.split)

lemma overlay_live: "overlay null m t k = live null (case m k of None \<Rightarrow> t k | Some v \<Rightarrow> Some v)"
  if "\<And>k. live null (t k) = t k"
  using that by (simp add: overlay_def split: option.split)

lemma live_authorization:
  "live (\<lambda>oid. oid = - 1) (get_authorization (Pending p s) k) =
    overlay (\<lambda>oid. oid = - 1) (map_of (authorizations p)) (\<lambda>k. live (\<lambda>oid. oid = - 1) (get_authorization s k)) k"
  by (simp add: overlay_def split: option.split)

lemma view_Pending: "view (Pending p s) = overlay_view p (view s)"
  by (simp add: view_def overlay_view_def gets_Pending property_of_eqs live_map_add live_authorization
      del: get_authorization.simps)

section \<open>Stores act on views\<close>

lemma live_upd:
  "g' = g(k \<mapsto> v) \<or> null v \<and> g' = g(k := None) \<Longrightarrow>
    (\<lambda>i. live null (g' i)) = vput null k v (\<lambda>i. live null (g i))"
  by (auto simp: vput_def fun_eq_iff)

lemma view_stores:
  "view (set_property k0 v0 s) = (view s)\<lparr> v_properties := vput (\<lambda>v. v = variant_null) k0 v0 (v_properties (view s)) \<rparr>"
  "view (store_asset_record v1 s) = (view s)\<lparr> v_assets := vput asset_is_null (asr_id v1) v1 (v_assets (view s)) \<rparr>"
  "view (authorize k2 v2 s) = (view s)\<lparr> v_authorizations := vput (\<lambda>oid. oid = - 1) k2 v2 (v_authorizations (view s)) \<rparr>"
  "view (store_bid_record k3 v3 s) = (view s)\<lparr> v_bids := vput order_is_null k3 v3 (v_bids (view s)) \<rparr>"
  "view (store_relative_bid_record k4 v4 s) = (view s)\<lparr> v_relative_bids := vput order_is_null k4 v4 (v_relative_bids (view s)) \<rparr>"
  "view (store_ask_record k5 v5 s) = (view s)\<lparr> v_asks := vput order_is_null k5 v5 (v_asks (view s)) \<rparr>"
  "view (store_relative_ask_record k6 v6 s) = (view s)\<lparr> v_relative_asks := vput order_is_null k6 v6 (v_relative_asks (view s)) \<rparr>"
  "view (store_short_record k7 v7 s) = (view s)\<lparr> v_shorts := vput order_is_null k7 v7 (v_shorts (view s)) \<rparr>"
  "view (store_collateral_record k8 v8 s) = (view s)\<lparr> v_collaterals := vput collateral_is_null k8 v8 (v_collaterals (view s)) \<rparr>"
  "view (store_delegate_slate k9 v9 s) = (view s)\<lparr> v_slates := vput (\<lambda>v. supported_delegates v = []) k9 v9 (v_slates (view s)) \<rparr>"
  "view (store_balance_record F v10 s) = (view s)\<lparr> v_balances := vput balance_is_null (balance_id F v10) v10 (v_balances (view s)) \<rparr>"
  "view (set_feed v11 s) = (view s)\<lparr> v_feeds := vput feed_is_null (feed v11) v11 (v_feeds (view s)) \<rparr>"
  "view (store_market_status v12 s) = (view s)\<lparr> v_market_statuses := vput market_status_is_null (ms_quote_id v12, ms_base_id v12) v12 (v_market_statuses (view s)) \<rparr>"
  "view (store_asset_proposal v13 s) = (view s)\<lparr> v_proposals := vput (\<lambda>v. info v = - 1) (proposal_key v13) v13 (v_proposals (view s)) \<rparr>"
  subgoal by (simp add: view_def live_upd [where null = "(\<lambda>v. v = variant_null)", OF set_property_get])
  subgoal by (simp add: view_def property_of_def live_upd [where null = "asset_is_null", OF store_asset_record_get])
  subgoal by (simp add: view_def property_of_def authorize_get vput_def fun_eq_iff)
  subgoal by (simp add: view_def property_of_def live_upd [where null = "order_is_null", OF store_bid_record_get])
  subgoal by (simp add: view_def property_of_def live_upd [where null = "order_is_null", OF store_relative_bid_record_get])
  subgoal by (simp add: view_def property_of_def live_upd [where null = "order_is_null", OF store_ask_record_get])
  subgoal by (simp add: view_def property_of_def live_upd [where null = "order_is_null", OF store_relative_ask_record_get])
  subgoal by (simp add: view_def property_of_def live_upd [where null = "order_is_null", OF store_short_record_get])
  subgoal by (simp add: view_def property_of_def live_upd [where null = "collateral_is_null", OF store_collateral_record_get])
  subgoal by (simp add: view_def property_of_def live_upd [where null = "(\<lambda>v. supported_delegates v = [])", OF store_delegate_slate_get [unfolded length_0_conv]])
  subgoal by (simp add: view_def property_of_def store_balance_record_get vput_def fun_eq_iff)
  subgoal by (simp add: view_def property_of_def live_upd [where null = "feed_is_null", OF set_feed_get])
  subgoal by (simp add: view_def property_of_def live_upd [where null = "market_status_is_null", OF store_market_status_get])
  subgoal by (simp add: view_def property_of_def live_upd [where null = "(\<lambda>v. info v = - 1)", OF store_asset_proposal_get])
  done

lemma view_other_stores:
  "view (store_slot_record r s) = view s"
  "view (store_market_history_record hk hr s) = view s"
  "view (store_burn_record bk br s) = view s"
  "view (store_recent_operation o' s) = view s"
  by (simp_all add: view_def property_of_def)



section \<open>Loops of stores\<close>

lemma keyed_dict_Cons [simp]:
  "keyed_dict kd ((k, v) # m) \<longleftrightarrow> map_of m k = None \<and> kd k v \<and> keyed_dict kd m"
  by (auto simp: keyed_dict_def dict_ok_def map_of_eq_None_iff)

lemma overlay_Nil [simp]: "overlay null Map.empty t = t"
  by (simp add: overlay_def)

lemma overlay_vput: "m k = None \<Longrightarrow> overlay null m (vput null k v t) = overlay null (m(k \<mapsto> v)) t"
  by (auto simp: overlay_def vput_def fun_eq_iff split: option.split)

lemma view_loops:
  "keyed_dict any_key m0 \<Longrightarrow> view (fold (\<lambda>(k, v). set_property k v) m0 s) =
    (view s)\<lparr> v_properties := overlay (\<lambda>v. v = variant_null) (map_of m0) (v_properties (view s)) \<rparr>"
  "keyed_dict (\<lambda>k r. asr_id r = k) m1 \<Longrightarrow> view (fold (\<lambda>(k, v). store_asset_record v) m1 s) =
    (view s)\<lparr> v_assets := overlay asset_is_null (map_of m1) (v_assets (view s)) \<rparr>"
  "keyed_dict any_key m2 \<Longrightarrow> view (fold (\<lambda>(k, v). authorize k v) m2 s) =
    (view s)\<lparr> v_authorizations := overlay (\<lambda>oid. oid = - 1) (map_of m2) (v_authorizations (view s)) \<rparr>"
  "keyed_dict any_key m3 \<Longrightarrow> view (fold (\<lambda>(k, v). store_bid_record k v) m3 s) =
    (view s)\<lparr> v_bids := overlay order_is_null (map_of m3) (v_bids (view s)) \<rparr>"
  "keyed_dict any_key m4 \<Longrightarrow> view (fold (\<lambda>(k, v). store_relative_bid_record k v) m4 s) =
    (view s)\<lparr> v_relative_bids := overlay order_is_null (map_of m4) (v_relative_bids (view s)) \<rparr>"
  "keyed_dict any_key m5 \<Longrightarrow> view (fold (\<lambda>(k, v). store_ask_record k v) m5 s) =
    (view s)\<lparr> v_asks := overlay order_is_null (map_of m5) (v_asks (view s)) \<rparr>"
  "keyed_dict any_key m6 \<Longrightarrow> view (fold (\<lambda>(k, v). store_relative_ask_record k v) m6 s) =
    (view s)\<lparr> v_relative_asks := overlay order_is_null (map_of m6) (v_relative_asks (view s)) \<rparr>"
  "keyed_dict any_key m7 \<Longrightarrow> view (fold (\<lambda>(k, v). store_short_record k v) m7 s) =
    (view s)\<lparr> v_shorts := overlay order_is_null (map_of m7) (v_shorts (view s)) \<rparr>"
  "keyed_dict any_key m8 \<Longrightarrow> view (fold (\<lambda>(k, v). store_collateral_record k v) m8 s) =
    (view s)\<lparr> v_collaterals := overlay collateral_is_null (map_of m8) (v_collaterals (view s)) \<rparr>"
  "keyed_dict any_key m9 \<Longrightarrow> view (fold (\<lambda>(k, v). store_delegate_slate k v) m9 s) =
    (view s)\<lparr> v_slates := overlay (\<lambda>v. supported_delegates v = []) (map_of m9) (v_slates (view s)) \<rparr>"
  "keyed_dict (\<lambda>k r. balance_id F r = k) m10 \<Longrightarrow> view (fold (\<lambda>(k, v). store_balance_record F v) m10 s) =
    (view s)\<lparr> v_balances := overlay balance_is_null (map_of m10) (v_balances (view s)) \<rparr>"
  "keyed_dict (\<lambda>k r. feed r = k) m11 \<Longrightarrow> view (fold (\<lambda>(k, v). set_feed v) m11 s) =
    (view s)\<lparr> v_feeds := overlay feed_is_null (map_of m11) (v_feeds (view s)) \<rparr>"
  "keyed_dict (\<lambda>k r. (ms_quote_id r, ms_base_id r) = k) m12 \<Longrightarrow> view (fold (\<lambda>(k, v). store_market_status v) m12 s) =
    (view s)\<lparr> v_market_statuses := overlay market_status_is_null (map_of m12) (v_market_statuses (view s)) \<rparr>"
  "keyed_dict (\<lambda>k r. proposal_key r = k) m13 \<Longrightarrow> view (fold (\<lambda>(k, v). store_asset_proposal v) m13 s) =
    (view s)\<lparr> v_proposals := overlay (\<lambda>v. info v = - 1) (map_of m13) (v_proposals (view s)) \<rparr>"
  subgoal by (induction m0 arbitrary: s) (auto simp: view_stores overlay_vput)
  subgoal by (induction m1 arbitrary: s) (auto simp: view_stores overlay_vput)
  subgoal by (induction m2 arbitrary: s) (auto simp: view_stores overlay_vput)
  subgoal by (induction m3 arbitrary: s) (auto simp: view_stores overlay_vput)
  subgoal by (induction m4 arbitrary: s) (auto simp: view_stores overlay_vput)
  subgoal by (induction m5 arbitrary: s) (auto simp: view_stores overlay_vput)
  subgoal by (induction m6 arbitrary: s) (auto simp: view_stores overlay_vput)
  subgoal by (induction m7 arbitrary: s) (auto simp: view_stores overlay_vput)
  subgoal by (induction m8 arbitrary: s) (auto simp: view_stores overlay_vput)
  subgoal by (induction m9 arbitrary: s) (auto simp: view_stores overlay_vput)
  subgoal by (induction m10 arbitrary: s) (auto simp: view_stores overlay_vput)
  subgoal by (induction m11 arbitrary: s) (auto simp: view_stores overlay_vput)
  subgoal by (induction m12 arbitrary: s) (auto simp: view_stores overlay_vput)
  subgoal by (induction m13 arbitrary: s) (auto simp: view_stores overlay_vput)
  done

lemma view_other_loops:
  "view (fold (\<lambda>(t, r). store_slot_record r) m1 s) = view s"
  "view (fold (\<lambda>(k, r). store_market_history_record k r) m2 s) = view s"
  "view (fold (\<lambda>(k, v). store_burn_record k v) m3 s) = view s"
  "view (fold store_recent_operation q s) = view s"
  "view (fold (\<lambda>(t, q). fold store_recent_operation q) m4 s) = view s"
  subgoal by (induction m1 arbitrary: s) (auto simp: view_other_stores)
  subgoal by (induction m2 arbitrary: s) (auto simp: view_other_stores)
  subgoal by (induction m3 arbitrary: s) (auto simp: view_other_stores)
  subgoal by (induction q arbitrary: s) (auto simp: view_other_stores)
  subgoal premises
  proof -
    have q: "view (fold store_recent_operation q s) = view s" for q s
      by (induction q arbitrary: s) (auto simp: view_other_stores)
    show ?thesis by (induction m4 arbitrary: s) (auto simp: q)
  qed
  done


lemma view_store_account:
  assumes "store_account_record G r s = Inr s'" "chain_wf F s"
  shows "view s' = (view s)\<lparr> v_accounts := vput account_is_null (ar_id r) r (v_accounts (view s)) \<rparr>"
proof -
  have "get_account_record s' = (get_account_record s)(ar_id r \<mapsto> r) \<or>
      account_is_null r \<and> get_account_record s' = (get_account_record s)(ar_id r := None)"
    using store_account_record_get [OF assms(1)] wf_gets(3) [OF assms(2)] by blast
  from live_upd [where null = account_is_null, OF this] show ?thesis
    by (simp add: view_def property_of_def store_account_record_frame [OF assms(1)])
qed

lemma view_account_loop:
  assumes "foldE (\<lambda>(i, r). store_account_record G r) m s = Inr s'" "chain_wf F s"
    and "keyed_dict (\<lambda>i r. ar_id r = i) m"
  shows "view s' = (view s)\<lparr> v_accounts := overlay account_is_null (map_of m) (v_accounts (view s)) \<rparr> \<and>
    chain_wf F s'"
  using assms
proof (induction m arbitrary: s)
  case (Cons kv m)
  obtain k v where kv: "kv = (k, v)" by (cases kv)
  then obtain s1 where s1: "store_account_record G v s = Inr s1"
    and rest: "foldE (\<lambda>(i, r). store_account_record G r) m s1 = Inr s'"
    using Cons.prems(1) by auto
  have k: "map_of m k = None" "ar_id v = k" "keyed_dict (\<lambda>i r. ar_id r = i) m"
    using Cons.prems(3) kv by simp_all
  show ?case
    using Cons.IH [OF rest store_account_record_wf [OF s1 Cons.prems(2)] k(3)]
      view_store_account [OF s1 Cons.prems(2)] k kv
    by (simp add: overlay_vput fun_upd_def)
qed simp

lemma view_store_transaction: "store_transaction G i r s = Inr s' \<Longrightarrow> view s' = view s"
  by (simp add: view_def property_of_def store_transaction_frame)

lemma view_transaction_loop:
  assumes "foldE (\<lambda>(i, r). store_transaction G i r) m s = Inr s'" "chain_wf F s"
  shows "view s' = view s \<and> chain_wf F s'"
  using assms by (induction m arbitrary: s) (auto, (metis store_transaction_wf view_store_transaction)+)

lemma view_set_market_transactions: "set_market_transactions ts s = Inr s' \<Longrightarrow> view s' = view s"
  by (simp add: view_def property_of_def set_market_transactions_frame)

lemma wf_loop:
  assumes "\<And>k v s. chain_wf F s \<Longrightarrow> chain_wf F (st k v s)" "chain_wf F s"
  shows "chain_wf F (fold (\<lambda>(k, v). st k v) m s)"
  using assms by (induction m arbitrary: s) auto

lemma wf_recent_loop: "chain_wf F s \<Longrightarrow> chain_wf F (fold store_recent_operation q s)"
  by (induction q arbitrary: s) auto

section \<open>Applying changes\<close>

lemmas view_fields = overlay_view_def

lemma apply_changes_view:
  assumes wf: "chain_wf F (Pending p s)" and run: "apply_changes F p s = Inr s'"
  shows "view s' = (let w = overlay_view p (view s) in w\<lparr> v_properties :=
      vput (\<lambda>v. v = variant_null) dirty_markets_property (variant_of_pairs F (sort (remdups (dirty_markets p)))) (v_properties w) \<rparr>) \<and>
    chain_wf F s'"
proof -
  have p: "pending_wf F p" and s: "chain_wf F s" using wf by simp_all
  define s1 where "s1 = fold (\<lambda>(i, v). set_property i v) (properties p) s"
  define s2 where "s2 = fold (\<lambda>(i, r). store_asset_record r) (assets p) s1"
  obtain s3 where s3: "foldE (\<lambda>(i, r). store_account_record F r) (accounts p) s2 = Inr s3"
    using run unfolding apply_changes_def Let_def bindE_Inr s2_def [symmetric] s1_def [symmetric] by blast
  define s4 where "s4 = fold (\<lambda>(k, r). store_collateral_record k r) (collaterals p)
    (fold (\<lambda>(k, r). store_short_record k r) (shorts p)
    (fold (\<lambda>(k, r). store_relative_ask_record k r) (relative_asks p)
    (fold (\<lambda>(k, r). store_ask_record k r) (asks p)
    (fold (\<lambda>(k, r). store_relative_bid_record k r) (relative_bids p)
    (fold (\<lambda>(k, r). store_bid_record k r) (bids p)
    (fold (\<lambda>(k, oid). authorize k oid) (authorizations p)
    (fold (\<lambda>(i, r). store_balance_record F r) (balances p) s3)))))))"
  obtain s5 where s5: "foldE (\<lambda>(i, r). store_transaction F i r) (transactions p) s4 = Inr s5"
    using run s3 unfolding apply_changes_def Let_def s2_def [symmetric] s1_def [symmetric] s4_def by auto
  define s6 where "s6 = fold (\<lambda>(k, v). store_burn_record k v) (burns p)
    (fold (\<lambda>(t, q). fold store_recent_operation q) (recent_operations p)
    (fold (\<lambda>(k, r). set_feed r) (feeds p)
    (fold (\<lambda>(k, r). store_asset_proposal r) (asset_proposals p)
    (fold (\<lambda>(k, r). store_market_status r) (market_statuses p)
    (fold (\<lambda>(k, r). store_market_history_record k r) (market_history p)
    (fold (\<lambda>(t, r). store_slot_record r) (slots p)
    (fold (\<lambda>(i, r). store_delegate_slate i r) (slates p) s5)))))))"
  obtain s7 where s7: "set_market_transactions (market_transactions p) s6 = Inr s7"
    and s': "s' = set_dirty_markets F (dirty_markets p) s7"
    using run s3 s5 unfolding apply_changes_def Let_def s2_def [symmetric] s1_def [symmetric] s4_def [symmetric] s6_def
    by (auto simp: s4_def)
  have wf2: "chain_wf F s2"
    unfolding s2_def s1_def by (intro wf_loop store_wf s)
  note acc = view_account_loop [OF s3 wf2]
  have wf4: "chain_wf F s4"
    unfolding s4_def using acc p by (intro wf_loop store_wf) (simp_all add: pending_wf_def)
  note trx = view_transaction_loop [OF s5 wf4]
  have wf6: "chain_wf F s6"
    unfolding s6_def using trx by (intro wf_loop store_wf wf_recent_loop) simp_all
  have "chain_wf F s'"
    unfolding s' set_dirty_markets_def by (intro store_wf set_market_transactions_wf [OF s7 wf6])
  moreover have "view s2 = (view s)\<lparr>
      v_properties := overlay (\<lambda>v. v = variant_null) (map_of (properties p)) (v_properties (view s)),
      v_assets := overlay asset_is_null (map_of (assets p)) (v_assets (view s)) \<rparr>"
    using p unfolding s2_def s1_def pending_wf_def by (simp add: view_loops)
  moreover have "view s4 = (view s3)\<lparr>
      v_balances := overlay balance_is_null (map_of (balances p)) (v_balances (view s3)),
      v_authorizations := overlay (\<lambda>oid. oid = - 1) (map_of (authorizations p)) (v_authorizations (view s3)),
      v_bids := overlay order_is_null (map_of (bids p)) (v_bids (view s3)),
      v_relative_bids := overlay order_is_null (map_of (relative_bids p)) (v_relative_bids (view s3)),
      v_asks := overlay order_is_null (map_of (asks p)) (v_asks (view s3)),
      v_relative_asks := overlay order_is_null (map_of (relative_asks p)) (v_relative_asks (view s3)),
      v_shorts := overlay order_is_null (map_of (shorts p)) (v_shorts (view s3)),
      v_collaterals := overlay collateral_is_null (map_of (collaterals p)) (v_collaterals (view s3)) \<rparr>"
    using p unfolding s4_def pending_wf_def by (simp add: view_loops)
  moreover have "view s6 = (view s5)\<lparr>
      v_slates := overlay (\<lambda>v. supported_delegates v = []) (map_of (slates p)) (v_slates (view s5)),
      v_market_statuses := overlay market_status_is_null (map_of (market_statuses p)) (v_market_statuses (view s5)),
      v_proposals := overlay (\<lambda>v. info v = - 1) (map_of (asset_proposals p)) (v_proposals (view s5)),
      v_feeds := overlay feed_is_null (map_of (feeds p)) (v_feeds (view s5)) \<rparr>"
    using p unfolding s6_def pending_wf_def by (simp add: view_loops view_other_loops)
  ultimately show ?thesis
    using acc trx p view_set_market_transactions [OF s7]
    by (simp add: s' set_dirty_markets_def view_stores overlay_view_def pending_wf_def Let_def)
qed


section \<open>The undo state does not look below itself\<close>

definition top_only :: "(chain \<Rightarrow> chain) \<Rightarrow> bool" where
  "top_only f = (\<exists>g. \<forall>u q. f (Pending u q) = Pending (g u) q)"

definition top_onlyE :: "(chain \<Rightarrow> chain res) \<Rightarrow> bool" where
  "top_onlyE f = (\<exists>g. \<forall>u q. f (Pending u q) = bindE (g u) (\<lambda>u. Inr (Pending u q)))"

lemma top_only_id: "top_only (\<lambda>u. u)"
  unfolding top_only_def by (rule exI [of _ "\<lambda>u. u"]) simp

lemma top_only_fold:
  assumes f: "\<And>k v. top_only (f k v)" and h: "top_only h"
  shows "top_only (\<lambda>u. fold (\<lambda>(k, v). f k v) m (h u))"
proof -
  obtain fg where fg: "\<And>k v u q. f k v (Pending u q) = Pending (fg k v u) q"
    using f unfolding top_only_def by metis
  obtain hg where hg: "\<And>u q. h (Pending u q) = Pending (hg u) q"
    using h unfolding top_only_def by metis
  have "fold (\<lambda>(k, v). f k v) m (Pending u q) = Pending (fold (\<lambda>(k, v). fg k v) m u) q" for u q
    by (induction m arbitrary: u) (auto simp: fg)
  then show ?thesis
    unfolding top_only_def by (intro exI [of _ "\<lambda>u. fold (\<lambda>(k, v). fg k v) m (hg u)"]) (simp add: hg)
qed

lemma top_onlyE_ret:
  assumes "top_only h"
  shows "top_onlyE (\<lambda>u. Inr (h u))"
proof -
  obtain g where "\<And>u q. h (Pending u q) = Pending (g u) q"
    using assms unfolding top_only_def by blast
  then show ?thesis unfolding top_onlyE_def by (intro exI [of _ "\<lambda>u. Inr (g u)"]) simp
qed

lemma top_onlyE_bind:
  assumes "top_onlyE f" "top_onlyE g"
  shows "top_onlyE (\<lambda>u. bindE (f u) g)"
proof -
  obtain fg where fg: "\<And>u q. f (Pending u q) = bindE (fg u) (\<lambda>u. Inr (Pending u q))"
    using assms(1) unfolding top_onlyE_def by blast
  obtain gg where gg: "\<And>u q. g (Pending u q) = bindE (gg u) (\<lambda>u. Inr (Pending u q))"
    using assms(2) unfolding top_onlyE_def by blast
  show ?thesis
    unfolding top_onlyE_def
    by (intro exI [of _ "\<lambda>u. bindE (fg u) gg"] allI) (simp only: fg gg bindE_assoc bindE.simps)
qed

lemma top_onlyE_Inl: "top_onlyE (\<lambda>u. Inl e)"
  unfolding top_onlyE_def by (rule exI [of _ "\<lambda>u. Inl e"]) simp

lemma top_onlyE_const_bind: "(\<And>x. top_onlyE (f x)) \<Longrightarrow> top_onlyE (\<lambda>u. bindE m (\<lambda>x. f x u))"
  by (cases m) (simp_all add: top_onlyE_Inl)

lemma top_onlyE_foldE:
  assumes f: "\<And>k v. top_onlyE (f k v)" and h: "top_only h"
  shows "top_onlyE (\<lambda>u. foldE (\<lambda>(k, v). f k v) m (h u))"
proof -
  obtain hg where hg: "\<And>u q. h (Pending u q) = Pending (hg u) q"
    using h unfolding top_only_def by metis
  have "top_onlyE (\<lambda>u. foldE (\<lambda>(k, v). f k v) m u)"
  proof (induction m)
    case (Cons kv m)
    obtain k v where kv: "kv = (k, v)" by (cases kv)
    have "top_onlyE (\<lambda>u. bindE (f k v u) (foldE (\<lambda>(k, v). f k v) m))"
      using f Cons by (rule top_onlyE_bind)
    then show ?case by (simp add: kv)
  qed (simp add: top_onlyE_ret top_only_id)
  then obtain g where "\<And>u q. foldE (\<lambda>(k, v). f k v) m (Pending u q) = bindE (g u) (\<lambda>u. Inr (Pending u q))"
    unfolding top_onlyE_def by blast
  then show ?thesis
    unfolding top_onlyE_def by (intro exI [of _ "\<lambda>u. g (hg u)"]) (simp add: hg)
qed

lemma top_only_option: "(\<And>v. top_only (f v)) \<Longrightarrow> top_only g \<Longrightarrow>
    top_only (\<lambda>u. case x of None \<Rightarrow> g u | Some v \<Rightarrow> f v u)"
  by (cases x) simp_all

lemma top_only_stores:
  "top_only (set_property k0 v0)"
  "top_only (store_asset_record v1)"
  "top_only (authorize k2 v2)"
  "top_only (store_bid_record k3 v3)"
  "top_only (store_relative_bid_record k4 v4)"
  "top_only (store_ask_record k5 v5)"
  "top_only (store_relative_ask_record k6 v6)"
  "top_only (store_short_record k7 v7)"
  "top_only (store_collateral_record k8 v8)"
  "top_only (store_delegate_slate k9 v9)"
  "top_only (store_balance_record F v10)"
  "top_only (set_feed v11)"
  "top_only (store_market_status v12)"
  "top_only (store_asset_proposal v13)"
  "top_only (store_slot_record v14)"
  "top_only (store_burn_record k15 v15)"
  "top_only (undo_store_transaction k16 v16)"
  unfolding top_only_def
  subgoal by (intro exI allI) (rule set_property.simps(2))
  subgoal by (intro exI allI) (rule store_asset_record.simps(2))
  subgoal by (intro exI allI) (rule authorize.simps(2))
  subgoal by (intro exI allI) (rule store_bid_record.simps(2))
  subgoal by (intro exI allI) (rule store_relative_bid_record.simps(2))
  subgoal by (intro exI allI) (rule store_ask_record.simps(2))
  subgoal by (intro exI allI) (rule store_relative_ask_record.simps(2))
  subgoal by (intro exI allI) (rule store_short_record.simps(2))
  subgoal by (intro exI allI) (rule store_collateral_record.simps(2))
  subgoal by (intro exI allI) (rule store_delegate_slate.simps(2))
  subgoal by (intro exI allI) (rule store_balance_record.simps(2))
  subgoal by (intro exI allI) (rule set_feed.simps(2))
  subgoal by (intro exI allI) (rule store_market_status.simps(2))
  subgoal by (intro exI allI) (rule store_asset_proposal.simps(2))
  subgoal by (intro exI allI) (rule store_slot_record.simps(2))
  subgoal by (intro exI allI) (rule store_burn_record.simps(2))
  subgoal by (intro exI allI) (rule undo_store_transaction.simps(1))
  done

lemma top_only_deauthorize: "top_only (deauthorize k)"
  unfolding deauthorize_def by (rule top_only_stores)

lemma top_onlyE_account: "top_onlyE (store_account_record F r)"
  unfolding top_onlyE_def by (intro exI allI) (rule store_account_record.simps(2))

lemmas top_rules = top_onlyE_bind top_onlyE_foldE top_onlyE_ret top_only_fold top_only_id
  top_only_option top_only_deauthorize top_onlyE_account top_only_stores


lemma top_only_set_property:
  assumes "top_only h"
  shows "top_only (\<lambda>u. set_property i v (h u))"
proof -
  obtain g where "\<And>u q. h (Pending u q) = Pending (g u) q"
    using assms unfolding top_only_def by blast
  then show ?thesis unfolding top_only_def by (intro exI allI) simp
qed

lemma get_undo_state_top: "top_onlyE (get_undo_state F p s)"
  unfolding get_undo_state_def Let_def set_dirty_markets_def
  by (intro top_rules top_onlyE_const_bind top_only_set_property)

section \<open>Undoing changes\<close>

text \<open>A loop that stores the previous values is the loop over the dictionary of them.\<close>

abbreviation prev_values :: "('k \<Rightarrow> 'v \<Rightarrow> 'w) \<Rightarrow> ('k \<times> 'v) list \<Rightarrow> ('k \<times> 'w) list" where
  "prev_values f m \<equiv> map (\<lambda>(k, v). (k, f k v)) m"

lemma foldE_prev: "foldE (\<lambda>(k, v). st k (f k v)) m = foldE (\<lambda>(k, v). st k v) (prev_values f m)"
proof (induction m)
  case (Cons kv m)
  then show ?case by (intro ext) (cases kv, simp)
qed (simp add: fun_eq_iff)

lemma map_of_prev: "map_of (prev_values f m) k = map_option (f k) (map_of m k)"
  by (induction m) auto

lemma keyed_dict_prev:
  assumes "keyed_dict kd m" "\<And>k v. kd k v \<Longrightarrow> kd' k (f k v)"
  shows "keyed_dict kd' (prev_values f m)"
  using assms by (auto simp: keyed_dict_def dict_ok_def comp_def case_prod_beta)

text \<open>Storing the previous values over the changed ones gives the table before.\<close>

lemma overlay_undo:
  assumes "\<And>k v. map_of m k = Some v \<Longrightarrow> live null (Some (f k v)) = t k"
  shows "overlay null (map_of (prev_values f m)) (overlay null (map_of m) t) = t"
  using assms by (auto simp: overlay_def map_of_prev fun_eq_iff split: option.split)

lemma property_undo_loop:
  assumes "foldE (\<lambda>(i, v) u. bindE (get_property s i) (\<lambda>prev_value. Inr (set_property i prev_value u))) m u = Inr u'"
  shows "u' = fold (\<lambda>(i, v). set_property i v) (prev_values (\<lambda>i v. the (property_of s i)) m) u \<and>
    (\<forall>i \<in> fst ` set m. property_of s i \<noteq> None)"
  using assms by (induction m arbitrary: u) (auto simp: property_of_def)

lemma view_undo_transaction: "view (undo_store_transaction i r s) = view s"
  by (cases s) (simp_all add: view_Pending overlay_view_def pending_record_transaction_frame)

lemma undo_transaction_wf: "chain_wf F s \<Longrightarrow> chain_wf F (undo_store_transaction i r s)"
  by (cases s) (simp_all add: pending_record_transaction_wf)

lemma transaction_undo_loop:
  assumes "foldE (\<lambda>(i, r) u. bindE (get_transaction G s i) (\<lambda>prev_value. Inr (undo_store_transaction i (f prev_value) u))) m u = Inr u'"
    and "chain_wf F u"
  shows "view u' = view u \<and> chain_wf F u'"
  using assms by (induction m arbitrary: u) (auto simp: view_undo_transaction undo_transaction_wf)

lemma slot_undo_loop:
  assumes "foldE (\<lambda>(t, r) u. bindE (get_slot_record s t) (\<lambda>prev_value. Inr (store_slot_record (f prev_value) u))) m u = Inr u'"
    and "chain_wf F u"
  shows "view u' = view u \<and> chain_wf F u'"
  using assms by (induction m arbitrary: u) (auto simp: view_other_stores)

lemma authorization_undo:
  "(case x of None \<Rightarrow> deauthorize k u | Some v \<Rightarrow> authorize k v u) =
    authorize k (case x of None \<Rightarrow> - 1 | Some v \<Rightarrow> v) u"
  by (simp add: deauthorize_def split: option.split)

lemma make_null_keys [simp]:
  "asr_id (asset_make_null a) = asr_id a" "ar_id (account_make_null c) = ar_id c"
  "proposal_key (proposal_make_null q) = proposal_key q" "balance_id F (balance_make_null b) = balance_id F b"
  by (simp_all add: asset_make_null_def account_make_null_def proposal_make_null_def proposal_key_def
      balance_make_null_def balance_id_def)

lemma make_null_null [simp]:
  "asset_is_null (asset_make_null a)" "account_is_null (account_make_null c)"
  "info (proposal_make_null q) = - 1" "balance_is_null (balance_make_null b)"
  "order_is_null order_record_default" "collateral_is_null collateral_record_default"
  "feed_is_null \<lparr> feed = k, feed_value = variant_null, feed_last_update = 0 \<rparr>"
  by (simp_all add: asset_make_null_def asset_is_null_def null_issuer_id_def account_make_null_def
      account_is_null_def proposal_make_null_def balance_make_null_def balance_is_null_def
      order_is_null_def order_record_default_def collateral_is_null_def collateral_record_default_def
      feed_is_null_def)

lemma live_prev: "null (d v) \<Longrightarrow> live null (Some (case x of None \<Rightarrow> d v | Some w \<Rightarrow> w)) = live null x"
  by (cases x) simp_all


lemma undo_loops:
  "keyed_dict (\<lambda>k r. asr_id r = k) (prev_values f0 m0) \<Longrightarrow> view (fold (\<lambda>(k, v). store_asset_record (f0 k v)) m0 s) =
    (view s)\<lparr> v_assets := overlay asset_is_null (map_of (prev_values f0 m0)) (v_assets (view s)) \<rparr>"
  "keyed_dict any_key (prev_values f1 m1) \<Longrightarrow> view (fold (\<lambda>(k, v). store_bid_record k (f1 k v)) m1 s) =
    (view s)\<lparr> v_bids := overlay order_is_null (map_of (prev_values f1 m1)) (v_bids (view s)) \<rparr>"
  "keyed_dict any_key (prev_values f2 m2) \<Longrightarrow> view (fold (\<lambda>(k, v). store_relative_bid_record k (f2 k v)) m2 s) =
    (view s)\<lparr> v_relative_bids := overlay order_is_null (map_of (prev_values f2 m2)) (v_relative_bids (view s)) \<rparr>"
  "keyed_dict any_key (prev_values f3 m3) \<Longrightarrow> view (fold (\<lambda>(k, v). store_ask_record k (f3 k v)) m3 s) =
    (view s)\<lparr> v_asks := overlay order_is_null (map_of (prev_values f3 m3)) (v_asks (view s)) \<rparr>"
  "keyed_dict any_key (prev_values f4 m4) \<Longrightarrow> view (fold (\<lambda>(k, v). store_relative_ask_record k (f4 k v)) m4 s) =
    (view s)\<lparr> v_relative_asks := overlay order_is_null (map_of (prev_values f4 m4)) (v_relative_asks (view s)) \<rparr>"
  "keyed_dict any_key (prev_values f5 m5) \<Longrightarrow> view (fold (\<lambda>(k, v). store_short_record k (f5 k v)) m5 s) =
    (view s)\<lparr> v_shorts := overlay order_is_null (map_of (prev_values f5 m5)) (v_shorts (view s)) \<rparr>"
  "keyed_dict any_key (prev_values f6 m6) \<Longrightarrow> view (fold (\<lambda>(k, v). store_collateral_record k (f6 k v)) m6 s) =
    (view s)\<lparr> v_collaterals := overlay collateral_is_null (map_of (prev_values f6 m6)) (v_collaterals (view s)) \<rparr>"
  "keyed_dict any_key (prev_values f7 m7) \<Longrightarrow> view (fold (\<lambda>(k, v). store_delegate_slate k (f7 k v)) m7 s) =
    (view s)\<lparr> v_slates := overlay (\<lambda>v. supported_delegates v = []) (map_of (prev_values f7 m7)) (v_slates (view s)) \<rparr>"
  "keyed_dict (\<lambda>k r. balance_id F r = k) (prev_values f8 m8) \<Longrightarrow> view (fold (\<lambda>(k, v). store_balance_record F (f8 k v)) m8 s) =
    (view s)\<lparr> v_balances := overlay balance_is_null (map_of (prev_values f8 m8)) (v_balances (view s)) \<rparr>"
  "keyed_dict (\<lambda>k r. feed r = k) (prev_values f9 m9) \<Longrightarrow> view (fold (\<lambda>(k, v). set_feed (f9 k v)) m9 s) =
    (view s)\<lparr> v_feeds := overlay feed_is_null (map_of (prev_values f9 m9)) (v_feeds (view s)) \<rparr>"
  "keyed_dict (\<lambda>k r. proposal_key r = k) (prev_values f10 m10) \<Longrightarrow> view (fold (\<lambda>(k, v). store_asset_proposal (f10 k v)) m10 s) =
    (view s)\<lparr> v_proposals := overlay (\<lambda>v. info v = - 1) (map_of (prev_values f10 m10)) (v_proposals (view s)) \<rparr>"
  subgoal by (induction m0 arbitrary: s) (auto simp: view_stores overlay_vput)
  subgoal by (induction m1 arbitrary: s) (auto simp: view_stores overlay_vput)
  subgoal by (induction m2 arbitrary: s) (auto simp: view_stores overlay_vput)
  subgoal by (induction m3 arbitrary: s) (auto simp: view_stores overlay_vput)
  subgoal by (induction m4 arbitrary: s) (auto simp: view_stores overlay_vput)
  subgoal by (induction m5 arbitrary: s) (auto simp: view_stores overlay_vput)
  subgoal by (induction m6 arbitrary: s) (auto simp: view_stores overlay_vput)
  subgoal by (induction m7 arbitrary: s) (auto simp: view_stores overlay_vput)
  subgoal by (induction m8 arbitrary: s) (auto simp: view_stores overlay_vput)
  subgoal by (induction m9 arbitrary: s) (auto simp: view_stores overlay_vput)
  subgoal by (induction m10 arbitrary: s) (auto simp: view_stores overlay_vput)
  done

lemma market_status_loop:
  "\<exists>t. view (fold (\<lambda>(k, r). store_market_status (f k r)) m s) = (view s)\<lparr> v_market_statuses := t \<rparr>"
proof (induction m arbitrary: s)
  case (Cons kv m)
  obtain k v where kv: "kv = (k, v)" by (cases kv)
  obtain t where "view (fold (\<lambda>(k, r). store_market_status (f k r)) m (store_market_status (f k v) s)) =
      (view (store_market_status (f k v) s))\<lparr> v_market_statuses := t \<rparr>"
    using Cons.IH by blast
  then show ?case by (auto simp: kv view_stores)
next
  case Nil
  show ?case by (intro exI [of _ "v_market_statuses (view s)"]) simp
qed

lemma view_empty: "view (Pending pending_empty s) = view s"
  by (simp add: view_Pending overlay_view_def pending_empty_def)

text \<open>The value the undo state stores for a key: the one below, or the null record.\<close>

abbreviation undo_val :: "('k \<Rightarrow> 'v option) \<Rightarrow> ('v \<Rightarrow> 'v) \<Rightarrow> 'k \<Rightarrow> 'v \<Rightarrow> 'v" where
  "undo_val get make_null \<equiv> \<lambda>k v. case get k of None \<Rightarrow> make_null v | Some w \<Rightarrow> w"

text \<open>The states between the loops that may throw.\<close>

lemma get_undo_state_run:
  assumes "get_undo_state F p s u0 = Inr u"
  obtains u1 u2 u3 u4 u5 u6 u7 where
    "foldE (\<lambda>(i, v) u. bindE (get_property s i) (\<lambda>prev_value. Inr (set_property i prev_value u)))
      (properties p) u0 = Inr u1"
    "u2 = fold (\<lambda>(i, r). store_delegate_slate i
        (case get_delegate_slate s i of Some v \<Rightarrow> v | None \<Rightarrow> \<lparr> supported_delegates = [] \<rparr>)) (slates p)
      (fold (\<lambda>(i, r). store_asset_record
        (case get_asset_record s i of Some v \<Rightarrow> v | None \<Rightarrow> asset_make_null r)) (assets p) u1)"
    "foldE (\<lambda>(i, r). store_account_record F
        (case get_account_record s i of Some v \<Rightarrow> v | None \<Rightarrow> account_make_null r)) (accounts p) u2 = Inr u3"
    "u4 = fold (\<lambda>(k, oid) u. case get_authorization s k of
        Some v \<Rightarrow> authorize k v u | None \<Rightarrow> deauthorize k u) (authorizations p)
      (fold (\<lambda>(i, r). store_balance_record F
        (case get_balance_record s i of Some v \<Rightarrow> v | None \<Rightarrow> balance_make_null r)) (balances p)
      (fold (\<lambda>(k, r). store_asset_proposal
        (case fetch_asset_proposal s k of Some v \<Rightarrow> v | None \<Rightarrow> proposal_make_null r)) (asset_proposals p) u3))"
    "foldE (\<lambda>(i, r) u. bindE (get_transaction F s i) (\<lambda>prev_value.
        Inr (undo_store_transaction i
              (case prev_value of Some v \<Rightarrow> v | None \<Rightarrow> transaction_record_default) u))) (transactions p) u4 = Inr u5"
    "u6 = fold (\<lambda>(k, r). store_collateral_record k
        (case get_collateral_record s k of Some v \<Rightarrow> v | None \<Rightarrow> collateral_record_default)) (collaterals p)
      (fold (\<lambda>(k, r). store_short_record k
        (case get_short_record s k of Some v \<Rightarrow> v | None \<Rightarrow> order_record_default)) (shorts p)
      (fold (\<lambda>(k, r). store_relative_ask_record k
        (case get_relative_ask_record s k of Some v \<Rightarrow> v | None \<Rightarrow> order_record_default)) (relative_asks p)
      (fold (\<lambda>(k, r). store_ask_record k
        (case get_ask_record s k of Some v \<Rightarrow> v | None \<Rightarrow> order_record_default)) (asks p)
      (fold (\<lambda>(k, r). store_relative_bid_record k
        (case get_relative_bid_record s k of Some v \<Rightarrow> v | None \<Rightarrow> order_record_default)) (relative_bids p)
      (fold (\<lambda>(k, r). store_bid_record k
        (case get_bid_record s k of Some v \<Rightarrow> v | None \<Rightarrow> order_record_default)) (bids p) u5)))))"
    "foldE (\<lambda>(t, r) u. bindE (get_slot_record s t) (\<lambda>prev_value.
        Inr (store_slot_record (case prev_value of Some v \<Rightarrow> v | None \<Rightarrow> slot_record_default) u))) (slots p) u6 = Inr u7"
    "u = set_dirty_markets F (get_dirty_markets F s)
      (fold (\<lambda>(k, v). store_burn_record k burn_value_default) (burns p)
      (fold (\<lambda>(k, r). set_feed
        (case get_feed s k of Some v \<Rightarrow> v
         | None \<Rightarrow> \<lparr> feed = k, feed_value = variant_null, feed_last_update = 0 \<rparr>)) (feeds p)
      (fold (\<lambda>(k, r). store_market_status
        (case get_market_status s k of Some v \<Rightarrow> v | None \<Rightarrow> market_status_default)) (market_statuses p) u7)))"
  using assms unfolding get_undo_state_def Let_def bindE_Inr sum.inject
  by (elim exE conjE) (rule that [OF _ refl _ refl _ refl], assumption+, erule sym)

lemma get_undo_state_wf:
  assumes "chain_wf F s" "pending_wf F p" "chain_wf F u0" "get_undo_state F p s u0 = Inr u"
  shows "chain_wf F u"
  using assms(4)
proof (cases rule: get_undo_state_run)
  case (1 u1 u2 u3 u4 u5 u6 u7)
  have w1: "chain_wf F u1"
    using property_undo_loop [OF 1(1)] assms(3) by (auto intro!: wf_loop)
  have w2: "chain_wf F u2"
    unfolding 1(2) by (intro wf_loop store_wf w1)
  have w3: "chain_wf F u3"
    by (rule foldE_invariant [where P = "chain_wf F", OF 1(3) w2]) (auto elim: store_account_record_wf)
  have w4: "chain_wf F u4"
    unfolding 1(4) authorization_undo by (intro wf_loop store_wf w3)
  have w5: "chain_wf F u5"
    using transaction_undo_loop [OF 1(5) w4] by simp
  have w6: "chain_wf F u6"
    unfolding 1(6) by (intro wf_loop store_wf w5)
  have w7: "chain_wf F u7"
    using slot_undo_loop [OF 1(7) w6] by simp
  show ?thesis
    unfolding 1(8) set_dirty_markets_def by (intro wf_loop store_wf w7)
qed

lemma keyed_undo:
  assumes s: "chain_wf F s" and p: "pending_wf F p"
  shows "keyed_dict (\<lambda>k r. asr_id r = k) (prev_values (undo_val (get_asset_record s) asset_make_null) (assets p))"
    "keyed_dict (\<lambda>k r. ar_id r = k) (prev_values (undo_val (get_account_record s) account_make_null) (accounts p))"
    "keyed_dict (\<lambda>k r. proposal_key r = k) (prev_values (undo_val (fetch_asset_proposal s) proposal_make_null) (asset_proposals p))"
    "keyed_dict (\<lambda>k r. balance_id F r = k) (prev_values (undo_val (get_balance_record s) balance_make_null) (balances p))"
    "keyed_dict (\<lambda>k r. feed r = k) (prev_values (\<lambda>k r. case get_feed s k of
        None \<Rightarrow> \<lparr> feed = k, feed_value = variant_null, feed_last_update = 0 \<rparr> | Some v \<Rightarrow> v) (feeds p))"
proof -
  note wf = wf_gets [OF s]
  have k: "keyed_dict (\<lambda>k r. asr_id r = k) (assets p)" "keyed_dict (\<lambda>k r. ar_id r = k) (accounts p)"
    "keyed_dict (\<lambda>k r. proposal_key r = k) (asset_proposals p)"
    "keyed_dict (\<lambda>k r. balance_id F r = k) (balances p)" "keyed_dict (\<lambda>k r. feed r = k) (feeds p)"
    using p by (simp_all add: pending_wf_def)
  show "keyed_dict (\<lambda>k r. asr_id r = k) (prev_values (undo_val (get_asset_record s) asset_make_null) (assets p))"
    by (rule keyed_dict_prev [OF k(1)]) (auto dest: wf(1) split: option.split)
  show "keyed_dict (\<lambda>k r. ar_id r = k) (prev_values (undo_val (get_account_record s) account_make_null) (accounts p))"
    by (rule keyed_dict_prev [OF k(2)]) (auto dest: wf(3) split: option.split)
  show "keyed_dict (\<lambda>k r. proposal_key r = k) (prev_values (undo_val (fetch_asset_proposal s) proposal_make_null) (asset_proposals p))"
    by (rule keyed_dict_prev [OF k(3)]) (auto dest: wf(6) split: option.split)
  show "keyed_dict (\<lambda>k r. balance_id F r = k) (prev_values (undo_val (get_balance_record s) balance_make_null) (balances p))"
    by (rule keyed_dict_prev [OF k(4)]) (auto dest: wf(2) split: option.split)
  show "keyed_dict (\<lambda>k r. feed r = k) (prev_values (\<lambda>k r. case get_feed s k of
        None \<Rightarrow> \<lparr> feed = k, feed_value = variant_null, feed_last_update = 0 \<rparr> | Some v \<Rightarrow> v) (feeds p))"
    by (rule keyed_dict_prev [OF k(5)]) (auto dest: wf(4) split: option.split)
qed

lemma keyed_undo_any:
  assumes "pending_wf F p"
  shows "keyed_dict any_key (prev_values f1 (properties p))" "keyed_dict any_key (prev_values f2 (slates p))"
    "keyed_dict any_key (prev_values f3 (authorizations p))" "keyed_dict any_key (prev_values f4 (bids p))"
    "keyed_dict any_key (prev_values f5 (relative_bids p))" "keyed_dict any_key (prev_values f6 (asks p))"
    "keyed_dict any_key (prev_values f7 (relative_asks p))" "keyed_dict any_key (prev_values f8 (shorts p))"
    "keyed_dict any_key (prev_values f9 (collaterals p))"
  using assms unfolding pending_wf_def by (blast intro: keyed_dict_prev)+

lemma account_undo_loop:
  assumes "foldE (\<lambda>(i, r). store_account_record G (f i r)) m s = Inr s'" "chain_wf F s"
    and "keyed_dict (\<lambda>i r. ar_id r = i) (prev_values f m)"
  shows "view s' = (view s)\<lparr> v_accounts :=
      overlay account_is_null (map_of (prev_values f m)) (v_accounts (view s)) \<rparr> \<and> chain_wf F s'"
  by (rule view_account_loop [OF _ assms(2,3)])
     (use assms(1) foldE_prev [of "\<lambda>i. store_account_record G" f m] in simp)

lemma burn_undo_loop: "view (fold (\<lambda>(k, v). store_burn_record k (f k v)) m s) = view s"
  by (induction m arbitrary: s) (auto simp: view_other_stores)

lemma authorization_undo_loop:
  assumes "keyed_dict any_key (prev_values f m)"
  shows "view (fold (\<lambda>(k, v). authorize k (f k v)) m s) =
    (view s)\<lparr> v_authorizations := overlay (\<lambda>oid. oid = - 1) (map_of (prev_values f m)) (v_authorizations (view s)) \<rparr>"
  using assms by (induction m arbitrary: s) (auto simp: view_stores overlay_vput)

text \<open>The tables of a state reached by overlaying the changes and then what the undo state
  holds for them.\<close>

lemma overlay_undo_val:
  assumes "\<And>v. null (make_null v)"
  shows "overlay null (map_of (prev_values (undo_val get make_null) m)) (overlay null (map_of m) (\<lambda>k. live null (get k))) =
    (\<lambda>k. live null (get k))"
  by (rule overlay_undo) (use assms in \<open>simp split: option.split\<close>)

lemma get_undo_state_view:
  assumes s: "chain_wf F s" and p: "pending_wf F p" and u0: "chain_wf F u0"
    and run: "get_undo_state F p s u0 = Inr u"
  shows "\<exists>t y. view u = (view u0)\<lparr>
      v_properties := (overlay (\<lambda>v. v = variant_null) (map_of (prev_values (\<lambda>i v. the (property_of s i)) (properties p)))
        (v_properties (view u0)))(dirty_markets_property := y),
      v_slates := overlay (\<lambda>v. supported_delegates v = []) (map_of (prev_values
        (undo_val (get_delegate_slate s) (\<lambda>v. \<lparr> supported_delegates = [] \<rparr>)) (slates p))) (v_slates (view u0)),
      v_assets := overlay asset_is_null (map_of (prev_values
        (undo_val (get_asset_record s) asset_make_null) (assets p))) (v_assets (view u0)),
      v_accounts := overlay account_is_null (map_of (prev_values
        (undo_val (get_account_record s) account_make_null) (accounts p))) (v_accounts (view u0)),
      v_proposals := overlay (\<lambda>v. info v = - 1) (map_of (prev_values
        (undo_val (fetch_asset_proposal s) proposal_make_null) (asset_proposals p))) (v_proposals (view u0)),
      v_balances := overlay balance_is_null (map_of (prev_values
        (undo_val (get_balance_record s) balance_make_null) (balances p))) (v_balances (view u0)),
      v_authorizations := overlay (\<lambda>oid. oid = - 1) (map_of (prev_values
        (undo_val (get_authorization s) (\<lambda>v. - 1)) (authorizations p))) (v_authorizations (view u0)),
      v_bids := overlay order_is_null (map_of (prev_values
        (undo_val (get_bid_record s) (\<lambda>v. order_record_default)) (bids p))) (v_bids (view u0)),
      v_relative_bids := overlay order_is_null (map_of (prev_values
        (undo_val (get_relative_bid_record s) (\<lambda>v. order_record_default)) (relative_bids p))) (v_relative_bids (view u0)),
      v_asks := overlay order_is_null (map_of (prev_values
        (undo_val (get_ask_record s) (\<lambda>v. order_record_default)) (asks p))) (v_asks (view u0)),
      v_relative_asks := overlay order_is_null (map_of (prev_values
        (undo_val (get_relative_ask_record s) (\<lambda>v. order_record_default)) (relative_asks p))) (v_relative_asks (view u0)),
      v_shorts := overlay order_is_null (map_of (prev_values
        (undo_val (get_short_record s) (\<lambda>v. order_record_default)) (shorts p))) (v_shorts (view u0)),
      v_collaterals := overlay collateral_is_null (map_of (prev_values
        (undo_val (get_collateral_record s) (\<lambda>v. collateral_record_default)) (collaterals p))) (v_collaterals (view u0)),
      v_feeds := overlay feed_is_null (map_of (prev_values (\<lambda>k r. case get_feed s k of
          None \<Rightarrow> \<lparr> feed = k, feed_value = variant_null, feed_last_update = 0 \<rparr> | Some v \<Rightarrow> v) (feeds p))) (v_feeds (view u0)),
      v_market_statuses := t \<rparr>"
  using run
proof (cases rule: get_undo_state_run)
  case (1 u1 u2 u3 u4 u5 u6 u7)
  note keyed = keyed_undo [OF s p] keyed_undo_any [OF p]
  have v1: "view u1 = (view u0)\<lparr> v_properties := overlay (\<lambda>v. v = variant_null)
      (map_of (prev_values (\<lambda>i v. the (property_of s i)) (properties p))) (v_properties (view u0)) \<rparr>"
    using property_undo_loop [OF 1(1)] by (simp add: view_loops keyed)
  have w1: "chain_wf F u1"
    using property_undo_loop [OF 1(1)] u0 by (auto intro!: wf_loop)
  have w2: "chain_wf F u2"
    unfolding 1(2) by (intro wf_loop store_wf w1)
  note v3 = account_undo_loop [OF 1(3) w2 keyed(2)]
  have w4: "chain_wf F u4"
    unfolding 1(4) authorization_undo by (intro wf_loop store_wf v3 [THEN conjunct2])
  note v5 = transaction_undo_loop [OF 1(5) w4]
  have w6: "chain_wf F u6"
    unfolding 1(6) by (intro wf_loop store_wf v5 [THEN conjunct2])
  note v7 = slot_undo_loop [OF 1(7) w6]
  obtain t where t: "view (fold (\<lambda>(k, r). store_market_status
      (case get_market_status s k of Some v \<Rightarrow> v | None \<Rightarrow> market_status_default)) (market_statuses p) u7) =
      (view u7)\<lparr> v_market_statuses := t \<rparr>"
    using market_status_loop [of "undo_val (get_market_status s) (\<lambda>v. market_status_default)" "market_statuses p" u7]
    by blast
  have v2: "view u2 = (view u1)\<lparr>
      v_assets := overlay asset_is_null (map_of (prev_values
        (undo_val (get_asset_record s) asset_make_null) (assets p))) (v_assets (view u1)),
      v_slates := overlay (\<lambda>v. supported_delegates v = []) (map_of (prev_values
        (undo_val (get_delegate_slate s) (\<lambda>v. \<lparr> supported_delegates = [] \<rparr>)) (slates p))) (v_slates (view u1)) \<rparr>"
    unfolding 1(2) by (simp add: undo_loops keyed)
  have v4: "view u4 = (view u3)\<lparr>
      v_proposals := overlay (\<lambda>v. info v = - 1) (map_of (prev_values
        (undo_val (fetch_asset_proposal s) proposal_make_null) (asset_proposals p))) (v_proposals (view u3)),
      v_balances := overlay balance_is_null (map_of (prev_values
        (undo_val (get_balance_record s) balance_make_null) (balances p))) (v_balances (view u3)),
      v_authorizations := overlay (\<lambda>oid. oid = - 1) (map_of (prev_values
        (undo_val (get_authorization s) (\<lambda>v. - 1)) (authorizations p))) (v_authorizations (view u3)) \<rparr>"
    unfolding 1(4) authorization_undo by (simp add: undo_loops authorization_undo_loop keyed)
  have v6: "view u6 = (view u5)\<lparr>
      v_bids := overlay order_is_null (map_of (prev_values
        (undo_val (get_bid_record s) (\<lambda>v. order_record_default)) (bids p))) (v_bids (view u5)),
      v_relative_bids := overlay order_is_null (map_of (prev_values
        (undo_val (get_relative_bid_record s) (\<lambda>v. order_record_default)) (relative_bids p))) (v_relative_bids (view u5)),
      v_asks := overlay order_is_null (map_of (prev_values
        (undo_val (get_ask_record s) (\<lambda>v. order_record_default)) (asks p))) (v_asks (view u5)),
      v_relative_asks := overlay order_is_null (map_of (prev_values
        (undo_val (get_relative_ask_record s) (\<lambda>v. order_record_default)) (relative_asks p))) (v_relative_asks (view u5)),
      v_shorts := overlay order_is_null (map_of (prev_values
        (undo_val (get_short_record s) (\<lambda>v. order_record_default)) (shorts p))) (v_shorts (view u5)),
      v_collaterals := overlay collateral_is_null (map_of (prev_values
        (undo_val (get_collateral_record s) (\<lambda>v. collateral_record_default)) (collaterals p))) (v_collaterals (view u5)) \<rparr>"
    unfolding 1(6) by (simp add: undo_loops keyed)
  have "view u = (view u7)\<lparr> v_market_statuses := t,
      v_feeds := overlay feed_is_null (map_of (prev_values (\<lambda>k r. case get_feed s k of
          None \<Rightarrow> \<lparr> feed = k, feed_value = variant_null, feed_last_update = 0 \<rparr> | Some v \<Rightarrow> v) (feeds p))) (v_feeds (view u7)),
      v_properties := vput (\<lambda>v. v = variant_null) dirty_markets_property
        (variant_of_pairs F (sort (remdups (get_dirty_markets F s)))) (v_properties (view u7)) \<rparr>"
    unfolding 1(8) set_dirty_markets_def
    by (simp add: view_stores burn_undo_loop undo_loops keyed t)
  then show ?thesis
    using v7 v6 v5 v4 v3 v2 v1
    by (intro exI [of _ t] exI [of _ "live (\<lambda>v. v = variant_null)
          (Some (variant_of_pairs F (sort (remdups (get_dirty_markets F s)))))"]) (simp add: vput_def)
qed


lemma get_undo_state_properties:
  assumes "get_undo_state F p s u0 = Inr u" "map_of (properties p) i = Some v"
  shows "property_of s i \<noteq> None"
  using assms(1)
proof (cases rule: get_undo_state_run)
  case (1 u1)
  have "i \<in> fst ` set (properties p)" using assms(2) by (force dest: map_of_SomeD)
  then show ?thesis using property_undo_loop [OF 1(1)] by blast
qed

lemma undo_view:
  assumes s: "chain_wf F s" and p: "pending_wf F p" and u0: "chain_wf F u0"
    and run: "get_undo_state F p s u0 = Inr u"
    and v0: "view u0 = (overlay_view p (view s))\<lparr> v_properties := (v_properties (overlay_view p (view s)))(dirty_markets_property := x) \<rparr>"
  shows "\<exists>t y. view u = (view s)\<lparr> v_market_statuses := t,
    v_properties := (v_properties (view s))(dirty_markets_property := y) \<rparr>"
proof -
  have props: "(overlay (\<lambda>v. v = variant_null) (map_of (prev_values (\<lambda>i v. the (property_of s i)) (properties p)))
      ((overlay (\<lambda>v. v = variant_null) (map_of (properties p)) (v_properties (view s)))(dirty_markets_property := x)))
      (dirty_markets_property := y) = (v_properties (view s))(dirty_markets_property := y)" for y
    using get_undo_state_properties [OF run]
    by (fastforce simp: fun_eq_iff overlay_def map_of_prev view_def split: option.split)
  have feeds: "overlay feed_is_null (map_of (prev_values (\<lambda>k r. case get_feed s k of
          None \<Rightarrow> \<lparr> feed = k, feed_value = variant_null, feed_last_update = 0 \<rparr> | Some v \<Rightarrow> v) (feeds p)))
        (overlay feed_is_null (map_of (feeds p)) (\<lambda>k. live feed_is_null (get_feed s k))) =
      (\<lambda>k. live feed_is_null (get_feed s k))"
    by (rule overlay_undo) (simp split: option.split)
  obtain t y where "view u = (view s)\<lparr> v_market_statuses := t,
      v_properties := (v_properties (view s))(dirty_markets_property := y) \<rparr>"
    using get_undo_state_view [OF s p u0 run] unfolding v0 overlay_view_def
    by (auto simp: props) (auto simp: view_def overlay_undo_val feeds)
  then show ?thesis by blast
qed


section \<open>The contract\<close>

text \<open>C3. Applying the changes of a well formed pending state to the state below it implements
  the overlay: the result is well formed, and every table, the time and the height read as
  in the pending state, the set of dirty markets alone being replaced by the one the
  pending state gathered.\<close>

theorem apply_changes_refines:
  assumes "chain_wf F (Pending p s)" "apply_changes F p s = Inr s'"
  shows "chain_wf F s' \<and> view s' = (view (Pending p s))\<lparr> v_properties :=
    (v_properties (view (Pending p s)))(dirty_markets_property :=
      live (\<lambda>v. v = variant_null) (Some (variant_of_pairs F (sort (remdups (dirty_markets p)))))) \<rparr>"
  using apply_changes_view [OF assms] by (simp add: view_Pending Let_def vput_def)

text \<open>C4. Undo: if a pending state is applied and then the undo state computed for it before,
  every table the undo state covers reads as it did in the beginning. The market status and
  the set of dirty markets are not covered.\<close>

theorem undo_restores:
  assumes wf: "chain_wf F (Pending p s)" and run1: "apply_changes F p s = Inr s1"
    and run2: "get_undo_state F p s (fresh_pending q) = Inr (Pending u q')"
    and run3: "apply_changes F u s1 = Inr s2"
  shows "\<exists>t y. view s2 = (view s)\<lparr> v_market_statuses := t,
    v_properties := (v_properties (view s))(dirty_markets_property := y) \<rparr>"
proof -
  obtain g where g: "\<And>u q. get_undo_state F p s (Pending u q) = bindE (g u) (\<lambda>u. Inr (Pending u q))"
    using get_undo_state_top [of F p s] unfolding top_onlyE_def by blast
  then have run: "get_undo_state F p s (fresh_pending s1) = Inr (Pending u s1)"
    using run2 by auto
  have s: "chain_wf F s" and p: "pending_wf F p" using wf by simp_all
  note a = apply_changes_view [OF wf run1]
  have u0: "chain_wf F (fresh_pending s1)" using a by simp
  have "view (fresh_pending s1) = view s1" by (rule view_empty)
  with a have "view (fresh_pending s1) = (overlay_view p (view s))\<lparr> v_properties :=
      (v_properties (overlay_view p (view s)))(dirty_markets_property :=
        live (\<lambda>v. v = variant_null) (Some (variant_of_pairs F (sort (remdups (dirty_markets p)))))) \<rparr>"
    by (simp add: Let_def vput_def)
  from undo_view [OF s p u0 run this] obtain t y where
    u: "view (Pending u s1) = (view s)\<lparr> v_market_statuses := t,
      v_properties := (v_properties (view s))(dirty_markets_property := y) \<rparr>"
    by blast
  have "chain_wf F (Pending u s1)"
    by (rule get_undo_state_wf [OF s p u0 run])
  from apply_changes_view [OF this run3] u show ?thesis
    by (auto simp: view_Pending Let_def vput_def)
qed

text \<open>An example: a supply that changes, a new asset and a new balance over a database with
  one asset.\<close>

definition ex_asset :: "asset_id_type \<Rightarrow> string \<Rightarrow> share_type \<Rightarrow> asset_record" where
  "ex_asset i n supply = (asset_record_default 0 0)\<lparr> asr_id := i, symbol := n, issuer_account_id := i,
     precision := 100, current_share_supply := supply, maximum_share_supply := 1000 \<rparr>"

definition ex_db :: chain where
  "ex_db = DB (db_empty\<lparr> asset_db := [(0, ex_asset 0 ''BTS'' 500)], symbol_index_db := [(''BTS'', 0)] \<rparr>)"

definition ex_balance :: balance_record where
  "ex_balance = balance_record_of_owner fc_ref_cond ''alice'' (mk_asset 7 0) 0"

definition ex_pending :: pending_chain_state where
  "ex_pending = pending_empty\<lparr> assets := [(0, ex_asset 0 ''BTS'' 507), (1, ex_asset 1 ''USD'' 0)],
     balances := [(balance_id fc_ref_cond ex_balance, ex_balance)] \<rparr>"

abbreviation ex_fc :: fc_ops where
  "ex_fc \<equiv> fc_ref_ops []"

theorem apply_changes_refines_witness:
  "\<exists>s'. apply_changes ex_fc ex_pending ex_db = Inr s' \<and>
    v_assets (view s') = v_assets (view (Pending ex_pending ex_db))"
proof -
  have wf: "chain_wf ex_fc (Pending ex_pending ex_db)" by code_simp
  have "\<not> isl (apply_changes ex_fc ex_pending ex_db)" by code_simp
  then obtain s' where s': "apply_changes ex_fc ex_pending ex_db = Inr s'"
    by (cases "apply_changes ex_fc ex_pending ex_db") auto
  with apply_changes_refines [OF wf s'] show ?thesis by simp
qed

theorem undo_restores_witness:
  "\<exists>s1 u s2. apply_changes ex_fc ex_pending ex_db = Inr s1 \<and>
    get_undo_state ex_fc ex_pending ex_db (fresh_pending ex_db) = Inr (Pending u ex_db) \<and>
    apply_changes ex_fc u s1 = Inr s2 \<and>
    v_assets (view s2) = v_assets (view ex_db) \<and> v_balances (view s2) = v_balances (view ex_db)"
proof -
  define run where "run = bindE (apply_changes ex_fc ex_pending ex_db) (\<lambda>s1.
    bindE (get_undo_state ex_fc ex_pending ex_db (fresh_pending ex_db)) (\<lambda>v.
    case v of DB d \<Rightarrow> Inl fc_exception | Pending u q \<Rightarrow>
      bindE (apply_changes ex_fc u s1) (\<lambda>s2. Inr (s1, u, s2))))"
  have wf: "chain_wf ex_fc (Pending ex_pending ex_db)" by code_simp
  have "\<not> isl run" unfolding run_def by code_simp
  then obtain s1 u s2 where run: "run = Inr (s1, u, s2)" by (cases run) auto
  then obtain q where s1: "apply_changes ex_fc ex_pending ex_db = Inr s1"
    and u: "get_undo_state ex_fc ex_pending ex_db (fresh_pending ex_db) = Inr (Pending u q)"
    and s2: "apply_changes ex_fc u s1 = Inr s2"
    unfolding run_def by (auto split: chain.splits) (metis chain.exhaust)
  have "q = ex_db"
    using get_undo_state_top [of ex_fc ex_pending ex_db] u unfolding top_onlyE_def by auto
  with s1 u s2 undo_restores [OF wf s1 u s2] show ?thesis by auto
qed

end
