(* ===== verification/Eval_State.thy ===== *)
theory Eval_State
  imports Pending_State
begin

text \<open>
  \<^verbatim>\<open>transaction_evaluation_state\<close>: what is tracked while a transaction is evaluated
  (\<^verbatim>\<open>transaction_evaluation_state.cpp\<close>) and the median of the price feeds
  (\<^verbatim>\<open>chain_database::get_median_delegate_price\<close>), which fees in another asset are converted
  with. Shares taken out of the chain state are kept in \<open>es_balance\<close> until they are put back;
  what remains is collected as fees by \<open>post_evaluate\<close>.

  Logging is not modelled, and neither is the copy of the exception in
  \<^verbatim>\<open>validation_error\<close>: a throwing call has the result \<open>Inl\<close>.
\<close>

text \<open>The functions of fc the evaluation calls beyond those of the records:
  \<^verbatim>\<open>uint128::to_integer\<close>, the difference of two \<^verbatim>\<open>uint128\<close>, and \<^verbatim>\<open>fc::real128\<close>, whose values
  are kept in its 128-bit representation.\<close>

record fc_eval = fc_ops +
  u128_to_integer :: "uint128 \<Rightarrow> uint32 res"
  u128_sub :: "uint128 \<Rightarrow> uint128 \<Rightarrow> uint128"
  r128_of_uint64 :: "uint64 \<Rightarrow> uint128"
  r128_add :: "uint128 \<Rightarrow> uint128 \<Rightarrow> uint128"
  r128_sub :: "uint128 \<Rightarrow> uint128 \<Rightarrow> uint128"
  r128_mul :: "uint128 \<Rightarrow> uint128 \<Rightarrow> uint128"
  r128_div :: "uint128 \<Rightarrow> uint128 \<Rightarrow> uint128 res"
  r128_to_uint64 :: "uint128 \<Rightarrow> uint64"

record transaction_evaluation_state =
  es_trx :: signed_transaction
  current_op_index :: uint32
  signed_keys :: "address list"
  provided_deposits :: "(balance_id_type \<times> asset) list"
  deposits :: "(asset_id_type \<times> asset) list"
  withdraws :: "(asset_id_type \<times> asset) list"
  es_yield :: "(asset_id_type \<times> share_type) list"
  deltas :: "(uint32 \<times> asset) list"
  required_fees :: asset
  alt_fees_paid :: asset
  es_balance :: "(asset_id_type \<times> share_type) list"
  net_delegate_votes :: "(account_id_type \<times> share_type) list"
  current_state :: chain
  es_chain_id :: digest_type
  skip_signature_check :: bool

definition mk_eval_state :: "chain \<Rightarrow> digest_type \<Rightarrow> transaction_evaluation_state" where
  "mk_eval_state blockchain cid =
    \<lparr> es_trx = \<lparr> trx_expiration = 0, delegate_slate_id = None, operations = [], signatures = [] \<rparr>,
      current_op_index = 0, signed_keys = [], provided_deposits = [], deposits = [], withdraws = [],
      es_yield = [], deltas = [], required_fees = mk_asset 0 0, alt_fees_paid = mk_asset 0 0,
      es_balance = [], net_delegate_votes = [], current_state = blockchain, es_chain_id = cid,
      skip_signature_check = False \<rparr>"

definition upd_state :: "(chain \<Rightarrow> chain) \<Rightarrow> transaction_evaluation_state \<Rightarrow> transaction_evaluation_state" where
  "upd_state f e = e\<lparr> current_state := f (current_state e) \<rparr>"

definition upd_stateE ::
  "(chain \<Rightarrow> chain res) \<Rightarrow> transaction_evaluation_state \<Rightarrow> transaction_evaluation_state res" where
  "upd_stateE f e = bindE (f (current_state e)) (\<lambda>s. Inr (e\<lparr> current_state := s \<rparr>))"

section \<open>Signatures\<close>

definition check_signature :: "transaction_evaluation_state \<Rightarrow> address \<Rightarrow> bool" where
  "check_signature e a = (skip_signature_check e \<or> a \<in> set (signed_keys e))"

definition verify_authority :: "transaction_evaluation_state \<Rightarrow> multisig_meta_info \<Rightarrow> bool" where
  "verify_authority e siginfo =
    (let sig_count = fold (\<lambda>item n. n + (if check_signature e item then 1 else 0)) (mm_owners siginfo) (0 :: uint32)
     in sig_count \<ge> required siginfo)"

definition check_key :: "'z fc_base_scheme \<Rightarrow> transaction_evaluation_state \<Rightarrow> public_key_type \<Rightarrow> bool" where
  "check_key F e k = check_signature e (address_of_key F k)"

text \<open>The loop over the ancestors of a name; it ends because every parent is shorter.\<close>

function any_parent_has_signed :: "'z fc_base_scheme \<Rightarrow> transaction_evaluation_state \<Rightarrow> string \<Rightarrow> bool" where
  "any_parent_has_signed F e account_name =
    (case get_parent_account_name account_name of
       None \<Rightarrow> False
     | Some parent_name \<Rightarrow>
         (case get_account_record_by_name (current_state e) parent_name of
            None \<Rightarrow> any_parent_has_signed F e parent_name
          | Some parent_record \<Rightarrow>
              if is_retracted parent_record then any_parent_has_signed F e parent_name
              else if check_key F e (active_key parent_record) then True
              else if check_key F e (owner_key parent_record) then True
              else any_parent_has_signed F e parent_name))"
  by pat_completeness auto

termination any_parent_has_signed
  by (relation "measure (\<lambda>(F, e, n). length n)") (auto dest: parent_labels(2))

declare any_parent_has_signed.simps [simp del]

definition account_or_any_parent_has_signed ::
  "'z fc_base_scheme \<Rightarrow> transaction_evaluation_state \<Rightarrow> account_record \<Rightarrow> bool" where
  "account_or_any_parent_has_signed F e record =
    (if \<not> is_retracted record \<and> check_key F e (active_key record) then True
     else if \<not> is_retracted record \<and> check_key F e (owner_key record) then True
     else any_parent_has_signed F e (ar_name record))"

definition verify_delegate_id :: "transaction_evaluation_state \<Rightarrow> account_id_type \<Rightarrow> unit res" where
  "verify_delegate_id e i =
    (case get_account_record (current_state e) i of
       None \<Rightarrow> Inl unknown_account_id
     | Some current_account \<Rightarrow> (if \<not> is_delegate current_account then Inl not_a_delegate else Inr ()))"

definition validate_asset :: "transaction_evaluation_state \<Rightarrow> asset \<Rightarrow> unit res" where
  "validate_asset e a =
    (case get_asset_record (current_state e) (asset_id a) of
       None \<Rightarrow> Inl unknown_asset_id | Some r \<Rightarrow> Inr ())"

section \<open>Balances of the transaction\<close>

definition add_to_asset :: "'k \<Rightarrow> asset \<Rightarrow> ('k \<times> asset) list \<Rightarrow> ('k \<times> asset) list res" where
  "add_to_asset k a m =
    (case map_of m k of
       None \<Rightarrow> Inr (AList.update k a m)
     | Some old \<Rightarrow> bindE (asset_plus old a) (\<lambda>new. Inr (AList.update k new m)))"

definition get_fees :: "transaction_evaluation_state \<Rightarrow> asset_id_type \<Rightarrow> share_type" where
  "get_fees e i = (case map_of (es_balance e) i of None \<Rightarrow> 0 | Some v \<Rightarrow> v)"

definition sub_balance ::
  "balance_id_type \<Rightarrow> asset \<Rightarrow> transaction_evaluation_state \<Rightarrow> transaction_evaluation_state res" where
  "sub_balance bid a e =
    bindE (if bid \<noteq> address_default then add_to_asset bid a (provided_deposits e)
           else Inr (provided_deposits e)) (\<lambda>pd.
    bindE (add_to_asset (asset_id a) a (deposits e)) (\<lambda>ds.
    Inr (e\<lparr> provided_deposits := pd, deposits := ds,
        es_balance := map_put (asset_id a)
          (case map_of (es_balance e) (asset_id a) of None \<Rightarrow> - amount a | Some v \<Rightarrow> v - amount a)
          (es_balance e),
        deltas := map_put (current_op_index e) a (deltas e) \<rparr>)))"

definition add_balance :: "asset \<Rightarrow> transaction_evaluation_state \<Rightarrow> transaction_evaluation_state res" where
  "add_balance a e =
    bindE (add_to_asset (asset_id a) a (withdraws e)) (\<lambda>ws.
    Inr (e\<lparr> withdraws := ws,
        es_balance := map_put (asset_id a)
          (case map_of (es_balance e) (asset_id a) of None \<Rightarrow> amount a | Some v \<Rightarrow> v + amount a)
          (es_balance e),
        deltas := map_put (current_op_index e) (asset_neg a) (deltas e) \<rparr>))"

section \<open>Votes\<close>

definition BTS_BLOCKCHAIN_ENABLE_NEGATIVE_VOTES :: bool where
  "BTS_BLOCKCHAIN_ENABLE_NEGATIVE_VOTES = False"

definition add_votes :: "account_id_type \<Rightarrow> share_type \<Rightarrow> transaction_evaluation_state \<Rightarrow> transaction_evaluation_state" where
  "add_votes i v e = e\<lparr> net_delegate_votes := AList.update i
     ((case map_of (net_delegate_votes e) i of None \<Rightarrow> 0 | Some old \<Rightarrow> old) + v) (net_delegate_votes e) \<rparr>"

definition adjust_vote ::
  "slate_id_type \<Rightarrow> share_type \<Rightarrow> transaction_evaluation_state \<Rightarrow> transaction_evaluation_state res" where
  "adjust_vote sid amnt e =
    (if sid \<noteq> 0 then
       (case get_delegate_slate (current_state e) sid of
          None \<Rightarrow> Inl unknown_delegate_slate
        | Some sl \<Rightarrow>
            Inr (fold (\<lambda>delegate_id e.
                   if BTS_BLOCKCHAIN_ENABLE_NEGATIVE_VOTES \<and> delegate_id < 0
                   then add_votes \<bar>delegate_id\<bar> (- amnt) e
                   else add_votes \<bar>delegate_id\<bar> amnt e) (supported_delegates sl) e))
     else Inr e)"

definition update_delegate_votes ::
  "'z fc_base_scheme \<Rightarrow> transaction_evaluation_state \<Rightarrow> transaction_evaluation_state res" where
  "update_delegate_votes F e =
    foldE (\<lambda>(i, votes) e.
      case get_account_record (current_state e) i of
        None \<Rightarrow> Inl assert_exception
      | Some del_rec \<Rightarrow>
          bindE (adjust_votes_for del_rec votes) (\<lambda>del_rec.
            upd_stateE (store_account_record F del_rec) e)) (net_delegate_votes e) e"

section \<open>Price feeds\<close>

definition BTS_BLOCKCHAIN_MIN_FEEDS :: nat where
  "BTS_BLOCKCHAIN_MIN_FEEDS = BTS_BLOCKCHAIN_NUM_DELEGATES div 2 + 1"

text \<open>A feed counts if its delegate is active, it was updated within a day, and its value
  reads as a price of the market; any exception on reading it drops the feed.\<close>

definition feed_price_of ::
  "'z fc_ops_scheme \<Rightarrow> chain_database \<Rightarrow> account_id_type list \<Rightarrow> asset_id_type \<Rightarrow> asset_id_type \<Rightarrow> feed_index \<times> feed_record \<Rightarrow> price option" where
  "feed_price_of F d active quote_id base_id kv =
    (let (key, val) = kv
     in if fi_delegate_id key \<in> set active \<and> uint (feed_last_update val) + 86400 > uint (db_now d) then
          (case variant_as_price F (feed_value val) of
             Inl e \<Rightarrow> None
           | Inr p \<Rightarrow> (if quote_asset_id p = quote_id \<and> base_asset_id p = base_id then Some p else None))
        else None)"

text \<open>The scan starts at the feed index of delegate 0; \<^verbatim>\<open>nth_element\<close> puts the element of rank
  \<open>n div 2\<close> in the order of prices at that position.\<close>

definition feed_prices ::
  "'z fc_ops_scheme \<Rightarrow> chain_database \<Rightarrow> account_id_type list \<Rightarrow> asset_id_type \<Rightarrow> asset_id_type \<Rightarrow> price list" where
  "feed_prices F d active quote_id base_id =
    List.map_filter (feed_price_of F d active quote_id base_id)
      (filter (\<lambda>(key, val). feed_id key = quote_id \<and> fi_delegate_id key \<ge> 0) (feed_db d))"

definition price_rank :: "price \<Rightarrow> asset_id_type \<times> asset_id_type \<times> uint128" where
  "price_rank p = (quote_asset_id p, base_asset_id p, ratio p)"

definition db_get_median_delegate_price ::
  "'z fc_ops_scheme \<Rightarrow> asset_id_type \<Rightarrow> asset_id_type \<Rightarrow> chain_database \<Rightarrow> price option res" where
  "db_get_median_delegate_price F quote_id base_id d =
    bindE (get_active_delegates F (DB d)) (\<lambda>active.
      let prices = feed_prices F d active quote_id base_id
      in Inr (if length prices \<ge> BTS_BLOCKCHAIN_MIN_FEEDS
              then Some (sort_key price_rank prices ! (length prices div 2)) else None))"

fun get_median_delegate_price ::
  "'z fc_ops_scheme \<Rightarrow> asset_id_type \<Rightarrow> asset_id_type \<Rightarrow> chain \<Rightarrow> price option res" where
  "get_median_delegate_price F quote_id base_id (DB d) = db_get_median_delegate_price F quote_id base_id d"
| "get_median_delegate_price F quote_id base_id (Pending p prev) =
    get_median_delegate_price F quote_id base_id prev"

section \<open>Fees\<close>

definition charge_transaction_fees :: "transaction_evaluation_state \<Rightarrow> transaction_evaluation_state res" where
  "charge_transaction_fees e =
    foldE (\<lambda>(i, a) e.
      case get_asset_record (current_state e) i of
        None \<Rightarrow> Inl unknown_asset_id
      | Some r \<Rightarrow>
          if asr_id r > 0 \<and> is_market_issued r \<and> 0 <s transaction_fee r
          then sub_balance address_default (mk_asset (transaction_fee r) (asr_id r)) e
          else Inr e) (withdraws e) e"

definition convert_fee ::
  "'z fc_ops_scheme \<Rightarrow> asset_id_type \<times> share_type \<Rightarrow> transaction_evaluation_state \<Rightarrow> transaction_evaluation_state res" where
  "convert_fee F fee e =
    (if snd fee <s 0 then Inl negative_fee
     else if fst fee = 0 \<or> snd fee = 0 then Inr e
     else case get_asset_record (current_state e) (fst fee) of
       None \<Rightarrow> Inl unknown_asset_id
     | Some r \<Rightarrow>
         if \<not> is_market_issued r then Inr e
         else bindE (get_median_delegate_price F (fst fee) 0 (current_state e)) (\<lambda>median_price.
           case median_price of
             None \<Rightarrow> Inr e
           | Some p \<Rightarrow>
               bindE (asset_mul_price F (mk_asset (sdiv64 (snd fee * 2) 3) (fst fee)) p) (\<lambda>x.
               bindE (asset_plus (alt_fees_paid e) x) (\<lambda>alt.
                 Inr (e\<lparr> alt_fees_paid := alt \<rparr>)))))"

definition collect_fee ::
  "asset_id_type \<times> share_type \<Rightarrow> transaction_evaluation_state \<Rightarrow> transaction_evaluation_state res" where
  "collect_fee fee e =
    (if snd fee <s 0 then Inl negative_fee
     else if 0 <s snd fee then
       (case get_asset_record (current_state e) (fst fee) of
          None \<Rightarrow> Inl unknown_asset_id
        | Some r \<Rightarrow> Inr (upd_state (store_asset_record (r\<lparr> collected_fees := collected_fees r + snd fee \<rparr>)) e))
     else Inr e)"

definition post_evaluate ::
  "'z fc_ops_scheme \<Rightarrow> transaction_evaluation_state \<Rightarrow> transaction_evaluation_state res" where
  "post_evaluate F e =
    bindE (charge_transaction_fees e) (\<lambda>e.
      let e = (if map_of (es_balance e) 0 = None then e\<lparr> es_balance := map_put 0 0 (es_balance e) \<rparr> else e)
      in bindE (foldE (convert_fee F) (es_balance e) e) (\<lambda>e.
           foldE collect_fee (es_balance e) e))"

definition validate_required_fee :: "transaction_evaluation_state \<Rightarrow> unit res" where
  "validate_required_fee e =
    bindE (case map_of (es_balance e) 0 of
             None \<Rightarrow> Inr (mk_asset 0 0)
           | Some v \<Rightarrow> asset_plus (mk_asset 0 0) (mk_asset v 0)) (\<lambda>xts_fees.
    bindE (asset_plus xts_fees (alt_fees_paid e)) (\<lambda>xts_fees.
      if asset_greater (required_fees e) xts_fees then Inl insufficient_fee else Inr ()))"

section \<open>A concrete instance of the arithmetic\<close>

text \<open>\<^verbatim>\<open>real128\<close> as a fixed-point number with eighteen decimals.\<close>

definition r128_unit :: uint128 where
  "r128_unit = 1000000000000000000"

definition fc_ref_eval :: "operation_body list \<Rightarrow> fc_eval" where
  "fc_ref_eval bodies = fc_ops.extend (fc_ref_ops bodies) \<lparr>
     u128_to_integer = (\<lambda>a. Inr (ucast a)),
     u128_sub = (\<lambda>a b. a - b),
     r128_of_uint64 = (\<lambda>a. ucast a * r128_unit),
     r128_add = (\<lambda>a b. a + b),
     r128_sub = (\<lambda>a b. a - b),
     r128_mul = (\<lambda>a b. a * b div r128_unit),
     r128_div = (\<lambda>a b. if b = 0 then Inl fc_exception else Inr (a * r128_unit div b)),
     r128_to_uint64 = (\<lambda>a. ucast (a div r128_unit)) \<rparr>"

end
