(* ===== verification/Block.thy ===== *)
theory Block
  imports Eval_State
begin

text \<open>
  Blocks (\<^verbatim>\<open>block.hpp\<close>, \<^verbatim>\<open>block.cpp\<close>, \<^verbatim>\<open>block_record.hpp\<close>), what the node records of the block tree
  (\<^verbatim>\<open>block_fork_data\<close>), and \<^verbatim>\<open>chain_database_impl\<close>: the tables of blocks and forks around the
  \<open>chain_database\<close> with the state of the chain.
\<close>

type_synonym block_id_type = bytes
type_synonym secret_hash_type = bytes

section \<open>Blocks\<close>

record block_header =
  previous :: block_id_type
  block_num :: uint32
  timestamp :: time_point_sec
  bh_transaction_digest :: digest_type
  bh_next_secret_hash :: secret_hash_type
  previous_secret :: secret_hash_type

record signed_block_header = block_header +
  delegate_signature :: signature_type

record digest_block = signed_block_header +
  user_transaction_ids :: "transaction_id_type list"

record full_block = signed_block_header +
  user_transactions :: "signed_transaction list"

text \<open>The time a block took to process, which a \<^verbatim>\<open>block_record\<close> also keeps, is not modelled.\<close>

record block_record = digest_block +
  signee_shares_issued :: share_type
  signee_fees_collected :: share_type
  signee_fees_destroyed :: share_type
  random_seed :: bytes
  br_block_size :: uint64
  latency :: int

text \<open>The functions of fc that blocks need beyond those of the evaluation: the packed forms, and
  the four 64-bit words of a \<^verbatim>\<open>sha256\<close>.\<close>

record fc_block = fc_eval +
  pack_block_header :: "block_header \<Rightarrow> bytes"
  pack_signed_block_header :: "signed_block_header \<Rightarrow> bytes"
  pack_full_block :: "full_block \<Rightarrow> bytes"
  pack_transaction_ids :: "transaction_id_type list \<Rightarrow> bytes"
  pack_ripemd160 :: "bytes \<Rightarrow> bytes"
  variant_of_bytes :: "bytes \<Rightarrow> variant"
  sha256_word :: "bytes \<Rightarrow> nat \<Rightarrow> uint64"

definition block_digest :: "'z fc_block_scheme \<Rightarrow> 'a block_header_scheme \<Rightarrow> digest_type" where
  "block_digest F b = sha256_hash F (pack_block_header F (block_header.truncate b))"

definition block_id :: "'z fc_block_scheme \<Rightarrow> 'a signed_block_header_scheme \<Rightarrow> block_id_type" where
  "block_id F b = ripemd160_hash F (sha512_hash F (pack_signed_block_header F (signed_block_header.truncate b)))"

definition signee :: "'z fc_block_scheme \<Rightarrow> bool \<Rightarrow> 'a signed_block_header_scheme \<Rightarrow> public_key_type res" where
  "signee F enforce_canonical b = recover_public_key F (delegate_signature b) (block_digest F b) enforce_canonical"

definition block_size :: "'z fc_block_scheme \<Rightarrow> full_block \<Rightarrow> uint64" where
  "block_size F b = of_nat (length (pack_full_block F b))"

definition calculate_transaction_digest :: "'z fc_block_scheme \<Rightarrow> 'a digest_block_scheme \<Rightarrow> digest_type" where
  "calculate_transaction_digest F b =
    sha256_hash F (sha512_hash F (pack_transaction_ids F (user_transaction_ids b)))"

definition digest_block_of :: "'z fc_block_scheme \<Rightarrow> full_block \<Rightarrow> digest_block" where
  "digest_block_of F b = signed_block_header.extend (signed_block_header.truncate b)
     \<lparr> user_transaction_ids = map (signed_transaction_id F) (user_transactions b) \<rparr>"

definition validate_digest :: "'z fc_block_scheme \<Rightarrow> 'a digest_block_scheme \<Rightarrow> bool" where
  "validate_digest F b = (calculate_transaction_digest F b = bh_transaction_digest b)"

text \<open>The loop of \<^verbatim>\<open>validate_unique\<close> over the identifiers, with those seen so far.\<close>

fun unique_ids :: "transaction_id_type list \<Rightarrow> transaction_id_type list \<Rightarrow> bool" where
  "unique_ids trx_ids [] = True"
| "unique_ids trx_ids (i # is) = (if i \<in> set trx_ids then False else unique_ids (i # trx_ids) is)"

definition validate_unique :: "'a digest_block_scheme \<Rightarrow> bool" where
  "validate_unique b = unique_ids [] (user_transaction_ids b)"

section \<open>The block tree\<close>

record block_fork_data =
  next_blocks :: "block_id_type list"
  is_linked :: bool
  is_valid :: "bool option"
  invalid_reason :: "exception option"
  is_included :: bool
  is_known :: bool

definition block_fork_data_default :: block_fork_data where
  "block_fork_data_default =
    \<lparr> next_blocks = [], is_linked = False, is_valid = None, invalid_reason = None,
      is_included = False, is_known = False \<rparr>"

definition fork_invalid :: "block_fork_data \<Rightarrow> bool" where
  "fork_invalid f = (is_valid f = Some False)"

definition can_link :: "block_fork_data \<Rightarrow> bool" where
  "can_link f = (is_linked f \<and> \<not> fork_invalid f)"

record chain_database_impl =
  self :: chain_database
  skip_signature_verification :: bool
  relay_fee :: share_type
  fork_number_db :: "(uint32 \<times> block_id_type list) list"
  fork_db :: "(block_id_type \<times> block_fork_data) list"
  revalidatable_future_blocks_db :: "block_id_type list"
  undo_state_db :: "(block_id_type \<times> pending_chain_state) list"
  block_num_to_id_db :: "(uint32 \<times> block_id_type) list"
  block_id_to_block_record_db :: "(block_id_type \<times> block_record) list"
  block_id_to_block_data_db :: "(block_id_type \<times> full_block) list"
  head_block_header :: signed_block_header
  head_block_id :: block_id_type
  pending_transaction_db :: "(digest_type \<times> signed_transaction) list"
  pending_fee_index :: "((share_type \<times> transaction_id_type) \<times> transaction_evaluation_state) list"
  pending_trx_state :: pending_chain_state

section \<open>A concrete instance of the functions of fc\<close>

text \<open>A header is packed as its number, in binary, and the block before it.\<close>

definition ref_number :: "uint32 \<Rightarrow> bytes" where
  "ref_number w = map (\<lambda>i. if uint w div 2 ^ i mod 2 = 1 then CHR ''1'' else CHR ''0'') [0..<32]"

definition fc_ref_block :: "operation_body list \<Rightarrow> fc_block" where
  "fc_ref_block bodies = fc_eval.extend (fc_ref_eval bodies) \<lparr>
     pack_block_header = (\<lambda>b. ref_number (block_num b) @ previous b),
     pack_signed_block_header = (\<lambda>b. ref_number (block_num b) @ previous b @ delegate_signature b),
     pack_full_block = (\<lambda>b. delegate_signature b),
     pack_transaction_ids = concat,
     pack_ripemd160 = (\<lambda>b. b),
     variant_of_bytes = variant_string,
     sha256_word = (\<lambda>b x. of_nat (length b + x)) \<rparr>"

section \<open>Facts about blocks\<close>

lemma unique_ids_iff: "unique_ids trx_ids is \<longleftrightarrow> distinct is \<and> set is \<inter> set trx_ids = {}"
  by (induction trx_ids "is" rule: unique_ids.induct) auto

lemma validate_unique_iff: "validate_unique b \<longleftrightarrow> distinct (user_transaction_ids b)"
  by (simp add: validate_unique_def unique_ids_iff)

end
