(* ===== verification/Account_Ops.thy ===== *)
theory Account_Ops
  imports Eval_State
begin

text \<open>
  Evaluation of the account operations (\<^verbatim>\<open>account_operations.cpp\<close>) and of price feeds
  (\<^verbatim>\<open>feed_operations.cpp\<close>): registering and updating accounts, withdrawing the pay of a
  delegate, changing the key it signs blocks with, and publishing a feed.
\<close>

abbreviation get_account_record_by_key ::
  "'z fc_base_scheme \<Rightarrow> chain \<Rightarrow> public_key_type \<Rightarrow> account_record option" where
  "get_account_record_by_key F s k \<equiv> get_account_record_by_address s (address_of_key F k)"

definition ra_is_delegate :: "register_account_operation \<Rightarrow> bool" where
  "ra_is_delegate op = (ra_delegate_pay_rate op \<le> 100)"

definition ua_is_delegate :: "update_account_operation \<Rightarrow> bool" where
  "ua_is_delegate op = (ua_delegate_pay_rate op \<le> 100)"

text \<open>Making an account a delegate: fresh statistics with the given pay rate and signing key,
  and the fee for it among the required fees.\<close>

definition become_delegate ::
  "'z fc_base_scheme \<Rightarrow> 8 word \<Rightarrow> public_key_type \<Rightarrow> account_record \<Rightarrow> transaction_evaluation_state \<Rightarrow>
    (account_record \<times> transaction_evaluation_state) res" where
  "become_delegate F rate key r e =
    bindE (set_signing_key (r\<lparr> delegate_info := Some (delegate_stats_default\<lparr> pay_rate := rate \<rparr>) \<rparr>)
             (get_head_block_num (current_state e)) key) (\<lambda>r.
    bindE (get_delegate_registration_fee F rate (current_state e)) (\<lambda>fee.
    bindE (asset_plus (required_fees e) (mk_asset fee 0)) (\<lambda>fees.
      Inr (r, e\<lparr> required_fees := fees \<rparr>))))"

definition register_account_evaluate ::
  "'z fc_base_scheme \<Rightarrow> register_account_operation \<Rightarrow> transaction_evaluation_state \<Rightarrow> transaction_evaluation_state res" where
  "register_account_evaluate F op e =
    (let s = current_state e
     in if \<not> is_valid_account_name (ra_name op) then Inl invalid_account_name
        else if get_account_record_by_name s (ra_name op) \<noteq> None then Inl account_already_registered
        else if get_account_record_by_key F s (ra_owner_key op) \<noteq> None then Inl account_key_in_use
        else if get_account_record_by_key F s (ra_active_key op) \<noteq> None then Inl account_key_in_use
        else if get_parent_account_name (ra_name op) \<noteq> None \<and> \<not> any_parent_has_signed F e (ra_name op)
        then Inl missing_parent_account_signature
        else bindE (new_account_id F s) (\<lambda>(i, s).
          let e = e\<lparr> current_state := s \<rparr>;
              t = now s;
              new_record = account_record_default\<lparr> ar_id := i, ar_name := ra_name op,
                public_data := ra_public_data op, owner_key := ra_owner_key op \<rparr>
          in bindE (set_active_key new_record t (ra_active_key op)) (\<lambda>new_record.
             let new_record = new_record\<lparr> registration_date := t, ar_last_update := t,
                   meta_data := ra_meta_data op \<rparr>
             in bindE (if ra_is_delegate op
                       then become_delegate F (ra_delegate_pay_rate op) (ra_active_key op) new_record e
                       else Inr (new_record, e)) (\<lambda>(new_record, e).
                upd_stateE (store_account_record F new_record) e))))"

text \<open>The part of \<^verbatim>\<open>update_account_operation::evaluate\<close> for a new active key.\<close>

definition change_active_key ::
  "'z fc_base_scheme \<Rightarrow> transaction_evaluation_state \<Rightarrow> public_key_type \<Rightarrow> account_record \<Rightarrow> account_record res" where
  "change_active_key F e key r =
    (let s = current_state e; block_num = get_head_block_num s
     in if get_account_record_by_key F s key \<noteq> None then Inl account_key_in_use
        else if \<not> check_key F e (owner_key r) \<and> \<not> any_parent_has_signed F e (ar_name r) then Inl missing_signature
        else bindE (set_active_key r (now s) key) (\<lambda>r.
          if is_retracted r \<and> is_delegate r \<and> block_num < BTS_V0_4_28_FORK_BLOCK_NUM then Inl assert_exception
          else if is_retracted r \<and> is_delegate r \<and> 0 <s pay_balance (the (delegate_info r)) then Inl pay_balance_remaining
          else if block_num < BTS_V0_4_28_FORK_BLOCK_NUM \<and> is_delegate r
          then set_signing_key r block_num (active_key r)
          else Inr r))"

definition update_account_evaluate ::
  "'z fc_base_scheme \<Rightarrow> update_account_operation \<Rightarrow> transaction_evaluation_state \<Rightarrow> transaction_evaluation_state res" where
  "update_account_evaluate F op e =
    (case get_account_record (current_state e) (ua_account_id op) of
       None \<Rightarrow> Inl unknown_account_id
     | Some r \<Rightarrow>
         if is_retracted r then Inl account_retracted
         else bindE
           (case ua_active_key op of
              Some key \<Rightarrow>
                if key \<noteq> active_key r then change_active_key F e key r
                else if \<not> account_or_any_parent_has_signed F e r then Inl missing_signature else Inr r
            | None \<Rightarrow> if \<not> account_or_any_parent_has_signed F e r then Inl missing_signature else Inr r) (\<lambda>r.
         let r = (case ua_public_data op of Some d \<Rightarrow> r\<lparr> public_data := d \<rparr> | None \<Rightarrow> r)
         in if is_delegate r \<and> \<not> ua_is_delegate op then Inl assert_exception
            else bindE
              (if ua_is_delegate op then
                 (case delegate_info r of
                    Some di \<Rightarrow>
                      if \<not> ua_delegate_pay_rate op \<le> pay_rate di then Inl assert_exception
                      else Inr (r\<lparr> delegate_info := Some (di\<lparr> pay_rate := ua_delegate_pay_rate op \<rparr>) \<rparr>, e)
                  | None \<Rightarrow> become_delegate F (ua_delegate_pay_rate op) (active_key r) r e)
               else Inr (r, e)) (\<lambda>(r, e).
              upd_stateE (store_account_record F (r\<lparr> ar_last_update := now (current_state e) \<rparr>)) e)))"

definition withdraw_pay_evaluate ::
  "'z fc_base_scheme \<Rightarrow> withdraw_pay_operation \<Rightarrow> transaction_evaluation_state \<Rightarrow> transaction_evaluation_state res" where
  "withdraw_pay_evaluate F op e =
    (if wp_amount op \<le>s 0 then Inl negative_withdraw
     else
       let account_id = \<bar>wp_account_id op\<bar>
       in case get_account_record (current_state e) account_id of
            None \<Rightarrow> Inl unknown_account_id
          | Some account \<Rightarrow>
              (case delegate_info account of
                 None \<Rightarrow> Inl not_a_delegate
               | Some di \<Rightarrow>
                   if pay_balance di <s wp_amount op then Inl insufficient_funds
                   else if \<not> account_or_any_parent_has_signed F e account then Inl missing_signature
                   else
                     let account = account\<lparr> delegate_info :=
                           Some (di\<lparr> pay_balance := pay_balance di - wp_amount op \<rparr>) \<rparr>;
                         e = add_votes account_id (- wp_amount op) e
                     in bindE (add_balance (mk_asset (wp_amount op) 0) e) (\<lambda>e.
                        upd_stateE (store_account_record F account) e)))"

definition update_block_signing_key_evaluate ::
  "'z fc_base_scheme \<Rightarrow> update_block_signing_key \<Rightarrow> transaction_evaluation_state \<Rightarrow> transaction_evaluation_state res" where
  "update_block_signing_key_evaluate F op e =
    (let s = current_state e
     in if \<not> get_head_block_num s \<ge> BTS_V0_4_28_FORK_BLOCK_NUM then Inl assert_exception
        else case get_account_record s (ubsk_account_id op) of
          None \<Rightarrow> Inl unknown_account_id
        | Some r \<Rightarrow>
            if is_retracted r then Inl account_retracted
            else if \<not> is_delegate r then Inl not_a_delegate
            else if get_account_record_by_key F s (block_signing_key op) \<noteq> None then Inl account_key_in_use
            else bindE (signing_address F r) (\<lambda>a.
              if \<not> check_signature e a \<and> \<not> account_or_any_parent_has_signed F e r then Inl missing_signature
              else bindE (set_signing_key r (get_head_block_num s) (block_signing_key op)) (\<lambda>r.
                upd_stateE (store_account_record F (r\<lparr> ar_last_update := now s \<rparr>)) e)))"

section \<open>Feeds\<close>

definition update_feed_evaluate ::
  "'z fc_base_scheme \<Rightarrow> update_feed_operation \<Rightarrow> transaction_evaluation_state \<Rightarrow> transaction_evaluation_state res" where
  "update_feed_evaluate F op e =
    (case get_account_record (current_state e) (fi_delegate_id (uf_feed op)) of
       None \<Rightarrow> Inl unknown_account_id
     | Some r \<Rightarrow>
         if is_retracted r then Inl account_retracted
         else if \<not> is_delegate r then Inl not_a_delegate
         else bindE (signing_address F r) (\<lambda>a.
           if \<not> check_signature e a \<and> \<not> account_or_any_parent_has_signed F e r then Inl missing_signature
           else upd_stateE (set_market_dirty (feed_id (uf_feed op)) 0)
             (upd_state (set_feed \<lparr> feed = uf_feed op, feed_value = uf_value op,
                                    feed_last_update = now (current_state e) \<rparr>) e)))"

end
