(* ===== verification/Asset_Ops.thy ===== *)
theory Asset_Ops
  imports Eval_State
begin

text \<open>
  Evaluation of the asset operations (\<^verbatim>\<open>asset_operations.cpp\<close>): creating an asset and issuing
  shares of it. Updates, authorizations and proposals assert that they are not enabled yet.
\<close>

unbundle bit_operations_syntax

definition is_power_of_ten :: "uint64 \<Rightarrow> bool" where
  "is_power_of_ten n = (n \<in> set [1, 10, 100, 1000, 10000, 100000, 1000000, 10000000, 100000000,
     1000000000, 10000000000, 100000000000, 1000000000000, 10000000000000, 100000000000000,
     1000000000000000])"

text \<open>The symbol before the first dot, if there is one.\<close>

definition parent_symbol :: "string \<Rightarrow> string option" where
  "parent_symbol sym_name =
    (if dot \<in> set sym_name then Some (takeWhile (\<lambda>c. c \<noteq> dot) sym_name) else None)"

definition check_parent_asset :: "transaction_evaluation_state \<Rightarrow> string \<Rightarrow> unit res" where
  "check_parent_asset e sym_name =
    (case parent_symbol sym_name of
       None \<Rightarrow> Inr ()
     | Some ps \<Rightarrow>
         (case get_asset_record_by_symbol (current_state e) ps of
            None \<Rightarrow> Inl assert_exception
          | Some r \<Rightarrow> if \<not> verify_authority e (authority r) then Inl missing_signature else Inr ()))"

text \<open>\<^verbatim>\<open>authority.owners\<close> is a set of addresses; the issuer's active key gives its only one.\<close>

definition create_asset_record ::
  "'z fc_base_scheme \<Rightarrow> create_asset_operation \<Rightarrow> asset_id_type \<Rightarrow> time_point_sec \<Rightarrow> account_record option \<Rightarrow> asset_record" where
  "create_asset_record F op i t issuer =
    (asset_record_default 0 (retractable OR market_halt OR balance_halt OR supply_unlimit))\<lparr>
      asr_id := i, symbol := ca_symbol op, asr_name := ca_name op, description := ca_description op,
      asr_public_data := ca_public_data op, issuer_account_id := ca_issuer_account_id op,
      precision := ca_precision op, asr_registration_date := t, asr_last_update := t,
      current_share_supply := 0, maximum_share_supply := ca_maximum_share_supply op,
      collected_fees := 0,
      authority := (case issuer of
          None \<Rightarrow> multisig_meta_info_default
        | Some r \<Rightarrow> \<lparr> required = 1, mm_owners = [address_of_key F (active_key r)] \<rparr>) \<rparr>"

definition create_asset_evaluate ::
  "'z fc_base_scheme \<Rightarrow> create_asset_operation \<Rightarrow> transaction_evaluation_state \<Rightarrow> transaction_evaluation_state res" where
  "create_asset_evaluate F op e =
    (let s = current_state e
     in bindE (is_valid_symbol_name s (ca_symbol op)) (\<lambda>valid.
        if \<not> valid then Inl invalid_asset_symbol
        else bindE (check_parent_asset e (ca_symbol op)) (\<lambda>u.
        if get_asset_record_by_symbol s (ca_symbol op) \<noteq> None then Inl asset_symbol_in_use
        else if ca_name op = [] then Inl invalid_asset_name
        else bindE (last_asset_id F s) (\<lambda>last_id.
        if get_asset_record s (last_id + 1) \<noteq> None then Inl asset_id_in_use
        else
          let issuer = get_account_record s (ca_issuer_account_id op)
          in if ca_issuer_account_id op \<noteq> market_issuer_id \<and> issuer = None then Inl unknown_account_id
             else if ca_maximum_share_supply op \<le>s 0 \<or>
                     word_of_int BTS_BLOCKCHAIN_MAX_SHARES <s ca_maximum_share_supply op
             then Inl invalid_asset_amount
             else if \<not> is_power_of_ten (ca_precision op) then Inl invalid_precision
             else bindE (get_asset_registration_fee (of_nat (length (ca_symbol op))) s) (\<lambda>fee.
                  bindE (asset_plus (required_fees e) (mk_asset fee 0)) (\<lambda>fees.
                  bindE (new_asset_id F s) (\<lambda>(i, s).
                    Inr (upd_state (store_asset_record (create_asset_record F op i (now s)
                           (if ca_issuer_account_id op \<noteq> market_issuer_id then issuer else None)))
                         (e\<lparr> required_fees := fees, current_state := s \<rparr>)))))))))"

definition issue_asset_evaluate ::
  "issue_asset_operation \<Rightarrow> transaction_evaluation_state \<Rightarrow> transaction_evaluation_state res" where
  "issue_asset_evaluate op e =
    (case get_asset_record (current_state e) (asset_id (ia_amount op)) of
       None \<Rightarrow> Inl unknown_asset_id
     | Some r \<Rightarrow>
         if is_market_issued r then Inl not_user_issued
         else if \<not> verify_authority e (authority r) then Inl missing_signature
         else if amount (ia_amount op) \<le>s 0 then Inl negative_issue
         else if \<not> can_issue r (ia_amount op) then Inl over_issue
         else
           let r = r\<lparr> current_share_supply := current_share_supply r + amount (ia_amount op) \<rparr>
           in bindE (add_balance (ia_amount op) e) (\<lambda>e.
              Inr (upd_state (store_asset_record (r\<lparr> asr_last_update := now (current_state e) \<rparr>)) e)))"

section \<open>Operations that are not enabled\<close>

definition update_asset_evaluate ::
  "update_asset_operation \<Rightarrow> transaction_evaluation_state \<Rightarrow> transaction_evaluation_state res" where
  "update_asset_evaluate op e = Inl assert_exception"

definition update_asset_ext_evaluate ::
  "update_asset_ext_operation \<Rightarrow> transaction_evaluation_state \<Rightarrow> transaction_evaluation_state res" where
  "update_asset_ext_evaluate op e = Inl assert_exception"

definition authorize_evaluate ::
  "authorize_operation \<Rightarrow> transaction_evaluation_state \<Rightarrow> transaction_evaluation_state res" where
  "authorize_evaluate op e = Inl assert_exception"

definition create_asset_proposal_evaluate ::
  "create_asset_proposal \<Rightarrow> transaction_evaluation_state \<Rightarrow> transaction_evaluation_state res" where
  "create_asset_proposal_evaluate op e = Inl assert_exception"

end
