(* ===== verification/Balance_Ops.thy ===== *)
theory Balance_Ops
  imports Eval_State
begin

text \<open>
  Evaluation of the balance operations: \<^verbatim>\<open>balance_operations.cpp\<close> and the versions
  \<^verbatim>\<open>_v1\<close>, \<^verbatim>\<open>_v2\<close>, \<^verbatim>\<open>_v3\<close> that earlier blocks are evaluated with. Every definition follows the
  method of the same name; the state it mutates is threaded through. The operations that
  assert that they are not enabled yet have that assertion as their model.
\<close>

definition BTS_V0_4_10_FORK_BLOCK_NUM :: uint32 where "BTS_V0_4_10_FORK_BLOCK_NUM = 357000"
definition BTS_V0_4_13_FORK_BLOCK_NUM :: uint32 where "BTS_V0_4_13_FORK_BLOCK_NUM = 451500"
definition BTS_V0_4_15_FORK_BLOCK_NUM :: uint32 where "BTS_V0_4_15_FORK_BLOCK_NUM = 494000"
definition BTS_V0_4_21_FORK_BLOCK_NUM :: uint32 where "BTS_V0_4_21_FORK_BLOCK_NUM = 820200"

section \<open>Yield\<close>

definition BTS_BLOCKCHAIN_MIN_YIELD_PERIOD_SEC :: int where "BTS_BLOCKCHAIN_MIN_YIELD_PERIOD_SEC = 86400"
definition BTS_BLOCKCHAIN_BLOCKS_PER_YEAR :: share_type where "BTS_BLOCKCHAIN_BLOCKS_PER_YEAR = 3153600"

text \<open>The yield of a balance within its first year: four fifths grow with the time, one fifth
  with its square.\<close>

definition scale_by_age :: "'z fc_eval_scheme \<Rightarrow> int \<Rightarrow> uint128 \<Rightarrow> uint128 res" where
  "scale_by_age F elapsed_time y =
    u128_div F (u128_mul F y (u128_of_int64 F (word_of_int elapsed_time)))
      (u128_of_int64 F (BTS_BLOCKCHAIN_BLOCKS_PER_YEAR * ucast BTS_BLOCKCHAIN_BLOCK_INTERVAL_SEC))"

definition first_year_yield :: "'z fc_eval_scheme \<Rightarrow> int \<Rightarrow> uint128 \<Rightarrow> uint128 res" where
  "first_year_yield F elapsed_time original_yield =
    bindE (u128_div F (u128_mul F original_yield (u128_of_int64 F 8)) (u128_of_int64 F 10)) (\<lambda>y.
      let delta_yield = u128_sub F original_yield y
      in bindE (scale_by_age F elapsed_time y) (\<lambda>y.
         bindE (scale_by_age F elapsed_time delta_yield) (\<lambda>delta_yield.
         bindE (scale_by_age F elapsed_time delta_yield) (\<lambda>delta_yield.
           Inr (u128_add F y delta_yield)))))"

text \<open>\<^verbatim>\<open>calculate_yield\<close> and \<^verbatim>\<open>calculate_yield_v1\<close> differ in the supply they divide by.\<close>

definition calculate_yield_over ::
  "'z fc_eval_scheme \<Rightarrow> share_type \<Rightarrow> balance_record \<Rightarrow> time_point_sec \<Rightarrow> share_type \<Rightarrow> share_type \<Rightarrow> share_type \<Rightarrow> asset res" where
  "calculate_yield_over F supply r at_time amnt yield_pool share_supply =
    (let zero = mk_asset 0 (wc_asset_id (condition r));
         elapsed_time = tps_elapsed F at_time (deposit_date r)
     in if amnt \<le>s 0 \<or> share_supply \<le>s 0 \<or> yield_pool \<le>s 0 then Inr zero
        else if \<not> BTS_BLOCKCHAIN_MIN_YIELD_PERIOD_SEC < elapsed_time then Inr zero
        else
          let amount_withdrawn = u128_mul F (u128_of_int64 F amnt) (u128_of_int64 F 1000000);
              current_supply = u128_of_int64 F supply;
              fee_fund = u128_of_int64 F yield_pool
          in bindE (u128_div F (u128_mul F amount_withdrawn fee_fund) current_supply) (\<lambda>y.
             bindE (if elapsed_time < sint (BTS_BLOCKCHAIN_BLOCKS_PER_YEAR * ucast BTS_BLOCKCHAIN_BLOCK_INTERVAL_SEC)
                    then first_year_yield F elapsed_time y else Inr y) (\<lambda>y.
             bindE (u128_div F y (u128_of_int64 F 1000000)) (\<lambda>y.
               let yield_amount = u128_to_uint64 F y
               in Inr (if 0 < yield_amount \<and> yield_amount < yield_pool
                       then mk_asset yield_amount (wc_asset_id (condition r)) else zero)))))"

definition calculate_yield ::
  "'z fc_eval_scheme \<Rightarrow> balance_record \<Rightarrow> time_point_sec \<Rightarrow> share_type \<Rightarrow> share_type \<Rightarrow> share_type \<Rightarrow> asset res" where
  "calculate_yield F r at_time amnt yield_pool share_supply =
    calculate_yield_over F (share_supply - yield_pool) r at_time amnt yield_pool share_supply"

definition calculate_yield_v1 ::
  "'z fc_eval_scheme \<Rightarrow> balance_record \<Rightarrow> time_point_sec \<Rightarrow> share_type \<Rightarrow> share_type \<Rightarrow> share_type \<Rightarrow> asset res" where
  "calculate_yield_v1 F r at_time amnt yield_pool share_supply =
    calculate_yield_over F share_supply r at_time amnt yield_pool share_supply"

text \<open>What all withdraw versions do with the yield they computed.\<close>

definition pay_yield ::
  "asset \<Rightarrow> balance_record \<Rightarrow> asset_record \<Rightarrow> transaction_evaluation_state \<Rightarrow> balance_record \<times> transaction_evaluation_state" where
  "pay_yield y r asset_rec e =
    (if 0 <s amount y then
       (let i = wc_asset_id (condition r)
        in (r\<lparr> balance := balance r + amount y, deposit_date := now (current_state e) \<rparr>,
            upd_state (store_asset_record (asset_rec\<lparr> collected_fees := collected_fees asset_rec - amount y \<rparr>))
              (e\<lparr> es_yield := AList.update i
                  ((case map_of (es_yield e) i of None \<Rightarrow> 0 | Some v \<Rightarrow> v) + amount y) (es_yield e) \<rparr>)))
     else (r, e))"

section \<open>Slates\<close>

definition BTS_BLOCKCHAIN_MAX_SLATE_SIZE :: nat where
  "BTS_BLOCKCHAIN_MAX_SLATE_SIZE = BTS_BLOCKCHAIN_NUM_DELEGATES + BTS_BLOCKCHAIN_NUM_DELEGATES div 10"

definition define_delegate_slate_evaluate ::
  "'z fc_eval_scheme \<Rightarrow> define_delegate_slate_operation \<Rightarrow> transaction_evaluation_state \<Rightarrow> transaction_evaluation_state res" where
  "define_delegate_slate_evaluate F op e =
    (if length (supported_delegates (slate op)) > BTS_BLOCKCHAIN_MAX_SLATE_SIZE
     then Inl too_may_delegates_in_slate
     else
       let sid = slate_id F (slate op)
       in if get_delegate_slate (current_state e) sid = None then
            bindE (foldE (\<lambda>delegate_id u. verify_delegate_id e \<bar>delegate_id\<bar>) (supported_delegates (slate op)) ())
              (\<lambda>u. Inr (upd_state (store_delegate_slate sid (slate op)) e))
          else Inr e)"

section \<open>Deposits\<close>

definition deposit_balance_id :: "'z fc_cond_scheme \<Rightarrow> deposit_operation \<Rightarrow> balance_id_type" where
  "deposit_balance_id F op = get_address F (do_condition op)"

definition vote_if_base ::
  "balance_record \<Rightarrow> share_type \<Rightarrow> transaction_evaluation_state \<Rightarrow> transaction_evaluation_state res" where
  "vote_if_base r v e =
    (if wc_asset_id (condition r) = 0 \<and> wc_slate_id (condition r) \<noteq> 0
     then adjust_vote (wc_slate_id (condition r)) v e else Inr e)"

definition deposit_evaluate_v1 ::
  "'z fc_eval_scheme \<Rightarrow> deposit_operation \<Rightarrow> transaction_evaluation_state \<Rightarrow> transaction_evaluation_state res" where
  "deposit_evaluate_v1 F op e =
    (if do_amount op \<le>s 0 then Inl negative_deposit
     else if wc_type (do_condition op) \<noteq> withdraw_signature_type then Inl invalid_withdraw_condition
     else
       let bid = deposit_balance_id F op;
           cur_record = (case get_balance_record (current_state e) bid of
                           Some r \<Rightarrow> r | None \<Rightarrow> balance_record_of_condition (do_condition op));
           cur_record = cur_record\<lparr> br_last_update := now (current_state e),
                                    balance := balance cur_record + do_amount op \<rparr>
       in bindE (sub_balance bid (mk_asset (do_amount op) (wc_asset_id (condition cur_record))) e) (\<lambda>e.
          bindE (vote_if_base cur_record (do_amount op) e) (\<lambda>e.
            Inr (upd_state (store_balance_record F cur_record) e))))"

text \<open>The deposit date of a balance that is not empty is the average weighted by amount.\<close>

definition new_deposit_date ::
  "'z fc_eval_scheme \<Rightarrow> balance_record \<Rightarrow> share_type \<Rightarrow> time_point_sec \<Rightarrow> time_point_sec res" where
  "new_deposit_date F r amnt at_time =
    (if balance r = 0 then Inr at_time
     else
       let old_sec = u128_of_uint64 F (ucast (deposit_date r));
           new_sec = u128_of_uint64 F (ucast at_time);
           avg = u128_add F (u128_mul F old_sec (u128_of_int64 F (balance r)))
                   (u128_mul F new_sec (u128_of_int64 F amnt))
       in bindE (u128_div F avg (u128_of_int64 F (balance r + amnt))) (u128_to_integer F))"

text \<open>Every owner of a balance of a restricted asset must be authorized.\<close>

definition check_authorized ::
  "'z fc_cond_scheme \<Rightarrow> chain \<Rightarrow> asset_record \<Rightarrow> balance_record \<Rightarrow> unit res" where
  "check_authorized F s asset_rec r =
    (if is_restricted asset_rec then
       bindE (owners F r) (\<lambda>addrs.
         if list_all (\<lambda>owner. get_authorization s (asr_id asset_rec, owner) \<noteq> None) addrs
         then Inr () else Inl assert_exception)
     else Inr ())"

definition deposit_evaluate ::
  "'z fc_eval_scheme \<Rightarrow> deposit_operation \<Rightarrow> transaction_evaluation_state \<Rightarrow> transaction_evaluation_state res" where
  "deposit_evaluate F op e =
    (if get_head_block_num (current_state e) < BTS_V0_4_13_FORK_BLOCK_NUM then deposit_evaluate_v1 F op e
     else if do_amount op \<le>s 0 then Inl negative_deposit
     else if get_head_block_num (current_state e) \<ge> BTS_V0_4_28_FORK_BLOCK_NUM \<and>
             wc_type (do_condition op) \<notin> {withdraw_signature_type, withdraw_vesting_type,
               withdraw_multisig_type, withdraw_escrow_type}
     then Inl invalid_withdraw_condition
     else
       let bid = deposit_balance_id F op;
           cur_record = (case get_balance_record (current_state e) bid of
                           Some r \<Rightarrow> r | None \<Rightarrow> balance_record_of_condition (do_condition op))
       in bindE (new_deposit_date F cur_record (do_amount op) (now (current_state e))) (\<lambda>date.
          let cur_record = cur_record\<lparr> deposit_date := date, balance := balance cur_record + do_amount op \<rparr>;
              i = wc_asset_id (condition cur_record)
          in bindE (sub_balance bid (mk_asset (do_amount op) i) e) (\<lambda>e.
             bindE (vote_if_base cur_record (do_amount op) e) (\<lambda>e.
             let cur_record = cur_record\<lparr> br_last_update := now (current_state e) \<rparr>
             in case get_asset_record (current_state e) i of
                  None \<Rightarrow> Inl (if get_head_block_num (current_state e) \<ge> BTS_V0_4_28_FORK_BLOCK_NUM
                               then undefined_behaviour else assert_exception)
                | Some asset_rec \<Rightarrow>
                    if get_head_block_num (current_state e) \<ge> BTS_V0_4_28_FORK_BLOCK_NUM \<and>
                       is_market_issued asset_rec \<and> wc_slate_id (condition cur_record) \<noteq> 0
                    then Inl assert_exception
                    else bindE (check_authorized F (current_state e) asset_rec cur_record) (\<lambda>u.
                      Inr (upd_state (store_balance_record F cur_record) e))))))"

section \<open>Withdrawals\<close>

text \<open>The signature the versions up to \<^verbatim>\<open>_v3\<close> ask for: only conditions with one owner.\<close>

definition check_owner_signature ::
  "'z fc_cond_scheme \<Rightarrow> transaction_evaluation_state \<Rightarrow> balance_record \<Rightarrow> unit res" where
  "check_owner_signature F e r =
    (if wc_type (condition r) = withdraw_signature_type then
       bindE (as_signature F (condition r)) (\<lambda>c.
         if \<not> check_signature e (ws_owner c) then Inl missing_signature else Inr ())
     else Inl invalid_withdraw_condition)"

definition withdraw_evaluate_v1 ::
  "'z fc_eval_scheme \<Rightarrow> withdraw_operation \<Rightarrow> transaction_evaluation_state \<Rightarrow> transaction_evaluation_state res" where
  "withdraw_evaluate_v1 F op e =
    (if wo_amount op \<le>s 0 then Inl negative_deposit
     else
       let current = get_balance_record (current_state e) (wo_balance_id op);
           fork = get_head_block_num (current_state e) \<ge> BTS_V0_4_10_FORK_BLOCK_NUM
       in if fork \<and> current = None then Inl unknown_balance_record
          else if fork \<and> balance (the current) <s wo_amount op then Inl insufficient_funds
          else case current of
            Some r \<Rightarrow>
              bindE (check_owner_signature F e r) (\<lambda>u.
                let r = r\<lparr> balance := balance r - wo_amount op, br_last_update := now (current_state e) \<rparr>
                in bindE (vote_if_base r (- wo_amount op) e) (\<lambda>e.
                   add_balance (mk_asset (wo_amount op) (wc_asset_id (condition r)))
                     (upd_state (store_balance_record F r) e)))
          | None \<Rightarrow> add_balance (mk_asset (wo_amount op) 0) e)"

definition withdraw_evaluate_v2 ::
  "'z fc_eval_scheme \<Rightarrow> withdraw_operation \<Rightarrow> transaction_evaluation_state \<Rightarrow> transaction_evaluation_state res" where
  "withdraw_evaluate_v2 F op e =
    (if get_head_block_num (current_state e) < BTS_V0_4_13_FORK_BLOCK_NUM then withdraw_evaluate_v1 F op e
     else if wo_amount op \<le>s 0 then Inl negative_deposit
     else case get_balance_record (current_state e) (wo_balance_id op) of
       None \<Rightarrow> Inl unknown_balance_record
     | Some r \<Rightarrow>
         if balance r <s wo_amount op then Inl insufficient_funds
         else bindE (check_owner_signature F e r) (\<lambda>u.
           let r = r\<lparr> balance := balance r - wo_amount op, br_last_update := now (current_state e) \<rparr>
           in bindE (vote_if_base r (- wo_amount op) e) (\<lambda>e.
              case get_asset_record (current_state e) (wc_asset_id (condition r)) of
                None \<Rightarrow> Inl assert_exception
              | Some asset_rec \<Rightarrow>
                  bindE (if is_market_issued asset_rec then
                           bindE (calculate_yield F r (now (current_state e)) (balance r)
                                    (collected_fees asset_rec) (current_share_supply asset_rec)) (\<lambda>y.
                           bindE (if get_head_block_num (current_state e) < BTS_V0_4_21_FORK_BLOCK_NUM
                                  then calculate_yield_v1 F r (now (current_state e)) (balance r)
                                         (collected_fees asset_rec) (current_share_supply asset_rec)
                                  else Inr y) (\<lambda>y. Inr (pay_yield y r asset_rec e)))
                         else Inr (r, e)) (\<lambda>(r, e).
                  add_balance (mk_asset (wo_amount op) (wc_asset_id (condition r)))
                    (upd_state (store_balance_record F r) e)))))"

definition withdraw_evaluate_v3 ::
  "'z fc_eval_scheme \<Rightarrow> withdraw_operation \<Rightarrow> transaction_evaluation_state \<Rightarrow> transaction_evaluation_state res" where
  "withdraw_evaluate_v3 F op e =
    (if get_head_block_num (current_state e) < BTS_V0_4_15_FORK_BLOCK_NUM then withdraw_evaluate_v2 F op e
     else if wo_amount op \<le>s 0 then Inl negative_deposit
     else case get_balance_record (current_state e) (wo_balance_id op) of
       None \<Rightarrow> Inl unknown_balance_record
     | Some r \<Rightarrow>
         if balance r <s wo_amount op then Inl insufficient_funds
         else bindE (check_owner_signature F e r) (\<lambda>u.
           bindE (vote_if_base r (- wo_amount op) e) (\<lambda>e.
              case get_asset_record (current_state e) (wc_asset_id (condition r)) of
                None \<Rightarrow> Inl assert_exception
              | Some asset_rec \<Rightarrow>
                  bindE (if is_market_issued asset_rec then
                           bindE (calculate_yield_v1 F r (now (current_state e)) (balance r)
                                    (collected_fees asset_rec) (current_share_supply asset_rec)) (\<lambda>y.
                           Inr (pay_yield y r asset_rec e))
                         else Inr (r, e)) (\<lambda>(r, e).
                  let r = r\<lparr> balance := balance r - wo_amount op, br_last_update := now (current_state e) \<rparr>
                  in add_balance (mk_asset (wo_amount op) (wc_asset_id (condition r)))
                       (upd_state (store_balance_record F r) e)))))"

text \<open>What a withdrawal must show unless the issuer of a retractable asset overrides it. The
  conditions on vesting, several owners and passwords assert that they are not supported.\<close>

definition check_withdraw_condition ::
  "'z fc_eval_scheme \<Rightarrow> transaction_evaluation_state \<Rightarrow> asset_record \<Rightarrow> balance_record \<Rightarrow> unit res" where
  "check_withdraw_condition F e asset_rec r =
    (if is_balance_frozen asset_rec then Inl assert_exception
     else bindE (check_authorized F (current_state e) asset_rec r) (\<lambda>u.
       case wc_type (condition r) of
         withdraw_signature_type \<Rightarrow>
           bindE (as_signature F (condition r)) (\<lambda>c.
             if \<not> check_signature e (ws_owner c) then Inl missing_signature else Inr ())
       | withdraw_vesting_type \<Rightarrow> Inl assert_exception
       | withdraw_multisig_type \<Rightarrow> Inl assert_exception
       | withdraw_password_type \<Rightarrow> Inl assert_exception
       | _ \<Rightarrow> Inl invalid_withdraw_condition))"

text \<open>The yield of a balance of a market issued asset is paid before the withdrawal.\<close>

definition withdraw_yield ::
  "'z fc_eval_scheme \<Rightarrow> asset_record \<Rightarrow> balance_record \<Rightarrow> transaction_evaluation_state \<Rightarrow>
    (balance_record \<times> transaction_evaluation_state) res" where
  "withdraw_yield F asset_rec r e =
    (if is_market_issued asset_rec then
       bindE (calculate_yield F r (now (current_state e)) (balance r)
                (collected_fees asset_rec) (current_share_supply asset_rec)) (\<lambda>y.
       Inr (pay_yield y r asset_rec e))
     else Inr (r, e))"

definition withdraw_evaluate ::
  "'z fc_eval_scheme \<Rightarrow> withdraw_operation \<Rightarrow> transaction_evaluation_state \<Rightarrow> transaction_evaluation_state res" where
  "withdraw_evaluate F op e =
    (if get_head_block_num (current_state e) < BTS_V0_4_21_FORK_BLOCK_NUM then withdraw_evaluate_v3 F op e
     else if wo_amount op \<le>s 0 then Inl negative_withdraw
     else case get_balance_record (current_state e) (wo_balance_id op) of
       None \<Rightarrow> Inl unknown_balance_record
     | Some r \<Rightarrow>
         bindE (get_spendable_balance F r (now (current_state e))) (\<lambda>spendable.
         if amount spendable <s wo_amount op then Inl insufficient_funds
         else case get_asset_record (current_state e) (wc_asset_id (condition r)) of
           None \<Rightarrow> Inl assert_exception
         | Some asset_rec \<Rightarrow>
             let issuer_override = is_retractable asset_rec \<and> verify_authority e (authority asset_rec)
             in bindE (if \<not> issuer_override then check_withdraw_condition F e asset_rec r else Inr ()) (\<lambda>u.
                bindE (vote_if_base r (- wo_amount op) e) (\<lambda>e.
                bindE (withdraw_yield F asset_rec r e) (\<lambda>(r, e).
                let r = r\<lparr> balance := balance r - wo_amount op \<rparr>
                in bindE (add_balance (mk_asset (wo_amount op) (wc_asset_id (condition r))) e) (\<lambda>e.
                   let r = r\<lparr> br_last_update := now (current_state e) \<rparr>
                   in Inr (upd_state (store_balance_record F r) e)))))))"

section \<open>Burning\<close>

definition BTS_BLOCKCHAIN_MIN_BURN_FEE :: share_type where
  "BTS_BLOCKCHAIN_MIN_BURN_FEE = BTS_BLOCKCHAIN_PRECISION * 1"

definition burn_evaluate ::
  "'z fc_eval_scheme \<Rightarrow> burn_operation \<Rightarrow> transaction_evaluation_state \<Rightarrow> transaction_evaluation_state res" where
  "burn_evaluate F op e =
    (if length (bo_message op) \<noteq> 0 \<and> asset_id (bo_amount op) \<noteq> 0 then Inl assert_exception
     else if asset_id (bo_amount op) = 0 \<and> amount (bo_amount op) <s BTS_BLOCKCHAIN_MIN_BURN_FEE
     then Inl assert_exception
     else case get_asset_record (current_state e) (asset_id (bo_amount op)) of
       None \<Rightarrow> Inl assert_exception
     | Some asset_rec \<Rightarrow>
         if is_market_issued asset_rec then Inl assert_exception
         else
           let asset_rec = asset_rec\<lparr> current_share_supply := current_share_supply asset_rec - amount (bo_amount op) \<rparr>
           in bindE (sub_balance address_default (bo_amount op) e) (\<lambda>e.
              let e = upd_state (store_asset_record asset_rec) e
              in if bo_account_id op \<noteq> 0 \<and> get_account_record (current_state e) \<bar>bo_account_id op\<bar> = None
                 then Inl assert_exception
                 else Inr (upd_state (store_burn_record
                    \<lparr> burn_account_id = bo_account_id op, burn_transaction_id = signed_transaction_id F (es_trx e) \<rparr>
                    \<lparr> burn_amount = bo_amount op, burn_message = bo_message op,
                      burn_signer = message_signature op \<rparr>) e)))"

section \<open>Operations that are not enabled\<close>

definition release_escrow_evaluate ::
  "release_escrow_operation \<Rightarrow> transaction_evaluation_state \<Rightarrow> transaction_evaluation_state res" where
  "release_escrow_evaluate op e = Inl assert_exception"

definition update_balance_vote_evaluate ::
  "update_balance_vote_operation \<Rightarrow> transaction_evaluation_state \<Rightarrow> transaction_evaluation_state res" where
  "update_balance_vote_evaluate op e = Inl assert_exception"

end
