(* ===== verification/Market_Ops.thy ===== *)
theory Market_Ops
  imports Balance_Ops
begin

text \<open>
  Evaluation of the market operations (\<^verbatim>\<open>market_operations.cpp\<close> and its versions \<^verbatim>\<open>_v1\<close> to
  \<^verbatim>\<open>_v4\<close>): placing and cancelling bids, asks and shorts, covering a short position and adding
  collateral to it, and the interest a position owes (\<^verbatim>\<open>market_engine::get_interest_owed\<close>,
  \<^verbatim>\<open>get_interest_paid\<close>). Orders relative to the feed assert that they are not enabled yet.
\<close>

definition BTS_V0_4_0_FORK_BLOCK_NUM :: uint32 where "BTS_V0_4_0_FORK_BLOCK_NUM = 274000"
definition BTS_V0_4_12_FORK_BLOCK_NUM :: uint32 where "BTS_V0_4_12_FORK_BLOCK_NUM = 408750"
definition BTS_V0_4_16_FORK_BLOCK_NUM :: uint32 where "BTS_V0_4_16_FORK_BLOCK_NUM = 554800"
definition BTS_V0_4_17_FORK_BLOCK_NUM :: uint32 where "BTS_V0_4_17_FORK_BLOCK_NUM = 578900"
definition BTS_V0_4_23_FORK_BLOCK_NUM :: uint32 where "BTS_V0_4_23_FORK_BLOCK_NUM = 871000"
definition BTS_BLOCKCHAIN_MAX_SHORT_PERIOD_SEC :: int where "BTS_BLOCKCHAIN_MAX_SHORT_PERIOD_SEC = 2592000"
definition BTS_BLOCKCHAIN_MINIMUM_SHORT_ORDER_SIZE :: share_type where
  "BTS_BLOCKCHAIN_MINIMUM_SHORT_ORDER_SIZE = BTS_BLOCKCHAIN_PRECISION * 100"

section \<open>Interest\<close>

definition interest_apr :: "'z fc_eval_scheme \<Rightarrow> price \<Rightarrow> asset_id_type \<Rightarrow> uint128 res" where
  "interest_apr F apr unit =
    (let one = mk_asset (word_of_int BTS_BLOCKCHAIN_MAX_SHARES) unit
     in bindE (asset_mul_price F one apr) (\<lambda>n.
        r128_div F (r128_of_uint64 F (amount n)) (r128_of_uint64 F (amount one))))"

definition percent_of_year :: "'z fc_eval_scheme \<Rightarrow> uint32 \<Rightarrow> uint128 res" where
  "percent_of_year F age_seconds =
    r128_div F (r128_of_uint64 F (ucast age_seconds)) (r128_of_uint64 F (365 * 24 * 60 * 60))"

definition interest_paid_at :: "'z fc_eval_scheme \<Rightarrow> asset_id_type \<Rightarrow> asset \<Rightarrow> price \<Rightarrow> uint32 \<Rightarrow> asset res" where
  "interest_paid_at F unit total_amount_paid apr age_seconds =
    (let total_paid = r128_of_uint64 F (amount total_amount_paid)
     in bindE (interest_apr F apr unit) (\<lambda>iapr.
        bindE (percent_of_year F age_seconds) (\<lambda>part.
        bindE (r128_div F total_paid (r128_add F (r128_of_uint64 F 1) (r128_mul F iapr part))) (\<lambda>delta_principle.
          Inr (mk_asset (r128_to_uint64 F (r128_sub F total_paid delta_principle)) (asset_id total_amount_paid))))))"

definition interest_owed_at :: "'z fc_eval_scheme \<Rightarrow> asset_id_type \<Rightarrow> asset \<Rightarrow> price \<Rightarrow> uint32 \<Rightarrow> asset res" where
  "interest_owed_at F unit principle apr age_seconds =
    bindE (interest_apr F apr unit) (\<lambda>iapr.
    bindE (percent_of_year F age_seconds) (\<lambda>part.
      Inr (mk_asset (r128_to_uint64 F (r128_mul F (r128_mul F (r128_of_uint64 F (amount principle)) iapr) part))
             (asset_id principle))))"

text \<open>The versions \<^verbatim>\<open>_v1\<close> of \<^verbatim>\<open>market_engine_v7.cpp\<close> take the rate in the quote asset.\<close>

definition get_interest_paid :: "'z fc_eval_scheme \<Rightarrow> asset \<Rightarrow> price \<Rightarrow> uint32 \<Rightarrow> asset res" where
  "get_interest_paid F total_amount_paid apr age_seconds =
    interest_paid_at F (base_asset_id apr) total_amount_paid apr age_seconds"

definition get_interest_owed :: "'z fc_eval_scheme \<Rightarrow> asset \<Rightarrow> price \<Rightarrow> uint32 \<Rightarrow> asset res" where
  "get_interest_owed F principle apr age_seconds =
    interest_owed_at F (base_asset_id apr) principle apr age_seconds"

definition get_interest_paid_v1 :: "'z fc_eval_scheme \<Rightarrow> asset \<Rightarrow> price \<Rightarrow> uint32 \<Rightarrow> asset res" where
  "get_interest_paid_v1 F total_amount_paid apr age_seconds =
    interest_paid_at F (quote_asset_id apr) total_amount_paid apr age_seconds"

definition get_interest_owed_v1 :: "'z fc_eval_scheme \<Rightarrow> asset \<Rightarrow> price \<Rightarrow> uint32 \<Rightarrow> asset res" where
  "get_interest_owed_v1 F principle apr age_seconds =
    interest_owed_at F (quote_asset_id apr) principle apr age_seconds"

section \<open>Bids and asks\<close>

definition llabs :: "int64 \<Rightarrow> int64" where
  "llabs a = (if a <s 0 then - a else a)"

text \<open>The funds an order takes from or gives back to the transaction, and the order record to
  change: a negative amount withdraws from an existing order, a positive one deposits and
  creates the order if it does not exist.\<close>

definition order_funds ::
  "share_type \<Rightarrow> asset \<Rightarrow> order_record option \<Rightarrow> transaction_evaluation_state \<Rightarrow>
    (order_record \<times> transaction_evaluation_state) res" where
  "order_funds amnt delta_amount current e =
    (if amnt = 0 then Inl zero_amount
     else if amnt <s 0 then
       (case current of
          None \<Rightarrow> Inl unknown_market_order
        | Some r \<Rightarrow>
            if or_balance r <s llabs amnt then Inl insufficient_funds
            else bindE (add_balance (asset_neg delta_amount) e) (\<lambda>e. Inr (r, e)))
     else bindE (sub_balance address_default delta_amount e) (\<lambda>e.
            Inr (case current of None \<Rightarrow> order_record_default | Some r \<Rightarrow> r, e)))"

definition check_order_authorized :: "chain \<Rightarrow> asset_record \<Rightarrow> address \<Rightarrow> bool" where
  "check_order_authorized s r owner =
    (is_restricted r \<longrightarrow> get_authorization s (asr_id r, owner) \<noteq> None)"

text \<open>The checks \<^verbatim>\<open>bid_operation\<close> and \<^verbatim>\<open>ask_operation\<close> share; \<open>paid\<close> selects the asset record of
  the funds.\<close>

definition check_order ::
  "(asset_record \<Rightarrow> asset_record \<Rightarrow> asset_record) \<Rightarrow> market_index_key \<Rightarrow> transaction_evaluation_state \<Rightarrow> unit res" where
  "check_order paid key e =
    (let s = current_state e; owner = mk_owner key
     in if price_eq (order_price key) price_default then Inl zero_price
        else case get_asset_record s (base_asset_id (order_price key)) of
          None \<Rightarrow> Inl assert_exception
        | Some base_rec \<Rightarrow>
          (case get_asset_record s (quote_asset_id (order_price key)) of
             None \<Rightarrow> Inl assert_exception
           | Some quote_rec \<Rightarrow>
               if \<not> check_order_authorized s base_rec owner then Inl assert_exception
               else if \<not> check_order_authorized s quote_rec owner then Inl assert_exception
               else
                 let r = paid base_rec quote_rec;
                     issuer_override = is_retractable r \<and> verify_authority e (authority r)
                 in if \<not> issuer_override \<and> \<not> check_signature e owner then Inl missing_signature
                    else if \<not> (\<not> issuer_override \<and> \<not> is_balance_frozen r) then Inl assert_exception
                    else Inr ()))"

definition bid_get_amount :: "bid_operation \<Rightarrow> asset" where
  "bid_get_amount op = mk_asset (bid_amount op) (quote_asset_id (order_price (bid_index op)))"

definition ask_get_amount :: "ask_operation \<Rightarrow> asset" where
  "ask_get_amount op = mk_asset (ask_amount op) (base_asset_id (order_price (ask_index op)))"

definition bid_evaluate ::
  "bid_operation \<Rightarrow> transaction_evaluation_state \<Rightarrow> transaction_evaluation_state res" where
  "bid_evaluate op e =
    bindE (check_order (\<lambda>base_rec quote_rec. quote_rec) (bid_index op) e) (\<lambda>u.
    bindE (validate_asset e (bid_get_amount op)) (\<lambda>u.
    bindE (order_funds (bid_amount op) (bid_get_amount op)
             (get_bid_record (current_state e) (bid_index op)) e) (\<lambda>(r, e).
      Inr (upd_state (store_bid_record (bid_index op)
             (r\<lparr> or_last_update := now (current_state e), or_balance := or_balance r + bid_amount op \<rparr>)) e))))"

text \<open>The market status, created if the market has none.\<close>

definition market_status_or_new :: "chain \<Rightarrow> price \<Rightarrow> market_status res" where
  "market_status_or_new s p =
    (case get_market_status s (quote_asset_id p, base_asset_id p) of
       Some m \<Rightarrow> Inr m | None \<Rightarrow> mk_market_status (quote_asset_id p) (base_asset_id p))"

definition ask_evaluate_v1 ::
  "ask_operation \<Rightarrow> transaction_evaluation_state \<Rightarrow> transaction_evaluation_state res" where
  "ask_evaluate_v1 op e =
    (if price_eq (order_price (ask_index op)) price_default then Inl zero_price
     else if \<not> check_signature e (mk_owner (ask_index op)) then Inl missing_signature
     else bindE (validate_asset e (ask_get_amount op)) (\<lambda>u.
       bindE (order_funds (ask_amount op) (ask_get_amount op)
                (get_ask_record (current_state e) (ask_index op)) e) (\<lambda>(r, e).
       let r = r\<lparr> or_last_update := now (current_state e), or_balance := or_balance r + ask_amount op \<rparr>
       in if or_balance r <s 0 then Inl assert_exception
          else bindE (market_status_or_new (current_state e) (order_price (ask_index op))) (\<lambda>m.
            Inr (upd_state (store_ask_record (ask_index op) r)
              (upd_state (store_market_status (m\<lparr> ask_depth := ask_depth m + ask_amount op \<rparr>)) e))))))"

definition ask_evaluate ::
  "ask_operation \<Rightarrow> transaction_evaluation_state \<Rightarrow> transaction_evaluation_state res" where
  "ask_evaluate op e =
    (if get_head_block_num (current_state e) < BTS_V0_4_21_FORK_BLOCK_NUM then ask_evaluate_v1 op e
     else
       bindE (check_order (\<lambda>base_rec quote_rec. base_rec) (ask_index op) e) (\<lambda>u.
       bindE (validate_asset e (ask_get_amount op)) (\<lambda>u.
       bindE (order_funds (ask_amount op) (ask_get_amount op)
                (get_ask_record (current_state e) (ask_index op)) e) (\<lambda>(r, e).
       let r = r\<lparr> or_last_update := now (current_state e), or_balance := or_balance r + ask_amount op \<rparr>
       in if or_balance r <s 0 then Inl assert_exception
          else Inr (upd_state (store_ask_record (ask_index op) r) e)))))"

definition relative_bid_evaluate ::
  "relative_bid_operation \<Rightarrow> transaction_evaluation_state \<Rightarrow> transaction_evaluation_state res" where
  "relative_bid_evaluate op e = Inl assert_exception"

definition relative_ask_evaluate ::
  "relative_ask_operation \<Rightarrow> transaction_evaluation_state \<Rightarrow> transaction_evaluation_state res" where
  "relative_ask_evaluate op e = Inl assert_exception"

section \<open>Shorts\<close>

definition short_get_amount :: "short_operation \<Rightarrow> asset" where
  "short_get_amount op = mk_asset (short_amount op) (base_asset_id (order_price (short_index op)))"

definition short1_get_amount :: "short_operation_v1 \<Rightarrow> asset" where
  "short1_get_amount op = mk_asset (short1_amount op) 0"

definition check_shortable :: "chain \<Rightarrow> price \<Rightarrow> unit res" where
  "check_shortable s p =
    (case get_asset_record s (quote_asset_id p) of
       None \<Rightarrow> Inl assert_exception
     | Some r \<Rightarrow> if \<not> is_market_issued r then Inl assert_exception else Inr ())"

text \<open>The end both versions of \<^verbatim>\<open>short_operation\<close> share: only a withdrawal needs the signature
  of the owner.\<close>

definition short_order_funds ::
  "short_operation \<Rightarrow> transaction_evaluation_state \<Rightarrow> (order_record \<times> transaction_evaluation_state) res" where
  "short_order_funds op e =
    (if short_amount op <s 0 \<and> \<not> check_signature e (mk_owner (short_index op)) then Inl missing_signature
     else bindE (order_funds (short_amount op) (short_get_amount op)
                   (get_short_record (current_state e) (short_index op)) e) (\<lambda>(r, e).
       let r = r\<lparr> limit_price := short_limit_price op, or_last_update := now (current_state e),
                  or_balance := or_balance r + short_amount op \<rparr>
       in if or_balance r <s 0 then Inl assert_exception else Inr (r, e)))"

definition short_evaluate_v1 ::
  "'z fc_eval_scheme \<Rightarrow> short_operation \<Rightarrow> transaction_evaluation_state \<Rightarrow> transaction_evaluation_state res" where
  "short_evaluate_v1 F op e =
    (let p = order_price (short_index op); s = current_state e
     in if price_eq p price_default then Inl zero_price
        else bindE (asset_mul_price F (short_get_amount op) p) (\<lambda>delta_quote.
        if asset_id (short_get_amount op) \<noteq> 0 then Inl assert_exception
        else if \<not> 0 <s llabs (amount delta_quote) then Inl assert_exception
        else bindE (validate_asset e (short_get_amount op)) (\<lambda>u.
        bindE (check_shortable s p) (\<lambda>u.
        if get_head_block_num s \<ge> BTS_V0_4_17_FORK_BLOCK_NUM \<and>
           (case short_limit_price op of None \<Rightarrow> False | Some l \<Rightarrow> \<not> price_ge l p)
        then Inl assert_exception
        else bindE (short_order_funds op e) (\<lambda>(r, e).
        bindE (market_status_or_new (current_state e) p) (\<lambda>m.
          Inr (upd_state (store_short_record (short_index op) r)
            (upd_state (store_market_status (m\<lparr> bid_depth := bid_depth m + short_amount op \<rparr>)) e))))))))"

definition short_evaluate ::
  "'z fc_eval_scheme \<Rightarrow> short_operation \<Rightarrow> transaction_evaluation_state \<Rightarrow> transaction_evaluation_state res" where
  "short_evaluate F op e =
    (let p = order_price (short_index op); s = current_state e
     in if get_head_block_num s < BTS_V0_4_21_FORK_BLOCK_NUM then short_evaluate_v1 F op e
        else if \<not> ratio p < u128_hi_lo F 10 0 then Inl assert_exception
        else if \<not> quote_asset_id p > base_asset_id p then Inl assert_exception
        else if asset_id (short_get_amount op) \<noteq> 0 then Inl assert_exception
        else bindE (validate_asset e (short_get_amount op)) (\<lambda>u.
        bindE (check_shortable s p) (\<lambda>u.
        bindE (short_order_funds op e) (\<lambda>(r, e).
          Inr (upd_state (store_short_record (short_index op) r) e)))))"

text \<open>\<^verbatim>\<open>short_operation_v1\<close>: the operation of the blocks before 554800. A short must stay close
  to the average price or, without one, to the median feed.\<close>

definition price_below_feed ::
  "'z fc_eval_scheme \<Rightarrow> int64 \<Rightarrow> int64 \<Rightarrow> price \<Rightarrow> chain \<Rightarrow> unit res" where
  "price_below_feed F num den p s =
    bindE (get_median_delegate_price F (quote_asset_id p) 0 s) (\<lambda>median.
      case median of
        None \<Rightarrow> Inl assert_exception
      | Some m \<Rightarrow>
          bindE (u128_div F (u128_mul F (ratio m) (u128_of_int64 F num)) (u128_of_int64 F den)) (\<lambda>x.
            if \<not> price_less p (m\<lparr> ratio := x \<rparr>) then Inl assert_exception else Inr ()))"

definition price_below_maximum :: "'z fc_eval_scheme \<Rightarrow> market_status \<Rightarrow> price \<Rightarrow> unit res" where
  "price_below_maximum F m p =
    bindE (maximum_bid F m) (\<lambda>x. if \<not> price_less p x then Inl assert_exception else Inr ())"

definition short1_check ::
  "'z fc_eval_scheme \<Rightarrow> short_operation_v1 \<Rightarrow> transaction_evaluation_state \<Rightarrow> unit res" where
  "short1_check F op e =
    (let p = order_price (short1_index op)
     in if price_eq p price_default then Inl zero_price
        else if \<not> check_signature e (mk_owner (short1_index op)) then Inl missing_signature
        else bindE (asset_mul_price F (short1_get_amount op) p) (\<lambda>delta_quote.
        if \<not> 0 <s llabs (amount delta_quote) then Inl assert_exception
        else bindE (validate_asset e (short1_get_amount op)) (\<lambda>u.
          check_shortable (current_state e) p)))"

definition short1_evaluate_v1 ::
  "'z fc_eval_scheme \<Rightarrow> short_operation_v1 \<Rightarrow> transaction_evaluation_state \<Rightarrow> transaction_evaluation_state res" where
  "short1_evaluate_v1 F op e =
    (let p = order_price (short1_index op); s = current_state e
     in bindE (short1_check F op e) (\<lambda>u.
        bindE (market_status_or_new s p) (\<lambda>m.
        bindE (if quote_asset_id (center_price m) \<noteq> 0 then price_below_maximum F m p
               else if get_head_block_num s \<ge> BTS_V0_4_0_FORK_BLOCK_NUM then price_below_feed F 4 3 p s
               else Inr ()) (\<lambda>u.
        bindE (order_funds (short1_amount op) (short1_get_amount op)
                 (get_short_record s (short1_index op)) e) (\<lambda>(r, e).
        let r = r\<lparr> or_balance := or_balance r + short1_amount op \<rparr>
        in if or_balance r <s 0 then Inl assert_exception
           else Inr (upd_state (store_short_record (short1_index op) r)
             (upd_state (store_market_status (m\<lparr> bid_depth := bid_depth m + short1_amount op \<rparr>)) e)))))))"

definition short1_evaluate ::
  "'z fc_eval_scheme \<Rightarrow> short_operation_v1 \<Rightarrow> transaction_evaluation_state \<Rightarrow> transaction_evaluation_state res" where
  "short1_evaluate F op e =
    (let p = order_price (short1_index op); s = current_state e
     in if get_head_block_num s \<ge> BTS_V0_4_16_FORK_BLOCK_NUM then Inl assert_exception
        else if get_head_block_num s < BTS_V0_4_12_FORK_BLOCK_NUM then short1_evaluate_v1 F op e
        else bindE (short1_check F op e) (\<lambda>u.
        if 0 <s short1_amount op \<and> short1_amount op <s BTS_BLOCKCHAIN_MINIMUM_SHORT_ORDER_SIZE
        then Inl assert_exception
        else bindE (order_funds (short1_amount op) (short1_get_amount op)
                      (get_short_record s (short1_index op)) e) (\<lambda>(r, e).
        let r = r\<lparr> or_balance := or_balance r + short1_amount op \<rparr>
        in if or_balance r <s 0 then Inl assert_exception
           else bindE (market_status_or_new (current_state e) p) (\<lambda>m.
             bindE (if 0 <s short1_amount op then
                      (if quote_asset_id (center_price m) \<noteq> 0 then price_below_maximum F m p
                       else price_below_feed F 10 9 p (current_state e))
                    else Inr ()) (\<lambda>u.
             Inr (upd_state (store_short_record (short1_index op) r)
               (upd_state (store_market_status (m\<lparr> bid_depth := bid_depth m + short1_amount op \<rparr>)) e)))))))"

section \<open>Covering\<close>

definition cover_get_amount :: "cover_operation \<Rightarrow> asset" where
  "cover_get_amount op = mk_asset (cover_amount op) (quote_asset_id (order_price (cover_index op)))"

definition check_cover :: "cover_operation \<Rightarrow> transaction_evaluation_state \<Rightarrow> unit res" where
  "check_cover op e =
    (if price_eq (order_price (cover_index op)) price_default then Inl zero_price
     else if cover_amount op = 0 \<and> new_cover_price op = None then Inl zero_amount
     else if cover_amount op <s 0 then Inl negative_deposit
     else if \<not> check_signature e (mk_owner (cover_index op)) then Inl missing_signature
     else Inr ())"

text \<open>A position that stays open is stored under its new call price, or under the price the
  owner asks for if that is higher.\<close>

definition store_cover ::
  "price option \<Rightarrow> price \<Rightarrow> address \<Rightarrow> collateral_record \<Rightarrow> chain \<Rightarrow> chain" where
  "store_cover new_price call_price owner r =
    store_collateral_record
      \<lparr> order_price = (case new_price of
           Some p \<Rightarrow> if price_greater p call_price then p else call_price | None \<Rightarrow> call_price),
        mk_owner = owner \<rparr> r"

text \<open>The versions \<^verbatim>\<open>_v1\<close>, \<^verbatim>\<open>_v2\<close> and \<^verbatim>\<open>_v3\<close> charge no interest. They differ in the collateral
  the call price is computed from, in the asset of the collateral, and in whether the
  supply of the covered asset shrinks.\<close>

definition close_or_store_cover ::
  "'z fc_eval_scheme \<Rightarrow> share_type \<Rightarrow> asset_id_type \<Rightarrow> cover_operation \<Rightarrow> collateral_record \<Rightarrow>
    transaction_evaluation_state \<Rightarrow> transaction_evaluation_state res" where
  "close_or_store_cover F call_collateral base op r e =
    (let p = order_price (cover_index op);
         e = upd_state (store_collateral_record (cover_index op) collateral_record_default) e
     in if 0 <s payoff_balance r then
          bindE (asset_div_asset F (mk_asset (payoff_balance r) (quote_asset_id p))
                   (mk_asset call_collateral base)) (\<lambda>new_call_price.
            Inr (upd_state (store_cover (new_cover_price op) new_call_price (mk_owner (cover_index op)) r) e))
        else
          bindE (add_balance (mk_asset (collateral_balance r) base) e) (\<lambda>e.
            case get_market_status (current_state e) (quote_asset_id p, base_asset_id p) of
              None \<Rightarrow> Inl assert_exception
            | Some m \<Rightarrow>
                Inr (upd_state (store_market_status (m\<lparr> ask_depth := ask_depth m - collateral_balance r \<rparr>)) e)))"

definition cover_evaluate_v1 ::
  "'z fc_eval_scheme \<Rightarrow> cover_operation \<Rightarrow> transaction_evaluation_state \<Rightarrow> transaction_evaluation_state res" where
  "cover_evaluate_v1 F op e =
    bindE (check_cover op e) (\<lambda>u.
    bindE (sub_balance address_default (cover_get_amount op) e) (\<lambda>e.
      case get_collateral_record (current_state e) (cover_index op) of
        None \<Rightarrow> Inl unknown_market_order
      | Some r \<Rightarrow>
          close_or_store_cover F (sdiv64 (collateral_balance r * 3) 4) 0 op
            (r\<lparr> payoff_balance := payoff_balance r - cover_amount op \<rparr>) e))"

definition cover_evaluate_v2 ::
  "'z fc_eval_scheme \<Rightarrow> cover_operation \<Rightarrow> transaction_evaluation_state \<Rightarrow> transaction_evaluation_state res" where
  "cover_evaluate_v2 F op e =
    (if get_head_block_num (current_state e) < BTS_V0_4_16_FORK_BLOCK_NUM then cover_evaluate_v1 F op e
     else bindE (check_cover op e) (\<lambda>u.
       bindE (sub_balance address_default (cover_get_amount op) e) (\<lambda>e.
         case get_collateral_record (current_state e) (cover_index op) of
           None \<Rightarrow> Inl unknown_market_order
         | Some r \<Rightarrow>
             close_or_store_cover F (sdiv64 (collateral_balance r * 2) 3) 0 op
               (r\<lparr> payoff_balance := payoff_balance r - cover_amount op \<rparr>) e)))"

definition cover_evaluate_v3 ::
  "'z fc_eval_scheme \<Rightarrow> cover_operation \<Rightarrow> transaction_evaluation_state \<Rightarrow> transaction_evaluation_state res" where
  "cover_evaluate_v3 F op e =
    (if get_head_block_num (current_state e) < BTS_V0_4_17_FORK_BLOCK_NUM then cover_evaluate_v2 F op e
     else bindE (check_cover op e) (\<lambda>u.
       bindE (sub_balance address_default (cover_get_amount op) e) (\<lambda>e.
         case get_collateral_record (current_state e) (cover_index op) of
           None \<Rightarrow> Inl unknown_market_order
         | Some r \<Rightarrow>
             (case get_asset_record (current_state e) (quote_asset_id (order_price (cover_index op))) of
                None \<Rightarrow> Inl assert_exception
              | Some a \<Rightarrow>
                  close_or_store_cover F (sdiv64 (collateral_balance r * 2) 3)
                    (base_asset_id (order_price (cover_index op))) op
                    (r\<lparr> payoff_balance := payoff_balance r - cover_amount op \<rparr>)
                    (upd_state (store_asset_record
                       (a\<lparr> current_share_supply := current_share_supply a - cover_amount op \<rparr>)) e)))))"

text \<open>Seconds since the position was opened, at least 0: the position expires a fixed period
  after its start.\<close>

definition cover_elapsed_sec :: "'z fc_eval_scheme \<Rightarrow> collateral_record \<Rightarrow> time_point_sec \<Rightarrow> uint32" where
  "cover_elapsed_sec F r at_time =
    (let elapsed_sec = tps_elapsed F at_time (expiration r) + BTS_BLOCKCHAIN_MAX_SHORT_PERIOD_SEC
     in word_of_int (if elapsed_sec < 0 then 0 else elapsed_sec))"

text \<open>How a payment splits into principle and interest: \<open>(principle_paid, interest_paid,
  remaining payoff_balance)\<close>.\<close>

definition split_payment ::
  "(asset \<Rightarrow> price \<Rightarrow> uint32 \<Rightarrow> asset res) \<Rightarrow> (asset \<Rightarrow> price \<Rightarrow> uint32 \<Rightarrow> asset res) \<Rightarrow>
    asset \<Rightarrow> collateral_record \<Rightarrow> uint32 \<Rightarrow> (asset \<times> asset \<times> share_type) res" where
  "split_payment owed paid delta_amount r elapsed_sec =
    (let principle = mk_asset (payoff_balance r) (asset_id delta_amount)
     in bindE (owed principle (interest_rate r) elapsed_sec) (\<lambda>interest.
        bindE (asset_plus interest principle) (\<lambda>total_debt.
        bindE (if asset_ge delta_amount total_debt then
                 bindE (asset_minus delta_amount principle) (\<lambda>interest_paid.
                   Inr (principle, interest_paid, 0))
               else
                 bindE (paid delta_amount (interest_rate r) elapsed_sec) (\<lambda>interest_paid.
                 bindE (asset_minus delta_amount interest_paid) (\<lambda>principle_paid.
                   Inr (principle_paid, interest_paid, payoff_balance r - amount principle_paid))))
          (\<lambda>(principle_paid, interest_paid, rest).
            if amount principle_paid <s 0 then Inl assert_exception
            else if amount interest_paid <s 0 then Inl assert_exception
            else if rest <s 0 then Inl assert_exception
            else Inr (principle_paid, interest_paid, rest)))))"

text \<open>The versions since interest was introduced: \<^verbatim>\<open>evaluate_v4\<close> computes it in the quote asset
  before block 871000. Both calls of the newer functions are made there as well, so their
  exceptions count.\<close>

definition cover_with_interest ::
  "'z fc_eval_scheme \<Rightarrow> (asset \<Rightarrow> price \<Rightarrow> uint32 \<Rightarrow> asset res) \<Rightarrow> (asset \<Rightarrow> price \<Rightarrow> uint32 \<Rightarrow> asset res) \<Rightarrow>
    cover_operation \<Rightarrow> transaction_evaluation_state \<Rightarrow> transaction_evaluation_state res" where
  "cover_with_interest F owed paid op e =
    bindE (check_cover op e) (\<lambda>u.
    bindE (sub_balance address_default (cover_get_amount op) e) (\<lambda>e.
      case get_collateral_record (current_state e) (cover_index op) of
        None \<Rightarrow> Inl unknown_market_order
      | Some r \<Rightarrow>
          (case get_asset_record (current_state e) (quote_asset_id (order_price (cover_index op))) of
             None \<Rightarrow> Inl assert_exception
           | Some a \<Rightarrow>
               bindE (split_payment owed paid (cover_get_amount op) r
                        (cover_elapsed_sec F r (now (current_state e)))) (\<lambda>(principle_paid, interest_paid, rest).
               let r = r\<lparr> payoff_balance := rest \<rparr>;
                   base = base_asset_id (order_price (cover_index op));
                   e = upd_state (store_asset_record
                         (a\<lparr> current_share_supply := current_share_supply a - amount principle_paid,
                            collected_fees := collected_fees a + amount interest_paid \<rparr>)) e;
                   e = upd_state (store_collateral_record (cover_index op) collateral_record_default) e
               in if \<not> quote_asset_id (interest_rate r) > base_asset_id (interest_rate r) then Inl assert_exception
                  else if 0 <s payoff_balance r then
                    bindE (asset_div_asset F (mk_asset (payoff_balance r) (asset_id (cover_get_amount op)))
                             (mk_asset (sdiv64 (collateral_balance r * 2) 3) base)) (\<lambda>new_call_price.
                      Inr (upd_state (store_cover (new_cover_price op) new_call_price (mk_owner (cover_index op)) r) e))
                  else add_balance (mk_asset (collateral_balance r) base) e))))"

definition owed_v4 :: "'z fc_eval_scheme \<Rightarrow> bool \<Rightarrow> asset \<Rightarrow> price \<Rightarrow> uint32 \<Rightarrow> asset res" where
  "owed_v4 F old principle apr age =
    bindE (get_interest_owed F principle apr age) (\<lambda>x.
    bindE (asset_plus x principle) (\<lambda>total_debt.
      if old then get_interest_owed_v1 F principle apr age else Inr x))"

definition paid_v4 :: "'z fc_eval_scheme \<Rightarrow> bool \<Rightarrow> asset \<Rightarrow> price \<Rightarrow> uint32 \<Rightarrow> asset res" where
  "paid_v4 F old paid_sum apr age =
    bindE (get_interest_paid F paid_sum apr age) (\<lambda>x.
      if old then get_interest_paid_v1 F paid_sum apr age else Inr x)"

definition cover_evaluate_v4 ::
  "'z fc_eval_scheme \<Rightarrow> cover_operation \<Rightarrow> transaction_evaluation_state \<Rightarrow> transaction_evaluation_state res" where
  "cover_evaluate_v4 F op e =
    (if get_head_block_num (current_state e) < BTS_V0_4_21_FORK_BLOCK_NUM then cover_evaluate_v3 F op e
     else
       let old = get_head_block_num (current_state e) < BTS_V0_4_23_FORK_BLOCK_NUM
       in cover_with_interest F (owed_v4 F old) (paid_v4 F old) op e)"

definition cover_evaluate ::
  "'z fc_eval_scheme \<Rightarrow> cover_operation \<Rightarrow> transaction_evaluation_state \<Rightarrow> transaction_evaluation_state res" where
  "cover_evaluate F op e =
    (if get_head_block_num (current_state e) < BTS_V0_4_23_FORK_BLOCK_NUM then cover_evaluate_v4 F op e
     else cover_with_interest F (get_interest_owed F) (get_interest_paid F) op e)"

section \<open>Adding collateral\<close>

definition ac_get_amount :: "add_collateral_operation \<Rightarrow> asset" where
  "ac_get_amount op = mk_asset (ac_amount op) (base_asset_id (order_price (ac_cover_index op)))"

text \<open>The part both versions share: the position moves to its new call price.\<close>

definition move_collateral ::
  "'z fc_eval_scheme \<Rightarrow> add_collateral_operation \<Rightarrow> transaction_evaluation_state \<Rightarrow> transaction_evaluation_state res" where
  "move_collateral F op e =
    (let k = ac_cover_index op; p = order_price k
     in if price_eq p price_default then Inl zero_price
        else if ac_amount op = 0 then Inl zero_amount
        else if ac_amount op <s 0 then Inl negative_deposit
        else bindE (sub_balance address_default (ac_get_amount op) e) (\<lambda>e.
          case get_collateral_record (current_state e) k of
            None \<Rightarrow> Inl unknown_market_order
          | Some r \<Rightarrow>
              let r = r\<lparr> collateral_balance := collateral_balance r + ac_amount op \<rparr>;
                  e = upd_state (store_collateral_record k collateral_record_default) e
              in bindE (asset_div_asset F (mk_asset (payoff_balance r) (quote_asset_id p))
                          (mk_asset (sdiv64 (collateral_balance r * 2) 3) (base_asset_id p))) (\<lambda>new_call_price.
                 Inr (upd_state (store_collateral_record
                   \<lparr> order_price = new_call_price, mk_owner = mk_owner k \<rparr> r) e))))"

definition add_collateral_evaluate_v1 ::
  "'z fc_eval_scheme \<Rightarrow> add_collateral_operation \<Rightarrow> transaction_evaluation_state \<Rightarrow> transaction_evaluation_state res" where
  "add_collateral_evaluate_v1 F op e =
    bindE (move_collateral F op e) (\<lambda>e.
      let p = order_price (ac_cover_index op)
      in case get_market_status (current_state e) (quote_asset_id p, base_asset_id p) of
           None \<Rightarrow> Inl assert_exception
         | Some m \<Rightarrow> Inr (upd_state (store_market_status (m\<lparr> ask_depth := ask_depth m + ac_amount op \<rparr>)) e))"

definition add_collateral_evaluate ::
  "'z fc_eval_scheme \<Rightarrow> add_collateral_operation \<Rightarrow> transaction_evaluation_state \<Rightarrow> transaction_evaluation_state res" where
  "add_collateral_evaluate F op e =
    (if get_head_block_num (current_state e) < BTS_V0_4_21_FORK_BLOCK_NUM then add_collateral_evaluate_v1 F op e
     else move_collateral F op e)"

end
