(* ===== verification/Evaluate.thy ===== *)
theory Evaluate
  imports Account_Ops Asset_Ops Market_Ops
begin

text \<open>
  The evaluation of a whole transaction: the dispatch of the operation factory
  (\<^verbatim>\<open>operation_factory.hpp\<close>) and \<^verbatim>\<open>transaction_evaluation_state::evaluate\<close>. An operation is
  decoded at the payload type its tag is registered for and handed to that type's
  \<^verbatim>\<open>evaluate\<close>; a tag outside the registered ones throws.
\<close>

definition BTS_BLOCKCHAIN_MAX_TRANSACTION_EXPIRATION_SEC :: uint32 where
  "BTS_BLOCKCHAIN_MAX_TRANSACTION_EXPIRATION_SEC = 172800"

text \<open>\<^verbatim>\<open>set_object_operation\<close> and \<^verbatim>\<open>set_edge_operation\<close> are registered but start with a failing
  assertion; their payloads stay bytes.\<close>

definition set_object_evaluate ::
  "bytes \<Rightarrow> transaction_evaluation_state \<Rightarrow> transaction_evaluation_state res" where
  "set_object_evaluate op e = Inl assert_exception"

definition set_edge_evaluate ::
  "bytes \<Rightarrow> transaction_evaluation_state \<Rightarrow> transaction_evaluation_state res" where
  "set_edge_evaluate op e = Inl assert_exception"

fun evaluate_body ::
  "'z fc_eval_scheme \<Rightarrow> operation_body \<Rightarrow> transaction_evaluation_state \<Rightarrow> transaction_evaluation_state res" where
  "evaluate_body F (op_withdraw op) e = withdraw_evaluate F op e"
| "evaluate_body F (op_deposit op) e = deposit_evaluate F op e"
| "evaluate_body F (op_register_account op) e = register_account_evaluate F op e"
| "evaluate_body F (op_update_account op) e = update_account_evaluate F op e"
| "evaluate_body F (op_withdraw_pay op) e = withdraw_pay_evaluate F op e"
| "evaluate_body F (op_create_asset op) e = create_asset_evaluate F op e"
| "evaluate_body F (op_update_asset op) e = update_asset_evaluate op e"
| "evaluate_body F (op_issue_asset op) e = issue_asset_evaluate op e"
| "evaluate_body F (op_create_asset_proposal op) e = create_asset_proposal_evaluate op e"
| "evaluate_body F (op_bid op) e = bid_evaluate op e"
| "evaluate_body F (op_ask op) e = ask_evaluate op e"
| "evaluate_body F (op_short op) e = short_evaluate F op e"
| "evaluate_body F (op_short_v1 op) e = short1_evaluate F op e"
| "evaluate_body F (op_cover op) e = cover_evaluate F op e"
| "evaluate_body F (op_add_collateral op) e = add_collateral_evaluate F op e"
| "evaluate_body F (op_define_delegate_slate op) e = define_delegate_slate_evaluate F op e"
| "evaluate_body F (op_update_feed op) e = update_feed_evaluate F op e"
| "evaluate_body F (op_burn op) e = burn_evaluate F op e"
| "evaluate_body F (op_release_escrow op) e = release_escrow_evaluate op e"
| "evaluate_body F (op_update_block_signing_key op) e = update_block_signing_key_evaluate F op e"
| "evaluate_body F (op_relative_bid op) e = relative_bid_evaluate op e"
| "evaluate_body F (op_relative_ask op) e = relative_ask_evaluate op e"
| "evaluate_body F (op_update_balance_vote op) e = update_balance_vote_evaluate op e"
| "evaluate_body F (op_set_object op) e = set_object_evaluate op e"
| "evaluate_body F (op_authorize op) e = authorize_evaluate op e"
| "evaluate_body F (op_update_asset_ext op) e = update_asset_ext_evaluate op e"
| "evaluate_body F (op_set_edge op) e = set_edge_evaluate op e"

definition evaluate_operation ::
  "'z fc_eval_scheme \<Rightarrow> operation \<Rightarrow> transaction_evaluation_state \<Rightarrow> transaction_evaluation_state res" where
  "evaluate_operation F op e =
    (if op_type op \<notin> set registered_operations then Inl unsupported_chain_operation
     else bindE (operation_as F (op_type op) op) (\<lambda>b. evaluate_body F b e))"

section \<open>The transaction\<close>

definition check_expiration ::
  "'z fc_eval_scheme \<Rightarrow> signed_transaction \<Rightarrow> chain \<Rightarrow> unit res" where
  "check_expiration F trx_arg s =
    (if now s \<ge> trx_expiration trx_arg \<and>
        (now s > trx_expiration trx_arg \<or> get_head_block_num s \<ge> BTS_V0_4_21_FORK_BLOCK_NUM)
     then Inl expired_transaction
     else if tps_add F (now s) BTS_BLOCKCHAIN_MAX_TRANSACTION_EXPIRATION_SEC < trx_expiration trx_arg
     then Inl invalid_transaction_expiration
     else Inr ())"

definition check_duplicate ::
  "'z fc_eval_scheme \<Rightarrow> signed_transaction \<Rightarrow> digest_type \<Rightarrow> chain \<Rightarrow> unit res" where
  "check_duplicate F trx_arg cid s =
    (if get_head_block_num s \<ge> BTS_V0_4_26_FORK_BLOCK_NUM \<and>
        is_known_transaction s (trx_expiration trx_arg) (transaction_digest F trx_arg cid)
     then bindE (get_transaction F s (signed_transaction_id F trx_arg)) (\<lambda>current_trx.
            if current_trx \<noteq> None then Inl duplicate_transaction else Inr ())
     else Inr ())"

text \<open>The loop over the signatures: each recovered key contributes its five addresses.\<close>

definition collect_signatures ::
  "'z fc_eval_scheme \<Rightarrow> bool \<Rightarrow> signed_transaction \<Rightarrow> digest_type \<Rightarrow> address list \<Rightarrow> address list res" where
  "collect_signatures F enforce_canonical trx_arg cid =
    foldE (\<lambda>sig keys.
      bindE (recover_public_key F sig (transaction_digest F trx_arg cid) enforce_canonical) (\<lambda>key.
        Inr (fold List.insert (key_addresses F key) keys))) (signatures trx_arg)"

definition evaluate_operations ::
  "'z fc_eval_scheme \<Rightarrow> operation list \<Rightarrow> transaction_evaluation_state \<Rightarrow> transaction_evaluation_state res" where
  "evaluate_operations F =
    foldE (\<lambda>op e. bindE (evaluate_operation F op e) (\<lambda>e.
      Inr (e\<lparr> current_op_index := current_op_index e + 1 \<rparr>)))"

text \<open>What happens before the first operation.\<close>

definition begin_evaluate ::
  "'z fc_eval_scheme \<Rightarrow> signed_transaction \<Rightarrow> bool \<Rightarrow> bool \<Rightarrow> transaction_evaluation_state \<Rightarrow> transaction_evaluation_state res" where
  "begin_evaluate F trx_arg skip enforce_canonical e =
    (let e = e\<lparr> skip_signature_check := skip \<rparr>
     in bindE (check_expiration F trx_arg (current_state e)) (\<lambda>u.
        bindE (check_duplicate F trx_arg (es_chain_id e) (current_state e)) (\<lambda>u.
        let e = e\<lparr> es_trx := trx_arg \<rparr>
        in bindE (if \<not> skip
                  then collect_signatures F enforce_canonical trx_arg (es_chain_id e) (signed_keys e)
                  else Inr (signed_keys e)) (\<lambda>keys.
           Inr (e\<lparr> signed_keys := keys, current_op_index := 0 \<rparr>)))))"

definition evaluate ::
  "'z fc_eval_scheme \<Rightarrow> signed_transaction \<Rightarrow> bool \<Rightarrow> bool \<Rightarrow> transaction_evaluation_state \<Rightarrow> transaction_evaluation_state res" where
  "evaluate F trx_arg skip enforce_canonical e =
    bindE (begin_evaluate F trx_arg skip enforce_canonical e) (\<lambda>e.
    bindE (evaluate_operations F (operations trx_arg) e) (\<lambda>e.
    bindE (post_evaluate F e) (\<lambda>e.
    bindE (validate_required_fee e) (\<lambda>u.
      update_delegate_votes F e))))"

end
