(* ===== verification/Delegates.thy ===== *)
theory Delegates
  imports Block Evaluate "HOL-Library.Product_Lexorder"
begin

text \<open>
  Delegates in \<^verbatim>\<open>chain_database.cpp\<close>: who signs which slot, how delegates are elected and
  shuffled, what they are paid (\<^verbatim>\<open>pay_delegate\<close> and its versions), and the record of blocks
  produced and missed.

  A loop over time stamps may run forever if the 32-bit clock wraps, so results that depend
  on it have the type \<open>'a run\<close>: \<open>None\<close> if the code does not return.
\<close>

type_synonym 'a run = "'a res option"

definition bindR :: "'a run \<Rightarrow> ('a \<Rightarrow> 'b run) \<Rightarrow> 'b run" where
  "bindR m f = Option.bind m (\<lambda>r. case r of Inl e \<Rightarrow> Some (Inl e) | Inr x \<Rightarrow> f x)"

section \<open>The schedule\<close>

definition get_delegate_record_for_signee ::
  "'z fc_base_scheme \<Rightarrow> chain_database \<Rightarrow> public_key_type \<Rightarrow> account_record res" where
  "get_delegate_record_for_signee F d block_signee =
    (case db_get_account_record_by_address d (address_of_key F block_signee) of
       None \<Rightarrow> Inl assert_exception
     | Some delegate_record \<Rightarrow> if is_delegate delegate_record then Inr delegate_record else Inl assert_exception)"

text \<open>The position of a time stamp in a round of slots.\<close>

definition slot_position :: "time_point_sec \<Rightarrow> nat" where
  "slot_position t = unat (get_slot_number t mod of_nat BTS_BLOCKCHAIN_NUM_DELEGATES)"

definition get_slot_signee ::
  "chain_database \<Rightarrow> time_point_sec \<Rightarrow> account_id_type list \<Rightarrow> account_record res" where
  "get_slot_signee d t ordered_delegates =
    (if \<not> slot_position t < length ordered_delegates then Inl assert_exception
     else case db_get_account_record d (ordered_delegates ! slot_position t) of
       None \<Rightarrow> Inl assert_exception
     | Some delegate_record \<Rightarrow> if is_delegate delegate_record then Inr delegate_record else Inl assert_exception)"

text \<open>The time stamp of the next slot of one of the delegates: the loop of
  \<^verbatim>\<open>get_next_producible_block_timestamp\<close> over one round of slots.\<close>

partial_function (option) next_producible ::
  "'z fc_base_scheme \<Rightarrow> account_id_type list \<Rightarrow> account_id_type list \<Rightarrow> time_point_sec \<Rightarrow> time_point_sec \<Rightarrow>
    time_point_sec option run" where
  "next_producible F active_delegates delegate_ids last_block_time next_block_time =
    (if next_block_time < last_block_time then
       if \<not> slot_position next_block_time < length active_delegates then Some (Inl assert_exception)
       else if active_delegates ! slot_position next_block_time \<in> set delegate_ids then Some (Inr (Some next_block_time))
       else next_producible F active_delegates delegate_ids last_block_time
              (tps_add F next_block_time BTS_BLOCKCHAIN_BLOCK_INTERVAL_SEC)
     else Some (Inr None))"

definition get_next_producible_block_timestamp ::
  "'z fc_base_scheme \<Rightarrow> chain_database \<Rightarrow> account_id_type list \<Rightarrow> time_point_sec option run" where
  "get_next_producible_block_timestamp F d delegate_ids =
    (let t = get_slot_start_time (get_slot_number (wall_clock d));
         next_block_time = (if t \<le> db_now d then tps_add F t BTS_BLOCKCHAIN_BLOCK_INTERVAL_SEC else t);
         last_block_time = tps_add F next_block_time
           (of_nat BTS_BLOCKCHAIN_NUM_DELEGATES * BTS_BLOCKCHAIN_BLOCK_INTERVAL_SEC)
     in case get_active_delegates F (DB d) of
          Inl e \<Rightarrow> Some (Inl e)
        | Inr active_delegates \<Rightarrow> next_producible F active_delegates delegate_ids last_block_time next_block_time)"

section \<open>Elections\<close>

text \<open>The index is ordered by descending votes, lower identifiers first among equal ones.\<close>

definition get_delegates_by_vote :: "nat \<Rightarrow> nat \<Rightarrow> chain_database \<Rightarrow> account_id_type list" where
  "get_delegates_by_vote first count d =
    take count (drop first (map vd_delegate_id
      (sort_key (\<lambda>v. (- sint (vd_votes v), vd_delegate_id v)) (delegate_vote_index_db d))))"

definition next_round_active_delegates :: "chain_database \<Rightarrow> account_id_type list" where
  "next_round_active_delegates d = get_delegates_by_vote 0 BTS_BLOCKCHAIN_NUM_DELEGATES d"

fun get_current_random_seed :: "'z fc_base_scheme \<Rightarrow> chain \<Rightarrow> bytes res" where
  "get_current_random_seed F (DB d) = bindE (get_property (DB d) last_random_seed_id_property) (variant_as_bytes F)"
| "get_current_random_seed F (Pending p prev) = get_current_random_seed F prev"

definition update_random_seed :: "'z fc_block_scheme \<Rightarrow> secret_hash_type \<Rightarrow> chain \<Rightarrow> chain res" where
  "update_random_seed F new_secret pending_state =
    bindE (get_current_random_seed F pending_state) (\<lambda>current_seed.
      Inr (set_property last_random_seed_id_property
        (variant_of_bytes F (ripemd160_hash F (sha512_hash F
          (pack_ripemd160 F new_secret @ pack_ripemd160 F current_seed)))) pending_state))"

definition swap :: "nat \<Rightarrow> nat \<Rightarrow> 'a list \<Rightarrow> 'a list" where
  "swap i j xs = xs[i := xs ! j, j := xs ! i]"

text \<open>The inner loop of the shuffle: up to four swaps, one per word of the hash, each of which
  also advances the index of the outer loop.\<close>

function shuffle_block :: "(nat \<Rightarrow> uint64) \<Rightarrow> nat \<Rightarrow> nat \<Rightarrow> 'a list \<Rightarrow> nat \<times> 'a list" where
  "shuffle_block hash x i xs =
    (if x < 4 \<and> i < length xs
     then shuffle_block hash (x + 1) (i + 1) (swap i (unat (hash x) mod length xs) xs)
     else (i, xs))"
  by pat_completeness auto

termination shuffle_block
  by (relation "measure (\<lambda>(hash, x, i, xs). 4 - x)") auto

declare shuffle_block.simps [simp del]

lemma shuffle_block_progress:
  "i \<le> fst (shuffle_block hash x i xs)" "length (snd (shuffle_block hash x i xs)) = length xs"
proof (induction hash x i xs rule: shuffle_block.induct)
  case (1 hash x i xs)
  show "i \<le> fst (shuffle_block hash x i xs)"
    using 1(1) by (subst shuffle_block.simps) (auto dest: Suc_leD)
  show "length (snd (shuffle_block hash x i xs)) = length xs"
    using 1(2) by (subst shuffle_block.simps) (simp add: swap_def)
qed

function shuffle_from :: "'z fc_block_scheme \<Rightarrow> bytes \<Rightarrow> nat \<Rightarrow> 'a list \<Rightarrow> 'a list" where
  "shuffle_from F rand_seed i xs =
    (if i < length xs then
       (case shuffle_block (sha256_word F rand_seed) 0 i xs of
          (j, ys) \<Rightarrow> shuffle_from F (sha256_hash F rand_seed) (j + 1) ys)
     else xs)"
  by pat_completeness auto

termination shuffle_from
proof (relation "measure (\<lambda>(F, seed, i, xs). length xs - i)", goal_cases)
  case (2 F rand_seed i xs j ys)
  have "shuffle_block (sha256_word F rand_seed) 0 i xs = (j, ys)" by (rule sym [OF 2(2)])
  then show ?case
    using shuffle_block_progress [where hash = "sha256_word F rand_seed" and x = 0 and i = i and xs = xs] 2(1)
    by simp
qed simp

declare shuffle_from.simps [simp del]

definition update_active_delegate_list ::
  "'z fc_block_scheme \<Rightarrow> chain_database \<Rightarrow> full_block \<Rightarrow> chain \<Rightarrow> chain res" where
  "update_active_delegate_list F d block_data pending_state =
    (if block_num block_data mod of_nat BTS_BLOCKCHAIN_NUM_DELEGATES \<noteq> 0 then Inr pending_state
     else bindE (get_current_random_seed F pending_state) (\<lambda>seed.
       Inr (set_active_delegates F
         (shuffle_from F (sha256_hash F seed) 0 (next_round_active_delegates d)) pending_state)))"

section \<open>Pay\<close>

text \<open>The record of the delegate whose key signed the block, as the pending state has it.\<close>

definition signing_delegate ::
  "'z fc_base_scheme \<Rightarrow> chain_database \<Rightarrow> public_key_type \<Rightarrow> chain \<Rightarrow> (account_record \<times> delegate_stats) res" where
  "signing_delegate F d block_signee pending_state =
    (case db_get_account_record_by_address d (address_of_key F block_signee) of
       None \<Rightarrow> Inl assert_exception
     | Some r \<Rightarrow>
         (case get_account_record pending_state (ar_id r) of
            None \<Rightarrow> Inl assert_exception
          | Some delegate_record \<Rightarrow>
              (case delegate_info delegate_record of
                 None \<Rightarrow> Inl assert_exception
               | Some di \<Rightarrow> if pay_rate di \<le> 100 then Inr (delegate_record, di) else Inl assert_exception)))"

definition credit_pay :: "share_type \<Rightarrow> delegate_stats \<Rightarrow> delegate_stats" where
  "credit_pay paycheck di = di\<lparr> votes_for := votes_for di + paycheck,
     pay_balance := pay_balance di + paycheck, total_paid := total_paid di + paycheck \<rparr>"

definition record_pay ::
  "block_id_type \<Rightarrow> share_type \<Rightarrow> share_type \<Rightarrow> share_type \<Rightarrow> chain_database_impl \<Rightarrow> chain_database_impl res" where
  "record_pay bid issued collected destroyed n =
    (case map_of (block_id_to_block_record_db n) bid of
       None \<Rightarrow> Inl assert_exception
     | Some r \<Rightarrow> Inr (n\<lparr> block_id_to_block_record_db := AList.update bid
         (r\<lparr> signee_shares_issued := issued, signee_fees_collected := collected,
            signee_fees_destroyed := destroyed \<rparr>) (block_id_to_block_record_db n) \<rparr>))"

definition percent :: "share_type \<Rightarrow> 8 word \<Rightarrow> share_type" where
  "percent amnt rate = sdiv64 (amnt * ucast rate) 100"

definition pay_delegate_v1 ::
  "'z fc_base_scheme \<Rightarrow> public_key_type \<Rightarrow> block_id_type \<Rightarrow> chain \<Rightarrow> chain_database_impl \<Rightarrow>
    (chain \<times> chain_database_impl) res" where
  "pay_delegate_v1 F block_signee bid s n =
    bindE (signing_delegate F (self n) block_signee s) (\<lambda>(r, di).
    bindE (get_delegate_pay_rate_v1 s) (\<lambda>max_available_paycheck.
      let accepted_paycheck = percent max_available_paycheck (pay_rate di);
          burned_paycheck = max_available_paycheck - accepted_paycheck
      in if max_available_paycheck <s accepted_paycheck then Inl assert_exception
         else if accepted_paycheck <s 0 then Inl assert_exception
         else case get_asset_record s 0 of
           None \<Rightarrow> Inl assert_exception
         | Some a \<Rightarrow>
             let fork = get_head_block_num s \<ge> BTS_V0_4_16_FORK_BLOCK_NUM;
                 a = a\<lparr> current_share_supply := current_share_supply a - burned_paycheck,
                        collected_fees := collected_fees a -
                          (if fork then max_available_paycheck else accepted_paycheck) \<rparr>;
                 di = (if fork then di\<lparr> total_burned := total_burned di + burned_paycheck \<rparr> else di)
             in bindE (store_account_record F (r\<lparr> delegate_info := Some (credit_pay accepted_paycheck di) \<rparr>)
                         (store_asset_record a s)) (\<lambda>s.
                bindE (record_pay bid 0 accepted_paycheck burned_paycheck n) (\<lambda>n. Inr (s, n)))))"

definition pay_delegate_v2 ::
  "'z fc_base_scheme \<Rightarrow> public_key_type \<Rightarrow> block_id_type \<Rightarrow> chain \<Rightarrow> chain_database_impl \<Rightarrow>
    (chain \<times> chain_database_impl) res" where
  "pay_delegate_v2 F block_signee bid s n =
    (if get_head_block_num s < BTS_V0_4_24_FORK_BLOCK_NUM then pay_delegate_v1 F block_signee bid s n
     else bindE (signing_delegate F (self n) block_signee s) (\<lambda>(r, di).
       let accepted_paycheck = percent (get_max_delegate_pay_issued_per_block F (DB (self n))) (pay_rate di)
       in if accepted_paycheck <s 0 then Inl assert_exception
          else bindE (store_account_record F (r\<lparr> delegate_info := Some (credit_pay accepted_paycheck di) \<rparr>) s) (\<lambda>s.
            case get_asset_record s 0 of
              None \<Rightarrow> Inl assert_exception
            | Some a \<Rightarrow>
                let s = store_asset_record (a\<lparr> current_share_supply :=
                          current_share_supply a + accepted_paycheck - collected_fees a,
                          collected_fees := 0 \<rparr>) s
                in bindE (record_pay bid accepted_paycheck 0 (collected_fees a) n) (\<lambda>n. Inr (s, n)))))"

definition pay_delegate ::
  "'z fc_base_scheme \<Rightarrow> public_key_type \<Rightarrow> block_id_type \<Rightarrow> chain \<Rightarrow> chain_database_impl \<Rightarrow>
    (chain \<times> chain_database_impl) res" where
  "pay_delegate F block_signee bid s n =
    (if get_head_block_num s < BTS_V0_4_28_FORK_BLOCK_NUM then pay_delegate_v2 F block_signee bid s n
     else case get_asset_record s 0 of
       None \<Rightarrow> Inl assert_exception
     | Some a \<Rightarrow>
         bindE (signing_delegate F (self n) block_signee s) (\<lambda>(r, di).
         let max_new_shares = get_max_delegate_pay_issued_per_block F (DB (self n));
             accepted_new_shares = percent max_new_shares (pay_rate di);
             max_collected_fees = sdiv64 (collected_fees a) (14 * BTS_BLOCKCHAIN_BLOCKS_PER_DAY);
             accepted_collected_fees = percent max_collected_fees (pay_rate di);
             destroyed_collected_fees = max_collected_fees - accepted_collected_fees;
             accepted_paycheck = accepted_new_shares + accepted_collected_fees
         in if max_new_shares <s 0 \<or> accepted_new_shares <s 0 then Inl assert_exception
            else if max_collected_fees <s 0 \<or> accepted_collected_fees <s 0 \<or> destroyed_collected_fees <s 0
            then Inl assert_exception
            else if accepted_paycheck <s 0 then Inl assert_exception
            else
              let a = a\<lparr> current_share_supply :=
                          current_share_supply a + accepted_new_shares - destroyed_collected_fees,
                         collected_fees := collected_fees a - max_collected_fees \<rparr>
              in bindE (store_account_record F (r\<lparr> delegate_info := Some (credit_pay accepted_paycheck di) \<rparr>) s) (\<lambda>s.
                 let s = store_asset_record a s
                 in bindE (record_pay bid accepted_new_shares accepted_collected_fees destroyed_collected_fees n) (\<lambda>n.
                    Inr (s, n)))))"

section \<open>Blocks produced and missed\<close>

text \<open>The part of \<^verbatim>\<open>update_delegate_production_info\<close> for the delegate that signed the block.\<close>

definition record_produced_block ::
  "'z fc_block_scheme \<Rightarrow> chain_database \<Rightarrow> full_block \<Rightarrow> public_key_type \<Rightarrow> chain \<Rightarrow> chain res" where
  "record_produced_block F d produced_block block_signee s =
    bindE (get_delegate_record_for_signee F d block_signee) (\<lambda>r.
      case get_account_record s (ar_id r) of
        None \<Rightarrow> Inl assert_exception
      | Some delegate_record \<Rightarrow>
          (case delegate_info delegate_record of
             None \<Rightarrow> Inl assert_exception
           | Some di \<Rightarrow>
               if next_secret_hash di \<noteq> None \<and>
                  next_secret_hash di \<noteq> Some (ripemd160_hash F (previous_secret produced_block))
               then Inl assert_exception
               else bindE (store_account_record F (delegate_record\<lparr> delegate_info := Some
                      (di\<lparr> blocks_produced := blocks_produced di + 1,
                             next_secret_hash := Some (bh_next_secret_hash produced_block),
                             last_block_num_produced := block_num produced_block \<rparr>) \<rparr>) s) (\<lambda>s.
                 Inr (if track_stats d then store_slot_record
                        \<lparr> slot_start_time = timestamp produced_block, block_producer_id = ar_id r,
                          slot_block_id = Some (block_id F produced_block) \<rparr> s
                      else s))))"

definition record_missed_block ::
  "'z fc_base_scheme \<Rightarrow> chain_database \<Rightarrow> account_id_type list \<Rightarrow> time_point_sec \<Rightarrow> chain \<Rightarrow> chain res" where
  "record_missed_block F d active_delegates block_timestamp s =
    bindE (get_slot_signee d block_timestamp active_delegates) (\<lambda>r.
      case get_account_record s (ar_id r) of
        None \<Rightarrow> Inl assert_exception
      | Some delegate_record \<Rightarrow>
          (case delegate_info delegate_record of
             None \<Rightarrow> Inl assert_exception
           | Some di \<Rightarrow>
               bindE (store_account_record F (delegate_record\<lparr> delegate_info := Some
                       (di\<lparr> blocks_missed := blocks_missed di + 1 \<rparr>) \<rparr>) s) (\<lambda>s.
                 Inr (if track_stats d then store_slot_record
                        \<lparr> slot_start_time = block_timestamp, block_producer_id = ar_id r, slot_block_id = None \<rparr> s
                      else s))))"

text \<open>The loop over the slots between the head block and the new one.\<close>

partial_function (option) missed_blocks ::
  "'z fc_base_scheme \<Rightarrow> chain_database \<Rightarrow> account_id_type list \<Rightarrow> time_point_sec \<Rightarrow> time_point_sec \<Rightarrow> int64 \<Rightarrow>
    chain \<Rightarrow> (int64 \<times> chain) run" where
  "missed_blocks F d active_delegates limit block_timestamp required_confirmations s =
    (if block_timestamp < limit then
       (case record_missed_block F d active_delegates block_timestamp s of
          Inl e \<Rightarrow> Some (Inl e)
        | Inr s \<Rightarrow> missed_blocks F d active_delegates limit
            (tps_add F block_timestamp BTS_BLOCKCHAIN_BLOCK_INTERVAL_SEC) (required_confirmations + 2) s)
     else Some (Inr (required_confirmations, s)))"

text \<open>The confirmation requirement after the block.\<close>

definition clamp_confirmations :: "int64 \<Rightarrow> int64" where
  "clamp_confirmations c =
    (let c = c - 1; c = (if c <s 1 then 1 else c)
     in if of_nat BTS_BLOCKCHAIN_NUM_DELEGATES * 3 <s c then 3 * of_nat BTS_BLOCKCHAIN_NUM_DELEGATES else c)"

definition update_delegate_production_info ::
  "'z fc_block_scheme \<Rightarrow> chain_database_impl \<Rightarrow> full_block \<Rightarrow> public_key_type \<Rightarrow> chain \<Rightarrow> chain run" where
  "update_delegate_production_info F n produced_block block_signee s =
    bindR (Some (record_produced_block F (self n) produced_block block_signee s)) (\<lambda>s.
    bindR (Some (get_required_confirmations F s)) (\<lambda>required_confirmations.
    let head_block = head_block_header n;
        block_timestamp = (if block_num head_block > 0
          then tps_add F (timestamp head_block) BTS_BLOCKCHAIN_BLOCK_INTERVAL_SEC else timestamp produced_block)
    in bindR (Some (get_active_delegates F (DB (self n)))) (\<lambda>active_delegates.
       bindR (missed_blocks F (self n) active_delegates (timestamp produced_block) block_timestamp
                required_confirmations s) (\<lambda>(required_confirmations, s).
         Some (Inr (set_property confirmation_requirement_property
           (variant_of_int F (sint (clamp_confirmations required_confirmations))) s))))))"

end
