(* ===== verification/Evaluate_Laws.thy ===== *)
theory Evaluate_Laws
  imports Evaluate
begin

text \<open>
  What a successful evaluation of an operation has done: one rule per operation that gives
  the guards it passed, the funds it moved in the transaction and the stores it made. The
  theories on the ledger and on authority reason with these rules instead of the
  definitions. They are about blocks from number 820200 on, which all operations are
  evaluated with in their current version (\<open>current_rules\<close>).
\<close>

abbreviation current_rules :: "chain \<Rightarrow> bool" where
  "current_rules s \<equiv> BTS_V0_4_21_FORK_BLOCK_NUM \<le> get_head_block_num s"

lemma fork_21:
  assumes "BTS_V0_4_21_FORK_BLOCK_NUM \<le> n"
  shows "\<not> n < BTS_V0_4_21_FORK_BLOCK_NUM" "\<not> n < BTS_V0_4_13_FORK_BLOCK_NUM"
    "BTS_V0_4_16_FORK_BLOCK_NUM \<le> n"
proof -
  have "BTS_V0_4_13_FORK_BLOCK_NUM \<le> BTS_V0_4_21_FORK_BLOCK_NUM"
    "BTS_V0_4_16_FORK_BLOCK_NUM \<le> BTS_V0_4_21_FORK_BLOCK_NUM"
    by (simp_all add: BTS_V0_4_13_FORK_BLOCK_NUM_def BTS_V0_4_21_FORK_BLOCK_NUM_def
        BTS_V0_4_16_FORK_BLOCK_NUM_def)
  then show "\<not> n < BTS_V0_4_21_FORK_BLOCK_NUM" "\<not> n < BTS_V0_4_13_FORK_BLOCK_NUM"
    "BTS_V0_4_16_FORK_BLOCK_NUM \<le> n"
    using assms by auto
qed

lemma sless_zero_cases:
  fixes v :: share_type
  obtains "v <s 0" | "0 <s v" "\<not> v <s 0" | "v = 0"
proof (cases "sint v" "0 :: int" rule: linorder_cases)
  case less
  then show thesis using that(1) by (simp add: word_sless_alt)
next
  case equal
  then have "of_int (sint v) = (0 :: share_type)" by simp
  then show thesis using that(3) by simp
next
  case greater
  then show thesis using that(2) by (simp add: word_sless_alt)
qed

section \<open>The evaluation state\<close>

lemma upd_state_sel [simp]:
  "current_state (upd_state f e) = f (current_state e)" "es_balance (upd_state f e) = es_balance e"
  by (simp_all add: upd_state_def)

lemma get_fees_upd_state [simp]: "get_fees (upd_state f e) a = get_fees e a"
  by (simp add: upd_state_def get_fees_def)

lemma get_fees_cong: "es_balance e' = es_balance e \<Longrightarrow> get_fees e' a = get_fees e a"
  by (simp add: get_fees_def)

lemma sub_balance_state: "sub_balance bid x e = Inr e' \<Longrightarrow> current_state e' = current_state e"
  by (auto simp: sub_balance_def)

lemma add_balance_state: "add_balance x e = Inr e' \<Longrightarrow> current_state e' = current_state e"
  by (auto simp: add_balance_def)

lemma sub_balance_run:
  assumes "sub_balance bid x e = Inr e'" "ordered_map (es_balance e)"
  shows "current_state e' = current_state e" "ordered_map (es_balance e')"
    "get_fees e' a = get_fees e a - (if a = asset_id x then amount x else 0)"
  using assms by (auto simp: sub_balance_def get_fees_def split: option.splits)

lemma add_balance_run:
  assumes "add_balance x e = Inr e'" "ordered_map (es_balance e)"
  shows "current_state e' = current_state e" "ordered_map (es_balance e')"
    "get_fees e' a = get_fees e a + (if a = asset_id x then amount x else 0)"
  using assms by (auto simp: add_balance_def get_fees_def split: option.splits)

lemma adjust_vote_run:
  assumes "adjust_vote i v e = Inr e'"
  shows "current_state e' = current_state e" "es_balance e' = es_balance e"
proof -
  have "current_state (fold (\<lambda>x e. if P x then add_votes (f x) w e else add_votes (f x) v e) xs e) = current_state e \<and>
      es_balance (fold (\<lambda>x e. if P x then add_votes (f x) w e else add_votes (f x) v e) xs e) = es_balance e"
    for P and f :: "account_id_type \<Rightarrow> account_id_type" and w xs
    by (induction xs arbitrary: e) (simp_all add: add_votes_def)
  then show "current_state e' = current_state e" "es_balance e' = es_balance e"
    using assms by (auto simp: adjust_vote_def split: if_split_asm option.split_asm)
qed

lemma vote_if_base_run:
  assumes "vote_if_base r v e = Inr e'"
  shows "current_state e' = current_state e" "es_balance e' = es_balance e"
  using assms adjust_vote_run [of "wc_slate_id (condition r)" v e e']
  by (auto simp: vote_if_base_def split: if_split_asm)

section \<open>Balance operations\<close>

lemma deposit_run:
  assumes "deposit_evaluate F op e = Inr e'" "current_rules (current_state e)"
  obtains r date t e1 e2 where
    "r = (case get_balance_record (current_state e) (deposit_balance_id F op) of
       Some r \<Rightarrow> r | None \<Rightarrow> balance_record_of_condition (do_condition op))"
    "\<not> do_amount op \<le>s 0"
    "sub_balance (deposit_balance_id F op) (mk_asset (do_amount op) (wc_asset_id (condition r))) e = Inr e1"
    "vote_if_base (r\<lparr> deposit_date := date, balance := balance r + do_amount op \<rparr>) (do_amount op) e1 = Inr e2"
    "e' = upd_state (store_balance_record F
      (r\<lparr> deposit_date := date, balance := balance r + do_amount op, br_last_update := t \<rparr>)) e2"
proof -
  define r where "r = (case get_balance_record (current_state e) (deposit_balance_id F op) of
      Some r \<Rightarrow> r | None \<Rightarrow> balance_record_of_condition (do_condition op))"
  show thesis
    using assms(1) fork_21(2) [OF assms(2)] that
    by (auto simp: deposit_evaluate_def Let_def r_def [symmetric] run_simps)
qed

lemma withdraw_run:
  assumes "withdraw_evaluate F op e = Inr e'" "current_rules (current_state e)"
  obtains r spendable asset_rec e1 r2 e2 e3 t where
    "get_balance_record (current_state e) (wo_balance_id op) = Some r"
    "\<not> wo_amount op \<le>s 0"
    "get_spendable_balance F r (now (current_state e)) = Inr spendable" "\<not> amount spendable <s wo_amount op"
    "get_asset_record (current_state e) (wc_asset_id (condition r)) = Some asset_rec"
    "is_retractable asset_rec \<and> verify_authority e (authority asset_rec) \<or>
      check_withdraw_condition F e asset_rec r = Inr ()"
    "vote_if_base r (- wo_amount op) e = Inr e1"
    "withdraw_yield F asset_rec r e1 = Inr (r2, e2)"
    "add_balance (mk_asset (wo_amount op) (wc_asset_id (condition r2))) e2 = Inr e3"
    "e' = upd_state (store_balance_record F
      (r2\<lparr> balance := balance r2 - wo_amount op, br_last_update := t \<rparr>)) e3"
  using assms(1) fork_21(1) [OF assms(2)] that
  by (auto simp: withdraw_evaluate_def Let_def run_simps split: if_split_asm)

lemma pay_yield_cases:
  assumes "pay_yield y r asset_rec e = (r', e')"
  obtains "r' = r" "e' = e"
  | "condition r' = condition r" "balance r' = balance r + amount y" "0 <s amount y"
    "current_state e' = store_asset_record (asset_rec\<lparr> collected_fees := collected_fees asset_rec - amount y \<rparr>) (current_state e)"
    "es_balance e' = es_balance e"
  using assms by (auto simp: pay_yield_def Let_def split: if_split_asm)

lemma withdraw_yield_cases:
  assumes "withdraw_yield F asset_rec r e = Inr (r', e')"
  obtains "r' = r" "e' = e"
  | y where "pay_yield y r asset_rec e = (r', e')"
    "calculate_yield F r (now (current_state e)) (balance r) (collected_fees asset_rec) (current_share_supply asset_rec) = Inr y"
  using assms by (auto simp: withdraw_yield_def split: if_split_asm)

lemma withdraw_yield_balances:
  assumes "withdraw_yield F asset_rec r e = Inr (r', e')"
  shows "get_balance_record (current_state e') = get_balance_record (current_state e)" "condition r' = condition r"
  using assms by (auto elim!: withdraw_yield_cases pay_yield_cases)

lemma burn_run:
  assumes "burn_evaluate F op e = Inr e'"
  obtains r e1 k v where "get_asset_record (current_state e) (asset_id (bo_amount op)) = Some r"
    "\<not> is_market_issued r"
    "sub_balance address_default (bo_amount op) e = Inr e1"
    "e' = upd_state (store_burn_record k v) (upd_state (store_asset_record
      (r\<lparr> current_share_supply := current_share_supply r - amount (bo_amount op) \<rparr>)) e1)"
  using assms that by (auto simp: burn_evaluate_def Let_def run_simps)

lemma define_delegate_slate_run:
  assumes "define_delegate_slate_evaluate F op e = Inr e'"
  obtains "e' = e"
  | "e' = upd_state (store_delegate_slate (slate_id F (slate op)) (slate op)) e"
    "length (supported_delegates (slate op)) \<le> BTS_BLOCKCHAIN_MAX_SLATE_SIZE"
  using assms by (auto simp: define_delegate_slate_evaluate_def Let_def run_simps not_less split: if_split_asm)

section \<open>Asset operations\<close>

lemma create_asset_run:
  assumes "create_asset_evaluate F op e = Inr e'"
  obtains n fees where "get_asset_record (current_state e) (n + 1) = None"
    and "ca_issuer_account_id op = market_issuer_id \<or> get_account_record (current_state e) (ca_issuer_account_id op) \<noteq> None"
    and "e' = upd_state (store_asset_record (create_asset_record F op (n + 1) (now (current_state e))
        (if ca_issuer_account_id op \<noteq> market_issuer_id then get_account_record (current_state e) (ca_issuer_account_id op) else None)))
      (e\<lparr> required_fees := fees, current_state :=
        set_property last_asset_id_property (variant_of_int F (n + 1)) (current_state e) \<rparr>)"
proof (cases "last_asset_id F (current_state e)")
  case (Inr n)
  then show thesis
    using assms by (simp add: create_asset_evaluate_def new_asset_id_def Let_def run_simps id_of_int_run del: not_None_eq)
      (elim exE conjE, rule that, assumption, assumption, erule sym)
qed (use assms in \<open>simp add: create_asset_evaluate_def Let_def run_simps\<close>)
lemma issue_asset_run:
  assumes "issue_asset_evaluate op e = Inr e'"
  obtains r e1 t where "get_asset_record (current_state e) (asset_id (ia_amount op)) = Some r"
    "\<not> is_market_issued r" "verify_authority e (authority r)" "can_issue r (ia_amount op)"
    "add_balance (ia_amount op) e = Inr e1"
    "e' = upd_state (store_asset_record (r\<lparr> current_share_supply :=
      current_share_supply r + amount (ia_amount op), asr_last_update := t \<rparr>)) e1"
  using assms that by (auto simp: issue_asset_evaluate_def Let_def run_simps)

section \<open>Account operations\<close>

lemma register_account_run:
  assumes "register_account_evaluate F op e = Inr e'"
  obtains i s1 r r' e1 s2 where
    "is_valid_account_name (ra_name op)" "get_account_record_by_name (current_state e) (ra_name op) = None"
    "get_account_record_by_key F (current_state e) (ra_owner_key op) = None"
    "get_account_record_by_key F (current_state e) (ra_active_key op) = None"
    "get_parent_account_name (ra_name op) \<noteq> None \<longrightarrow> any_parent_has_signed F e (ra_name op)"
    "new_account_id F (current_state e) = Inr (i, s1)"
    "set_active_key (account_record_default\<lparr> ar_id := i, ar_name := ra_name op,
        public_data := ra_public_data op, owner_key := ra_owner_key op \<rparr>) (now s1) (ra_active_key op) = Inr r"
    "(if ra_is_delegate op
       then become_delegate F (ra_delegate_pay_rate op) (ra_active_key op)
         (r\<lparr> registration_date := now s1, ar_last_update := now s1, meta_data := ra_meta_data op \<rparr>)
         (e\<lparr> current_state := s1 \<rparr>)
       else Inr (r\<lparr> registration_date := now s1, ar_last_update := now s1, meta_data := ra_meta_data op \<rparr>,
         e\<lparr> current_state := s1 \<rparr>)) = Inr (r', e1)"
    "store_account_record F r' (current_state e1) = Inr s2"
    "e' = e1\<lparr> current_state := s2 \<rparr>"
  using assms that unfolding register_account_evaluate_def Let_def upd_stateE_def
  by (auto simp: run_simps split del: if_split)

lemma become_delegate_shape:
  assumes "become_delegate F rate key r e = Inr (r', e')"
  obtains fees where "set_signing_key (r\<lparr> delegate_info := Some (delegate_stats_default\<lparr> pay_rate := rate \<rparr>) \<rparr>)
      (get_head_block_num (current_state e)) key = Inr r'" "e' = e\<lparr> required_fees := fees \<rparr>"
  using assms that by (auto simp: become_delegate_def)

text \<open>\<open>signed_by_account\<close> is what \<^verbatim>\<open>update_account_operation\<close> asks for unless the active key changes.\<close>

lemma update_account_run:
  assumes "update_account_evaluate F op e = Inr e'"
  obtains r r1 r2 e1 s2 where "get_account_record (current_state e) (ua_account_id op) = Some r"
    "\<not> is_retracted r"
    "(case ua_active_key op of
        Some key \<Rightarrow> if key \<noteq> active_key r then change_active_key F e key r
          else if \<not> account_or_any_parent_has_signed F e r then Inl missing_signature else Inr r
      | None \<Rightarrow> if \<not> account_or_any_parent_has_signed F e r then Inl missing_signature else Inr r) = Inr r1"
    "is_delegate (case ua_public_data op of Some d \<Rightarrow> r1\<lparr> public_data := d \<rparr> | None \<Rightarrow> r1) \<longrightarrow> ua_is_delegate op"
    "(let r = (case ua_public_data op of Some d \<Rightarrow> r1\<lparr> public_data := d \<rparr> | None \<Rightarrow> r1)
      in if ua_is_delegate op then
           (case delegate_info r of
              Some di \<Rightarrow> if \<not> ua_delegate_pay_rate op \<le> pay_rate di then Inl assert_exception
                else Inr (r\<lparr> delegate_info := Some (di\<lparr> pay_rate := ua_delegate_pay_rate op \<rparr>) \<rparr>, e)
            | None \<Rightarrow> become_delegate F (ua_delegate_pay_rate op) (active_key r) r e)
         else Inr (r, e)) = Inr (r2, e1)"
    "store_account_record F (r2\<lparr> ar_last_update := now (current_state e1) \<rparr>) (current_state e1) = Inr s2"
    "e' = e1\<lparr> current_state := s2 \<rparr>"
  using assms that unfolding update_account_evaluate_def Let_def upd_stateE_def
  by (auto simp: run_simps split del: if_split)

lemma change_active_key_run:
  assumes "change_active_key F e key r = Inr r'"
  obtains r1 where "get_account_record_by_key F (current_state e) key = None"
    "check_key F e (owner_key r) \<or> any_parent_has_signed F e (ar_name r)"
    "set_active_key r (now (current_state e)) key = Inr r1"
    "set_signing_key r1 (get_head_block_num (current_state e)) (active_key r1) = Inr r' \<or> r1 = r'"
  using assms that by (auto simp: change_active_key_def Let_def run_simps split: if_split_asm)

lemma update_block_signing_key_run:
  assumes "update_block_signing_key_evaluate F op e = Inr e'"
  obtains r r1 t s1 where "get_account_record (current_state e) (ubsk_account_id op) = Some r"
    "\<not> is_retracted r" "is_delegate r"
    "(\<exists>a. signing_address F r = Inr a \<and> check_signature e a) \<or> account_or_any_parent_has_signed F e r"
    "set_signing_key r (get_head_block_num (current_state e)) (block_signing_key op) = Inr r1"
    "store_account_record F (r1\<lparr> ar_last_update := t \<rparr>) (current_state e) = Inr s1"
    "e' = e\<lparr> current_state := s1 \<rparr>"
  using assms that by (auto simp: update_block_signing_key_evaluate_def Let_def upd_stateE_def run_simps)

lemma withdraw_pay_run:
  assumes "withdraw_pay_evaluate F op e = Inr e'"
  obtains r di e1 s2 where "get_account_record (current_state e) \<bar>wp_account_id op\<bar> = Some r"
    "delegate_info r = Some di" "\<not> wp_amount op \<le>s 0" "\<not> pay_balance di <s wp_amount op"
    "account_or_any_parent_has_signed F e r"
    "add_balance (mk_asset (wp_amount op) 0) (add_votes \<bar>wp_account_id op\<bar> (- wp_amount op) e) = Inr e1"
    "store_account_record F (r\<lparr> delegate_info :=
        Some (di\<lparr> pay_balance := pay_balance di - wp_amount op \<rparr>) \<rparr>) (current_state e1) = Inr s2"
    "e' = e1\<lparr> current_state := s2 \<rparr>"
  using assms that by (auto simp: withdraw_pay_evaluate_def Let_def upd_stateE_def run_simps)

lemma update_feed_run:
  assumes "update_feed_evaluate F op e = Inr e'"
  obtains r s1 where "get_account_record (current_state e) (fi_delegate_id (uf_feed op)) = Some r"
    "\<not> is_retracted r" "is_delegate r"
    "(\<exists>a. signing_address F r = Inr a \<and> check_signature e a) \<or> account_or_any_parent_has_signed F e r"
    "set_market_dirty (feed_id (uf_feed op)) 0 (set_feed \<lparr> feed = uf_feed op, feed_value = uf_value op,
      feed_last_update = now (current_state e) \<rparr> (current_state e)) = Inr s1"
    "current_state e' = s1" "es_balance e' = es_balance e"
  using assms that by (auto simp: update_feed_evaluate_def upd_stateE_def run_simps)

section \<open>Market operations\<close>

lemma order_funds_cases:
  assumes "order_funds (amount x) x current e = Inr (r, e')"
  shows "amount x \<noteq> 0" "or_balance r = opt_val or_balance current"
    "add_balance (asset_neg x) e = Inr e' \<and> current = Some r \<and> \<not> or_balance r <s llabs (amount x) \<or>
     sub_balance address_default x e = Inr e'"
  using assms
  by (cases current; auto simp: order_funds_def run_simps order_record_default_def split: if_split_asm)+

lemma order_funds_state:
  assumes "order_funds (amount x) x current e = Inr (r, e')"
  shows "current_state e' = current_state e"
  using order_funds_cases(3) [OF assms] by (auto dest: add_balance_state sub_balance_state)

lemma order_funds_run:
  assumes "order_funds (amount x) x current e = Inr (r, e')" "ordered_map (es_balance e)"
  shows "current_state e' = current_state e" "ordered_map (es_balance e')"
    "get_fees e' a = get_fees e a - (if a = asset_id x then amount x else 0)"
    "or_balance r = opt_val or_balance current"
  using order_funds_cases(2,3) [OF assms(1)]
    add_balance_run [OF _ assms(2), of "asset_neg x" e'] sub_balance_run [OF _ assms(2), of address_default x e']
  by (auto simp: asset_neg_def)

lemma bid_run:
  assumes "bid_evaluate op e = Inr e'"
  obtains r e1 t where "check_order (\<lambda>base_rec quote_rec. quote_rec) (bid_index op) e = Inr ()"
    "order_funds (amount (bid_get_amount op)) (bid_get_amount op)
      (get_bid_record (current_state e) (bid_index op)) e = Inr (r, e1)"
    "e' = upd_state (store_bid_record (bid_index op)
      (r\<lparr> or_last_update := t, or_balance := or_balance r + bid_amount op \<rparr>)) e1"
  using assms that by (auto simp: bid_evaluate_def bid_get_amount_def)

lemma ask_run:
  assumes "ask_evaluate op e = Inr e'" "current_rules (current_state e)"
  obtains r e1 t where "check_order (\<lambda>base_rec quote_rec. base_rec) (ask_index op) e = Inr ()"
    "order_funds (amount (ask_get_amount op)) (ask_get_amount op)
      (get_ask_record (current_state e) (ask_index op)) e = Inr (r, e1)"
    "\<not> or_balance r + ask_amount op <s 0"
    "e' = upd_state (store_ask_record (ask_index op)
      (r\<lparr> or_last_update := t, or_balance := or_balance r + ask_amount op \<rparr>)) e1"
  using assms(1) fork_21(1) [OF assms(2)] that
  by (auto simp: ask_evaluate_def ask_get_amount_def Let_def run_simps)

lemma short_run:
  assumes "short_evaluate F op e = Inr e'" "current_rules (current_state e)"
  obtains r e1 t where
    "base_asset_id (order_price (short_index op)) = 0" "0 < quote_asset_id (order_price (short_index op))"
    "short_amount op <s 0 \<longrightarrow> check_signature e (mk_owner (short_index op))"
    "order_funds (amount (short_get_amount op)) (short_get_amount op)
      (get_short_record (current_state e) (short_index op)) e = Inr (r, e1)"
    "\<not> or_balance r + short_amount op <s 0"
    "e' = upd_state (store_short_record (short_index op) (r\<lparr> limit_price := short_limit_price op,
      or_last_update := t, or_balance := or_balance r + short_amount op \<rparr>)) e1"
  using assms(1) fork_21(1) [OF assms(2)] that
  by (auto simp: short_evaluate_def short_get_amount_def short_order_funds_def Let_def run_simps)

lemma cover_run:
  assumes "cover_evaluate F op e = Inr e'" "current_rules (current_state e)"
  obtains owed paid where "cover_with_interest F owed paid op e = Inr e'"
  using assms(1) fork_21(1) [OF assms(2)] that
  by (auto simp: cover_evaluate_def cover_evaluate_v4_def Let_def split: if_split_asm)

lemma cover_with_interest_run:
  assumes "cover_with_interest F owed paid op e = Inr e'"
  obtains e1 r asset_rec principle interest rest where
    "check_signature e (mk_owner (cover_index op))"
    "sub_balance address_default (cover_get_amount op) e = Inr e1"
    "get_collateral_record (current_state e1) (cover_index op) = Some r"
    "get_asset_record (current_state e1) (quote_asset_id (order_price (cover_index op))) = Some asset_rec"
    "split_payment owed paid (cover_get_amount op) r
      (cover_elapsed_sec F r (now (current_state e1))) = Inr (principle, interest, rest)"
    "(let r = r\<lparr> payoff_balance := rest \<rparr>;
          e = upd_state (store_asset_record
                (asset_rec\<lparr> current_share_supply := current_share_supply asset_rec - amount principle,
                   collected_fees := collected_fees asset_rec + amount interest \<rparr>)) e1;
          e = upd_state (store_collateral_record (cover_index op) collateral_record_default) e;
          base = base_asset_id (order_price (cover_index op))
      in if 0 <s payoff_balance r then
           bindE (asset_div_asset F (mk_asset (payoff_balance r) (asset_id (cover_get_amount op)))
                    (mk_asset (sdiv64 (collateral_balance r * 2) 3) base)) (\<lambda>new_call_price.
             Inr (upd_state (store_cover (new_cover_price op) new_call_price (mk_owner (cover_index op)) r) e))
         else add_balance (mk_asset (collateral_balance r) base) e) = Inr e'"
  using assms that unfolding cover_with_interest_def Let_def check_cover_def
  by (auto simp: run_simps split del: if_split)

lemma add_collateral_run:
  assumes "add_collateral_evaluate F op e = Inr e'" "current_rules (current_state e)"
  obtains e1 r r' q where "sub_balance address_default (ac_get_amount op) e = Inr e1"
    "0 <s ac_amount op"
    "get_collateral_record (current_state e1) (ac_cover_index op) = Some r"
    "r' = r\<lparr> collateral_balance := collateral_balance r + ac_amount op \<rparr>"
    "asset_div_asset F (mk_asset (payoff_balance r') (quote_asset_id (order_price (ac_cover_index op))))
          (mk_asset (sdiv64 (collateral_balance r' * 2) 3) (base_asset_id (order_price (ac_cover_index op)))) = Inr q"
    "e' = upd_state (store_collateral_record \<lparr> order_price = q, mk_owner = mk_owner (ac_cover_index op) \<rparr> r')
        (upd_state (store_collateral_record (ac_cover_index op) collateral_record_default) e1)"
proof -
  have "move_collateral F op e = Inr e'"
    using assms(1) fork_21(1) [OF assms(2)] by (simp add: add_collateral_evaluate_def)
  then show thesis
    using that sless_zero_cases [of "ac_amount op"] unfolding move_collateral_def Let_def
    by (auto simp: run_simps split del: if_split)
qed

end
