(* ===== verification/Ledger.thy ===== *)
theory Ledger
  imports Evaluate_Laws
begin

text \<open>
  Where the shares of an asset are. \<open>holdings\<close> adds up every place of the chain state that
  holds shares: the collected fees of the asset, balances, open orders, collateral and the
  pay of delegates. \<open>surplus\<close> is the difference between the holdings and the supply the asset
  record states. While a transaction is evaluated, shares may also be in its own balance
  (\<open>total\<close>); the lemmas show for each operation that it only moves shares, or creates and
  destroys them together with the supply.

  Sums are sums of 64-bit words, the arithmetic of the code: the equations hold whether or
  not an addition wraps.
\<close>

named_theorems surplus_simps \<open>how a store changes the surplus\<close>

section \<open>Holdings\<close>

definition balance_shares :: "asset_id_type \<Rightarrow> balance_record \<Rightarrow> share_type" where
  "balance_shares a r = (if wc_asset_id (condition r) = a then balance r else 0)"

definition base_shares :: "asset_id_type \<Rightarrow> market_index_key \<Rightarrow> share_type \<Rightarrow> share_type" where
  "base_shares a k v = (if base_asset_id (order_price k) = a then v else 0)"

definition quote_shares :: "asset_id_type \<Rightarrow> market_index_key \<Rightarrow> share_type \<Rightarrow> share_type" where
  "quote_shares a k v = (if quote_asset_id (order_price k) = a then v else 0)"

definition pay_shares :: "asset_id_type \<Rightarrow> account_record \<Rightarrow> share_type" where
  "pay_shares a r = (if a = 0 then opt_val pay_balance (delegate_info r) else 0)"

definition holdings :: "chain \<Rightarrow> asset_id_type \<Rightarrow> share_type" where
  "holdings s a =
    opt_val collected_fees (get_asset_record s a) +
    dict_sum (\<lambda>i. balance_shares a) (get_balance_record s) +
    dict_sum (\<lambda>k r. quote_shares a k (or_balance r)) (get_bid_record s) +
    dict_sum (\<lambda>k r. base_shares a k (or_balance r)) (get_ask_record s) +
    dict_sum (\<lambda>k r. quote_shares a k (or_balance r)) (get_relative_bid_record s) +
    dict_sum (\<lambda>k r. base_shares a k (or_balance r)) (get_relative_ask_record s) +
    dict_sum (\<lambda>k r. base_shares a k (or_balance r)) (get_short_record s) +
    dict_sum (\<lambda>k r. base_shares a k (collateral_balance r)) (get_collateral_record s) +
    dict_sum (\<lambda>i. pay_shares a) (get_account_record s)"

definition stated_supply :: "chain \<Rightarrow> asset_id_type \<Rightarrow> share_type" where
  "stated_supply s a = opt_val current_share_supply (get_asset_record s a)"

definition surplus :: "chain \<Rightarrow> asset_id_type \<Rightarrow> share_type" where
  "surplus s a = holdings s a - stated_supply s a"

section \<open>Stores and the surplus\<close>

lemmas surplus_defs = surplus_def holdings_def stated_supply_def

lemma surplus_other_stores [simp]:
  "surplus (store_delegate_slate i1 r1 s) a = surplus s a"
  "surplus (set_feed r2 s) a = surplus s a"
  "surplus (store_market_status r3 s) a = surplus s a"
  "surplus (set_property i4 v s) a = surplus s a"
  "surplus (store_burn_record k r5 s) a = surplus s a"
  by (simp_all add: surplus_defs)

lemma surplus_market_dirty:
  "set_market_dirty q b s = Inr s' \<Longrightarrow> surplus s' a = surplus s a"
  by (cases s) (auto simp: surplus_defs db_defs gets_Pending)

definition net_fees :: "asset_record \<Rightarrow> share_type" where
  "net_fees r = collected_fees r - current_share_supply r"

lemma surplus_asset:
  assumes "\<not> asset_is_null r"
  shows "surplus (store_asset_record r s) a =
    surplus s a + (if a = asr_id r then net_fees r - opt_val net_fees (get_asset_record s a) else 0)"
proof -
  have "get_asset_record (store_asset_record r s) = (get_asset_record s)(asr_id r \<mapsto> r)"
    using assms store_asset_record_get [of r s] by blast
  then show ?thesis
    by (cases "get_asset_record s a") (auto simp: surplus_defs net_fees_def)
qed

lemma surplus_balance:
  assumes "chain_wf F s"
  shows "surplus (store_balance_record F r s) a = surplus s a - 
    opt_val (balance_shares a) (get_balance_record s (balance_id F r)) + balance_shares a r"
proof -
  have "dict_sum (\<lambda>i. balance_shares a) (get_balance_record (store_balance_record F r s)) =
      dict_sum (\<lambda>i. balance_shares a) (get_balance_record s) -
      opt_val (balance_shares a) (get_balance_record s (balance_id F r)) + balance_shares a r"
    by (rule balance_tab.sum_put [where F = F])
       (use assms in \<open>simp_all add: wf_tables balance_is_null_def balance_shares_def\<close>)
  then show ?thesis by (simp add: surplus_defs)
qed

lemma surplus_bid:
  "surplus (store_bid_record k r s) a = surplus s a -
    opt_val (\<lambda>r. quote_shares a k (or_balance r)) (get_bid_record s k) + quote_shares a k (or_balance r)"
  using bid_tab.sum_put [of k r s "store_bid_record k r s" "\<lambda>k r. quote_shares a k (or_balance r)"]
  by (simp add: surplus_defs order_is_null_def quote_shares_def)

lemma surplus_ask:
  "surplus (store_ask_record k r s) a = surplus s a -
    opt_val (\<lambda>r. base_shares a k (or_balance r)) (get_ask_record s k) + base_shares a k (or_balance r)"
  using ask_tab.sum_put [of k r s "store_ask_record k r s" "\<lambda>k r. base_shares a k (or_balance r)"]
  by (simp add: surplus_defs order_is_null_def base_shares_def)

lemma surplus_short:
  "surplus (store_short_record k r s) a = surplus s a -
    opt_val (\<lambda>r. base_shares a k (or_balance r)) (get_short_record s k) + base_shares a k (or_balance r)"
  using short_tab.sum_put [of k r s "store_short_record k r s" "\<lambda>k r. base_shares a k (or_balance r)"]
  by (simp add: surplus_defs order_is_null_def base_shares_def)

lemma surplus_collateral:
  "surplus (store_collateral_record k r s) a = surplus s a -
    opt_val (\<lambda>r. base_shares a k (collateral_balance r)) (get_collateral_record s k) +
    base_shares a k (collateral_balance r)"
  using collateral_tab.sum_put [of k r s "store_collateral_record k r s"
    "\<lambda>k r. base_shares a k (collateral_balance r)"]
  by (simp add: surplus_defs collateral_is_null_def base_shares_def)

lemma surplus_account:
  assumes "store_account_record F r s = Inr s'" "chain_wf G s" "account_is_null r \<Longrightarrow> pay_shares a r = 0"
  shows "surplus s' a = surplus s a - opt_val (pay_shares a) (get_account_record s (ar_id r)) + pay_shares a r"
proof -
  have "dict_sum (\<lambda>i. pay_shares a) (get_account_record s') =
      dict_sum (\<lambda>i. pay_shares a) (get_account_record s) -
      opt_val (pay_shares a) (get_account_record s (ar_id r)) + pay_shares a r"
    by (rule account_tab.sum_put [where F = F, OF assms(1)])
       (use assms(2,3) in \<open>simp_all add: wf_tables\<close>)
  then show ?thesis
    using store_account_record_frame [OF assms(1)] by (simp add: surplus_defs)
qed


section \<open>The invariant\<close>

text \<open>What the evaluation relies on: a well formed state, account numbers that are positive
  and at most the last one handed out, no null asset, and no pay on a null account.\<close>

definition accounts_ok :: "'z fc_base_scheme \<Rightarrow> chain \<Rightarrow> bool" where
  "accounts_ok F s =
    (case last_account_id F s of
       Inl x \<Rightarrow> False
     | Inr n \<Rightarrow> 0 \<le> n \<and> (\<forall>i r. get_account_record s i = Some r \<longrightarrow> 0 < i \<and> i \<le> n \<and>
         (account_is_null r \<longrightarrow> opt_val pay_balance (delegate_info r) = 0)))"

definition assets_ok :: "chain \<Rightarrow> bool" where
  "assets_ok s = (\<forall>i r. get_asset_record s i = Some r \<longrightarrow> \<not> asset_is_null r)"

definition ledger_wf :: "'z fc_cond_scheme \<Rightarrow> chain \<Rightarrow> bool" where
  "ledger_wf F s = (chain_wf F s \<and> accounts_ok F s \<and> assets_ok s)"

lemma ledger_wfD:
  assumes "ledger_wf F s"
  shows "chain_wf F s" "accounts_ok F s" "assets_ok s"
  using assms by (simp_all add: ledger_wf_def)

lemma account_ids:
  assumes "ledger_wf F s" "get_account_record s i = Some r"
  shows "0 < i" "\<exists>n. last_account_id F s = Inr n \<and> 0 < i \<and> i \<le> n \<and>
    (account_is_null r \<longrightarrow> opt_val pay_balance (delegate_info r) = 0)"
  using ledger_wfD(2) [OF assms(1)] assms(2) by (auto simp: accounts_ok_def split: sum.split_asm)

lemma last_account_id_frame [simp]:
  "last_account_id F (store_asset_record r1 s) = last_account_id F s"
  "last_account_id F (store_balance_record G r2 s) = last_account_id F s"
  "last_account_id F (store_delegate_slate i r3 s) = last_account_id F s"
  "last_account_id F (store_bid_record k r4 s) = last_account_id F s"
  "last_account_id F (store_ask_record k r4 s) = last_account_id F s"
  "last_account_id F (store_short_record k r4 s) = last_account_id F s"
  "last_account_id F (store_collateral_record k r5 s) = last_account_id F s"
  "last_account_id F (set_feed r6 s) = last_account_id F s"
  "last_account_id F (store_market_status r7 s) = last_account_id F s"
  "last_account_id F (store_burn_record k8 r8 s) = last_account_id F s"
  by (simp_all add: last_account_id_def)

text \<open>Stores outside the tables the invariant speaks of keep it.\<close>

lemma ledger_wf_stores [simp]:
  assumes "ledger_wf F s"
  shows "ledger_wf F (store_balance_record F r2 s)"
    "ledger_wf F (store_delegate_slate i r3 s)"
    "ledger_wf F (store_bid_record k r4 s)"
    "ledger_wf F (store_ask_record k r4 s)"
    "ledger_wf F (store_short_record k r4 s)"
    "ledger_wf F (store_collateral_record k r5 s)"
    "ledger_wf F (set_feed r6 s)"
    "ledger_wf F (store_market_status r7 s)"
    "ledger_wf F (store_burn_record k8 r8 s)"
  using assms by (simp_all add: ledger_wf_def accounts_ok_def assets_ok_def cong: sum.case_cong)

lemma ledger_wf_asset:
  assumes "ledger_wf F s" "\<not> asset_is_null r"
  shows "ledger_wf F (store_asset_record r s)"
proof -
  have "get_asset_record (store_asset_record r s) = (get_asset_record s)(asr_id r \<mapsto> r)"
    using assms store_asset_record_get [of r s] by blast
  then show ?thesis
    using assms by (auto simp: ledger_wf_def accounts_ok_def assets_ok_def cong: sum.case_cong)
qed

lemma set_market_dirty_frame:
  assumes "set_market_dirty q b s = Inr s'"
  shows "get_account_record s' = get_account_record s" "get_asset_record s' = get_asset_record s"
    "get_property s' = get_property s" "get_head_block_num s' = get_head_block_num s"
    "chain_wf F s' = chain_wf F s"
  using assms by (cases s; force simp: db_defs gets_Pending wf_defs)+

lemma ledger_wf_market_dirty:
  "set_market_dirty q b s = Inr s' \<Longrightarrow> ledger_wf F s \<Longrightarrow> ledger_wf F s'"
  by (simp add: ledger_wf_def accounts_ok_def assets_ok_def last_account_id_def set_market_dirty_frame
      cong: sum.case_cong)

text \<open>Storing an account under a number already handed out.\<close>

lemma ledger_wf_account:
  assumes "store_account_record G r s = Inr s'" "ledger_wf F s" "last_account_id F s = Inr n"
    and "0 < ar_id r" "ar_id r \<le> n" "account_is_null r \<Longrightarrow> opt_val pay_balance (delegate_info r) = 0"
  shows "ledger_wf F s'"
proof -
  have "\<And>i w. get_account_record s i = Some w \<Longrightarrow> ar_id w = i"
    using assms(2) wf_gets(3) by (blast dest: ledger_wfD)
  then have get: "get_account_record s' = (get_account_record s)(ar_id r \<mapsto> r) \<or>
      account_is_null r \<and> get_account_record s' = (get_account_record s)(ar_id r := None)"
    by (rule store_account_record_get [OF assms(1)])
  have "last_account_id F s' = Inr n"
    using assms(3) store_account_record_frame [OF assms(1)] by (simp add: last_account_id_def)
  then have "accounts_ok F s'"
    using assms(3-6) ledger_wfD(2) [OF assms(2)] get by (auto simp: accounts_ok_def split: if_splits)
  moreover have "assets_ok s'"
    using ledger_wfD(3) [OF assms(2)] store_account_record_frame [OF assms(1)] by (simp add: assets_ok_def)
  ultimately show ?thesis
    using store_account_record_wf [OF assms(1) ledger_wfD(1) [OF assms(2)]] by (simp add: ledger_wf_def)
qed

section \<open>The balance of a transaction\<close>

definition total :: "transaction_evaluation_state \<Rightarrow> asset_id_type \<Rightarrow> share_type" where
  "total e a = surplus (current_state e) a + get_fees e a"

definition eval_ok :: "'z fc_cond_scheme \<Rightarrow> transaction_evaluation_state \<Rightarrow> bool" where
  "eval_ok F e =
    (ledger_wf F (current_state e) \<and> ordered_map (es_balance e) \<and> current_rules (current_state e))"

text \<open>A step of the evaluation that keeps the invariant and the totals.\<close>

definition balanced :: "'z fc_cond_scheme \<Rightarrow> transaction_evaluation_state \<Rightarrow> transaction_evaluation_state \<Rightarrow> bool" where
  "balanced F e e' = (eval_ok F e \<longrightarrow> eval_ok F e' \<and> (\<forall>a. total e' a = total e a))"

lemma balanced_refl [simp]: "balanced F e e"
  by (simp add: balanced_def)

lemma balanced_trans: "balanced F e e' \<Longrightarrow> balanced F e' e'' \<Longrightarrow> balanced F e e''"
  by (simp add: balanced_def)

lemma balanced_if:
  assumes "eval_ok F e \<Longrightarrow> eval_ok F e' \<and> (\<forall>a. total e' a = total e a)"
  shows "balanced F e e'"
  using assms by (simp add: balanced_def)

section \<open>Balance operations\<close>

lemma eval_okD:
  assumes "eval_ok F e"
  shows "ledger_wf F (current_state e)" "chain_wf F (current_state e)" "ordered_map (es_balance e)"
    "current_rules (current_state e)"
  using assms by (auto simp: eval_ok_def ledger_wf_def)

lemma deposit_balanced:
  assumes "deposit_evaluate F op e = Inr e'"
  shows "balanced F e e'"
proof (rule balanced_if)
  assume ok: "eval_ok F e"
  let ?s = "current_state e"
  obtain r date t e1 e2 where r_def: "r = (case get_balance_record ?s (deposit_balance_id F op) of
      Some r \<Rightarrow> r | None \<Rightarrow> balance_record_of_condition (do_condition op))"
    and e1: "sub_balance (deposit_balance_id F op) (mk_asset (do_amount op) (wc_asset_id (condition r))) e = Inr e1"
    and vote: "vote_if_base (r\<lparr> deposit_date := date, balance := balance r + do_amount op \<rparr>) (do_amount op) e1 = Inr e2"
    and e': "e' = upd_state (store_balance_record F
      (r\<lparr> deposit_date := date, balance := balance r + do_amount op, br_last_update := t \<rparr>)) e2"
    by (rule deposit_run [OF assms eval_okD(4) [OF ok]]) (rule that)
  define r' where "r' = r\<lparr> deposit_date := date, balance := balance r + do_amount op, br_last_update := t \<rparr>"
  have r': "condition r' = condition r" "balance r' = balance r + do_amount op"
    by (simp_all add: r'_def)
  note e2 = vote_if_base_run [OF vote]
  note e1_run = sub_balance_run [OF e1 eval_okD(3) [OF ok]]
  have id: "balance_id F r' = deposit_balance_id F op"
    using r'(1) wf_gets(2) [OF eval_okD(2) [OF ok], of "deposit_balance_id F op"]
    by (cases "get_balance_record ?s (deposit_balance_id F op)")
       (simp_all add: r_def balance_id_def deposit_balance_id_def balance_record_of_condition_def)
  have old: "opt_val (balance_shares a) (get_balance_record ?s (balance_id F r')) = balance_shares a r" for a
    by (cases "get_balance_record ?s (deposit_balance_id F op)")
       (simp_all add: id r_def balance_shares_def balance_record_of_condition_def)
  have "total e' a = total e a" for a
    using surplus_balance [OF eval_okD(2) [OF ok], of r' a] e1_run(1,3) e2 r'
    by (simp add: e' r'_def [symmetric] total_def old get_fees_cong [OF e2(2)] balance_shares_def)
  moreover have "eval_ok F e'"
    using ok e1_run e2 by (simp add: e' eval_ok_def)
  ultimately show "eval_ok F e' \<and> (\<forall>a. total e' a = total e a)" by simp
qed

lemma pay_yield_run:
  assumes "pay_yield y r asset_rec e = (r', e')" "eval_ok F e"
    and asset: "get_asset_record (current_state e) (wc_asset_id (condition r)) = Some asset_rec"
  shows "eval_ok F e'" "condition r' = condition r" "get_fees e' a = get_fees e a"
    "get_balance_record (current_state e') = get_balance_record (current_state e)"
    "surplus (current_state e') a = surplus (current_state e) a + balance_shares a r - balance_shares a r'"
proof -
  note wf = eval_okD(1,2) [OF assms(2)]
  have id: "asr_id asset_rec = wc_asset_id (condition r)"
    by (rule wf_gets(1) [OF wf(2) asset])
  have live: "\<not> asset_is_null asset_rec"
    using ledger_wfD(3) [OF wf(1)] asset by (auto simp: assets_ok_def)
  define paid where "paid = asset_rec\<lparr> collected_fees := collected_fees asset_rec - amount y \<rparr>"
  have paid: "\<not> asset_is_null paid" "asr_id paid = wc_asset_id (condition r)"
    "net_fees paid = net_fees asset_rec - amount y"
    using live id by (simp_all add: paid_def asset_is_null_def net_fees_def)
  have "(r', e') = (r, e) \<or> condition r' = condition r \<and> balance r' = balance r + amount y \<and>
      current_state e' = store_asset_record paid (current_state e) \<and> es_balance e' = es_balance e"
    using assms(1) by (auto simp: pay_yield_def Let_def paid_def split: if_split_asm)
  then show "eval_ok F e'" "condition r' = condition r" "get_fees e' a = get_fees e a"
    "get_balance_record (current_state e') = get_balance_record (current_state e)"
    "surplus (current_state e') a = surplus (current_state e) a + balance_shares a r - balance_shares a r'"
    using assms(2) asset paid ledger_wf_asset [OF wf(1) paid(1)] surplus_asset [OF paid(1), of "current_state e" a]
    by (auto simp: eval_ok_def get_fees_def balance_shares_def)
qed

lemma withdraw_yield_run:
  assumes "withdraw_yield F asset_rec r e = Inr (r', e')" "eval_ok G e"
    and asset: "get_asset_record (current_state e) (wc_asset_id (condition r)) = Some asset_rec"
  shows "eval_ok G e'" "condition r' = condition r" "get_fees e' a = get_fees e a"
    "get_balance_record (current_state e') = get_balance_record (current_state e)"
    "surplus (current_state e') a = surplus (current_state e) a + balance_shares a r - balance_shares a r'"
proof -
  from assms(1) have "(r', e') = (r, e) \<or> (\<exists>y. pay_yield y r asset_rec e = (r', e'))"
    by (auto simp: withdraw_yield_def split: if_split_asm)
  then show "eval_ok G e'" "condition r' = condition r" "get_fees e' a = get_fees e a"
    "get_balance_record (current_state e') = get_balance_record (current_state e)"
    "surplus (current_state e') a = surplus (current_state e) a + balance_shares a r - balance_shares a r'"
    using pay_yield_run [OF _ assms(2) asset, of _ r' e'] assms(2) by auto
qed

lemma withdraw_balanced:
  assumes "withdraw_evaluate F op e = Inr e'"
  shows "balanced F e e'"
proof (rule balanced_if)
  assume ok: "eval_ok F e"
  let ?s = "current_state e"
  obtain r asset_rec e1 r2 e2 e3 t where r: "get_balance_record ?s (wo_balance_id op) = Some r"
    and asset: "get_asset_record ?s (wc_asset_id (condition r)) = Some asset_rec"
    and vote: "vote_if_base r (- wo_amount op) e = Inr e1"
    and yield: "withdraw_yield F asset_rec r e1 = Inr (r2, e2)"
    and add: "add_balance (mk_asset (wo_amount op) (wc_asset_id (condition r2))) e2 = Inr e3"
    and e': "e' = upd_state (store_balance_record F
      (r2\<lparr> balance := balance r2 - wo_amount op, br_last_update := t \<rparr>)) e3"
    by (rule withdraw_run [OF assms eval_okD(4) [OF ok]]) (rule that)
  note e1 = vote_if_base_run [OF vote]
  have ok1: "eval_ok F e1" and asset1: "get_asset_record (current_state e1) (wc_asset_id (condition r)) = Some asset_rec"
    using ok asset e1 by (simp_all add: eval_ok_def)
  have ok2: "eval_ok F e2" and r2: "condition r2 = condition r"
    and bal2: "get_balance_record (current_state e2) = get_balance_record ?s"
    and fees2: "\<And>a. get_fees e2 a = get_fees e a"
    and surplus2: "\<And>a. surplus (current_state e2) a = surplus ?s a + balance_shares a r - balance_shares a r2"
    using withdraw_yield_run [OF yield ok1 asset1] e1 by (simp_all add: get_fees_cong [OF e1(2)])
  note e3 = add_balance_run [OF add eval_okD(3) [OF ok2]]
  define r3 where "r3 = r2\<lparr> balance := balance r2 - wo_amount op, br_last_update := t \<rparr>"
  have r3: "condition r3 = condition r" "balance r3 = balance r2 - wo_amount op"
    by (simp_all add: r3_def r2)
  have id: "balance_id F r3 = wo_balance_id op"
    using wf_gets(2) [OF eval_okD(2) [OF ok] r] r3 by (simp add: balance_id_def)
  have "total e' a = total e a" for a
    using surplus_balance [OF eval_okD(2) [OF ok2], of r3 a] e3(1,3) r r3 r2
    by (simp add: e' r3_def [symmetric] total_def id bal2 fees2 surplus2 balance_shares_def)
  moreover have "eval_ok F e'"
    using ok2 e3 by (simp add: e' eval_ok_def)
  ultimately show "eval_ok F e' \<and> (\<forall>a. total e' a = total e a)" by simp
qed

lemma define_delegate_slate_balanced:
  assumes "define_delegate_slate_evaluate F op e = Inr e'"
  shows "balanced F e e'"
proof (rule balanced_if)
  assume "eval_ok F e"
  with assms show "eval_ok F e' \<and> (\<forall>a. total e' a = total e a)"
    by (auto elim!: define_delegate_slate_run simp: eval_ok_def total_def)
qed

text \<open>An update of the supply and the fees of an asset that exists.\<close>

lemma asset_update:
  assumes "eval_ok F e" and old: "get_asset_record (current_state e) i = Some r"
    and new: "asr_id r' = asr_id r" "issuer_account_id r' = issuer_account_id r"
  shows "ledger_wf F (store_asset_record r' (current_state e))"
    "surplus (store_asset_record r' (current_state e)) a =
      surplus (current_state e) a + (if a = i then net_fees r' - net_fees r else 0)"
proof -
  note wf = eval_okD(1,2) [OF assms(1)]
  have live: "\<not> asset_is_null r'"
    using ledger_wfD(3) [OF wf(1)] old new by (auto simp: assets_ok_def asset_is_null_def)
  then show "ledger_wf F (store_asset_record r' (current_state e))"
    using ledger_wf_asset [OF wf(1)] by blast
  show "surplus (store_asset_record r' (current_state e)) a =
      surplus (current_state e) a + (if a = i then net_fees r' - net_fees r else 0)"
    using surplus_asset [OF live, of "current_state e" a] old new wf_gets(1) [OF wf(2) old] by simp
qed

lemma burn_balanced:
  assumes "burn_evaluate F op e = Inr e'"
  shows "balanced F e e'"
proof (rule balanced_if)
  assume ok: "eval_ok F e"
  obtain r e1 k v where r: "get_asset_record (current_state e) (asset_id (bo_amount op)) = Some r"
    and sub: "sub_balance address_default (bo_amount op) e = Inr e1"
    and e': "e' = upd_state (store_burn_record k v) (upd_state (store_asset_record
      (r\<lparr> current_share_supply := current_share_supply r - amount (bo_amount op) \<rparr>)) e1)"
    by (rule burn_run [OF assms]) (rule that)
  note e1 = sub_balance_run [OF sub eval_okD(3) [OF ok]]
  show "eval_ok F e' \<and> (\<forall>a. total e' a = total e a)"
    using ok e1 asset_update [OF ok r, of "r\<lparr> current_share_supply := current_share_supply r - amount (bo_amount op) \<rparr>"]
    by (simp add: e' eval_ok_def total_def net_fees_def)
qed

section \<open>Asset operations\<close>

lemma issue_asset_balanced:
  assumes "issue_asset_evaluate op e = Inr e'"
  shows "balanced F e e'"
proof (rule balanced_if)
  assume ok: "eval_ok F e"
  obtain r e1 t where r: "get_asset_record (current_state e) (asset_id (ia_amount op)) = Some r"
    and add: "add_balance (ia_amount op) e = Inr e1"
    and e': "e' = upd_state (store_asset_record (r\<lparr> current_share_supply :=
      current_share_supply r + amount (ia_amount op), asr_last_update := t \<rparr>)) e1"
    by (rule issue_asset_run [OF assms]) (rule that)
  note e1 = add_balance_run [OF add eval_okD(3) [OF ok]]
  show "eval_ok F e' \<and> (\<forall>a. total e' a = total e a)"
    using ok e1 asset_update [OF ok r, of "r\<lparr> current_share_supply :=
      current_share_supply r + amount (ia_amount op), asr_last_update := t \<rparr>"]
    by (simp add: e' eval_ok_def total_def net_fees_def)
qed

lemma ledger_wf_property:
  assumes "ledger_wf F s" "i \<noteq> last_account_id_property"
  shows "ledger_wf F (set_property i v s)"
  using assms by (simp add: ledger_wf_def accounts_ok_def assets_ok_def last_account_id_def cong: sum.case_cong)

lemma create_asset_balanced:
  assumes "create_asset_evaluate F op e = Inr e'"
  shows "balanced G e e'"
proof (rule balanced_if)
  assume ok: "eval_ok G e"
  let ?s = "current_state e"
  obtain n fees where fresh: "get_asset_record ?s (n + 1) = None"
    and known: "ca_issuer_account_id op = market_issuer_id \<or> get_account_record ?s (ca_issuer_account_id op) \<noteq> None"
    and e': "e' = upd_state (store_asset_record (create_asset_record F op (n + 1) (now ?s)
        (if ca_issuer_account_id op \<noteq> market_issuer_id then get_account_record ?s (ca_issuer_account_id op) else None)))
      (e\<lparr> required_fees := fees, current_state :=
        set_property last_asset_id_property (variant_of_int F (n + 1)) ?s \<rparr>)"
    by (rule create_asset_run [OF assms])
  define r where "r = create_asset_record F op (n + 1) (now ?s)
    (if ca_issuer_account_id op \<noteq> market_issuer_id then get_account_record ?s (ca_issuer_account_id op) else None)"
  have "ca_issuer_account_id op \<noteq> null_issuer_id"
    using known account_ids(1) [OF eval_okD(1) [OF ok], of "ca_issuer_account_id op"]
    by (auto simp: null_issuer_id_def market_issuer_id_def)
  then have r: "\<not> asset_is_null r" "asr_id r = n + 1" "net_fees r = 0"
    by (simp_all add: r_def create_asset_record_def asset_is_null_def asset_record_default_def net_fees_def)
  note e' = e' [folded r_def]
  have "ledger_wf G (current_state e')"
    unfolding e' upd_state_sel
    by (rule ledger_wf_asset [OF _ r(1)]) (use eval_okD(1) [OF ok] in \<open>simp add: ledger_wf_property\<close>)
  moreover have "total e' a = total e a" for a
    using fresh by (simp add: e' total_def surplus_asset [OF r(1)] r(2,3) get_fees_def)
  ultimately show "eval_ok G e' \<and> (\<forall>a. total e' a = total e a)"
    using ok by (simp add: e' eval_ok_def)
qed

section \<open>Account operations\<close>

text \<open>An update of an account that exists and keeps its pay and its owner.\<close>

lemma account_update:
  assumes "eval_ok F e" and old: "get_account_record (current_state e) i = Some r"
    and store: "store_account_record G r' (current_state e) = Inr s'"
    and new: "ar_id r' = ar_id r" "owner_key r' = owner_key r"
      "opt_val pay_balance (delegate_info r') = opt_val pay_balance (delegate_info r)"
  shows "ledger_wf F s'" "get_head_block_num s' = get_head_block_num (current_state e)"
    "surplus s' a = surplus (current_state e) a"
proof -
  note wf = eval_okD(1,2) [OF assms(1)]
  have id: "ar_id r = i" by (rule wf_gets(3) [OF wf(2) old])
  obtain n where n: "last_account_id F (current_state e) = Inr n" "0 < i" "i \<le> n"
      "account_is_null r \<Longrightarrow> opt_val pay_balance (delegate_info r) = 0"
    using account_ids [OF wf(1) old] by blast
  have null: "account_is_null r' \<Longrightarrow> opt_val pay_balance (delegate_info r') = 0"
    using n(4) new by (simp add: account_is_null_def)
  show "ledger_wf F s'"
    using ledger_wf_account [OF store wf(1) n(1)] n new id null by simp
  show "get_head_block_num s' = get_head_block_num (current_state e)"
    using store_account_record_frame [OF store] by simp
  show "surplus s' a = surplus (current_state e) a"
    using surplus_account [OF store wf(2)] null new id old by (simp add: pay_shares_def)
qed

text \<open>The parts of an account record the ledger depends on.\<close>

definition same_holder :: "account_record \<Rightarrow> account_record \<Rightarrow> bool" where
  "same_holder r r' = (ar_id r' = ar_id r \<and> owner_key r' = owner_key r \<and>
    opt_val pay_balance (delegate_info r') = opt_val pay_balance (delegate_info r))"

lemma set_key_same_holder:
  "set_active_key r t k = Inr r' \<Longrightarrow> same_holder r r'"
  "set_signing_key r b k = Inr r' \<Longrightarrow> same_holder r r'"
  "adjust_votes_for r v = Inr r' \<Longrightarrow> same_holder r r'"
  by (auto simp: same_holder_def set_active_key_def set_signing_key_def adjust_votes_for_def
      split: if_split_asm option.split_asm)

lemma same_holder_refl [simp]: "same_holder r r"
  by (simp add: same_holder_def)

lemma same_holder_trans: "same_holder r r' \<Longrightarrow> same_holder r' r'' \<Longrightarrow> same_holder r r''"
  by (simp add: same_holder_def)

lemma change_active_key_holder:
  assumes "change_active_key F e key r = Inr r'"
  shows "same_holder r r'"
proof -
  obtain r1 where "set_active_key r (now (current_state e)) key = Inr r1"
    "set_signing_key r1 (get_head_block_num (current_state e)) (active_key r1) = Inr r' \<or> r1 = r'"
    by (rule change_active_key_run [OF assms]) (rule that)
  then show ?thesis
    using set_key_same_holder same_holder_trans by blast
qed

lemma become_delegate_run:
  assumes "become_delegate F rate key r e = Inr (r', e')"
  shows "ar_id r' = ar_id r" "owner_key r' = owner_key r" "opt_val pay_balance (delegate_info r') = 0"
    "current_state e' = current_state e" "es_balance e' = es_balance e"
proof -
  obtain fees where key: "set_signing_key (r\<lparr> delegate_info := Some (delegate_stats_default\<lparr> pay_rate := rate \<rparr>) \<rparr>)
      (get_head_block_num (current_state e)) key = Inr r'" and e': "e' = e\<lparr> required_fees := fees \<rparr>"
    by (rule become_delegate_shape [OF assms]) (rule that)
  show "ar_id r' = ar_id r" "owner_key r' = owner_key r" "opt_val pay_balance (delegate_info r') = 0"
    "current_state e' = current_state e" "es_balance e' = es_balance e"
    using set_key_same_holder(2) [OF key] by (simp_all add: e' same_holder_def delegate_stats_default_def)
qed

lemma new_account_id_run:
  assumes "variant_laws F" "ledger_wf F s" "new_account_id F s = Inr (i, s')"
  shows "ledger_wf F s'" "last_account_id F s' = Inr i" "0 < i" "get_account_record s' i = None"
    "surplus s' a = surplus s a" "get_head_block_num s' = get_head_block_num s"
proof -
  have last: "last_account_id F s = Inr (i - 1)" "last_account_id F s' = Inr i"
    using new_id_last(2) [OF assms(1,3)] by auto
  obtain v where s': "s' = set_property last_account_id_property v s"
    using assms(3) by (auto simp: new_account_id_def Let_def)
  show "last_account_id F s' = Inr i" by (rule last)
  have below: "j < i" if "get_account_record s j = Some r" for j r
    using account_ids(2) [OF assms(2) that] last by auto
  show "0 < i" "surplus s' a = surplus s a" "get_head_block_num s' = get_head_block_num s"
    using ledger_wfD(2) [OF assms(2)] last by (auto simp: s' accounts_ok_def)
  show "get_account_record s' i = None"
    using below [of i] by (cases "get_account_record s i") (auto simp: s')
  have "accounts_ok F s'"
    using ledger_wfD(2) [OF assms(2)] last by (fastforce simp: accounts_ok_def s')
  then show "ledger_wf F s'"
    using assms(2) by (simp add: ledger_wf_def assets_ok_def s')
qed

lemma register_account_balanced:
  assumes "variant_laws F" "register_account_evaluate F op e = Inr e'"
  shows "balanced F e e'"
proof (rule balanced_if)
  assume ok: "eval_ok F e"
  obtain i s1 r r' e1 s2 where new: "new_account_id F (current_state e) = Inr (i, s1)"
    and r: "set_active_key (account_record_default\<lparr> ar_id := i, ar_name := ra_name op,
        public_data := ra_public_data op, owner_key := ra_owner_key op \<rparr>) (now s1) (ra_active_key op) = Inr r"
    and r': "(if ra_is_delegate op
       then become_delegate F (ra_delegate_pay_rate op) (ra_active_key op)
         (r\<lparr> registration_date := now s1, ar_last_update := now s1, meta_data := ra_meta_data op \<rparr>)
         (e\<lparr> current_state := s1 \<rparr>)
       else Inr (r\<lparr> registration_date := now s1, ar_last_update := now s1, meta_data := ra_meta_data op \<rparr>,
         e\<lparr> current_state := s1 \<rparr>)) = Inr (r', e1)"
    and store: "store_account_record F r' (current_state e1) = Inr s2"
    and e': "e' = e1\<lparr> current_state := s2 \<rparr>"
    by (rule register_account_run [OF assms(2)]) (rule that)
  note s1 = new_account_id_run [OF assms(1) eval_okD(1) [OF ok] new]
  have holder: "ar_id r' = i" "opt_val pay_balance (delegate_info r') = 0"
      "current_state e1 = s1" "es_balance e1 = es_balance e"
    using r' set_key_same_holder(1) [OF r]
    by (auto simp: same_holder_def account_record_default_def dest: become_delegate_run split: if_split_asm)
  note store = store [unfolded holder(3)]
  have "ledger_wf F s2"
    using ledger_wf_account [OF store s1(1,2)] s1(3) holder by simp
  moreover have "surplus s2 a = surplus (current_state e) a" for a
    using surplus_account [OF store ledger_wfD(1) [OF s1(1)]] holder s1 by (simp add: pay_shares_def)
  moreover have "get_head_block_num s2 = get_head_block_num (current_state e)"
    using s1(6) store_account_record_frame [OF store] by simp
  ultimately show "eval_ok F e' \<and> (\<forall>a. total e' a = total e a)"
    using ok holder(4) by (simp add: e' eval_ok_def total_def get_fees_def)
qed

lemma account_step:
  assumes "eval_ok F e" "get_account_record (current_state e) i = Some r"
    and "store_account_record G r' (current_state e) = Inr s'" "same_holder r r'"
    and e': "current_state e' = s'" "es_balance e' = es_balance e"
  shows "eval_ok F e' \<and> (\<forall>a. total e' a = total e a)"
proof -
  note s' = account_update [OF assms(1-3)]
  show ?thesis
    using assms(1,4) s' by (simp add: e' same_holder_def eval_ok_def total_def get_fees_def)
qed

lemma update_account_balanced:
  assumes "update_account_evaluate F op e = Inr e'"
  shows "balanced G e e'"
proof (rule balanced_if)
  assume ok: "eval_ok G e"
  let ?signed = "\<lambda>r. if \<not> account_or_any_parent_has_signed F e r then Inl missing_signature else Inr r"
  obtain r r1 r2 e1 s2 where r: "get_account_record (current_state e) (ua_account_id op) = Some r"
    and r1: "(case ua_active_key op of
        Some key \<Rightarrow> if key \<noteq> active_key r then change_active_key F e key r else ?signed r
      | None \<Rightarrow> ?signed r) = Inr r1"
    and r2: "(let r = (case ua_public_data op of Some d \<Rightarrow> r1\<lparr> public_data := d \<rparr> | None \<Rightarrow> r1)
      in if ua_is_delegate op then
           (case delegate_info r of
              Some di \<Rightarrow> if \<not> ua_delegate_pay_rate op \<le> pay_rate di then Inl assert_exception
                else Inr (r\<lparr> delegate_info := Some (di\<lparr> pay_rate := ua_delegate_pay_rate op \<rparr>) \<rparr>, e)
            | None \<Rightarrow> become_delegate F (ua_delegate_pay_rate op) (active_key r) r e)
         else Inr (r, e)) = Inr (r2, e1)"
    and store: "store_account_record F (r2\<lparr> ar_last_update := now (current_state e1) \<rparr>) (current_state e1) = Inr s2"
    and e': "e' = e1\<lparr> current_state := s2 \<rparr>"
    by (rule update_account_run [OF assms]) (rule that)
  have "same_holder r r1"
    using r1 by (auto dest: change_active_key_holder split: option.split_asm if_split_asm)
  define r3 where "r3 = (case ua_public_data op of Some d \<Rightarrow> r1\<lparr> public_data := d \<rparr> | None \<Rightarrow> r1)"
  have r3: "same_holder r r3"
    using \<open>same_holder r r1\<close> by (simp add: r3_def same_holder_def split: option.split)
  have "same_holder r3 r2 \<and> current_state e1 = current_state e \<and> es_balance e1 = es_balance e"
    using r2 unfolding r3_def [symmetric] Let_def
    by (auto simp: same_holder_def dest: become_delegate_run split: option.split_asm if_split_asm)
  then show "eval_ok G e' \<and> (\<forall>a. total e' a = total e a)"
    using account_step [OF ok r, of F "r2\<lparr> ar_last_update := now (current_state e1) \<rparr>" s2 e'] store r3
    by (simp add: e' same_holder_def)
qed

lemma update_block_signing_key_balanced:
  assumes "update_block_signing_key_evaluate F op e = Inr e'"
  shows "balanced G e e'"
proof (rule balanced_if)
  assume ok: "eval_ok G e"
  obtain r r1 t s1 where r: "get_account_record (current_state e) (ubsk_account_id op) = Some r"
    and r1: "set_signing_key r (get_head_block_num (current_state e)) (block_signing_key op) = Inr r1"
    and store: "store_account_record F (r1\<lparr> ar_last_update := t \<rparr>) (current_state e) = Inr s1"
    and e': "e' = e\<lparr> current_state := s1 \<rparr>"
    by (rule update_block_signing_key_run [OF assms]) (rule that)
  show "eval_ok G e' \<and> (\<forall>a. total e' a = total e a)"
    using account_step [OF ok r store, of e'] set_key_same_holder(2) [OF r1] by (simp add: e' same_holder_def)
qed

lemma withdraw_pay_balanced:
  assumes "withdraw_pay_evaluate F op e = Inr e'"
  shows "balanced G e e'"
proof (rule balanced_if)
  assume ok: "eval_ok G e"
  let ?s = "current_state e" and ?i = "\<bar>wp_account_id op\<bar>"
  obtain r di e1 s2 where r: "get_account_record ?s ?i = Some r" and di: "delegate_info r = Some di"
    and enough: "\<not> wp_amount op \<le>s 0" "\<not> pay_balance di <s wp_amount op"
    and add: "add_balance (mk_asset (wp_amount op) 0) (add_votes ?i (- wp_amount op) e) = Inr e1"
    and store: "store_account_record F (r\<lparr> delegate_info :=
        Some (di\<lparr> pay_balance := pay_balance di - wp_amount op \<rparr>) \<rparr>) (current_state e1) = Inr s2"
    and e': "e' = e1\<lparr> current_state := s2 \<rparr>"
    by (rule withdraw_pay_run [OF assms]) (rule that)
  have e0: "ordered_map (es_balance (add_votes ?i (- wp_amount op) e))"
    "current_state (add_votes ?i (- wp_amount op) e) = ?s"
    "get_fees (add_votes ?i (- wp_amount op) e) a = get_fees e a" for a
    using eval_okD(3) [OF ok] by (simp_all add: add_votes_def get_fees_def)
  note e1 = add_balance_run [OF add e0(1), unfolded e0]
  note wf = eval_okD(1,2) [OF ok]
  note store = store [unfolded e1(1)]
  have id: "ar_id r = ?i" by (rule wf_gets(3) [OF wf(2) r])
  obtain n where n: "last_account_id G ?s = Inr n" "0 < ?i" "?i \<le> n" "\<not> account_is_null r"
    using account_ids(2) [OF wf(1) r] di enough by (auto simp: word_sless_alt word_sle_eq)
  have "ledger_wf G s2"
    using ledger_wf_account [OF store wf(1) n(1)] n id by (simp add: account_is_null_def)
  moreover have "surplus s2 a = surplus ?s a - (if a = 0 then wp_amount op else 0)" for a
    using surplus_account [OF store wf(2), of a] n(4) id r di by (simp add: pay_shares_def account_is_null_def)
  moreover have "get_head_block_num s2 = get_head_block_num ?s"
    using store_account_record_frame [OF store] by simp
  moreover have "get_fees (e1\<lparr> current_state := s2 \<rparr>) a = get_fees e1 a" for a
    by (simp add: get_fees_def)
  ultimately show "eval_ok G e' \<and> (\<forall>a. total e' a = total e a)"
    using ok e1 by (simp add: e' eval_ok_def total_def)
qed

lemma update_feed_balanced:
  assumes "update_feed_evaluate F op e = Inr e'"
  shows "balanced G e e'"
proof (rule balanced_if)
  assume ok: "eval_ok G e"
  obtain r s1 where dirty: "set_market_dirty (feed_id (uf_feed op)) 0 (set_feed r (current_state e)) = Inr s1"
    and e': "current_state e' = s1" "es_balance e' = es_balance e"
    by (rule update_feed_run [OF assms]) (rule that)
  show "eval_ok G e' \<and> (\<forall>a. total e' a = total e a)"
    using ok e' surplus_market_dirty [OF dirty] set_market_dirty_frame(4) [OF dirty]
      ledger_wf_market_dirty [OF dirty, of G]
    by (simp add: eval_ok_def total_def get_fees_def)
qed

section \<open>Market operations\<close>

lemma bid_balanced:
  assumes "bid_evaluate op e = Inr e'"
  shows "balanced F e e'"
proof (rule balanced_if)
  assume ok: "eval_ok F e"
  let ?k = "bid_index op"
  obtain r e1 t where funds: "order_funds (amount (bid_get_amount op)) (bid_get_amount op)
      (get_bid_record (current_state e) ?k) e = Inr (r, e1)"
    and e': "e' = upd_state (store_bid_record ?k
      (r\<lparr> or_last_update := t, or_balance := or_balance r + bid_amount op \<rparr>)) e1"
    by (rule bid_run [OF assms]) (rule that)
  note e1 = order_funds_run [OF funds eval_okD(3) [OF ok]]
  have "opt_val (\<lambda>r. quote_shares a ?k (or_balance r)) (get_bid_record (current_state e) ?k) =
      quote_shares a ?k (or_balance r)" for a
    using e1(4) by (cases "get_bid_record (current_state e) ?k") (simp_all add: quote_shares_def)
  then show "eval_ok F e' \<and> (\<forall>a. total e' a = total e a)"
    using ok e1 by (simp add: e' eval_ok_def total_def surplus_bid quote_shares_def bid_get_amount_def)
qed

lemma ask_balanced:
  assumes "ask_evaluate op e = Inr e'"
  shows "balanced F e e'"
proof (rule balanced_if)
  assume ok: "eval_ok F e"
  let ?k = "ask_index op"
  obtain r e1 t where funds: "order_funds (amount (ask_get_amount op)) (ask_get_amount op)
      (get_ask_record (current_state e) ?k) e = Inr (r, e1)"
    and e': "e' = upd_state (store_ask_record ?k
      (r\<lparr> or_last_update := t, or_balance := or_balance r + ask_amount op \<rparr>)) e1"
    by (rule ask_run [OF assms eval_okD(4) [OF ok]]) (rule that)
  note e1 = order_funds_run [OF funds eval_okD(3) [OF ok]]
  have "opt_val (\<lambda>r. base_shares a ?k (or_balance r)) (get_ask_record (current_state e) ?k) =
      base_shares a ?k (or_balance r)" for a
    using e1(4) by (cases "get_ask_record (current_state e) ?k") (simp_all add: base_shares_def)
  then show "eval_ok F e' \<and> (\<forall>a. total e' a = total e a)"
    using ok e1 by (simp add: e' eval_ok_def total_def surplus_ask base_shares_def ask_get_amount_def)
qed

lemma short_balanced:
  assumes "short_evaluate F op e = Inr e'"
  shows "balanced F e e'"
proof (rule balanced_if)
  assume ok: "eval_ok F e"
  let ?k = "short_index op"
  obtain r e1 t where funds: "order_funds (amount (short_get_amount op)) (short_get_amount op)
      (get_short_record (current_state e) ?k) e = Inr (r, e1)"
    and e': "e' = upd_state (store_short_record ?k (r\<lparr> limit_price := short_limit_price op,
      or_last_update := t, or_balance := or_balance r + short_amount op \<rparr>)) e1"
    by (rule short_run [OF assms eval_okD(4) [OF ok]]) (rule that)
  note e1 = order_funds_run [OF funds eval_okD(3) [OF ok]]
  have "opt_val (\<lambda>r. base_shares a ?k (or_balance r)) (get_short_record (current_state e) ?k) =
      base_shares a ?k (or_balance r)" for a
    using e1(4) by (cases "get_short_record (current_state e) ?k") (simp_all add: base_shares_def)
  then show "eval_ok F e' \<and> (\<forall>a. total e' a = total e a)"
    using ok e1 by (simp add: e' eval_ok_def total_def surplus_short base_shares_def short_get_amount_def)
qed

text \<open>Covering and adding collateral store the position under its new call price. They
  conserve collateral if the owner has no other position in that market, which the store
  could overwrite, and if the position stays in its market.\<close>

definition same_market :: "price \<Rightarrow> price \<Rightarrow> bool" where
  "same_market p q = (quote_asset_id p = quote_asset_id q \<and> base_asset_id p = base_asset_id q)"

fun collateral_keys :: "chain \<Rightarrow> market_index_key list" where
  "collateral_keys (DB d) = map fst (collateral_db d)"
| "collateral_keys (Pending p prev) = map fst (collaterals p) @ collateral_keys prev"

definition lone_position :: "chain \<Rightarrow> market_index_key \<Rightarrow> bool" where
  "lone_position s k = (base_asset_id (order_price k) < quote_asset_id (order_price k) \<and>
    list_all (\<lambda>k'. mk_owner k' = mk_owner k \<and> same_market (order_price k') (order_price k) \<and> k' \<noteq> k \<longrightarrow>
      opt_val collateral_balance (get_collateral_record s k') = 0) (collateral_keys s))"

lemma collateral_keys_get: "get_collateral_record s k = Some r \<Longrightarrow> k \<in> set (collateral_keys s)"
  by (induction s)
     (auto simp: gets_DB gets_Pending map_add_Some_iff dom_map_of_conv_image_fst [symmetric] dest: domI)

lemma lone_positionD:
  assumes "lone_position s k" "get_collateral_record s k' = Some r" "mk_owner k' = mk_owner k"
    and "same_market (order_price k') (order_price k)" "k' \<noteq> k"
  shows "collateral_balance r = 0"
  using assms collateral_keys_get [OF assms(2)] by (auto simp: lone_position_def list_all_iff)

lemma lone_position_store_asset [simp]: "lone_position (store_asset_record r s) k = lone_position s k"
proof -
  have "collateral_keys (store_asset_record r s) = collateral_keys s"
    by (cases s) (simp_all add: db_defs)
  then show ?thesis by (simp add: lone_position_def)
qed

lemma surplus_move_collateral:
  assumes "lone_position s k" "get_collateral_record s k = Some old"
    and k': "mk_owner k' = mk_owner k" "same_market (order_price k') (order_price k)"
  shows "surplus (store_collateral_record k' r (store_collateral_record k collateral_record_default s)) a =
    surplus s a - base_shares a k (collateral_balance old) + base_shares a k (collateral_balance r)"
proof -
  let ?s = "store_collateral_record k collateral_record_default s"
  have "opt_val (\<lambda>r. base_shares a k' (collateral_balance r)) (get_collateral_record ?s k') = 0"
  proof (cases "k' = k")
    case True
    then show ?thesis
      using store_collateral_record_get [of k collateral_record_default s]
      by (auto simp: base_shares_def collateral_record_default_def)
  next
    case False
    then have "get_collateral_record ?s k' = get_collateral_record s k'"
      using store_collateral_record_get [of k collateral_record_default s] by auto
    then show ?thesis
      using lone_positionD [OF assms(1) _ k' False]
      by (cases "get_collateral_record s k'") (simp_all add: base_shares_def)
  qed
  moreover have "base_shares a k' x = base_shares a k x" for x
    using k'(2) by (simp add: base_shares_def same_market_def)
  ultimately show ?thesis
    using assms(2) by (simp add: surplus_collateral) (simp add: base_shares_def collateral_record_default_def)
qed

lemma asset_div_asset_market:
  assumes "asset_div_asset F x y = Inr p" "asset_id y < asset_id x"
  shows "quote_asset_id p = asset_id x" "base_asset_id p = asset_id y"
  using assms by (auto simp: asset_div_asset_def run_simps)

lemma asset_minus_run: "asset_minus x y = Inr z \<Longrightarrow> amount z = amount x - amount y"
  by (auto simp: asset_minus_def simp del: not_less split: if_split_asm)

lemma split_payment_run:
  assumes "split_payment owed paid x r t = Inr (p, i, rest)"
  shows "amount p + amount i = amount x"
proof -
  obtain y where "asset_minus x y = Inr i \<and> p = y \<or> asset_minus x i = Inr p"
    using assms unfolding split_payment_def Let_def
    by (auto simp: run_simps split del: if_split split: if_split_asm)
  then show ?thesis by (auto dest!: asset_minus_run)
qed

lemma cover_with_interest_balanced:
  assumes "cover_with_interest F owed paid op e = Inr e'"
    and lone: "lone_position (current_state e) (cover_index op)"
    and market: "\<And>p. new_cover_price op = Some p \<Longrightarrow> same_market p (order_price (cover_index op))"
  shows "balanced G e e'"
proof (rule balanced_if)
  assume ok: "eval_ok G e"
  let ?k = "cover_index op" and ?p = "order_price (cover_index op)"
  obtain e1 r asset_rec principle interest rest where
    sub: "sub_balance address_default (cover_get_amount op) e = Inr e1"
    and r: "get_collateral_record (current_state e1) ?k = Some r"
    and asset: "get_asset_record (current_state e1) (quote_asset_id ?p) = Some asset_rec"
    and split: "split_payment owed paid (cover_get_amount op) r
      (cover_elapsed_sec F r (now (current_state e1))) = Inr (principle, interest, rest)"
    and e': "(let r = r\<lparr> payoff_balance := rest \<rparr>;
          e = upd_state (store_asset_record
                (asset_rec\<lparr> current_share_supply := current_share_supply asset_rec - amount principle,
                   collected_fees := collected_fees asset_rec + amount interest \<rparr>)) e1;
          e = upd_state (store_collateral_record ?k collateral_record_default) e;
          base = base_asset_id ?p
      in if 0 <s payoff_balance r then
           bindE (asset_div_asset F (mk_asset (payoff_balance r) (asset_id (cover_get_amount op)))
                    (mk_asset (sdiv64 (collateral_balance r * 2) 3) base)) (\<lambda>new_call_price.
             Inr (upd_state (store_cover (new_cover_price op) new_call_price (mk_owner ?k) r) e))
         else add_balance (mk_asset (collateral_balance r) base) e) = Inr e'"
    by (rule cover_with_interest_run [OF assms(1)]) (rule that)
  note e1 = sub_balance_run [OF sub eval_okD(3) [OF ok]]
  let ?a' = "asset_rec\<lparr> current_share_supply := current_share_supply asset_rec - amount principle,
    collected_fees := collected_fees asset_rec + amount interest \<rparr>"
  define s1 where "s1 = store_asset_record ?a' (current_state e)"
  have s1: "ledger_wf G s1" "get_head_block_num s1 = get_head_block_num (current_state e)"
    "get_collateral_record s1 ?k = Some r" "lone_position s1 ?k"
    "surplus s1 a = surplus (current_state e) a + (if a = quote_asset_id ?p then amount (cover_get_amount op) else 0)" for a
    using asset_update [OF ok asset [unfolded e1], of ?a'] r lone split_payment_run [OF split, symmetric]
    by (simp_all add: s1_def e1 net_fees_def)
  show "eval_ok G e' \<and> (\<forall>a. total e' a = total e a)"
  proof (cases "0 <s rest")
    case True
    then obtain q where q: "asset_div_asset F (mk_asset rest (asset_id (cover_get_amount op)))
          (mk_asset (sdiv64 (collateral_balance r * 2) 3) (base_asset_id ?p)) = Inr q"
      and e': "current_state e' = store_cover (new_cover_price op) q (mk_owner ?k) (r\<lparr> payoff_balance := rest \<rparr>)
          (store_collateral_record ?k collateral_record_default s1)" "es_balance e' = es_balance e1"
      using e' by (auto simp: Let_def s1_def e1)
    have "same_market q ?p"
      using asset_div_asset_market [OF q] lone by (simp add: same_market_def cover_get_amount_def lone_position_def)
    then have "surplus (current_state e') a = surplus s1 a" for a
      using surplus_move_collateral [OF s1(4,3)] market
      by (simp add: e' store_cover_def split: option.split)
    then show ?thesis
      using ok s1 e1 by (simp add: e' eval_ok_def total_def store_cover_def get_fees_cong [OF e'(2)] cover_get_amount_def)
  next
    case False
    then have "add_balance (mk_asset (collateral_balance r) (base_asset_id ?p))
        (upd_state (\<lambda>s. store_collateral_record ?k collateral_record_default (store_asset_record ?a' s)) e1) = Inr e'"
      using e' by (simp add: Let_def upd_state_def)
    note e2 = add_balance_run [OF this]
    show ?thesis
      using ok s1 e1 e2
      by (simp add: s1_def [symmetric] eval_ok_def total_def surplus_collateral cover_get_amount_def)
         (simp add: base_shares_def collateral_record_default_def)
  qed
qed

lemma cover_balanced:
  assumes "cover_evaluate F op e = Inr e'"
    and "lone_position (current_state e) (cover_index op)"
    and "\<And>p. new_cover_price op = Some p \<Longrightarrow> same_market p (order_price (cover_index op))"
  shows "balanced G e e'"
proof (rule balanced_if)
  assume ok: "eval_ok G e"
  obtain owed paid where "cover_with_interest F owed paid op e = Inr e'"
    by (rule cover_run [OF assms(1) eval_okD(4) [OF ok]])
  then show "eval_ok G e' \<and> (\<forall>a. total e' a = total e a)"
    using cover_with_interest_balanced [OF _ assms(2,3), of F owed paid e' G] ok by (simp add: balanced_def)
qed

lemma add_collateral_balanced:
  assumes "add_collateral_evaluate F op e = Inr e'"
    and lone: "lone_position (current_state e) (ac_cover_index op)"
  shows "balanced G e e'"
proof (rule balanced_if)
  assume ok: "eval_ok G e"
  let ?k = "ac_cover_index op" and ?p = "order_price (ac_cover_index op)"
  obtain e1 r r' q where sub: "sub_balance address_default (ac_get_amount op) e = Inr e1"
    and r: "get_collateral_record (current_state e1) ?k = Some r"
    and r': "r' = r\<lparr> collateral_balance := collateral_balance r + ac_amount op \<rparr>"
    and q: "asset_div_asset F (mk_asset (payoff_balance r') (quote_asset_id ?p))
          (mk_asset (sdiv64 (collateral_balance r' * 2) 3) (base_asset_id ?p)) = Inr q"
    and e': "e' = upd_state (store_collateral_record \<lparr> order_price = q, mk_owner = mk_owner ?k \<rparr> r')
        (upd_state (store_collateral_record ?k collateral_record_default) e1)"
    by (rule add_collateral_run [OF assms(1) eval_okD(4) [OF ok]]) (rule that)
  note e1 = sub_balance_run [OF sub eval_okD(3) [OF ok]]
  have "same_market q ?p"
    using asset_div_asset_market [OF q] lone by (simp add: same_market_def lone_position_def)
  then have "surplus (current_state e') a = surplus (current_state e) a + base_shares a ?k (ac_amount op)" for a
    using surplus_move_collateral [OF lone r [unfolded e1], of "\<lparr> order_price = q, mk_owner = mk_owner ?k \<rparr>"]
    by (simp add: e' e1 r' base_shares_def)
  then show "eval_ok G e' \<and> (\<forall>a. total e' a = total e a)"
    using ok e1 by (simp add: e' eval_ok_def total_def ac_get_amount_def base_shares_def)
qed

section \<open>Operations\<close>

text \<open>The side condition of the two operations that move a position; the others have none.\<close>

fun position_ok :: "chain \<Rightarrow> operation_body \<Rightarrow> bool" where
  "position_ok s (op_cover op) =
    (lone_position s (cover_index op) \<and>
     (case new_cover_price op of None \<Rightarrow> True | Some p \<Rightarrow> same_market p (order_price (cover_index op))))"
| "position_ok s (op_add_collateral op) = lone_position s (ac_cover_index op)"
| "position_ok s b = True"

lemma evaluate_body_balanced:
  assumes "variant_laws F" "evaluate_body F b e = Inr e'" "position_ok (current_state e) b"
  shows "balanced F e e'"
proof (cases b)
  case (op_short_v1 op)
  show ?thesis
    by (rule balanced_if) (use assms(2) op_short_v1 fork_21(3) [OF eval_okD(4), of F e] in \<open>simp add: short1_evaluate_def Let_def\<close>)
next
  case (op_cover op)
  then show ?thesis
    using assms(2,3) cover_balanced [of F op e e' F] by (simp split: option.split_asm)
qed (use assms in \<open>simp_all add: withdraw_balanced deposit_balanced register_account_balanced
  update_account_balanced withdraw_pay_balanced create_asset_balanced issue_asset_balanced
  bid_balanced ask_balanced short_balanced add_collateral_balanced define_delegate_slate_balanced
  update_feed_balanced burn_balanced update_block_signing_key_balanced update_asset_evaluate_def
  update_asset_ext_evaluate_def authorize_evaluate_def create_asset_proposal_evaluate_def
  release_escrow_evaluate_def update_balance_vote_evaluate_def relative_bid_evaluate_def
  relative_ask_evaluate_def set_object_evaluate_def set_edge_evaluate_def\<close>)

text \<open>The side condition along the evaluation of a list of operations.\<close>

fun positions_ok :: "'z fc_eval_scheme \<Rightarrow> operation list \<Rightarrow> transaction_evaluation_state \<Rightarrow> bool" where
  "positions_ok F [] e = True"
| "positions_ok F (op # ops) e =
    ((case operation_as F (op_type op) op of Inl x \<Rightarrow> True | Inr b \<Rightarrow> position_ok (current_state e) b) \<and>
     (case evaluate_operation F op e of
        Inl x \<Rightarrow> True | Inr e' \<Rightarrow> positions_ok F ops (e'\<lparr> current_op_index := current_op_index e' + 1 \<rparr>)))"

lemma total_op_index [simp]: "total (e\<lparr> current_op_index := i \<rparr>) a = total e a"
  "eval_ok F (e\<lparr> current_op_index := i \<rparr>) = eval_ok F e"
  by (simp_all add: total_def get_fees_def eval_ok_def)

lemma evaluate_operations_balanced:
  assumes "variant_laws F" "evaluate_operations F ops e = Inr e'" "positions_ok F ops e"
  shows "balanced F e e'"
  using assms(2,3) unfolding evaluate_operations_def
proof (induction ops arbitrary: e)
  case (Cons op ops)
  obtain b e1 where b: "operation_as F (op_type op) op = Inr b" "evaluate_body F b e = Inr e1"
    and op: "evaluate_operation F op e = Inr e1"
    and rest: "foldE (\<lambda>op e. bindE (evaluate_operation F op e) (\<lambda>e.
      Inr (e\<lparr> current_op_index := current_op_index e + 1 \<rparr>))) ops (e1\<lparr> current_op_index := current_op_index e1 + 1 \<rparr>) = Inr e'"
    using Cons.prems(1) by (auto simp: evaluate_operation_def run_simps)
  have "balanced F e e1"
    using evaluate_body_balanced [OF assms(1) b(2)] Cons.prems(2) b(1) by simp
  moreover have "balanced F (e1\<lparr> current_op_index := current_op_index e1 + 1 \<rparr>) e'"
    using Cons.IH [OF rest] Cons.prems(2) op by simp
  ultimately show ?case by (simp add: balanced_def)
qed simp

section \<open>Transactions\<close>

text \<open>The transaction fee of a market issued asset that the transaction withdraws is taken out of
  the transaction and credited to nobody.\<close>

definition transaction_fee_due :: "chain \<Rightarrow> asset_id_type \<Rightarrow> share_type" where
  "transaction_fee_due s i =
    (case get_asset_record s i of
       None \<Rightarrow> 0
     | Some r \<Rightarrow> if 0 < i \<and> is_market_issued r \<and> 0 <s transaction_fee r then transaction_fee r else 0)"

definition uncredited_fees :: "transaction_evaluation_state \<Rightarrow> asset_id_type \<Rightarrow> share_type" where
  "uncredited_fees e a =
    sum_list (map (\<lambda>(i, x). if i = a then transaction_fee_due (current_state e) i else 0) (withdraws e))"

lemma sub_balance_withdraws: "sub_balance bid x e = Inr e' \<Longrightarrow> withdraws e' = withdraws e"
  by (auto simp: sub_balance_def)

lemma charge_transaction_fees_run:
  assumes "charge_transaction_fees e = Inr e'" "eval_ok F e"
  shows "eval_ok F e'" "current_state e' = current_state e" "withdraws e' = withdraws e"
    "get_fees e' a = get_fees e a - uncredited_fees e a"
proof -
  have "eval_ok F e' \<and> current_state e' = current_state e \<and> withdraws e' = withdraws e \<and>
      get_fees e' a = get_fees e a - sum_list (map (\<lambda>(i, x). if i = a then transaction_fee_due s i else 0) m)"
    if "foldE (\<lambda>(i, a) e. case get_asset_record (current_state e) i of
        None \<Rightarrow> Inl unknown_asset_id
      | Some r \<Rightarrow> if asr_id r > 0 \<and> is_market_issued r \<and> 0 <s transaction_fee r
          then sub_balance address_default (mk_asset (transaction_fee r) (asr_id r)) e
          else Inr e) m e = Inr e'" "eval_ok F e" "current_state e = s" for m e s
    using that
  proof (induction m arbitrary: e)
    case (Cons ix m)
    obtain i x where ix: "ix = (i, x)" by (cases ix)
    obtain r where r: "get_asset_record (current_state e) i = Some r"
      using Cons.prems(1) ix by (cases "get_asset_record (current_state e) i") simp_all
    have id: "asr_id r = i" by (rule wf_gets(1) [OF eval_okD(2) [OF Cons.prems(2)] r])
    show ?case
    proof (cases "asr_id r > 0 \<and> is_market_issued r \<and> 0 <s transaction_fee r")
      case True
      then obtain e1 where e1: "sub_balance address_default (mk_asset (transaction_fee r) (asr_id r)) e = Inr e1"
        and rest: "foldE (\<lambda>(i, a) e. case get_asset_record (current_state e) i of
            None \<Rightarrow> Inl unknown_asset_id
          | Some r \<Rightarrow> if asr_id r > 0 \<and> is_market_issued r \<and> 0 <s transaction_fee r
              then sub_balance address_default (mk_asset (transaction_fee r) (asr_id r)) e
              else Inr e) m e1 = Inr e'"
        using Cons.prems(1) ix r by auto
      note sub = sub_balance_run [OF e1 eval_okD(3) [OF Cons.prems(2)]]
      have "eval_ok F e1" "current_state e1 = s" using Cons.prems(2,3) sub by (simp_all add: eval_ok_def)
      from Cons.IH [OF rest this] show ?thesis
        using Cons.prems(3) sub(1) sub(3) [of a] sub_balance_withdraws [OF e1] True r id ix
        by (auto simp: transaction_fee_due_def)
    next
      case False
      then show ?thesis
        using Cons.IH [of e] Cons.prems r id ix by (auto simp: transaction_fee_due_def)
    qed
  qed simp
  from this [OF assms(1) [unfolded charge_transaction_fees_def] assms(2) refl]
  show "eval_ok F e'" "current_state e' = current_state e" "withdraws e' = withdraws e"
    "get_fees e' a = get_fees e a - uncredited_fees e a"
    by (simp_all add: uncredited_fees_def)
qed

lemma convert_fee_run:
  assumes "foldE (convert_fee F) m e = Inr e'"
  shows "current_state e' = current_state e \<and> es_balance e' = es_balance e \<and> withdraws e' = withdraws e"
  by (rule foldE_invariant [OF assms])
     (auto simp: convert_fee_def run_simps split: if_split_asm option.split_asm)

definition same_fee_terms :: "transaction_evaluation_state \<Rightarrow> transaction_evaluation_state \<Rightarrow> bool" where
  "same_fee_terms e e' = (withdraws e' = withdraws e \<and>
    (\<forall>i. transaction_fee_due (current_state e') i = transaction_fee_due (current_state e) i))"

lemma same_fee_terms_order:
  "same_fee_terms e e" "same_fee_terms e e1 \<Longrightarrow> same_fee_terms e1 e' \<Longrightarrow> same_fee_terms e e'"
  by (simp_all add: same_fee_terms_def)

lemma same_fee_terms_fees: "same_fee_terms e e' \<Longrightarrow> uncredited_fees e' a = uncredited_fees e a"
  by (simp add: same_fee_terms_def uncredited_fees_def cong: if_cong)

lemma collect_fee_run:
  assumes "collect_fee (i, v) e = Inr e'" "eval_ok F e"
  shows "eval_ok F e'" "es_balance e' = es_balance e" "same_fee_terms e e'"
    "surplus (current_state e') a = surplus (current_state e) a + (if a = i then v else 0)"
proof -
  have "eval_ok F e' \<and> es_balance e' = es_balance e \<and> same_fee_terms e e' \<and>
      surplus (current_state e') a = surplus (current_state e) a + (if a = i then v else 0)"
  proof (cases v rule: sless_zero_cases)
    case 2
    then obtain r where r: "get_asset_record (current_state e) i = Some r"
      and e': "e' = upd_state (store_asset_record (r\<lparr> collected_fees := collected_fees r + v \<rparr>)) e"
      using assms(1) by (simp add: collect_fee_def run_simps) blast
    define r' where "r' = r\<lparr> collected_fees := collected_fees r + v \<rparr>"
    have id: "asr_id r' = i" using wf_gets(1) [OF eval_okD(2) [OF assms(2)] r] by (simp add: r'_def)
    have "\<not> asset_is_null r'"
      using ledger_wfD(3) [OF eval_okD(1) [OF assms(2)]] r by (auto simp: assets_ok_def asset_is_null_def r'_def)
    then have "get_asset_record (current_state e') = (get_asset_record (current_state e))(i \<mapsto> r')"
      using store_asset_record_get [of r' "current_state e"] id by (auto simp: e' r'_def)
    then have "same_fee_terms e e'"
      using r by (simp add: same_fee_terms_def transaction_fee_due_def is_market_issued_def upd_state_def e' r'_def)
    then show ?thesis
      using assms(2) asset_update [OF assms(2) r, of r']
      by (simp add: e' r'_def [symmetric] eval_ok_def) (simp add: r'_def net_fees_def)
  qed (use assms in \<open>simp_all add: collect_fee_def same_fee_terms_order\<close>)
  then show "eval_ok F e'" "es_balance e' = es_balance e" "same_fee_terms e e'"
    "surplus (current_state e') a = surplus (current_state e) a + (if a = i then v else 0)"
    by blast+
qed

lemma collect_fees_run:
  assumes "foldE collect_fee m e = Inr e'" "eval_ok F e" "distinct (map fst m)"
  shows "eval_ok F e' \<and> es_balance e' = es_balance e \<and> same_fee_terms e e' \<and>
    surplus (current_state e') a = surplus (current_state e) a + opt_val (\<lambda>v. v) (map_of m a)"
  using assms
proof (induction m arbitrary: e)
  case (Cons fee m)
  obtain i v where fee: "fee = (i, v)" by (cases fee)
  obtain e1 where e1: "collect_fee (i, v) e = Inr e1" and rest: "foldE collect_fee m e1 = Inr e'"
    using Cons.prems(1) fee by auto
  note step = collect_fee_run [OF e1 Cons.prems(2)]
  have "map_of m i = None"
    using Cons.prems(3) fee by (simp add: map_of_eq_None_iff)
  then show ?case
    using Cons.IH [OF rest step(1)] Cons.prems(3) step(2) same_fee_terms_order(2) [OF step(3)] step(4) [of a] fee by simp
qed (simp add: same_fee_terms_order)

lemma post_evaluate_run:
  assumes "post_evaluate F e = Inr e'" "eval_ok F e"
  shows "eval_ok F e'" "surplus (current_state e') a = total e a - uncredited_fees e a" "same_fee_terms e e'"
proof -
  obtain e0 where e0: "charge_transaction_fees e = Inr e0"
    using assms by (auto simp: post_evaluate_def)
  note charged = charge_transaction_fees_run [OF e0 assms(2)]
  define e1 where "e1 = (if map_of (es_balance e0) 0 = None then e0\<lparr> es_balance := map_put 0 0 (es_balance e0) \<rparr> else e0)"
  obtain e2 where e2: "foldE (convert_fee F) (es_balance e1) e1 = Inr e2"
    and e': "foldE collect_fee (es_balance e2) e2 = Inr e'"
    using assms(1) e0 by (auto simp: post_evaluate_def Let_def e1_def)
  have ok1: "eval_ok F e1" "total e1 a = total e a - uncredited_fees e a" "same_fee_terms e e1"
    using charged(1-3) charged(4) [of a] by (auto simp: e1_def eval_ok_def total_def get_fees_def same_fee_terms_def)
  note e2_run = convert_fee_run [OF e2]
  have ok2: "eval_ok F e2" "total e2 a = total e1 a" "same_fee_terms e1 e2"
    using ok1 e2_run by (simp_all add: eval_ok_def total_def get_fees_def same_fee_terms_def)
  note run = collect_fees_run [OF e' ok2(1) ordered_map_distinct [OF eval_okD(3) [OF ok2(1)]], of a]
  show "eval_ok F e'" "surplus (current_state e') a = total e a - uncredited_fees e a"
    using run ok1 ok2 by (auto simp: total_def get_fees_def opt_val_def split: option.split_asm)
  show "same_fee_terms e e'"
    using run ok1(3) ok2(3) by (blast intro: same_fee_terms_order(2))
qed

lemma update_delegate_votes_balanced:
  assumes "update_delegate_votes F e = Inr e'" "eval_ok G e"
  shows "eval_ok G e' \<and> (\<forall>a. total e' a = total e a) \<and> es_balance e' = es_balance e \<and> same_fee_terms e e'"
  unfolding update_delegate_votes_def
proof (rule foldE_invariant [OF assms(1) [unfolded update_delegate_votes_def],
      where P = "\<lambda>e'. eval_ok G e' \<and> (\<forall>a. total e' a = total e a) \<and> es_balance e' = es_balance e \<and> same_fee_terms e e'"])
  fix kv e1 e2
  assume step: "(case kv of (i, votes) \<Rightarrow> \<lambda>e. case get_account_record (current_state e) i of
      None \<Rightarrow> Inl assert_exception
    | Some del_rec \<Rightarrow> bindE (adjust_votes_for del_rec votes) (\<lambda>del_rec.
        upd_stateE (store_account_record F del_rec) e)) e1 = Inr e2"
    and e1: "eval_ok G e1 \<and> (\<forall>a. total e1 a = total e a) \<and> es_balance e1 = es_balance e \<and> same_fee_terms e e1"
  obtain i r v r' s' where r: "get_account_record (current_state e1) i = Some r"
    and r': "adjust_votes_for r v = Inr r'"
    and store: "store_account_record F r' (current_state e1) = Inr s'" and e2: "e2 = e1\<lparr> current_state := s' \<rparr>"
    using step by (cases kv) (auto simp: run_simps upd_stateE_def)
  have "same_fee_terms e1 e2"
    using store_account_record_frame [OF store] by (simp add: e2 same_fee_terms_def transaction_fee_due_def)
  then show "eval_ok G e2 \<and> (\<forall>a. total e2 a = total e a) \<and> es_balance e2 = es_balance e \<and> same_fee_terms e e2"
    using account_step [OF _ r store set_key_same_holder(3) [OF r'], of G e2] e1
      same_fee_terms_order(2) [of e e1 e2] by (simp add: e2)
qed (use assms(2) in \<open>simp add: same_fee_terms_order\<close>)

lemma begin_evaluate_run:
  assumes "begin_evaluate F stx skip canonical e = Inr e'"
  shows "current_state e' = current_state e" "es_balance e' = es_balance e"
  using assms by (auto simp: begin_evaluate_def Let_def)

definition transaction_positions_ok ::
  "'z fc_eval_scheme \<Rightarrow> signed_transaction \<Rightarrow> bool \<Rightarrow> bool \<Rightarrow> transaction_evaluation_state \<Rightarrow> bool" where
  "transaction_positions_ok F stx skip canonical e =
    (case begin_evaluate F stx skip canonical e of
       Inl x \<Rightarrow> True | Inr e0 \<Rightarrow> positions_ok F (operations stx) e0)"

lemma evaluate_run:
  assumes "variant_laws F" "evaluate F stx skip canonical e = Inr e'" "eval_ok F e"
    and "transaction_positions_ok F stx skip canonical e"
  shows "eval_ok F e'" "surplus (current_state e') a = total e a - uncredited_fees e' a"
proof -
  obtain e0 e1 e2 where e0: "begin_evaluate F stx skip canonical e = Inr e0"
    and e1: "evaluate_operations F (operations stx) e0 = Inr e1"
    and e2: "post_evaluate F e1 = Inr e2" and e': "update_delegate_votes F e2 = Inr e'"
    using assms(2) by (auto simp: evaluate_def)
  have ok0: "eval_ok F e0" "total e0 a = total e a"
    using begin_evaluate_run [OF e0] assms(3) by (simp_all add: eval_ok_def total_def get_fees_def)
  have "balanced F e0 e1"
    using evaluate_operations_balanced [OF assms(1) e1] assms(4) e0 by (simp add: transaction_positions_ok_def)
  then have ok1: "eval_ok F e1" "total e1 a = total e a"
    using ok0 by (simp_all add: balanced_def)
  note ok2 = post_evaluate_run [OF e2 ok1(1)]
  note ok3 = update_delegate_votes_balanced [OF e' ok2(1)]
  have "get_fees e' a = get_fees e2 a" "total e' a = total e2 a"
    using ok3 by (simp_all add: get_fees_def)
  then have "surplus (current_state e') a = surplus (current_state e2) a"
    by (simp add: total_def)
  moreover have "uncredited_fees e' a = uncredited_fees e1 a"
    using same_fee_terms_fees [OF ok2(3)] same_fee_terms_fees [of e2 e' a] ok3 by simp
  ultimately show "eval_ok F e'" "surplus (current_state e') a = total e a - uncredited_fees e' a"
    using ok1(2) ok2(2) [of a] ok3 by simp_all
qed

lemma ledger_wf_DB:
  assumes "db_wf F d" "last_account_id F (DB d) = Inr n" "0 \<le> n"
    and "list_all (\<lambda>(i, r). 0 < i \<and> i \<le> n \<and>
      (account_is_null r \<longrightarrow> opt_val pay_balance (delegate_info r) = 0)) (account_db d)"
    and "list_all (\<lambda>(i, r). \<not> asset_is_null r) (asset_db d)"
  shows "ledger_wf F (DB d)"
  using assms
  by (auto simp: ledger_wf_def accounts_ok_def assets_ok_def gets_DB list_all_iff dest!: map_of_SomeD)


definition ex_withdraw :: withdraw_operation where
  "ex_withdraw = \<lparr> wo_balance_id = balance_id fc_ref_cond ex_balance, wo_amount = 7, claim_input_data = [] \<rparr>"

definition ex_deposit :: deposit_operation where
  "ex_deposit = \<lparr> do_amount = 5,
     do_condition = signature_condition fc_ref_cond \<lparr> ws_owner = ''bob'', ws_memo = None \<rparr> 0 0 \<rparr>"

abbreviation ex_eval_fc :: fc_eval where
  "ex_eval_fc \<equiv> fc_ref_eval [op_withdraw ex_withdraw, op_deposit ex_deposit]"

definition ex_ledger :: chain_database where
  "ex_ledger = db_empty\<lparr> head_block_num := 820200, head_block_timestamp := 1700000000,
     asset_db := [(0, ex_asset 0 ''BTS'' 7)], symbol_index_db := [(''BTS'', 0)],
     balance_db := [(balance_id fc_ref_cond ex_balance, ex_balance)],
     property_db := [(last_account_id_property, variant_int 0)] \<rparr>"

definition ex_transfer :: signed_transaction where
  "ex_transfer = \<lparr> trx_expiration = 1700000100, delegate_slate_id = None,
     operations = [operation_of ex_eval_fc (op_withdraw ex_withdraw), operation_of ex_eval_fc (op_deposit ex_deposit)],
     signatures = [''alice''] \<rparr>"


end
