(* ===== verification/Authority.thy ===== *)
theory Authority
  imports Ledger
begin

text \<open>
  Who may change what. The theorems of this theory quantify over all operations of the
  factory: an operation that a conclusion does not name cannot have the effect. They cover
  balances (a balance changes only by a deposit to it, or by a withdrawal its owner signed or
  the issuer of a retractable asset authorized) and accounts. The theory also shows how
  signatures are collected and counted, and which expirations are accepted.
\<close>

section \<open>Balances\<close>

lemma disabled_defs:
  "update_asset_evaluate op1 e = Inl assert_exception"
  "update_asset_ext_evaluate op2 e = Inl assert_exception"
  "authorize_evaluate op3 e = Inl assert_exception"
  "create_asset_proposal_evaluate op4 e = Inl assert_exception"
  "release_escrow_evaluate op5 e = Inl assert_exception"
  "update_balance_vote_evaluate op6 e = Inl assert_exception"
  "relative_bid_evaluate op7 e = Inl assert_exception"
  "relative_ask_evaluate op8 e = Inl assert_exception"
  "set_object_evaluate op9 e = Inl assert_exception"
  "set_edge_evaluate op10 e = Inl assert_exception"
  by (simp_all add: update_asset_evaluate_def update_asset_ext_evaluate_def authorize_evaluate_def
      create_asset_proposal_evaluate_def release_escrow_evaluate_def update_balance_vote_evaluate_def
      relative_bid_evaluate_def relative_ask_evaluate_def set_object_evaluate_def set_edge_evaluate_def)

lemma short1_disabled: "current_rules (current_state e) \<Longrightarrow> short1_evaluate F op e = Inl assert_exception"
  using fork_21(3) [of "get_head_block_num (current_state e)"] by (simp add: short1_evaluate_def Let_def)

abbreviation keeps_balances :: "transaction_evaluation_state \<Rightarrow> transaction_evaluation_state \<Rightarrow> bool" where
  "keeps_balances e e' \<equiv> get_balance_record (current_state e') = get_balance_record (current_state e)"

lemma set_market_dirty_balances:
  "set_market_dirty q b s = Inr s' \<Longrightarrow> get_balance_record s' = get_balance_record s"
  by (cases s) (auto simp: db_defs gets_Pending)

lemma new_account_id_frame:
  assumes "new_account_id F s = Inr (i, s')"
  shows "get_balance_record s' = get_balance_record s" "get_asset_record s' = get_asset_record s"
  using assms by (auto simp: new_account_id_def Let_def)

lemma account_ops_keep_balances:
  "register_account_evaluate F op1 e = Inr e' \<Longrightarrow> keeps_balances e e'"
  "update_account_evaluate F op2 e = Inr e' \<Longrightarrow> keeps_balances e e'"
  "withdraw_pay_evaluate F op3 e = Inr e' \<Longrightarrow> keeps_balances e e'"
  "update_block_signing_key_evaluate F op4 e = Inr e' \<Longrightarrow> keeps_balances e e'"
  "update_feed_evaluate F op5 e = Inr e' \<Longrightarrow> keeps_balances e e'"
proof -
  assume "register_account_evaluate F op1 e = Inr e'"
  then show "keeps_balances e e'"
    by (rule register_account_run)
       (auto dest!: store_account_record_frame(2) new_account_id_frame(1) become_delegate_run(4) split: if_split_asm)
next
  assume "update_account_evaluate F op2 e = Inr e'"
  then show "keeps_balances e e'"
    by (rule update_account_run)
       (auto dest!: store_account_record_frame(2) become_delegate_run(4) simp: Let_def
         split: if_split_asm option.split_asm)
next
  assume "withdraw_pay_evaluate F op3 e = Inr e'"
  then show "keeps_balances e e'"
    by (rule withdraw_pay_run) (auto dest!: store_account_record_frame(2) add_balance_state simp: add_votes_def)
next
  assume "update_block_signing_key_evaluate F op4 e = Inr e'"
  then show "keeps_balances e e'"
    by (rule update_block_signing_key_run) (auto dest!: store_account_record_frame(2))
next
  assume "update_feed_evaluate F op5 e = Inr e'"
  then show "keeps_balances e e'"
    by (rule update_feed_run) (auto dest!: set_market_dirty_balances)
qed

lemma asset_ops_keep_balances:
  "create_asset_evaluate F op1 e = Inr e' \<Longrightarrow> keeps_balances e e'"
  "issue_asset_evaluate op2 e = Inr e' \<Longrightarrow> keeps_balances e e'"
  "burn_evaluate G op3 e = Inr e' \<Longrightarrow> keeps_balances e e'"
  "define_delegate_slate_evaluate G op4 e = Inr e' \<Longrightarrow> keeps_balances e e'"
proof -
  assume "create_asset_evaluate F op1 e = Inr e'"
  then show "keeps_balances e e'" by (rule create_asset_run) simp
next
  assume "issue_asset_evaluate op2 e = Inr e'"
  then show "keeps_balances e e'" by (rule issue_asset_run) (simp add: add_balance_state)
next
  assume "burn_evaluate G op3 e = Inr e'"
  then show "keeps_balances e e'" by (rule burn_run) (simp add: sub_balance_state)
next
  assume "define_delegate_slate_evaluate G op4 e = Inr e'"
  then show "keeps_balances e e'" by (rule define_delegate_slate_run) simp_all
qed

lemma market_ops_keep_balances:
  assumes "current_rules (current_state e)"
  shows "bid_evaluate op1 e = Inr e' \<Longrightarrow> keeps_balances e e'"
    "ask_evaluate op2 e = Inr e' \<Longrightarrow> keeps_balances e e'"
    "short_evaluate F op3 e = Inr e' \<Longrightarrow> keeps_balances e e'"
    "cover_evaluate F op4 e = Inr e' \<Longrightarrow> keeps_balances e e'"
    "add_collateral_evaluate F op5 e = Inr e' \<Longrightarrow> keeps_balances e e'"
proof -
  assume "bid_evaluate op1 e = Inr e'"
  then show "keeps_balances e e'" by (rule bid_run) (simp add: order_funds_state)
next
  assume "ask_evaluate op2 e = Inr e'"
  then show "keeps_balances e e'" by (rule ask_run [OF _ assms]) (simp add: order_funds_state)
next
  assume "short_evaluate F op3 e = Inr e'"
  then show "keeps_balances e e'" by (rule short_run [OF _ assms]) (simp add: order_funds_state)
next
  assume "add_collateral_evaluate F op5 e = Inr e'"
  then show "keeps_balances e e'" by (rule add_collateral_run [OF _ assms]) (simp add: sub_balance_state)
next
  assume "cover_evaluate F op4 e = Inr e'"
  then obtain owed paid where "cover_with_interest F owed paid op4 e = Inr e'"
    by (rule cover_run [OF _ assms])
  then show "keeps_balances e e'"
    by (rule cover_with_interest_run)
       (auto simp: Let_def store_cover_def dest!: add_balance_state sub_balance_state split: if_split_asm)
qed

text \<open>The only operations that touch a balance record.\<close>

lemma keeps_other_balances:
  assumes "evaluate_body F b e = Inr e'" "current_rules (current_state e)"
    and "\<And>op. b \<noteq> op_deposit op" "\<And>op. b \<noteq> op_withdraw op"
  shows "keeps_balances e e'"
proof (cases b)
  case (op_withdraw op)
  then show ?thesis using assms(4) by blast
next
  case (op_deposit op)
  then show ?thesis using assms(3) by blast
qed (use assms(1,2) in \<open>simp_all add: disabled_defs short1_disabled account_ops_keep_balances
  asset_ops_keep_balances market_ops_keep_balances\<close>)

lemma withdraw_keeps_others:
  assumes "withdraw_evaluate F op e = Inr e'" "chain_wf F (current_state e)" "current_rules (current_state e)"
    and "i \<noteq> wo_balance_id op"
  shows "get_balance_record (current_state e') i = get_balance_record (current_state e) i"
proof -
  obtain r asset_rec e1 r2 e2 e3 t where r: "get_balance_record (current_state e) (wo_balance_id op) = Some r"
    and e1: "vote_if_base r (- wo_amount op) e = Inr e1"
    and e2: "withdraw_yield F asset_rec r e1 = Inr (r2, e2)"
    and e3: "add_balance (mk_asset (wo_amount op) (wc_asset_id (condition r2))) e2 = Inr e3"
    and e': "e' = upd_state (store_balance_record F
      (r2\<lparr> balance := balance r2 - wo_amount op, br_last_update := t \<rparr>)) e3"
    by (rule withdraw_run [OF assms(1,3)]) (rule that)
  have "balance_id F r2 = wo_balance_id op"
    using wf_gets(2) [OF assms(2) r] withdraw_yield_balances(2) [OF e2] by (simp add: balance_id_def)
  moreover have "get_balance_record (current_state e3) = get_balance_record (current_state e)"
    using add_balance_state [OF e3] withdraw_yield_balances(1) [OF e2] vote_if_base_run(1) [OF e1] by simp
  ultimately show ?thesis
    using assms(4) store_balance_record_get [of F "r2\<lparr> balance := balance r2 - wo_amount op, br_last_update := t \<rparr>"]
    by (auto simp: e' balance_id_def)
qed

text \<open>What entitles to a withdrawal: the signature of the owner of the balance, or the
  authority of the issuer of a retractable asset.\<close>

definition withdraw_authorised ::
  "'z fc_cond_scheme \<Rightarrow> transaction_evaluation_state \<Rightarrow> balance_record \<Rightarrow> bool" where
  "withdraw_authorised F e r =
    (case get_asset_record (current_state e) (wc_asset_id (condition r)) of
       None \<Rightarrow> False
     | Some a \<Rightarrow>
         is_retractable a \<and> verify_authority e (authority a) \<or>
         \<not> is_balance_frozen a \<and> wc_type (condition r) = withdraw_signature_type \<and>
         (case as_signature F (condition r) of Inl x \<Rightarrow> False | Inr c \<Rightarrow> check_signature e (ws_owner c)))"

lemma check_withdraw_condition_iff:
  "check_withdraw_condition F e a r = Inr () \<longleftrightarrow>
    \<not> is_balance_frozen a \<and> check_authorized F (current_state e) a r = Inr () \<and>
    wc_type (condition r) = withdraw_signature_type \<and>
    (\<exists>c. as_signature F (condition r) = Inr c \<and> check_signature e (ws_owner c))"
  by (auto simp: check_withdraw_condition_def run_simps split: withdraw_condition_types.splits)

lemma deposit_adds:
  assumes "deposit_evaluate F op e = Inr e'" "chain_wf F (current_state e)" "current_rules (current_state e)"
    and "get_balance_record (current_state e) i = Some r" "get_balance_record (current_state e') i \<noteq> Some r"
  obtains r' where "deposit_balance_id F op = i" "0 <s do_amount op"
    "get_balance_record (current_state e') i = Some r'"
    "condition r' = condition r" "balance r' = balance r + do_amount op"
proof -
  obtain q date t e1 e2 where q: "q = (case get_balance_record (current_state e) (deposit_balance_id F op) of
      Some r \<Rightarrow> r | None \<Rightarrow> balance_record_of_condition (do_condition op))"
    and pos: "\<not> do_amount op \<le>s 0"
    and e1: "sub_balance (deposit_balance_id F op) (mk_asset (do_amount op) (wc_asset_id (condition q))) e = Inr e1"
    and vote: "vote_if_base (q\<lparr> deposit_date := date, balance := balance q + do_amount op \<rparr>) (do_amount op) e1 = Inr e2"
    and e': "e' = upd_state (store_balance_record F
      (q\<lparr> deposit_date := date, balance := balance q + do_amount op, br_last_update := t \<rparr>)) e2"
    by (rule deposit_run [OF assms(1,3)]) (rule that)
  let ?q = "q\<lparr> deposit_date := date, balance := balance q + do_amount op, br_last_update := t \<rparr>"
  have id: "balance_id F ?q = deposit_balance_id F op"
    using wf_gets(2) [OF assms(2), of "deposit_balance_id F op"]
    by (cases "get_balance_record (current_state e) (deposit_balance_id F op)")
       (simp_all add: q balance_id_def deposit_balance_id_def balance_record_of_condition_def)
  have after: "get_balance_record (current_state e') =
      (get_balance_record (current_state e))(deposit_balance_id F op \<mapsto> ?q)"
    using store_balance_record_get [of F ?q] id sub_balance_state [OF e1] vote_if_base_run(1) [OF vote] by (simp add: e')
  have i: "deposit_balance_id F op = i"
    using after assms(4,5) by (auto split: if_split_asm)
  show thesis
    by (rule that [of ?q]) (use i pos after assms(4) in \<open>simp_all add: q word_sless_alt word_sle_eq\<close>)
qed

text \<open>C2. A balance record is only changed by a deposit to that balance, which adds its
  positive amount and keeps the condition of the balance, or by a withdrawal from that
  balance that its owner signed or that the issuer of a retractable asset authorized. This
  holds for every operation of the factory, under the current rules (blocks from 820200 on).\<close>

theorem balance_change_authorised:
  assumes "evaluate_body F b e = Inr e'" "chain_wf F (current_state e)" "current_rules (current_state e)"
    and "get_balance_record (current_state e) i = Some r" "get_balance_record (current_state e') i \<noteq> Some r"
  shows "(\<exists>op r'. b = op_deposit op \<and> deposit_balance_id F op = i \<and> 0 <s do_amount op \<and>
      get_balance_record (current_state e') i = Some r' \<and>
      condition r' = condition r \<and> balance r' = balance r + do_amount op) \<or>
    (\<exists>op. b = op_withdraw op \<and> wo_balance_id op = i \<and> withdraw_authorised F e r)"
proof (cases b)
  case (op_withdraw op)
  then have run: "withdraw_evaluate F op e = Inr e'" using assms(1) by simp
  have i: "wo_balance_id op = i"
    using withdraw_keeps_others [OF run assms(2,3), of i] assms(4,5) by auto
  have "withdraw_authorised F e r"
    by (rule withdraw_run [OF run assms(3)])
       (use assms(4) i in \<open>auto simp: withdraw_authorised_def check_withdraw_condition_iff\<close>)
  then show ?thesis using op_withdraw i by blast
next
  case (op_deposit op)
  then have run: "deposit_evaluate F op e = Inr e'" using assms(1) by simp
  show ?thesis
    by (rule deposit_adds [OF run assms(2-5)]) (use op_deposit in blast)
qed (use assms keeps_other_balances [OF assms(1,3)] in auto)

abbreviation ex_signed :: "address list \<Rightarrow> transaction_evaluation_state" where
  "ex_signed keys \<equiv> (mk_eval_state (DB ex_ledger) [])\<lparr> signed_keys := keys \<rparr>"

theorem balance_change_authorised_witness:
  "withdraw_authorised ex_eval_fc (ex_signed [''alice'']) ex_balance"
proof -
  have wf: "chain_wf ex_eval_fc (current_state (ex_signed [''alice'']))" by code_simp
  have rules: "current_rules (current_state (ex_signed [''alice'']))" by code_simp
  have run: "\<not> isl (evaluate_body ex_eval_fc (op_withdraw ex_withdraw) (ex_signed [''alice'']))" by code_simp
  then obtain e' where e': "evaluate_body ex_eval_fc (op_withdraw ex_withdraw) (ex_signed [''alice'']) = Inr e'"
    by (cases "evaluate_body ex_eval_fc (op_withdraw ex_withdraw) (ex_signed [''alice''])") auto
  let ?i = "balance_id fc_ref_cond ex_balance"
  have old: "get_balance_record (current_state (ex_signed [''alice''])) ?i = Some ex_balance" by code_simp
  have changed: "(case evaluate_body ex_eval_fc (op_withdraw ex_withdraw) (ex_signed [''alice'']) of
      Inl x \<Rightarrow> False | Inr e' \<Rightarrow> get_balance_record (current_state e') ?i \<noteq> Some ex_balance)"
    by code_simp
  have new: "get_balance_record (current_state e') ?i \<noteq> Some ex_balance"
    using changed [unfolded e'] by simp
  show ?thesis
    using balance_change_authorised [OF e' wf rules old new] by simp
qed

section \<open>Signatures\<close>

lemma set_fold_insert: "set (fold List.insert xs ys) = set xs \<union> set ys"
  by (induction xs arbitrary: ys) auto

text \<open>C19. After the signatures of a transaction were read, an address counts as signed exactly
  if it is one of the five addresses of a key recovered from one of the signatures.\<close>

theorem signed_keys_iff:
  assumes "begin_evaluate F stx False canonical (mk_eval_state s cid) = Inr e"
  shows "a \<in> set (signed_keys e) \<longleftrightarrow>
    (\<exists>sig key. sig \<in> set (signatures stx) \<and>
      recover_public_key F sig (transaction_digest F stx cid) canonical = Inr key \<and> a \<in> set (key_addresses F key))"
proof -
  have fold: "a \<in> set keys' \<longleftrightarrow> a \<in> set keys \<or> (\<exists>sig key. sig \<in> set sigs \<and> rk sig = Inr key \<and> a \<in> set (adr key))"
    if "foldE (\<lambda>sig keys. bindE (rk sig) (\<lambda>key. Inr (fold List.insert (adr key) keys))) sigs keys = Inr keys'"
    for sigs keys keys' and rk :: "bytes \<Rightarrow> bytes res" and adr :: "bytes \<Rightarrow> address list"
    using that
  proof (induction sigs arbitrary: keys)
    case (Cons sig sigs)
    obtain key where key: "rk sig = Inr key" and rest:
      "foldE (\<lambda>sig keys. bindE (rk sig) (\<lambda>key. Inr (fold List.insert (adr key) keys))) sigs
        (fold List.insert (adr key) keys) = Inr keys'"
      using Cons.prems by auto
    show ?case
      using Cons.IH [OF rest] key by (auto simp: set_fold_insert)
  qed simp
  obtain keys where keys: "collect_signatures F canonical stx cid [] = Inr keys" and e: "signed_keys e = keys"
    using assms by (auto simp: begin_evaluate_def Let_def mk_eval_state_def)
  show ?thesis
    using fold [OF keys [unfolded collect_signatures_def]] by (simp add: e)
qed

theorem signed_keys_iff_witness:
  "\<exists>e. begin_evaluate ex_eval_fc ex_transfer False True (mk_eval_state (DB ex_ledger) []) = Inr e \<and>
    ''alice'' \<in> set (signed_keys e)"
proof -
  have "\<not> isl (begin_evaluate ex_eval_fc ex_transfer False True (mk_eval_state (DB ex_ledger) []))" by code_simp
  then obtain e where e: "begin_evaluate ex_eval_fc ex_transfer False True (mk_eval_state (DB ex_ledger) []) = Inr e"
    by (cases "begin_evaluate ex_eval_fc ex_transfer False True (mk_eval_state (DB ex_ledger) [])") auto
  have "''alice'' \<in> set (signatures ex_transfer)"
    "recover_public_key ex_eval_fc ''alice'' (transaction_digest ex_eval_fc ex_transfer []) True = Inr ''alice''"
    "''alice'' \<in> set (key_addresses ex_eval_fc ''alice'')"
    by code_simp+
  then show ?thesis
    using e signed_keys_iff [OF e, of "''alice''"] by blast
qed

text \<open>C18. The authority of an asset is met exactly if at least the required number of its
  owners have signed; the 32-bit counter does not wrap for lists of owners below 2^32.\<close>

theorem verify_authority_iff:
  assumes "length (mm_owners m) < 2 ^ 32"
  shows "verify_authority e m \<longleftrightarrow> unat (required m) \<le> length (filter (check_signature e) (mm_owners m))"
proof -
  have "fold (\<lambda>x n. n + (if check_signature e x then 1 else 0)) xs n =
      n + of_nat (length (filter (check_signature e) xs))" for xs and n :: uint32
    by (induction xs arbitrary: n) simp_all
  moreover have "length (filter (check_signature e) (mm_owners m)) < 2 ^ 32"
    by (rule le_less_trans [OF length_filter_le assms])
  ultimately show ?thesis
    by (simp add: verify_authority_def word_le_nat_alt unat_of_nat)
qed

theorem verify_authority_iff_witness:
  "verify_authority (ex_signed [''a'', ''c'']) \<lparr> required = 2, mm_owners = [''a'', ''b'', ''c''] \<rparr> \<longleftrightarrow>
    unat (2 :: uint32) \<le> length (filter (check_signature (ex_signed [''a'', ''c''])) [''a'', ''b'', ''c''])"
  using verify_authority_iff [of "\<lparr> required = 2, mm_owners = [''a'', ''b'', ''c''] \<rparr>"] by simp

text \<open>The names above a name, nearest first.\<close>

function ancestors :: "string \<Rightarrow> string list" where
  "ancestors n = (case get_parent_account_name n of None \<Rightarrow> [] | Some p \<Rightarrow> p # ancestors p)"
  by pat_completeness auto

termination ancestors
  by (relation "measure length") (auto dest: parent_labels(2))

declare ancestors.simps [simp del]

definition has_signed :: "'z fc_base_scheme \<Rightarrow> transaction_evaluation_state \<Rightarrow> string \<Rightarrow> bool" where
  "has_signed F e n =
    (case get_account_record_by_name (current_state e) n of
       None \<Rightarrow> False
     | Some r \<Rightarrow> \<not> is_retracted r \<and> (check_key F e (active_key r) \<or> check_key F e (owner_key r)))"

text \<open>C17. The loop over the parents of an account ends for every name, and it finds a
  signature exactly if the active or owner key of some registered ancestor that is not
  retracted has signed.\<close>

theorem any_parent_has_signed_iff:
  "any_parent_has_signed F e n \<longleftrightarrow> list_ex (has_signed F e) (ancestors n)"
proof (induction F e n rule: any_parent_has_signed.induct)
  case (1 F e n)
  show ?case
  proof (cases "get_parent_account_name n")
    case None
    then show ?thesis by (simp add: any_parent_has_signed.simps [of F e n] ancestors.simps [of n])
  next
    case (Some p)
    then show ?thesis
      using "1.IH" [OF Some]
      by (cases "get_account_record_by_name (current_state e) p")
         (auto simp: any_parent_has_signed.simps [of F e n] ancestors.simps [of n] has_signed_def)
  qed
qed

section \<open>Expiration\<close>

text \<open>C20. Under the current rules a transaction passes the check of its expiration exactly if
  it expires after the head block and at most two days later.\<close>

theorem check_expiration_iff:
  assumes "time_laws F" "current_rules s" "uint (now s) + 172800 < 2 ^ 32"
  shows "check_expiration F stx s = Inr () \<longleftrightarrow>
    uint (now s) < uint (trx_expiration stx) \<and> uint (trx_expiration stx) \<le> uint (now s) + 172800"
proof -
  have "uint (tps_add F (now s) BTS_BLOCKCHAIN_MAX_TRANSACTION_EXPIRATION_SEC) = uint (now s) + 172800"
    using assms(1,3) by (simp add: time_laws_def BTS_BLOCKCHAIN_MAX_TRANSACTION_EXPIRATION_SEC_def uint_word_ariths)
  then show ?thesis
    using assms(2) by (auto simp: check_expiration_def word_less_alt word_le_def)
qed

theorem check_expiration_iff_witness:
  "check_expiration ex_eval_fc ex_transfer (DB ex_ledger) = Inr ()"
proof -
  have laws: "time_laws ex_eval_fc"
    using fc_ref_base_laws(4)
    by (simp add: time_laws_def fc_ref_eval_def fc_ref_ops_def fc_ref_cond_def fc_ops.defs fc_cond.defs fc_base.defs)
  have rules: "current_rules (DB ex_ledger)" and t: "uint (now (DB ex_ledger)) + 172800 < 2 ^ 32"
    "uint (now (DB ex_ledger)) < uint (trx_expiration ex_transfer)"
    "uint (trx_expiration ex_transfer) \<le> uint (now (DB ex_ledger)) + 172800"
    by code_simp+
  show ?thesis
    using check_expiration_iff [OF laws rules t(1), of ex_transfer] t by simp
qed

section \<open>Accounts\<close>

abbreviation keeps_accounts :: "transaction_evaluation_state \<Rightarrow> transaction_evaluation_state \<Rightarrow> bool" where
  "keeps_accounts e e' \<equiv> get_account_record (current_state e') = get_account_record (current_state e)"

lemma withdraw_yield_accounts:
  "withdraw_yield F asset_rec r e = Inr (r', e') \<Longrightarrow> keeps_accounts e e'"
  by (auto elim!: withdraw_yield_cases pay_yield_cases)

lemma ops_keep_accounts:
  assumes "current_rules (current_state e)"
  shows "deposit_evaluate F op1 e = Inr e' \<Longrightarrow> keeps_accounts e e'"
    "withdraw_evaluate F op2 e = Inr e' \<Longrightarrow> keeps_accounts e e'"
    "burn_evaluate F op3 e = Inr e' \<Longrightarrow> keeps_accounts e e'"
    "define_delegate_slate_evaluate F op4 e = Inr e' \<Longrightarrow> keeps_accounts e e'"
    "create_asset_evaluate F op5 e = Inr e' \<Longrightarrow> keeps_accounts e e'"
    "issue_asset_evaluate op6 e = Inr e' \<Longrightarrow> keeps_accounts e e'"
    "bid_evaluate op7 e = Inr e' \<Longrightarrow> keeps_accounts e e'"
    "ask_evaluate op8 e = Inr e' \<Longrightarrow> keeps_accounts e e'"
    "short_evaluate F op9 e = Inr e' \<Longrightarrow> keeps_accounts e e'"
    "cover_evaluate F op10 e = Inr e' \<Longrightarrow> keeps_accounts e e'"
    "add_collateral_evaluate F op11 e = Inr e' \<Longrightarrow> keeps_accounts e e'"
    "update_feed_evaluate F op12 e = Inr e' \<Longrightarrow> keeps_accounts e e'"
proof -
  note states = add_balance_state sub_balance_state order_funds_state vote_if_base_run(1)
  {
    assume "deposit_evaluate F op1 e = Inr e'"
    then show "keeps_accounts e e'" by (rule deposit_run [OF _ assms]) (simp add: states)
  next
    assume "withdraw_evaluate F op2 e = Inr e'"
    then show "keeps_accounts e e'"
      by (rule withdraw_run [OF _ assms]) (auto dest!: states withdraw_yield_accounts)
  next
    assume "burn_evaluate F op3 e = Inr e'"
    then show "keeps_accounts e e'" by (rule burn_run) (simp add: states)
  next
    assume "define_delegate_slate_evaluate F op4 e = Inr e'"
    then show "keeps_accounts e e'" by (rule define_delegate_slate_run) simp_all
  next
    assume "create_asset_evaluate F op5 e = Inr e'"
    then show "keeps_accounts e e'" by (rule create_asset_run) simp
  next
    assume "issue_asset_evaluate op6 e = Inr e'"
    then show "keeps_accounts e e'" by (rule issue_asset_run) (simp add: states)
  next
    assume "bid_evaluate op7 e = Inr e'"
    then show "keeps_accounts e e'" by (rule bid_run) (simp add: states)
  next
    assume "ask_evaluate op8 e = Inr e'"
    then show "keeps_accounts e e'" by (rule ask_run [OF _ assms]) (simp add: states)
  next
    assume "short_evaluate F op9 e = Inr e'"
    then show "keeps_accounts e e'" by (rule short_run [OF _ assms]) (simp add: states)
  next
    assume "cover_evaluate F op10 e = Inr e'"
    then obtain owed paid where "cover_with_interest F owed paid op10 e = Inr e'"
      by (rule cover_run [OF _ assms])
    then show "keeps_accounts e e'"
      by (rule cover_with_interest_run)
         (auto simp: Let_def store_cover_def dest!: add_balance_state sub_balance_state split: if_split_asm)
  next
    assume "add_collateral_evaluate F op11 e = Inr e'"
    then show "keeps_accounts e e'" by (rule add_collateral_run [OF _ assms]) (simp add: states)
  next
    assume "update_feed_evaluate F op12 e = Inr e'"
    then show "keeps_accounts e e'" by (rule update_feed_run) (auto dest!: set_market_dirty_frame(1))
  }
qed

lemma account_after_store:
  assumes "store_account_record F r' s = Inr s'" "chain_wf G s"
  shows "i \<noteq> ar_id r' \<Longrightarrow> get_account_record s' i = get_account_record s i"
    "get_account_record s' (ar_id r') = Some r' \<or> account_is_null r' \<and> get_account_record s' (ar_id r') = None"
  using store_account_record_get [OF assms(1)] wf_gets(3) [OF assms(2)] by fastforce+

text \<open>What an operation leaves of an account it changes.\<close>

definition identity_kept :: "account_record \<Rightarrow> account_record option \<Rightarrow> bool" where
  "identity_kept r x = (case x of None \<Rightarrow> account_is_null r
     | Some r' \<Rightarrow> ar_id r' = ar_id r \<and> ar_name r' = ar_name r \<and> owner_key r' = owner_key r)"

lemma identity_kept_store:
  assumes "store_account_record F r' s = Inr s'" "chain_wf G s"
    and "ar_id r' = i" "ar_id r' = ar_id r" "ar_name r' = ar_name r" "owner_key r' = owner_key r"
  shows "identity_kept r (get_account_record s' i)"
  using account_after_store(2) [OF assms(1,2)] assms(3-6) by (auto simp: identity_kept_def account_is_null_def)

lemma set_keys_identity:
  "set_active_key r t k = Inr r' \<Longrightarrow> ar_id r' = ar_id r \<and> ar_name r' = ar_name r \<and> owner_key r' = owner_key r"
  "set_signing_key r b k = Inr r' \<Longrightarrow> ar_id r' = ar_id r \<and> ar_name r' = ar_name r \<and> owner_key r' = owner_key r"
  by (auto simp: set_active_key_def set_signing_key_def run_simps)

lemma update_account_identity:
  assumes "update_account_evaluate F op e = Inr e'" "chain_wf G (current_state e)"
    and r: "get_account_record (current_state e) (ua_account_id op) = Some r"
  shows "account_or_any_parent_has_signed F e r"
    "identity_kept r (get_account_record (current_state e') (ua_account_id op))"
    "i \<noteq> ua_account_id op \<Longrightarrow> get_account_record (current_state e') i = get_account_record (current_state e) i"
proof -
  obtain r1 r2 e1 s2 where live: "\<not> is_retracted r"
    and r1: "(case ua_active_key op of
        Some key \<Rightarrow> if key \<noteq> active_key r then change_active_key F e key r
          else if \<not> account_or_any_parent_has_signed F e r then Inl missing_signature else Inr r
      | None \<Rightarrow> if \<not> account_or_any_parent_has_signed F e r then Inl missing_signature else Inr r) = Inr r1"
    and r2: "(let r = (case ua_public_data op of Some d \<Rightarrow> r1\<lparr> public_data := d \<rparr> | None \<Rightarrow> r1)
      in if ua_is_delegate op then
           (case delegate_info r of
              Some di \<Rightarrow> if \<not> ua_delegate_pay_rate op \<le> pay_rate di then Inl assert_exception
                else Inr (r\<lparr> delegate_info := Some (di\<lparr> pay_rate := ua_delegate_pay_rate op \<rparr>) \<rparr>, e)
            | None \<Rightarrow> become_delegate F (ua_delegate_pay_rate op) (active_key r) r e)
         else Inr (r, e)) = Inr (r2, e1)"
    and store: "store_account_record F (r2\<lparr> ar_last_update := now (current_state e1) \<rparr>) (current_state e1) = Inr s2"
    and e': "e' = e1\<lparr> current_state := s2 \<rparr>"
    by (rule update_account_run [OF assms(1)]) (use r that in auto)
  have keys: "account_or_any_parent_has_signed F e r \<and>
      ar_id r1 = ar_id r \<and> ar_name r1 = ar_name r \<and> owner_key r1 = owner_key r"
    using r1 live
    by (auto simp: account_or_any_parent_has_signed_def elim!: change_active_key_run
        dest!: set_keys_identity split: option.split_asm if_split_asm)
  then show "account_or_any_parent_has_signed F e r" ..
  have r2': "ar_id r2 = ar_id r1 \<and> ar_name r2 = ar_name r1 \<and> owner_key r2 = owner_key r1 \<and>
      current_state e1 = current_state e"
    using r2
    by (auto simp: Let_def elim!: become_delegate_shape dest!: set_keys_identity split: option.split_asm if_split_asm)
  have id: "ar_id r = ua_account_id op" by (rule wf_gets(3) [OF assms(2) r])
  have store: "store_account_record F (r2\<lparr> ar_last_update := now (current_state e1) \<rparr>) (current_state e) = Inr s2"
    using store r2' by simp
  show "identity_kept r (get_account_record (current_state e') (ua_account_id op))"
    using identity_kept_store [OF store assms(2), of "ua_account_id op" r] keys r2' id by (simp add: e')
  show "get_account_record (current_state e') i = get_account_record (current_state e) i" if "i \<noteq> ua_account_id op"
    using account_after_store(1) [OF store assms(2), of i] that keys r2' id by (simp add: e')
qed

lemma register_account_keeps:
  assumes "register_account_evaluate F op e = Inr e'" "variant_laws F" "ledger_wf F (current_state e)"
    and r: "get_account_record (current_state e) i = Some r"
  shows "get_account_record (current_state e') i = Some r"
proof -
  obtain j s1 r1 r' e1 s2 where new: "new_account_id F (current_state e) = Inr (j, s1)"
    and r1: "set_active_key (account_record_default\<lparr> ar_id := j, ar_name := ra_name op,
        public_data := ra_public_data op, owner_key := ra_owner_key op \<rparr>) (now s1) (ra_active_key op) = Inr r1"
    and r': "(if ra_is_delegate op
       then become_delegate F (ra_delegate_pay_rate op) (ra_active_key op)
         (r1\<lparr> registration_date := now s1, ar_last_update := now s1, meta_data := ra_meta_data op \<rparr>)
         (e\<lparr> current_state := s1 \<rparr>)
       else Inr (r1\<lparr> registration_date := now s1, ar_last_update := now s1, meta_data := ra_meta_data op \<rparr>,
         e\<lparr> current_state := s1 \<rparr>)) = Inr (r', e1)"
    and store: "store_account_record F r' (current_state e1) = Inr s2" and e': "e' = e1\<lparr> current_state := s2 \<rparr>"
    by (rule register_account_run [OF assms(1)]) (rule that)
  have id: "ar_id r' = j" "current_state e1 = s1"
    using r' set_keys_identity(1) [OF r1] by (auto dest: become_delegate_run split: if_split_asm)
  note s1 = new_account_id_run [OF assms(2,3) new]
  have same: "get_account_record s1 i = Some r"
    using new r by (auto simp: new_account_id_def Let_def)
  then have "i \<noteq> j" using s1(4) by auto
  then show ?thesis
    using account_after_store(1) [OF store [unfolded id] ledger_wfD(1) [OF s1(1)], of i] same id by (simp add: e')
qed

lemma withdraw_pay_identity:
  assumes "withdraw_pay_evaluate F op e = Inr e'" "chain_wf G (current_state e)"
    and r: "get_account_record (current_state e) i = Some r" "get_account_record (current_state e') i \<noteq> Some r"
  shows "\<bar>wp_account_id op\<bar> = i" "account_or_any_parent_has_signed F e r"
    "identity_kept r (get_account_record (current_state e') i)"
proof -
  obtain q di e1 s2 where q: "get_account_record (current_state e) \<bar>wp_account_id op\<bar> = Some q"
    and signed: "account_or_any_parent_has_signed F e q"
    and e1: "add_balance (mk_asset (wp_amount op) 0) (add_votes \<bar>wp_account_id op\<bar> (- wp_amount op) e) = Inr e1"
    and store: "store_account_record F (q\<lparr> delegate_info :=
        Some (di\<lparr> pay_balance := pay_balance di - wp_amount op \<rparr>) \<rparr>) (current_state e1) = Inr s2"
    and e': "e' = e1\<lparr> current_state := s2 \<rparr>"
    by (rule withdraw_pay_run [OF assms(1)]) (rule that)
  have state: "current_state e1 = current_state e"
    using add_balance_state [OF e1] by (simp add: add_votes_def)
  note store = store [unfolded state]
  have id: "ar_id q = \<bar>wp_account_id op\<bar>" by (rule wf_gets(3) [OF assms(2) q])
  show i: "\<bar>wp_account_id op\<bar> = i"
    using account_after_store(1) [OF store assms(2), of i] r id by (auto simp: e')
  show "account_or_any_parent_has_signed F e r" "identity_kept r (get_account_record (current_state e') i)"
    using identity_kept_store [OF store assms(2), of i q] q r id i signed by (auto simp: e')
qed

lemma update_block_signing_key_identity:
  assumes "update_block_signing_key_evaluate F op e = Inr e'" "chain_wf G (current_state e)"
    and r: "get_account_record (current_state e) i = Some r" "get_account_record (current_state e') i \<noteq> Some r"
  shows "ubsk_account_id op = i"
    "account_or_any_parent_has_signed F e r \<or> (\<exists>a. signing_address F r = Inr a \<and> check_signature e a)"
    "identity_kept r (get_account_record (current_state e') i)"
proof -
  obtain q q1 t s1 where q: "get_account_record (current_state e) (ubsk_account_id op) = Some q"
    and signed: "(\<exists>a. signing_address F q = Inr a \<and> check_signature e a) \<or> account_or_any_parent_has_signed F e q"
    and q1: "set_signing_key q (get_head_block_num (current_state e)) (block_signing_key op) = Inr q1"
    and store: "store_account_record F (q1\<lparr> ar_last_update := t \<rparr>) (current_state e) = Inr s1"
    and e': "e' = e\<lparr> current_state := s1 \<rparr>"
    by (rule update_block_signing_key_run [OF assms(1)]) (rule that)
  have id: "ar_id q = ubsk_account_id op" by (rule wf_gets(3) [OF assms(2) q])
  note q1' = set_keys_identity(2) [OF q1]
  show i: "ubsk_account_id op = i"
    using account_after_store(1) [OF store assms(2), of i] r id q1' by (auto simp: e')
  show "account_or_any_parent_has_signed F e r \<or> (\<exists>a. signing_address F r = Inr a \<and> check_signature e a)"
    "identity_kept r (get_account_record (current_state e') i)"
    using identity_kept_store [OF store assms(2), of i q] q r id i signed q1' by (auto simp: e')
qed

lemma account_changers:
  assumes "variant_laws F" "evaluate_body F b e = Inr e'" "ledger_wf F (current_state e)"
    and "current_rules (current_state e)"
    and r: "get_account_record (current_state e) i = Some r" "get_account_record (current_state e') i \<noteq> Some r"
  shows "identity_kept r (get_account_record (current_state e') i) \<and>
    (account_or_any_parent_has_signed F e r \<and>
       ((\<exists>op. b = op_update_account op \<and> ua_account_id op = i) \<or>
        (\<exists>op. b = op_withdraw_pay op \<and> \<bar>wp_account_id op\<bar> = i)) \<or>
     (\<exists>op. b = op_update_block_signing_key op \<and> ubsk_account_id op = i \<and>
        (account_or_any_parent_has_signed F e r \<or> (\<exists>a. signing_address F r = Inr a \<and> check_signature e a))))"
proof (cases b)
  case (op_register_account op)
  then show ?thesis using register_account_keeps [of F op e e'] assms by simp
next
  case (op_update_account op)
  then have run: "update_account_evaluate F op e = Inr e'" using assms(2) by simp
  have id: "ua_account_id op = i"
  proof (rule ccontr)
    assume other: "ua_account_id op \<noteq> i"
    obtain q where q: "get_account_record (current_state e) (ua_account_id op) = Some q"
      by (rule update_account_run [OF run])
    show False
      using update_account_identity(3) [OF run ledger_wfD(1) [OF assms(3)] q, of i] other r by simp
  qed
  show ?thesis
    using update_account_identity(1,2) [OF run ledger_wfD(1) [OF assms(3)] r(1) [folded id]] id op_update_account by auto
next
  case (op_withdraw_pay op)
  then have run: "withdraw_pay_evaluate F op e = Inr e'" using assms(2) by simp
  show ?thesis
    using withdraw_pay_identity [OF run ledger_wfD(1) [OF assms(3)] r] op_withdraw_pay by blast
next
  case (op_update_block_signing_key op)
  then have run: "update_block_signing_key_evaluate F op e = Inr e'" using assms(2) by simp
  show ?thesis
    using update_block_signing_key_identity [OF run ledger_wfD(1) [OF assms(3)] r] op_update_block_signing_key by blast
qed (use assms(2) r in \<open>simp_all add: disabled_defs short1_disabled [OF assms(4)] ops_keep_accounts [OF assms(4)]\<close>)

text \<open>C5. An operation changes the record of a registered account only if the account, or one
  of its ancestors, has signed (for the block signing key, that key may sign instead), and
  only an update, a withdrawal of pay or a change of the signing key of that account can do
  so. Its number, name and owner key stay as registered.\<close>

theorem account_change_authorised:
  assumes "variant_laws F" "evaluate_body F b e = Inr e'" "ledger_wf F (current_state e)"
    and "current_rules (current_state e)"
    and r: "get_account_record (current_state e) i = Some r" "get_account_record (current_state e') i \<noteq> Some r"
  shows "identity_kept r (get_account_record (current_state e') i) \<and>
    (account_or_any_parent_has_signed F e r \<and>
       ((\<exists>op. b = op_update_account op \<and> ua_account_id op = i) \<or>
        (\<exists>op. b = op_withdraw_pay op \<and> \<bar>wp_account_id op\<bar> = i)) \<or>
     (\<exists>op. b = op_update_block_signing_key op \<and> ubsk_account_id op = i \<and>
        (account_or_any_parent_has_signed F e r \<or> (\<exists>a. signing_address F r = Inr a \<and> check_signature e a))))"
  by (rule account_changers [OF assms])

definition ex_account :: account_record where
  "ex_account = account_record_default\<lparr> ar_id := 1, ar_name := ''alice'', owner_key := ''o'',
     active_key_history := [(1, ''a'')] \<rparr>"

definition ex_accounts :: transaction_evaluation_state where
  "ex_accounts = (mk_eval_state (DB (ex_ledger\<lparr> account_db := [(1, ex_account)],
     account_index_db := [(''alice'', 1)], address_to_account_db := [(''o'', 1), (''a'', 1)],
     property_db := [(last_account_id_property, variant_int 1)] \<rparr>)) [])\<lparr> signed_keys := [''a''] \<rparr>"

definition ex_update :: update_account_operation where
  "ex_update = \<lparr> ua_account_id = 1, ua_public_data = Some (variant_int 5), ua_active_key = None,
     ua_delegate_pay_rate = 255 \<rparr>"

theorem account_change_authorised_witness:
  "account_or_any_parent_has_signed ex_eval_fc ex_accounts ex_account"
proof -
  have laws: "variant_laws ex_eval_fc"
    using fc_ref_base_laws(6)
    by (simp add: variant_laws_def fc_ref_eval_def fc_ref_ops_def fc_ref_cond_def fc_ops.defs fc_cond.defs fc_base.defs)
  have wf: "ledger_wf ex_eval_fc (current_state ex_accounts)"
    unfolding ex_accounts_def mk_eval_state_def transaction_evaluation_state.simps
    by (rule ledger_wf_DB [where n = 1]) code_simp+
  have rules: "current_rules (current_state ex_accounts)" by code_simp
  have run: "\<not> isl (evaluate_body ex_eval_fc (op_update_account ex_update) ex_accounts)" by code_simp
  then obtain e' where e': "evaluate_body ex_eval_fc (op_update_account ex_update) ex_accounts = Inr e'"
    by (cases "evaluate_body ex_eval_fc (op_update_account ex_update) ex_accounts") auto
  have old: "get_account_record (current_state ex_accounts) 1 = Some ex_account" by code_simp
  have changed: "(case evaluate_body ex_eval_fc (op_update_account ex_update) ex_accounts of
      Inl x \<Rightarrow> False | Inr e' \<Rightarrow> get_account_record (current_state e') 1 \<noteq> Some ex_account)"
    by code_simp
  have new: "get_account_record (current_state e') 1 \<noteq> Some ex_account"
    using changed [unfolded e'] by simp
  show ?thesis
    using account_change_authorised [OF laws e' wf rules old new] by auto
qed

end
