(* ===== verification/Supply.thy ===== *)
theory Supply
  imports Authority
begin

text \<open>
  The supply an asset record states and the registration of names. Only the issuer of a
  user-issued asset raises its supply, and never above its maximum, with one exception that
  the code allows: a burn of a negative amount. An account is registered under a valid and
  unused name with keys that are not in use, and the pay rate of a delegate never rises.
\<close>

section \<open>Supply\<close>

abbreviation keeps_assets :: "transaction_evaluation_state \<Rightarrow> transaction_evaluation_state \<Rightarrow> bool" where
  "keeps_assets e e' \<equiv> get_asset_record (current_state e') = get_asset_record (current_state e)"

lemma ops_keep_assets:
  assumes "current_rules (current_state e)"
  shows "deposit_evaluate F op1 e = Inr e' \<Longrightarrow> keeps_assets e e'"
    "register_account_evaluate F op2 e = Inr e' \<Longrightarrow> keeps_assets e e'"
    "update_account_evaluate F op3 e = Inr e' \<Longrightarrow> keeps_assets e e'"
    "define_delegate_slate_evaluate F op4 e = Inr e' \<Longrightarrow> keeps_assets e e'"
    "withdraw_pay_evaluate F op5 e = Inr e' \<Longrightarrow> keeps_assets e e'"
    "update_block_signing_key_evaluate F op6 e = Inr e' \<Longrightarrow> keeps_assets e e'"
    "bid_evaluate op7 e = Inr e' \<Longrightarrow> keeps_assets e e'"
    "ask_evaluate op8 e = Inr e' \<Longrightarrow> keeps_assets e e'"
    "short_evaluate F op9 e = Inr e' \<Longrightarrow> keeps_assets e e'"
    "add_collateral_evaluate F op11 e = Inr e' \<Longrightarrow> keeps_assets e e'"
    "update_feed_evaluate F op12 e = Inr e' \<Longrightarrow> keeps_assets e e'"
proof -
  note states = add_balance_state sub_balance_state order_funds_state vote_if_base_run(1)
  {
    assume "deposit_evaluate F op1 e = Inr e'"
    then show "keeps_assets e e'" by (rule deposit_run [OF _ assms]) (simp add: states)
  next
    assume "register_account_evaluate F op2 e = Inr e'"
    then show "keeps_assets e e'"
      by (rule register_account_run)
         (auto dest!: store_account_record_frame(1) new_account_id_frame(2) become_delegate_run(4) split: if_split_asm)
  next
    assume "update_account_evaluate F op3 e = Inr e'"
    then show "keeps_assets e e'"
      by (rule update_account_run)
         (auto dest!: store_account_record_frame(1) become_delegate_run(4) simp: Let_def
           split: if_split_asm option.split_asm)
  next
    assume "define_delegate_slate_evaluate F op4 e = Inr e'"
    then show "keeps_assets e e'" by (rule define_delegate_slate_run) simp_all
  next
    assume "withdraw_pay_evaluate F op5 e = Inr e'"
    then show "keeps_assets e e'"
      by (rule withdraw_pay_run) (auto dest!: store_account_record_frame(1) add_balance_state simp: add_votes_def)
  next
    assume "update_block_signing_key_evaluate F op6 e = Inr e'"
    then show "keeps_assets e e'"
      by (rule update_block_signing_key_run) (auto dest!: store_account_record_frame(1))
  next
    assume "bid_evaluate op7 e = Inr e'"
    then show "keeps_assets e e'" by (rule bid_run) (simp add: states)
  next
    assume "ask_evaluate op8 e = Inr e'"
    then show "keeps_assets e e'" by (rule ask_run [OF _ assms]) (simp add: states)
  next
    assume "short_evaluate F op9 e = Inr e'"
    then show "keeps_assets e e'" by (rule short_run [OF _ assms]) (simp add: states)
  next
    assume "add_collateral_evaluate F op11 e = Inr e'"
    then show "keeps_assets e e'" by (rule add_collateral_run [OF _ assms]) (simp add: states)
  next
    assume "update_feed_evaluate F op12 e = Inr e'"
    then show "keeps_assets e e'" by (rule update_feed_run) (auto dest!: set_market_dirty_frame(2))
  }
qed

lemma asset_after_store:
  assumes "get_asset_record (store_asset_record r' s) i = Some q"
  shows "i = asr_id r' \<and> q = r' \<or> get_asset_record s i = Some q"
  using assms store_asset_record_get [of r' s] by (auto split: if_split_asm)

lemma split_payment_nonneg:
  assumes "split_payment owed paid x r t = Inr (p, i, rest)"
  shows "\<not> amount p <s 0" "\<not> amount i <s 0" "\<not> rest <s 0"
  using assms by (auto simp: split_payment_def Let_def run_simps split del: if_split)

lemma sint_minus_le:
  fixes a b :: share_type
  assumes "0 \<le> sint a" "\<not> b <s 0"
  shows "sint (a - b) \<le> sint a"
proof -
  have "0 \<le> sint b" using assms(2) by (simp add: word_sless_alt)
  then have "sint (a - b) = sint a - sint b"
    using assms(1) sint64_range [of a] sint64_range [of b]
    by (intro sint64_diff) (simp_all add: INT64_MIN_def INT64_MAX_def)
  then show ?thesis using \<open>0 \<le> sint b\<close> by simp
qed

lemma cover_supply:
  assumes "cover_evaluate F op e = Inr e'" "current_rules (current_state e)" "chain_wf G (current_state e)"
    and r: "get_asset_record (current_state e) i = Some r" "get_asset_record (current_state e') i = Some r'"
    and "0 \<le> sint (current_share_supply r)"
  shows "sint (current_share_supply r') \<le> sint (current_share_supply r)"
proof -
  obtain owed paid where "cover_with_interest F owed paid op e = Inr e'"
    by (rule cover_run [OF assms(1,2)])
  then obtain e1 q asset_rec p n rest where e1: "sub_balance address_default (cover_get_amount op) e = Inr e1"
    and asset: "get_asset_record (current_state e1) (quote_asset_id (order_price (cover_index op))) = Some asset_rec"
    and split: "split_payment owed paid (cover_get_amount op) q
      (cover_elapsed_sec F q (now (current_state e1))) = Inr (p, n, rest)"
    and e': "get_asset_record (current_state e') = get_asset_record (store_asset_record
      (asset_rec\<lparr> current_share_supply := current_share_supply asset_rec - amount p,
         collected_fees := collected_fees asset_rec + amount n \<rparr>) (current_state e1))"
    by (rule cover_with_interest_run)
       (auto simp: Let_def store_cover_def dest!: add_balance_state intro: that split: if_split_asm)
  have id: "asr_id asset_rec = quote_asset_id (order_price (cover_index op))"
    using wf_gets(1) [OF assms(3)] asset sub_balance_state [OF e1] by simp
  show ?thesis
    using asset_after_store [OF r(2) [unfolded e']] asset r(1) id sub_balance_state [OF e1]
      sint_minus_le [OF assms(6) split_payment_nonneg(1) [OF split]]
    by auto
qed

lemma can_issue_bound:
  assumes "can_issue r x"
  shows "sint (current_share_supply r + amount x) \<le> sint (maximum_share_supply r)"
  using assms by (auto simp: can_issue_def can_issue_shares_def Let_def word_sle_eq split: if_split_asm)

lemma withdraw_supply:
  assumes "withdraw_evaluate F op e = Inr e'" "current_rules (current_state e)" "chain_wf G (current_state e)"
    and r: "get_asset_record (current_state e) i = Some r" "get_asset_record (current_state e') i = Some r'"
  shows "current_share_supply r' = current_share_supply r"
proof -
  obtain q asset_rec e1 q2 e2 e3 where asset: "get_asset_record (current_state e) (wc_asset_id (condition q)) = Some asset_rec"
    and e1: "vote_if_base q (- wo_amount op) e = Inr e1"
    and e2: "withdraw_yield F asset_rec q e1 = Inr (q2, e2)"
    and e3: "add_balance (mk_asset (wo_amount op) (wc_asset_id (condition q2))) e2 = Inr e3"
    and e': "get_asset_record (current_state e') = get_asset_record (current_state e3)"
    by (rule withdraw_run [OF assms(1,2)]) (auto intro: that)
  have id: "asr_id asset_rec = wc_asset_id (condition q)"
    by (rule wf_gets(1) [OF assms(3) asset])
  have "get_asset_record (current_state e2) i = Some r'"
    using r(2) e' add_balance_state [OF e3] by simp
  with e2 show ?thesis
    using r(1) asset id vote_if_base_run(1) [OF e1]
    by (auto elim!: withdraw_yield_cases pay_yield_cases dest!: asset_after_store)
qed

lemma issue_supply:
  assumes "issue_asset_evaluate op e = Inr e'" "chain_wf G (current_state e)"
    and r: "get_asset_record (current_state e) i = Some r" "get_asset_record (current_state e') i = Some r'"
    and "current_share_supply r \<noteq> current_share_supply r'"
  shows "asset_id (ia_amount op) = i" "verify_authority e (authority r)" "\<not> is_market_issued r"
    "sint (current_share_supply r') \<le> sint (maximum_share_supply r)"
proof -
  obtain q e1 t where q: "get_asset_record (current_state e) (asset_id (ia_amount op)) = Some q"
    "\<not> is_market_issued q" "verify_authority e (authority q)" "can_issue q (ia_amount op)"
    and e1: "add_balance (ia_amount op) e = Inr e1"
    and e': "e' = upd_state (store_asset_record (q\<lparr> current_share_supply :=
      current_share_supply q + amount (ia_amount op), asr_last_update := t \<rparr>)) e1"
    by (rule issue_asset_run [OF assms(1)])
  let ?q = "q\<lparr> current_share_supply := current_share_supply q + amount (ia_amount op), asr_last_update := t \<rparr>"
  have "asr_id q = asset_id (ia_amount op)" by (rule wf_gets(1) [OF assms(2) q(1)])
  then have "i = asset_id (ia_amount op)" "r' = ?q"
    using asset_after_store [of ?q "current_state e1" i r'] r assms(5) add_balance_state [OF e1] by (auto simp: e')
  then show "asset_id (ia_amount op) = i" "verify_authority e (authority r)" "\<not> is_market_issued r"
    "sint (current_share_supply r') \<le> sint (maximum_share_supply r)"
    using q r(1) can_issue_bound [OF q(4)] by auto
qed

lemma burn_supply:
  assumes "burn_evaluate F op e = Inr e'" "chain_wf G (current_state e)"
    and r: "get_asset_record (current_state e) i = Some r" "get_asset_record (current_state e') i = Some r'"
    and "0 \<le> sint (current_share_supply r)" "sint (current_share_supply r) < sint (current_share_supply r')"
  shows "asset_id (bo_amount op) = i" "amount (bo_amount op) <s 0" "i \<noteq> 0"
proof -
  obtain q e1 k v where q: "get_asset_record (current_state e) (asset_id (bo_amount op)) = Some q"
    and e1: "sub_balance address_default (bo_amount op) e = Inr e1"
    and e': "e' = upd_state (store_burn_record k v) (upd_state (store_asset_record
      (q\<lparr> current_share_supply := current_share_supply q - amount (bo_amount op) \<rparr>)) e1)"
    by (rule burn_run [OF assms(1)])
  let ?q = "q\<lparr> current_share_supply := current_share_supply q - amount (bo_amount op) \<rparr>"
  have "asr_id q = asset_id (bo_amount op)" by (rule wf_gets(1) [OF assms(2) q(1)])
  then have i: "i = asset_id (bo_amount op)" and r': "r' = ?q"
    using asset_after_store [of ?q "current_state e1" i r'] r assms(6) sub_balance_state [OF e1] by (auto simp: e')
  then show "asset_id (bo_amount op) = i" by simp
  show neg: "amount (bo_amount op) <s 0"
    using sint_minus_le [OF assms(5), of "amount (bo_amount op)"] assms(6) q r(1) i r' by auto
  show "i \<noteq> 0"
    using assms(1) neg i by (auto simp: burn_evaluate_def run_simps BTS_BLOCKCHAIN_MIN_BURN_FEE_def
        BTS_BLOCKCHAIN_PRECISION_def word_sless_alt)
qed

text \<open>C8. No operation raises the supply of an asset except an issue that meets the authority of
  the asset and keeps the supply within its maximum, and a burn of a negative amount of an
  asset other than the base asset, which the code does not reject.\<close>

theorem supply_increase_authorised:
  assumes "evaluate_body F b e = Inr e'" "chain_wf F (current_state e)" "current_rules (current_state e)"
    and r: "get_asset_record (current_state e) i = Some r" "get_asset_record (current_state e') i = Some r'"
    and "0 \<le> sint (current_share_supply r)" "sint (current_share_supply r) < sint (current_share_supply r')"
  shows "(\<exists>op. b = op_issue_asset op \<and> asset_id (ia_amount op) = i \<and> verify_authority e (authority r) \<and>
      \<not> is_market_issued r \<and> sint (current_share_supply r') \<le> sint (maximum_share_supply r)) \<or>
    (\<exists>op. b = op_burn op \<and> asset_id (bo_amount op) = i \<and> i \<noteq> 0 \<and> amount (bo_amount op) <s 0)"
proof (cases b)
  case (op_issue_asset op)
  then have run: "issue_asset_evaluate op e = Inr e'" using assms(1) by simp
  have "current_share_supply r \<noteq> current_share_supply r'" using assms(7) by auto
  from issue_supply [OF run assms(2) r this] op_issue_asset show ?thesis by simp
next
  case (op_burn op)
  then have run: "burn_evaluate F op e = Inr e'" using assms(1) by simp
  show ?thesis
    using burn_supply [OF run assms(2) r assms(6,7)] op_burn by auto
next
  case (op_cover op)
  then show ?thesis using assms cover_supply [of F op e e' F i r r'] by simp
next
  case (op_withdraw op)
  then show ?thesis using assms withdraw_supply [of F op e e' F i r r'] by simp
next
  case (op_create_asset op)
  then have "create_asset_evaluate F op e = Inr e'" using assms(1) by simp
  then show ?thesis
    by (rule create_asset_run)
       (use r assms(7) in \<open>auto dest!: asset_after_store simp: create_asset_record_def\<close>)
qed (use assms(1,7) r in \<open>simp_all add: disabled_defs short1_disabled [OF assms(3)] ops_keep_assets [OF assms(3)]\<close>)

definition ex_coin :: asset_record where
  "ex_coin = (ex_asset 1 ''COIN'' 10)\<lparr> authority := \<lparr> required = 1, mm_owners = [''issuer''] \<rparr> \<rparr>"

definition ex_issuing :: transaction_evaluation_state where
  "ex_issuing = (mk_eval_state (DB (ex_ledger\<lparr> asset_db := [(0, ex_asset 0 ''BTS'' 7), (1, ex_coin)] \<rparr>)) [])
     \<lparr> signed_keys := [''issuer''] \<rparr>"

theorem supply_increase_authorised_witness:
  "\<exists>e' r'. evaluate_body ex_eval_fc (op_issue_asset \<lparr> ia_amount = mk_asset 5 1 \<rparr>) ex_issuing = Inr e' \<and>
    get_asset_record (current_state e') 1 = Some r' \<and> sint (current_share_supply r') \<le> 1000"
proof -
  let ?b = "op_issue_asset \<lparr> ia_amount = mk_asset 5 1 \<rparr>"
  have wf: "chain_wf ex_eval_fc (current_state ex_issuing)" and rules: "current_rules (current_state ex_issuing)"
    and old: "get_asset_record (current_state ex_issuing) 1 = Some ex_coin"
    and nonneg: "0 \<le> sint (current_share_supply ex_coin)" and max: "sint (maximum_share_supply ex_coin) = 1000"
    by code_simp+
  have run: "(case evaluate_body ex_eval_fc ?b ex_issuing of
      Inl x \<Rightarrow> False | Inr e' \<Rightarrow> (case get_asset_record (current_state e') 1 of
        None \<Rightarrow> False | Some r' \<Rightarrow> sint (current_share_supply ex_coin) < sint (current_share_supply r')))"
    by code_simp
  obtain e' where e': "evaluate_body ex_eval_fc ?b ex_issuing = Inr e'"
    using run by (cases "evaluate_body ex_eval_fc ?b ex_issuing") (simp_all only: sum.case)
  obtain r' where new: "get_asset_record (current_state e') 1 = Some r'"
    and more: "sint (current_share_supply ex_coin) < sint (current_share_supply r')"
    using run [unfolded e'] by (cases "get_asset_record (current_state e') 1") simp_all
  show ?thesis
    using supply_increase_authorised [OF e' wf rules old new nonneg more] e' new max by auto
qed

section \<open>Registration\<close>

text \<open>C9. A registration that succeeds stores a new account: its name was valid and not taken,
  neither key was in use, a registered ancestor has signed if the name has a parent, and the
  account gets the next number, under which nothing was stored. All registered accounts stay
  as they were.\<close>

theorem register_account_fresh:
  assumes "variant_laws F" "ledger_wf F (current_state e)" "register_account_evaluate F op e = Inr e'"
    and "ra_owner_key op \<noteq> public_key_default"
  shows "is_valid_account_name (ra_name op) \<and>
    get_account_record_by_name (current_state e) (ra_name op) = None \<and>
    get_account_record_by_key F (current_state e) (ra_owner_key op) = None \<and>
    get_account_record_by_key F (current_state e) (ra_active_key op) = None \<and>
    (get_parent_account_name (ra_name op) = None \<or> any_parent_has_signed F e (ra_name op)) \<and>
    (\<exists>i r. last_account_id F (current_state e) = Inr (i - 1) \<and> last_account_id F (current_state e') = Inr i \<and>
      get_account_record (current_state e) i = None \<and>
      get_account_record (current_state e') = (get_account_record (current_state e))(i \<mapsto> r) \<and>
      ar_name r = ra_name op \<and> owner_key r = ra_owner_key op)"
proof -
  obtain i s1 r r' e1 s2 where guards: "is_valid_account_name (ra_name op)"
      "get_account_record_by_name (current_state e) (ra_name op) = None"
      "get_account_record_by_key F (current_state e) (ra_owner_key op) = None"
      "get_account_record_by_key F (current_state e) (ra_active_key op) = None"
      "get_parent_account_name (ra_name op) \<noteq> None \<longrightarrow> any_parent_has_signed F e (ra_name op)"
    and new: "new_account_id F (current_state e) = Inr (i, s1)"
    and r: "set_active_key (account_record_default\<lparr> ar_id := i, ar_name := ra_name op,
        public_data := ra_public_data op, owner_key := ra_owner_key op \<rparr>) (now s1) (ra_active_key op) = Inr r"
    and r': "(if ra_is_delegate op
       then become_delegate F (ra_delegate_pay_rate op) (ra_active_key op)
         (r\<lparr> registration_date := now s1, ar_last_update := now s1, meta_data := ra_meta_data op \<rparr>)
         (e\<lparr> current_state := s1 \<rparr>)
       else Inr (r\<lparr> registration_date := now s1, ar_last_update := now s1, meta_data := ra_meta_data op \<rparr>,
         e\<lparr> current_state := s1 \<rparr>)) = Inr (r', e1)"
    and store: "store_account_record F r' (current_state e1) = Inr s2"
    and e': "e' = e1\<lparr> current_state := s2 \<rparr>"
    by (rule register_account_run [OF assms(3)]) (rule that)
  note s1 = new_account_id_run [OF assms(1,2) new]
  have accounts1: "get_account_record s1 = get_account_record (current_state e)"
    using new by (auto simp: new_account_id_def Let_def)
  have id: "ar_id r' = i \<and> ar_name r' = ra_name op \<and> owner_key r' = ra_owner_key op \<and> current_state e1 = s1"
    using r' set_keys_identity(1) [OF r]
    by (auto elim!: become_delegate_shape dest!: set_keys_identity(2) split: if_split_asm)
  have "\<not> account_is_null r'" using id assms(4) by (simp add: account_is_null_def)
  moreover have "\<And>j w. get_account_record s1 j = Some w \<Longrightarrow> ar_id w = j"
    using wf_gets(3) [OF ledger_wfD(1) [OF s1(1)]] by blast
  ultimately have accounts: "get_account_record s2 = (get_account_record s1)(i \<mapsto> r')"
    using store_account_record_get [of F r' s1 s2] store id by auto
  have "last_account_id F s2 = Inr i"
    using s1(2) store_account_record_frame(14) [OF store] id by (simp add: last_account_id_def)
  then show ?thesis
    using guards new_id_last(2) [OF assms(1) new] s1(4) accounts accounts1 id by (auto simp: e')
qed

text \<open>A delegate that stays one, at a rate that is not higher.\<close>

definition rate_kept :: "delegate_stats \<Rightarrow> account_record \<Rightarrow> bool" where
  "rate_kept di r = (case delegate_info r of None \<Rightarrow> False | Some d \<Rightarrow> pay_rate d \<le> pay_rate di)"

lemma set_keys_rate:
  "set_active_key r t k = Inr r' \<Longrightarrow> delegate_info r' = delegate_info r"
  "set_signing_key r n k = Inr r' \<Longrightarrow> rate_kept di r' = rate_kept di r"
  by (auto simp: set_active_key_def set_signing_key_def rate_kept_def run_simps split: option.split_asm)

lemma change_active_key_rate:
  assumes "change_active_key F e key r = Inr r'"
  shows "rate_kept di r' = rate_kept di r" "ar_id r' = ar_id r" "owner_key r' = owner_key r"
proof -
  obtain r1 where r1: "set_active_key r (now (current_state e)) key = Inr r1"
    and r': "set_signing_key r1 (get_head_block_num (current_state e)) (active_key r1) = Inr r' \<or> r1 = r'"
    by (rule change_active_key_run [OF assms]) (rule that)
  have "rate_kept di r1 = rate_kept di r"
    using set_keys_rate(1) [OF r1] by (simp add: rate_kept_def)
  then show "rate_kept di r' = rate_kept di r" "ar_id r' = ar_id r" "owner_key r' = owner_key r"
    using r' set_keys_rate(2) set_keys_identity(2) set_keys_identity(1) [OF r1] by auto
qed

lemma rate_kept_update: "rate_kept di (r\<lparr> public_data := x \<rparr>) = rate_kept di r"
  "rate_kept di (r\<lparr> ar_last_update := t \<rparr>) = rate_kept di r"
  by (simp_all add: rate_kept_def)

lemma rate_after_store:
  assumes "store_account_record F q s = Inr s'" "chain_wf G s" "rate_kept di q" "\<not> account_is_null q"
  shows "\<exists>r'. get_account_record s' (ar_id q) = Some r' \<and> rate_kept di r'"
  using account_after_store(2) [OF assms(1,2)] assms(3,4) by auto

lemma update_account_rate:
  assumes "update_account_evaluate F op e = Inr e'" "chain_wf G (current_state e)"
    and r: "get_account_record (current_state e) (ua_account_id op) = Some r" "delegate_info r = Some di"
      "\<not> account_is_null r"
  shows "\<exists>r'. get_account_record (current_state e') (ua_account_id op) = Some r' \<and> rate_kept di r'"
proof -
  obtain r1 r2 e1 s2 where
    r1: "(case ua_active_key op of
        Some key \<Rightarrow> if key \<noteq> active_key r then change_active_key F e key r
          else if \<not> account_or_any_parent_has_signed F e r then Inl missing_signature else Inr r
      | None \<Rightarrow> if \<not> account_or_any_parent_has_signed F e r then Inl missing_signature else Inr r) = Inr r1"
    and stays: "is_delegate (case ua_public_data op of Some d \<Rightarrow> r1\<lparr> public_data := d \<rparr> | None \<Rightarrow> r1) \<longrightarrow> ua_is_delegate op"
    and r2: "(let r = (case ua_public_data op of Some d \<Rightarrow> r1\<lparr> public_data := d \<rparr> | None \<Rightarrow> r1)
      in if ua_is_delegate op then
           (case delegate_info r of
              Some di \<Rightarrow> if \<not> ua_delegate_pay_rate op \<le> pay_rate di then Inl assert_exception
                else Inr (r\<lparr> delegate_info := Some (di\<lparr> pay_rate := ua_delegate_pay_rate op \<rparr>) \<rparr>, e)
            | None \<Rightarrow> become_delegate F (ua_delegate_pay_rate op) (active_key r) r e)
         else Inr (r, e)) = Inr (r2, e1)"
    and store: "store_account_record F (r2\<lparr> ar_last_update := now (current_state e1) \<rparr>) (current_state e1) = Inr s2"
    and e': "e' = e1\<lparr> current_state := s2 \<rparr>"
    by (rule update_account_run [OF assms(1)]) (use r(1) that in auto)
  have "rate_kept di r" by (simp add: rate_kept_def r(2))
  then have r1': "rate_kept di r1 \<and> ar_id r1 = ar_id r \<and> owner_key r1 = owner_key r"
    using r1
    by (auto simp: change_active_key_rate split: option.split_asm if_split_asm)
  then obtain d where d: "delegate_info r1 = Some d" "pay_rate d \<le> pay_rate di"
    by (auto simp: rate_kept_def split: option.split_asm)
  have r2': "rate_kept di r2 \<and> ar_id r2 = ar_id r \<and> owner_key r2 = owner_key r \<and> current_state e1 = current_state e"
    using r2 stays r1' d
    by (auto simp: Let_def is_delegate_def rate_kept_def split: option.split_asm if_split_asm)
  have id: "ar_id r = ua_account_id op" by (rule wf_gets(3) [OF assms(2) r(1)])
  show ?thesis
    using rate_after_store [OF store, of G di] assms(2) r2' r(3) id
    by (simp add: e' rate_kept_update account_is_null_def)
qed

lemma withdraw_pay_rate:
  assumes "withdraw_pay_evaluate F op e = Inr e'" "chain_wf G (current_state e)"
    and r: "get_account_record (current_state e) \<bar>wp_account_id op\<bar> = Some r" "delegate_info r = Some di"
      "\<not> account_is_null r"
  shows "\<exists>r'. get_account_record (current_state e') \<bar>wp_account_id op\<bar> = Some r' \<and> rate_kept di r'"
proof -
  obtain e1 s2 where e1: "add_balance (mk_asset (wp_amount op) 0) (add_votes \<bar>wp_account_id op\<bar> (- wp_amount op) e) = Inr e1"
    and store: "store_account_record F (r\<lparr> delegate_info :=
        Some (di\<lparr> pay_balance := pay_balance di - wp_amount op \<rparr>) \<rparr>) (current_state e1) = Inr s2"
    and e': "e' = e1\<lparr> current_state := s2 \<rparr>"
    by (rule withdraw_pay_run [OF assms(1)]) (use r that in auto)
  have "current_state e1 = current_state e"
    using add_balance_state [OF e1] by (simp add: add_votes_def)
  then show ?thesis
    using rate_after_store [OF store, of G di] assms(2) r(3) wf_gets(3) [OF assms(2) r(1)]
    by (simp add: e' rate_kept_def account_is_null_def)
qed

lemma update_block_signing_key_rate:
  assumes "update_block_signing_key_evaluate F op e = Inr e'" "chain_wf G (current_state e)"
    and r: "get_account_record (current_state e) (ubsk_account_id op) = Some r" "delegate_info r = Some di"
      "\<not> account_is_null r"
  shows "\<exists>r'. get_account_record (current_state e') (ubsk_account_id op) = Some r' \<and> rate_kept di r'"
proof -
  obtain r1 t s1 where r1: "set_signing_key r (get_head_block_num (current_state e)) (block_signing_key op) = Inr r1"
    and store: "store_account_record F (r1\<lparr> ar_last_update := t \<rparr>) (current_state e) = Inr s1"
    and e': "e' = e\<lparr> current_state := s1 \<rparr>"
    by (rule update_block_signing_key_run [OF assms(1)]) (use r that in auto)
  have "rate_kept di r" by (simp add: rate_kept_def r(2))
  then show ?thesis
    using rate_after_store [OF store assms(2), of di] set_keys_rate(2) [OF r1, of di] set_keys_identity(2) [OF r1]
      r(3) wf_gets(3) [OF assms(2) r(1)]
    by (simp add: e' rate_kept_update account_is_null_def)
qed

text \<open>C16. No operation makes a delegate cease to be one or raises the pay rate of a delegate:
  whatever operation has run, the record stored under the number of a delegate is that of a
  delegate, and its pay rate is at most the one before.\<close>

theorem pay_rate_never_rises:
  assumes "variant_laws F" "evaluate_body F b e = Inr e'" "ledger_wf F (current_state e)"
    and "current_rules (current_state e)"
    and r: "get_account_record (current_state e) i = Some r" "delegate_info r = Some di" "\<not> account_is_null r"
  shows "\<exists>r' di'. get_account_record (current_state e') i = Some r' \<and> delegate_info r' = Some di' \<and>
    pay_rate di' \<le> pay_rate di"
proof -
  note wf = ledger_wfD(1) [OF assms(3)]
  have "\<exists>r'. get_account_record (current_state e') i = Some r' \<and> rate_kept di r'"
  proof (cases "get_account_record (current_state e') i = Some r")
    case True
    then show ?thesis by (simp add: rate_kept_def r(2))
  next
    case False
    consider op where "b = op_update_account op" "ua_account_id op = i"
      | op where "b = op_withdraw_pay op" "\<bar>wp_account_id op\<bar> = i"
      | op where "b = op_update_block_signing_key op" "ubsk_account_id op = i"
      using account_changers [OF assms(1-4) r(1) False] by blast
    then show ?thesis
      by cases (use assms(2) r update_account_rate [OF _ wf] withdraw_pay_rate [OF _ wf]
          update_block_signing_key_rate [OF _ wf] in auto)
  qed
  then show ?thesis by (auto simp: rate_kept_def split: option.split_asm)
qed

definition ex_register :: register_account_operation where
  "ex_register = \<lparr> ra_name = ''bob'', ra_public_data = variant_null, ra_owner_key = ''x'',
     ra_active_key = ''y'', ra_delegate_pay_rate = 255, ra_meta_data = None \<rparr>"

theorem register_account_fresh_witness:
  "\<exists>e'. register_account_evaluate ex_eval_fc ex_register ex_accounts = Inr e' \<and>
    last_account_id ex_eval_fc (current_state e') = Inr 2"
proof -
  have laws: "variant_laws ex_eval_fc"
    using fc_ref_base_laws(6)
    by (simp add: variant_laws_def fc_ref_eval_def fc_ref_ops_def fc_ref_cond_def fc_ops.defs fc_cond.defs fc_base.defs)
  have wf: "ledger_wf ex_eval_fc (current_state ex_accounts)"
    unfolding ex_accounts_def mk_eval_state_def transaction_evaluation_state.simps
    by (rule ledger_wf_DB [where n = 1]) code_simp+
  have name: "is_valid_account_name (ra_name ex_register) = True"
    by (simp add: ex_register_def valid_name_labels BTS_BLOCKCHAIN_MAX_NAME_SIZE_def label_ok_def islower_def is_dec_digit_def)
  have "\<not> isl (register_account_evaluate ex_eval_fc ex_register ex_accounts)"
    unfolding register_account_evaluate_def Let_def name by code_simp
  then obtain e' where e': "register_account_evaluate ex_eval_fc ex_register ex_accounts = Inr e'"
    by (cases "register_account_evaluate ex_eval_fc ex_register ex_accounts") auto
  have key: "ra_owner_key ex_register \<noteq> public_key_default" by code_simp
  have last: "last_account_id ex_eval_fc (current_state ex_accounts) = Inr 1" by code_simp
  show ?thesis
    using register_account_fresh [OF laws wf e' key] e' last by auto
qed

definition ex_delegate :: transaction_evaluation_state where
  "ex_delegate = (mk_eval_state (DB (ex_ledger\<lparr>
     account_db := [(1, ex_account\<lparr> delegate_info := Some (delegate_stats_default\<lparr> pay_rate := 50, 
       signing_key_history := [(1, ''a'')] \<rparr>) \<rparr>)],
     account_index_db := [(''alice'', 1)], address_to_account_db := [(''o'', 1), (''a'', 1)],
     delegate_vote_index_db := [\<lparr> vd_votes = 0, vd_delegate_id = 1 \<rparr>],
     property_db := [(last_account_id_property, variant_int 1)] \<rparr>)) [])\<lparr> signed_keys := [''a''] \<rparr>"

theorem pay_rate_never_rises_witness:
  "\<exists>e' r' di'. evaluate_body ex_eval_fc (op_update_account (ex_update\<lparr> ua_delegate_pay_rate := 40 \<rparr>)) ex_delegate = Inr e' \<and>
    get_account_record (current_state e') 1 = Some r' \<and> delegate_info r' = Some di' \<and> pay_rate di' \<le> 50"
proof -
  let ?b = "op_update_account (ex_update\<lparr> ua_delegate_pay_rate := 40 \<rparr>)"
  let ?di = "delegate_stats_default\<lparr> pay_rate := 50, signing_key_history := [(1, ''a'')] \<rparr>"
  have laws: "variant_laws ex_eval_fc"
    using fc_ref_base_laws(6)
    by (simp add: variant_laws_def fc_ref_eval_def fc_ref_ops_def fc_ref_cond_def fc_ops.defs fc_cond.defs fc_base.defs)
  have wf: "ledger_wf ex_eval_fc (current_state ex_delegate)"
    unfolding ex_delegate_def mk_eval_state_def transaction_evaluation_state.simps
    by (rule ledger_wf_DB [where n = 1]) code_simp+
  have rules: "current_rules (current_state ex_delegate)" by code_simp
  have "\<not> isl (evaluate_body ex_eval_fc ?b ex_delegate)" by code_simp
  then obtain e' where e': "evaluate_body ex_eval_fc ?b ex_delegate = Inr e'"
    by (cases "evaluate_body ex_eval_fc ?b ex_delegate") auto
  have r: "get_account_record (current_state ex_delegate) 1 = Some (ex_account\<lparr> delegate_info := Some ?di \<rparr>)"
    and live: "\<not> account_is_null (ex_account\<lparr> delegate_info := Some ?di \<rparr>)" by code_simp+
  show ?thesis
    using pay_rate_never_rises [OF laws e' wf rules r _ live, of ?di] e' by auto
qed

end
