(* ===== verification/Delegate_Laws.thy ===== *)
theory Delegate_Laws
  imports Delegates Supply "HOL-Library.Multiset"
begin

text \<open>
  What delegates can rely on: the shuffle only permutes the elected delegates, every active
  delegate has a slot in each round, the bookkeeping of missed blocks ends and keeps the
  confirmation requirement in its bounds, and paying a delegate keeps the ledger balanced.
\<close>

section \<open>Elections\<close>

lemma mset_swap: "i < length xs \<Longrightarrow> j < length xs \<Longrightarrow> mset (swap i j xs) = mset xs"
  by (simp add: swap_def mset_swap)

lemma mset_shuffle_block: "mset (snd (shuffle_block hash x i xs)) = mset xs"
proof (induction hash x i xs rule: shuffle_block.induct)
  case (1 hash x i xs)
  have "i < length xs \<Longrightarrow> unat (hash x) mod length xs < length xs" by (intro mod_less_divisor) auto
  with 1 show ?case
    by (subst shuffle_block.simps) (simp add: mset_swap)
qed

lemma mset_shuffle_from: "mset (shuffle_from F seed i xs) = mset xs"
proof (induction F seed i xs rule: shuffle_from.induct)
  case (1 F seed i xs)
  show ?case
    using 1 mset_shuffle_block [of "sha256_word F seed" 0 i xs]
    by (subst shuffle_from.simps) (auto split: prod.split)
qed

text \<open>The order of the index is \<open>vote_del_less\<close>.\<close>

lemma vote_order:
  "(- sint (vd_votes v), vd_delegate_id v) < (- sint (vd_votes w), vd_delegate_id w) \<longleftrightarrow> vote_del_less v w"
  using signed_word_eqI [of "vd_votes v" "vd_votes w"]
  by (auto simp: vote_del_less_def word_sless_alt order_le_less)

lemma take_sorted_key:
  assumes "v \<in> set (take n (sort_key f xs))" "w \<in> set (drop n (sort_key f xs))"
  shows "f v \<le> f w"
proof -
  have "sorted (map f (take n (sort_key f xs) @ drop n (sort_key f xs)))"
    by (subst append_take_drop_id) (rule sorted_sort_key)
  then have "\<forall>x\<in>f ` set (take n (sort_key f xs)). \<forall>y\<in>f ` set (drop n (sort_key f xs)). x \<le> y"
    unfolding map_append sorted_append set_map by blast
  then show ?thesis using assms by blast
qed

lemma elected_before:
  assumes "distinct (map vd_delegate_id (delegate_vote_index_db d))"
    and v: "v \<in> set (delegate_vote_index_db d)" "vd_delegate_id v \<in> set (next_round_active_delegates d)"
    and w: "w \<in> set (delegate_vote_index_db d)" "vd_delegate_id w \<notin> set (next_round_active_delegates d)"
  shows "vote_del_less v w"
proof -
  let ?f = "\<lambda>v. (- sint (vd_votes v), vd_delegate_id v)" and ?n = BTS_BLOCKCHAIN_NUM_DELEGATES
  let ?xs = "sort_key ?f (delegate_vote_index_db d)"
  have elected: "set (next_round_active_delegates d) = vd_delegate_id ` set (take ?n ?xs)"
    by (simp add: next_round_active_delegates_def get_delegates_by_vote_def take_map)
  have "v \<in> set (take ?n ?xs)"
  proof -
    obtain v' where v': "v' \<in> set (take ?n ?xs)" "vd_delegate_id v' = vd_delegate_id v"
      using v(2) elected by force
    then have "v' \<in> set (delegate_vote_index_db d)" using set_take_subset [of ?n ?xs] by auto
    then have "v' = v" using assms(1) v(1) v'(2) by (auto simp: distinct_map dest: inj_onD)
    with v' show ?thesis by simp
  qed
  moreover have "w \<in> set (drop ?n ?xs)"
    using w elected set_append [of "take ?n ?xs" "drop ?n ?xs"] by auto
  ultimately have "?f v \<le> ?f w" by (rule take_sorted_key)
  moreover have "?f v \<noteq> ?f w" using v(2) w(2) by auto
  ultimately have "?f v < ?f w" by (rule le_neq_trans)
  then show ?thesis by (simp only: vote_order)
qed

lemma update_active_delegates:
  assumes "variant_laws F" "update_active_delegate_list F d b s = Inr s'"
    and "block_num b mod of_nat BTS_BLOCKCHAIN_NUM_DELEGATES = 0"
  shows "\<exists>l. get_active_delegates F s' = Inr l \<and> mset l = mset (next_round_active_delegates d)"
proof -
  obtain seed where "s' = set_active_delegates F
      (shuffle_from F (sha256_hash F seed) 0 (next_round_active_delegates d)) s"
    using assms(2,3) by (auto simp: update_active_delegate_list_def)
  then have "get_active_delegates F s' = Inr (shuffle_from F (sha256_hash F seed) 0 (next_round_active_delegates d))"
    using assms(1)
    by (simp add: variant_laws_def get_active_delegates_def set_active_delegates_def get_set_property)
  then show ?thesis using mset_shuffle_from by blast
qed

section \<open>Examples\<close>

abbreviation ex_block_fc :: fc_block where
  "ex_block_fc \<equiv> fc_ref_block []"

lemma ex_block_laws: "variant_laws ex_block_fc" "time_laws ex_block_fc"
  using fc_ref_base_laws
  by (simp_all add: variant_laws_def time_laws_def fc_ref_block_def fc_ref_eval_def fc_ref_ops_def fc_ref_cond_def
      fc_eval.defs fc_ops.defs fc_cond.defs fc_base.defs)

definition ex_producer :: account_record where
  "ex_producer = ex_account\<lparr> delegate_info := Some (delegate_stats_default\<lparr> pay_rate := 50,
     signing_key_history := [(1, ''a'')] \<rparr>) \<rparr>"

definition ex_chain :: chain_database where
  "ex_chain = ex_ledger\<lparr> account_db := [(1, ex_producer)], account_index_db := [(''alice'', 1)],
     address_to_account_db := [(''o'', 1), (''a'', 1)],
     delegate_vote_index_db := [\<lparr> vd_votes = 0, vd_delegate_id = 1 \<rparr>],
     property_db := [(last_account_id_property, variant_int 1), (last_random_seed_id_property, variant_string ''s''),
       (active_delegate_list_id_property, variant_array (replicate 101 (variant_int 1))),
       (confirmation_requirement_property, variant_int 5)] \<rparr>"

definition ex_header :: signed_block_header where
  "ex_header = \<lparr> previous = [], block_num = 820200, timestamp = 1700000000, bh_transaction_digest = [],
     bh_next_secret_hash = [], previous_secret = [], delegate_signature = ''a'' \<rparr>"

definition ex_block :: full_block where
  "ex_block = signed_block_header.extend (ex_header\<lparr> block_num := 820221, timestamp := 1700000030 \<rparr>)
     \<lparr> user_transactions = [] \<rparr>"

definition ex_node :: chain_database_impl where
  "ex_node = \<lparr> self = ex_chain, skip_signature_verification = False, relay_fee = 0, fork_number_db = [],
     fork_db = [], revalidatable_future_blocks_db = [], undo_state_db = [], block_num_to_id_db = [],
     block_id_to_block_record_db = [(''b'', digest_block.extend (digest_block_of ex_block_fc ex_block)
       \<lparr> signee_shares_issued = 0, signee_fees_collected = 0, signee_fees_destroyed = 0, random_seed = [],
          br_block_size = 0, latency = 0 \<rparr>)],
     block_id_to_block_data_db = [], head_block_header = ex_header, head_block_id = [],
     pending_transaction_db = [], pending_fee_index = [], pending_trx_state = pending_empty \<rparr>"



section \<open>The schedule\<close>

lemma slot_position_nat: "slot_position t = unat t div 10 mod 101"
  by (simp add: slot_position_def get_slot_number_def BTS_BLOCKCHAIN_BLOCK_INTERVAL_SEC_def
      BTS_BLOCKCHAIN_NUM_DELEGATES_def unat_div unat_mod)

lemma unat_slot: "10 * k < 2 ^ 32 \<Longrightarrow> unat (of_nat (10 * k) :: uint32) = 10 * k"
  by (simp only: unat_of_nat) simp

lemma next_slot: "of_nat (10 * k) + BTS_BLOCKCHAIN_BLOCK_INTERVAL_SEC = (of_nat (10 * Suc k) :: uint32)"
  by (simp add: BTS_BLOCKCHAIN_BLOCK_INTERVAL_SEC_def)

text \<open>The loop finds the first slot of one of the delegates.\<close>

lemma next_producible_find:
  assumes "time_laws F" "length l = 101" "10 * (k + m) < 2 ^ 32"
  shows "next_producible F l ids (of_nat (10 * (k + m))) (of_nat (10 * k)) =
    Some (Inr (map_option (\<lambda>j. of_nat (10 * j)) (find (\<lambda>j. l ! (j mod 101) \<in> set ids) [k..<k + m])))"
  using assms(3)
proof (induction m arbitrary: k)
  case 0
  show ?case by (subst next_producible.simps) simp
next
  case (Suc m)
  have k: "unat (of_nat (10 * k) :: uint32) = 10 * k" "unat (of_nat (10 * (k + Suc m)) :: uint32) = 10 * (k + Suc m)"
    using Suc.prems by (intro unat_slot; simp)+
  then have less: "(of_nat (10 * k) :: uint32) < of_nat (10 * (k + Suc m))"
    unfolding word_less_nat_alt by simp
  have pos: "slot_position (of_nat (10 * k)) = k mod 101"
    unfolding slot_position_nat k(1) by simp
  have "next_producible F l ids (of_nat (10 * (k + Suc m))) (of_nat (10 * Suc k)) =
      Some (Inr (map_option (\<lambda>j. of_nat (10 * j)) (find (\<lambda>j. l ! (j mod 101) \<in> set ids) [Suc k..<k + Suc m])))"
    using Suc.IH [of "Suc k"] Suc.prems by simp
  moreover have "[k..<k + Suc m] = k # [Suc k..<k + Suc m]" by (rule upt_conv_Cons) simp
  ultimately show ?case
    using assms(1,2) less pos
    by (subst next_producible.simps)
       (simp add: time_laws_def next_slot del: of_nat_mult mult_Suc_right upt_Suc add_Suc_right)
qed

lemma slot_in_round:
  assumes "p < (101 :: nat)"
  shows "\<exists>j\<in>{k..<k + 101}. j mod 101 = p"
proof (cases "k mod 101 \<le> p")
  case True
  have "(k + (p - k mod 101)) mod 101 = p"
    using True assms by (subst mod_add_left_eq [symmetric]) simp
  moreover have "k + (p - k mod 101) \<in> {k..<k + 101}" using assms by auto
  ultimately show ?thesis by blast
next
  case False
  have "(k + (101 + p - k mod 101)) mod 101 = (k mod 101 + (101 + p - k mod 101)) mod 101"
    by (rule mod_add_left_eq [symmetric])
  also have "\<dots> = (101 + p) mod 101" by (rule arg_cong [of _ _ "\<lambda>x. x mod 101"]) (simp add: order_less_imp_le)
  finally have "(k + (101 + p - k mod 101)) mod 101 = p" using assms by simp
  moreover have "k + (101 + p - k mod 101) \<in> {k..<k + 101}" using False by auto
  ultimately show ?thesis by blast
qed

lemma slot_start:
  "get_slot_start_time (get_slot_number t) = of_nat (10 * (unat t div 10))"
proof -
  have "unat t < 2 ^ 32" using unsigned_less [of t, where 'a = nat] by simp
  then have "unat (of_nat (10 * (unat t div 10)) :: uint32) = 10 * (unat t div 10)"
    by (intro unat_slot) simp
  moreover have "unat (get_slot_start_time (get_slot_number t)) = 10 * (unat t div 10)"
    using \<open>unat t < 2 ^ 32\<close>
    by (simp add: get_slot_start_time_def get_slot_number_def BTS_BLOCKCHAIN_BLOCK_INTERVAL_SEC_def
        unat_word_ariths unat_div)
  ultimately show ?thesis by (simp add: word_unat_eq_iff)
qed

text \<open>C15. A delegate on the list of active delegates is due within one round: the search for the
  next slot ends, finds a slot of one of the given delegates, and that slot starts less than
  102 block intervals after the current time.\<close>

theorem delegate_gets_slot:
  assumes "time_laws F" "get_active_delegates F (DB d) = Inr l" "length l = BTS_BLOCKCHAIN_NUM_DELEGATES"
    and "i \<in> set l" "i \<in> set delegate_ids" "unat (wall_clock d) + 1030 < 2 ^ 32"
  shows "\<exists>t. get_next_producible_block_timestamp F d delegate_ids = Some (Inr (Some t)) \<and>
    l ! slot_position t \<in> set delegate_ids \<and>
    unat (wall_clock d) < unat t + 10 \<and> unat t < unat (wall_clock d) + 1020"
proof -
  have len: "length l = 101" using assms(3) by (simp add: BTS_BLOCKCHAIN_NUM_DELEGATES_def)
  define k where "k = unat (wall_clock d) div 10 +
    (if of_nat (10 * (unat (wall_clock d) div 10)) \<le> db_now d then 1 else 0)"
  have start: "(if get_slot_start_time (get_slot_number (wall_clock d)) \<le> db_now d
      then tps_add F (get_slot_start_time (get_slot_number (wall_clock d))) BTS_BLOCKCHAIN_BLOCK_INTERVAL_SEC
      else get_slot_start_time (get_slot_number (wall_clock d))) = of_nat (10 * k)"
    using assms(1) next_slot [of "unat (wall_clock d) div 10"]
    by (simp add: k_def slot_start time_laws_def add_mult_distrib2 distrib_left del: of_nat_mult)
  have stop: "tps_add F (of_nat (10 * k)) (of_nat BTS_BLOCKCHAIN_NUM_DELEGATES * BTS_BLOCKCHAIN_BLOCK_INTERVAL_SEC) =
      of_nat (10 * (k + 101))"
    using assms(1) by (simp add: time_laws_def BTS_BLOCKCHAIN_NUM_DELEGATES_def BTS_BLOCKCHAIN_BLOCK_INTERVAL_SEC_def)
  have k: "unat (wall_clock d) < 10 * k + 10" "10 * k \<le> unat (wall_clock d) + 10"
    unfolding k_def by (cases "of_nat (10 * (unat (wall_clock d) div 10)) \<le> db_now d"; simp; presburger)+
  let ?found = "find (\<lambda>j. l ! (j mod 101) \<in> set delegate_ids) [k..<k + 101]"
  have run: "get_next_producible_block_timestamp F d delegate_ids = Some (Inr (map_option (\<lambda>j. of_nat (10 * j)) ?found))"
    unfolding get_next_producible_block_timestamp_def Let_def start stop
    using next_producible_find [OF assms(1) len, of k 101 delegate_ids] k assms(2,6) by simp
  obtain p where "p < 101" "l ! p = i" using assms(4) len by (metis in_set_conv_nth)
  then obtain j0 where "j0 \<in> {k..<k + 101}" "l ! (j0 mod 101) = i" using slot_in_round by blast
  then have "?found \<noteq> None" using assms(5) by (auto simp: find_None_iff)
  then obtain j where j: "?found = Some j" by blast
  then have found: "l ! (j mod 101) \<in> set delegate_ids" "k \<le> j" "j < k + 101"
    by (auto simp: find_Some_iff simp del: upt_Suc)
  then have "unat (of_nat (10 * j) :: uint32) = 10 * j"
    using k assms(6) by (intro unat_slot) simp
  then show ?thesis
    using run j found k by (auto simp: slot_position_nat simp del: of_nat_mult)
qed

definition ex_scheduled :: chain_database where
  "ex_scheduled = ex_ledger\<lparr> wall_clock := 1700000003,
     property_db := [(active_delegate_list_id_property, variant_array (map variant_int [1..101]))] \<rparr>"

theorem delegate_gets_slot_witness:
  "\<exists>t. get_next_producible_block_timestamp fc_ref_base ex_scheduled [7] = Some (Inr (Some t)) \<and>
    [1..101] ! slot_position t \<in> set [7] \<and> unat (1700000003 :: uint32) < unat t + 10 \<and>
    unat t < unat (1700000003 :: uint32) + 1020"
proof -
  have "get_active_delegates fc_ref_base (DB ex_scheduled) = Inr [1..101]"
    by (simp add: get_active_delegates_def ex_scheduled_def db_get_property_def fc_ref_base_def ref_as_ids_map)
  then show ?thesis
    using delegate_gets_slot [OF fc_ref_base_laws(4), of ex_scheduled "[1..101]" 7 "[7]"]
    by (simp add: ex_scheduled_def BTS_BLOCKCHAIN_NUM_DELEGATES_def)
qed

section \<open>Blocks produced and missed\<close>

lemma store_slot_record_property [simp]: "get_property (store_slot_record r s) i = get_property s i"
  by (cases s) (simp_all add: db_defs db_get_property_def)

lemma record_missed_block_property:
  assumes "record_missed_block F d l t s = Inr s'"
  shows "get_property s' i = get_property s i"
  using assms
  by (auto simp: record_missed_block_def run_simps dest!: store_account_record_frame(14) split: if_split_asm)

lemma record_produced_block_property:
  assumes "record_produced_block F d b k s = Inr s'"
  shows "get_property s' i = get_property s i"
  using assms
  by (auto simp: record_produced_block_def run_simps dest!: store_account_record_frame(14) split: if_split_asm)

text \<open>Between two multiples of the block interval the loop over the missed slots ends.\<close>

lemma missed_blocks_return:
  assumes "time_laws F" "10 * (k + m) < 2 ^ 32"
  shows "\<exists>r. missed_blocks F d l (of_nat (10 * (k + m))) (of_nat (10 * k)) c s = Some r \<and>
    (\<forall>c' s'. r = Inr (c', s') \<longrightarrow> c' = c + 2 * of_nat m \<and> (\<forall>i. get_property s' i = get_property s i))"
  using assms(2)
proof (induction m arbitrary: k c s)
  case 0
  show ?case by (subst missed_blocks.simps) simp
next
  case (Suc m)
  have "unat (of_nat (10 * k) :: uint32) = 10 * k" "unat (of_nat (10 * (k + Suc m)) :: uint32) = 10 * (k + Suc m)"
    using Suc.prems by (intro unat_slot; simp)+
  then have less: "(of_nat (10 * k) :: uint32) < of_nat (10 * (k + Suc m))"
    unfolding word_less_nat_alt by simp
  have step: "tps_add F (of_nat (10 * k)) BTS_BLOCKCHAIN_BLOCK_INTERVAL_SEC = of_nat (10 * Suc k)"
    using assms(1) next_slot by (simp add: time_laws_def)
  show ?case
  proof (cases "record_missed_block F d l (of_nat (10 * k)) s")
    case (Inl e)
    then show ?thesis using less by (subst missed_blocks.simps) simp
  next
    case (Inr s1)
    have "\<exists>r. missed_blocks F d l (of_nat (10 * (Suc k + m))) (of_nat (10 * Suc k)) (c + 2) s1 = Some r \<and>
        (\<forall>c' s'. r = Inr (c', s') \<longrightarrow> c' = (c + 2) + 2 * of_nat m \<and> (\<forall>i. get_property s' i = get_property s1 i))"
      using Suc.IH [of "Suc k" "c + 2" s1] Suc.prems by simp
    then show ?thesis
      using less Inr step record_missed_block_property [OF Inr]
      by (subst missed_blocks.simps) (simp add: algebra_simps del: of_nat_mult mult_Suc_right)
  qed
qed

lemma clamp_confirmations_bounds: "1 \<le> sint (clamp_confirmations c)" "sint (clamp_confirmations c) \<le> 303"
  by (auto simp: clamp_confirmations_def Let_def word_sless_alt BTS_BLOCKCHAIN_NUM_DELEGATES_def)

lemma get_required_confirmations_set:
  assumes "variant_laws F"
  shows "get_required_confirmations F (set_property confirmation_requirement_property (variant_of_int F (sint c)) s) = Inr c"
  using assms sint64_range [of c] by (simp add: variant_laws_def get_required_confirmations_def get_set_property)

text \<open>The number of slots without a block between the head block and the new one.\<close>

definition slots_missed :: "signed_block_header \<Rightarrow> full_block \<Rightarrow> nat" where
  "slots_missed h b =
    (if block_num h > 0 then (unat (timestamp b) - unat (timestamp h)) div 10 - 1 else 0)"

lemma missed_between:
  assumes "time_laws F" "unat (timestamp b) mod 10 = 0"
    and "block_num h > 0 \<Longrightarrow> unat (timestamp h) mod 10 = 0 \<and> timestamp h < timestamp b"
  obtains k where "10 * (k + slots_missed h b) < 2 ^ 32"
    "timestamp b = of_nat (10 * (k + slots_missed h b))"
    "(if block_num h > 0 then tps_add F (timestamp h) BTS_BLOCKCHAIN_BLOCK_INTERVAL_SEC else timestamp b) =
      of_nat (10 * k)"
proof -
  obtain q where q: "unat (timestamp b) = 10 * q" using assms(2) by (auto simp: mod_eq_0_iff_dvd)
  then have b: "timestamp b = of_nat (10 * q)" by (simp flip: q)
  have lt: "10 * q < 2 ^ 32" using unsigned_less [of "timestamp b", where 'a = nat] q by simp
  show ?thesis
  proof (cases "block_num h > 0")
    case True
    obtain p where p: "unat (timestamp h) = 10 * p" using assms(3) True by (auto simp: mod_eq_0_iff_dvd)
    then have h: "timestamp h = of_nat (10 * p)" by (simp flip: p)
    have "p < q" using assms(3) True p q by (simp add: word_less_nat_alt)
    then have "Suc p + slots_missed h b = q"
      using True by (simp add: slots_missed_def p q flip: right_diff_distrib')
    then show ?thesis
      using that [of "Suc p"] True b lt assms(1) next_slot [of p] unfolding h by (simp add: time_laws_def)
  qed (use that [of q] b lt in \<open>simp add: slots_missed_def\<close>)
qed

text \<open>C14. The bookkeeping of a block whose time stamp and predecessor's are multiples of the
  block interval always returns. If it succeeds, the confirmation requirement went up by
  two for each missed slot and down by one for the block, kept between 1 and 303.\<close>

theorem production_info_returns:
  assumes "time_laws F" "variant_laws F" "unat (timestamp b) mod 10 = 0"
    and "block_num (head_block_header n) > 0 \<Longrightarrow>
      unat (timestamp (head_block_header n)) mod 10 = 0 \<and> timestamp (head_block_header n) < timestamp b"
  shows "\<exists>r. update_delegate_production_info F n b key s = Some r \<and>
    (\<forall>s' c. r = Inr s' \<and> get_required_confirmations F s = Inr c \<longrightarrow>
      (\<exists>c'. get_required_confirmations F s' = Inr c' \<and> 1 \<le> sint c' \<and> sint c' \<le> 303 \<and>
        c' = clamp_confirmations (c + 2 * of_nat (slots_missed (head_block_header n) b))))"
proof -
  let ?h = "head_block_header n" and ?m = "slots_missed (head_block_header n) b"
  obtain k where k: "10 * (k + ?m) < 2 ^ 32" "timestamp b = of_nat (10 * (k + ?m))"
    "(if block_num ?h > 0 then tps_add F (timestamp ?h) BTS_BLOCKCHAIN_BLOCK_INTERVAL_SEC else timestamp b) =
      of_nat (10 * k)"
    using missed_between [OF assms(1,3,4)] by blast
  show ?thesis
  proof (cases "record_produced_block F (self n) b key s")
    case (Inl e)
    then show ?thesis by (simp add: update_delegate_production_info_def bindR_def)
  next
    case (Inr s1)
    have same: "get_required_confirmations F s1 = get_required_confirmations F s"
      using record_produced_block_property [OF Inr] by (simp add: get_required_confirmations_def)
    show ?thesis
    proof (cases "\<exists>c l. get_required_confirmations F s = Inr c \<and> get_active_delegates F (DB (self n)) = Inr l")
      case True
      then obtain c l where cl: "get_required_confirmations F s = Inr c" "get_active_delegates F (DB (self n)) = Inr l"
        by blast
      obtain r where r: "missed_blocks F (self n) l (timestamp b) (of_nat (10 * k)) c s1 = Some r"
        "\<forall>c' s'. r = Inr (c', s') \<longrightarrow> c' = c + 2 * of_nat ?m"
        using missed_blocks_return [OF assms(1) k(1), of "self n" l c s1] unfolding k(2) [symmetric] by blast
      show ?thesis
        unfolding update_delegate_production_info_def bindR_def Let_def
        using Inr same cl r clamp_confirmations_bounds get_required_confirmations_set [OF assms(2)]
        by (cases r) (auto simp: k(3))
    qed (use Inr same in \<open>auto simp: update_delegate_production_info_def bindR_def Let_def split: sum.splits\<close>)
  qed
qed

theorem production_info_returns_witness:
  "\<exists>r. update_delegate_production_info ex_block_fc ex_node ex_block ''a'' (DB ex_chain) = Some r \<and>
    (\<forall>s'. r = Inr s' \<longrightarrow> (\<exists>c'. get_required_confirmations ex_block_fc s' = Inr c' \<and> sint c' \<le> 303 \<and>
      c' = clamp_confirmations (5 + 2 * of_nat (slots_missed ex_header ex_block))))"
proof -
  have b: "unat (timestamp ex_block) mod 10 = 0"
    by (simp add: ex_block_def ex_header_def signed_block_header.defs)
  have h: "unat (timestamp (head_block_header ex_node)) mod 10 = 0 \<and> timestamp (head_block_header ex_node) < timestamp ex_block"
    by (simp add: ex_node_def ex_block_def ex_header_def signed_block_header.defs)
  have "get_required_confirmations ex_block_fc (DB ex_chain) = Inr 5" by code_simp
  then show ?thesis
    using production_info_returns [OF ex_block_laws(2,1) b h, of "''a''" "DB ex_chain"]
    by (auto simp: ex_node_def)
qed

section \<open>Pay\<close>

text \<open>No account and no asset of the state is null.\<close>

definition live_records :: "chain \<Rightarrow> bool" where
  "live_records s =
    ((\<forall>i r. get_account_record s i = Some r \<longrightarrow> \<not> account_is_null r) \<and>
     (\<forall>i r. get_asset_record s i = Some r \<longrightarrow> \<not> asset_is_null r))"

lemma signing_delegate_run:
  assumes "signing_delegate F d key s = Inr (r, di)" "chain_wf G s"
  shows "get_account_record s (ar_id r) = Some r" "delegate_info r = Some di"
  using assms(1) wf_gets(3) [OF assms(2)]
  by (auto simp: signing_delegate_def run_simps split: option.split_asm if_split_asm)

text \<open>Crediting a delegate adds the pay to what asset 0 holds.\<close>

lemma surplus_credit_pay:
  assumes store: "store_account_record F (r\<lparr> delegate_info := Some (credit_pay p di') \<rparr>) s = Inr s'"
    and wf: "chain_wf G s" and r: "get_account_record s (ar_id r) = Some r" "delegate_info r = Some di"
    and di': "pay_balance di' = pay_balance di" and live: "\<not> account_is_null r"
  shows "surplus s' a = surplus s a + (if a = 0 then p else 0)"
  using surplus_account [OF store wf, of a] r live di'
  by (simp add: account_is_null_def pay_shares_def credit_pay_def)

lemma surplus_base_asset:
  assumes "get_asset_record s 0 = Some r" "chain_wf G s" "\<not> asset_is_null r"
  shows "surplus (store_asset_record (r\<lparr> current_share_supply := x, collected_fees := y \<rparr>) s) a =
    surplus s a + (if a = 0 then (y - x) - (collected_fees r - current_share_supply r) else 0)"
  using surplus_asset [of "r\<lparr> current_share_supply := x, collected_fees := y \<rparr>" s a] assms
    wf_gets(1) [OF assms(2,1)]
  by (simp add: net_fees_def asset_is_null_def)

lemma pay_delegate_v1_balanced:
  assumes "pay_delegate_v1 F key bid s n = Inr (s', n')" "chain_wf G s" "live_records s"
    and "get_head_block_num s \<ge> BTS_V0_4_16_FORK_BLOCK_NUM"
  shows "surplus s' a = surplus s a"
proof -
  obtain r di x q where rd: "signing_delegate F (self n) key s = Inr (r, di)"
    and q: "get_asset_record s 0 = Some q"
    and store: "store_account_record F (r\<lparr> delegate_info := Some (credit_pay (percent x (pay_rate di))
        (di\<lparr> total_burned := total_burned di + (x - percent x (pay_rate di)) \<rparr>)) \<rparr>)
      (store_asset_record (q\<lparr> current_share_supply := current_share_supply q - (x - percent x (pay_rate di)),
         collected_fees := collected_fees q - x \<rparr>) s) = Inr s'"
    using assms(1,4) by (auto simp: pay_delegate_v1_def Let_def run_simps)
  let ?s = "store_asset_record (q\<lparr> current_share_supply := current_share_supply q - (x - percent x (pay_rate di)),
         collected_fees := collected_fees q - x \<rparr>) s"
  note r = signing_delegate_run [OF rd assms(2)]
  have live: "\<not> account_is_null r" "\<not> asset_is_null q" using assms(3) r q by (auto simp: live_records_def)
  have wf: "chain_wf G ?s" by (rule store_wf(1) [OF assms(2)])
  show ?thesis
    using surplus_credit_pay [OF store wf _ r(2) _ live(1), of a] surplus_base_asset [OF q assms(2) live(2)] r(1)
    by simp
qed

lemma pay_delegate_v2_balanced:
  assumes "pay_delegate_v2 F key bid s n = Inr (s', n')" "chain_wf G s" "live_records s"
    and "get_head_block_num s \<ge> BTS_V0_4_16_FORK_BLOCK_NUM"
  shows "surplus s' a = surplus s a"
proof (cases "get_head_block_num s < BTS_V0_4_24_FORK_BLOCK_NUM")
  case True
  then show ?thesis using assms pay_delegate_v1_balanced by (simp add: pay_delegate_v2_def)
next
  case False
  then obtain r di p s1 q where rd: "signing_delegate F (self n) key s = Inr (r, di)"
    and store: "store_account_record F (r\<lparr> delegate_info := Some (credit_pay p di) \<rparr>) s = Inr s1"
    and q: "get_asset_record s1 0 = Some q"
    and s': "s' = store_asset_record (q\<lparr> current_share_supply := current_share_supply q + p - collected_fees q,
         collected_fees := 0 \<rparr>) s1"
    using assms(1) by (auto simp: pay_delegate_v2_def Let_def run_simps)
  note r = signing_delegate_run [OF rd assms(2)]
  have live: "\<not> account_is_null r" "\<not> asset_is_null q"
    using assms(3) r q store_account_record_frame(1) [OF store] by (auto simp: live_records_def)
  have wf: "chain_wf G s1" by (rule store_account_record_wf [OF store assms(2)])
  show ?thesis
    using surplus_credit_pay [OF store assms(2) r refl live(1), of a] surplus_base_asset [OF q wf live(2)]
    by (simp add: s')
qed

text \<open>C7. Paying the delegate that signed a block keeps the ledger balanced under the rules of
  every block from 554800 on: new shares are added to the supply, destroyed fees are taken
  from it, and what is paid out of the fees only moves.\<close>

theorem pay_delegate_conserves:
  assumes "pay_delegate F key bid s n = Inr (s', n')" "chain_wf G s" "live_records s"
    and "get_head_block_num s \<ge> BTS_V0_4_16_FORK_BLOCK_NUM"
  shows "holdings s' a - stated_supply s' a = holdings s a - stated_supply s a"
proof (cases "get_head_block_num s < BTS_V0_4_28_FORK_BLOCK_NUM")
  case True
  then show ?thesis
    using assms pay_delegate_v2_balanced [of F key bid s n s' n' G a] by (simp add: pay_delegate_def surplus_def)
next
  case False
  then obtain r di p x y z s1 q where rd: "signing_delegate F (self n) key s = Inr (r, di)"
    and q: "get_asset_record s 0 = Some q"
    and store: "store_account_record F (r\<lparr> delegate_info := Some (credit_pay (x + y) di) \<rparr>) s = Inr s1"
    and s': "s' = store_asset_record (q\<lparr> current_share_supply := current_share_supply q + x - (z - y),
         collected_fees := collected_fees q - z \<rparr>) s1"
    using assms(1) by (auto simp: pay_delegate_def Let_def run_simps)
  note r = signing_delegate_run [OF rd assms(2)]
  have live: "\<not> account_is_null r" "\<not> asset_is_null q"
    using assms(3) r q by (auto simp: live_records_def)
  have q1: "get_asset_record s1 0 = Some q" using q store_account_record_frame(1) [OF store] by simp
  have wf: "chain_wf G s1" by (rule store_account_record_wf [OF store assms(2)])
  have "surplus s' a = surplus s a"
    using surplus_credit_pay [OF store assms(2) r refl live(1), of a] surplus_base_asset [OF q1 wf live(2)]
    by (simp add: s')
  then show ?thesis by (simp add: surplus_def)
qed

lemma live_records_DB:
  "list_all (\<lambda>(i, r). \<not> account_is_null r) (account_db d) \<Longrightarrow> list_all (\<lambda>(i, r). \<not> asset_is_null r) (asset_db d) \<Longrightarrow>
    live_records (DB d)"
  by (auto simp: live_records_def gets_DB list_all_iff dest!: map_of_SomeD)

theorem pay_delegate_conserves_witness:
  "\<exists>s' n'. pay_delegate ex_block_fc ''a'' ''b'' (DB ex_chain) ex_node = Inr (s', n') \<and>
    holdings s' 0 - stated_supply s' 0 = holdings (DB ex_chain) 0 - stated_supply (DB ex_chain) 0"
proof -
  have "\<not> isl (pay_delegate ex_block_fc ''a'' ''b'' (DB ex_chain) ex_node)" by code_simp
  then obtain s' n' where run: "pay_delegate ex_block_fc ''a'' ''b'' (DB ex_chain) ex_node = Inr (s', n')"
    by (cases "pay_delegate ex_block_fc ''a'' ''b'' (DB ex_chain) ex_node") auto
  have wf: "chain_wf ex_block_fc (DB ex_chain)" by code_simp
  have live: "live_records (DB ex_chain)" by (rule live_records_DB) code_simp+
  have fork: "get_head_block_num (DB ex_chain) \<ge> BTS_V0_4_16_FORK_BLOCK_NUM" by code_simp
  show ?thesis
    using pay_delegate_conserves [OF run wf live fork] run by blast
qed

end
