(* ===== verification/Market_Engine.thy ===== *)
theory Market_Engine
  imports Market_Ops
begin

text \<open>
  The matching of orders, \<^verbatim>\<open>market_engine.cpp\<close>, and \<^verbatim>\<open>market_engine_v7.cpp\<close>, the version that the
  blocks 820201 to 9999998 run and that differs in a few places; \<open>me_v7\<close> tells which of the two an
  engine is.

  An engine reads the orders from the database and writes to a pending state of its own on
  top of the one it is given, so the tables it iterates over do not change. An iterator is
  therefore the list of the entries still to come, the current one first: the map backwards
  for bids, shorts and collateral, forwards for asks. The local variables of \<^verbatim>\<open>execute\<close> that
  its loop changes are fields of the engine too.
\<close>

section \<open>The engine\<close>

record market_engine =
  me_v7 :: bool
  me_db :: chain_database
  me_pending :: chain
  me_quote_id :: asset_id_type
  me_base_id :: asset_id_type
  me_feed_price :: "price option"
  current_bid :: "market_order option"
  current_ask :: "market_order option"
  current_collat_record :: collateral_record
  orders_filled :: int
  me_transactions :: "market_transaction list"
  bid_itr :: "(market_index_key \<times> order_record) list"
  ask_itr :: "(market_index_key \<times> order_record) list"
  relative_bid_itr :: "(market_index_key \<times> order_record) list"
  short_itr :: "(market_index_key \<times> order_record) list"
  collateral_itr :: "(market_index_key \<times> collateral_record) list"
  collateral_expiration_itr :: "expiration_index list"
  quote_asset :: asset_record
  base_asset :: asset_record
  trading_volume :: asset
  me_opening_price :: price
  me_closing_price :: price
  last_orders_filled :: int

definition in_market :: "market_engine \<Rightarrow> price \<Rightarrow> bool" where
  "in_market e p = (quote_asset_id p = me_quote_id e \<and> base_asset_id p = me_base_id e)"

definition limit_order :: "order_type_enum \<Rightarrow> market_index_key \<Rightarrow> order_record \<Rightarrow> market_order" where
  "limit_order t k r =
    \<lparr> mo_type = t, market_index = k, state = r, collateral = None, mo_interest_rate = None, mo_expiration = None \<rparr>"

definition cover_of :: "market_index_key \<Rightarrow> collateral_record \<Rightarrow> market_order" where
  "cover_of k r =
    \<lparr> mo_type = cover_order, market_index = k,
      state = order_record_default\<lparr> or_balance := payoff_balance r \<rparr>,
      collateral = Some (collateral_balance r), mo_interest_rate = Some (interest_rate r),
      mo_expiration = Some (expiration r) \<rparr>"

definition above_feed :: "market_engine \<Rightarrow> price \<Rightarrow> bool" where
  "above_feed e p =
    (case me_feed_price e of None \<Rightarrow> False | Some feed_price \<Rightarrow> price_greater p feed_price)"

section \<open>The next orders\<close>

definition get_next_short :: "'z fc_eval_scheme \<Rightarrow> market_engine \<Rightarrow> (bool \<times> market_engine) res" where
  "get_next_short F e =
    (case short_itr e of
       [] \<Rightarrow> Inr (False, e)
     | (k, r) # rest \<Rightarrow>
         let bid = (limit_order short_order k r)\<lparr> collateral := Some (or_balance r),
                      mo_interest_rate := Some (order_price k) \<rparr>
         in bindE (get_price F bid price_default) (\<lambda>p.
              if in_market e p then Inr (True, e\<lparr> short_itr := rest, current_bid := Some bid \<rparr>)
              else Inr (False, e)))"

text \<open>The first relative bid, if there is a feed price and it belongs to the market, and the
  better of it and the first absolute bid. Version 7 has no relative bids; its iterator is
  empty here.\<close>

definition next_relative_bid :: "'z fc_eval_scheme \<Rightarrow> market_engine \<Rightarrow> market_order option res" where
  "next_relative_bid F e =
    (case (relative_bid_itr e, me_feed_price e) of
       ((k, r) # rest, Some feed_price) \<Rightarrow>
         let bid = limit_order relative_bid_order k r
         in bindE (get_price F bid feed_price) (\<lambda>p. Inr (if in_market e p then Some bid else None))
     | _ \<Rightarrow> Inr None)"

definition next_limit_bid ::
  "'z fc_eval_scheme \<Rightarrow> market_order option \<Rightarrow> market_engine \<Rightarrow> market_order option res" where
  "next_limit_bid F bid e =
    (case bid_itr e of
       [] \<Rightarrow> Inr bid
     | (k, r) # rest \<Rightarrow>
         let abs_bid = limit_order bid_order k r
         in bindE (get_price F abs_bid price_default) (\<lambda>p.
              if \<not> in_market e p then Inr bid
              else case bid of
                None \<Rightarrow> Inr (Some abs_bid)
              | Some rel_bid \<Rightarrow>
                  (case me_feed_price e of
                     None \<Rightarrow> Inl undefined_behaviour
                   | Some feed_price \<Rightarrow>
                       bindE (get_price F rel_bid feed_price) (\<lambda>rel_price.
                         Inr (Some (if price_greater p rel_price then abs_bid else rel_bid))))))"

definition take_limit_bid ::
  "'z fc_eval_scheme \<Rightarrow> market_order \<Rightarrow> market_engine \<Rightarrow> (bool \<times> market_engine) res" where
  "take_limit_bid F bid e =
    (if mo_type bid = relative_bid_order
     then Inr (True, e\<lparr> relative_bid_itr := tl (relative_bid_itr e), current_bid := Some bid \<rparr>)
     else bindE (case me_feed_price e of
                   None \<Rightarrow> Inr (False, e)
                 | Some feed_price \<Rightarrow>
                     bindE (get_price F bid price_default) (\<lambda>p.
                       if price_less p feed_price then get_next_short F e else Inr (False, e)))
            (\<lambda>(short, e).
              if short then Inr (True, e)
              else Inr (True, e\<lparr> bid_itr := tl (bid_itr e), current_bid := Some bid \<rparr>)))"

definition get_next_bid :: "'z fc_eval_scheme \<Rightarrow> market_engine \<Rightarrow> (bool \<times> market_engine) res" where
  "get_next_bid F e =
    bindE (case current_bid e of
             None \<Rightarrow> Inr False
           | Some b \<Rightarrow> bindE (get_quantity F b price_default) (\<lambda>q. Inr (0 <s amount q))) (\<lambda>keep.
    if keep then Inr (True, e)
    else
      let e = e\<lparr> orders_filled := orders_filled e + 1, current_bid := None \<rparr>
      in bindE (next_relative_bid F e) (\<lambda>rel_bid.
         bindE (next_limit_bid F rel_bid e) (\<lambda>bid.
           case bid of
             Some b \<Rightarrow> take_limit_bid F b e
           | None \<Rightarrow> get_next_short F e)))"

text \<open>Margin calls: the first position, if its call price is above the feed. Only the first
  one is looked at.\<close>

definition next_called_cover :: "'z fc_eval_scheme \<Rightarrow> market_engine \<Rightarrow> (bool \<times> market_engine) res" where
  "next_called_cover F e =
    (case (current_bid e, collateral_itr e) of
       (Some b, (k, r) # rest) \<Rightarrow>
         bindE (get_price F (cover_of k r) price_default) (\<lambda>p.
           if in_market e p then
             let e = e\<lparr> current_collat_record := r, collateral_itr := rest \<rparr>
             in if above_feed e p
                then Inr (True, e\<lparr> current_ask := Some (cover_of k r) \<rparr>)
                else Inr (False, e)
           else Inr (False, e\<lparr> collateral_itr := [] \<rparr>))
     | _ \<Rightarrow> Inr (False, e))"

text \<open>Version 7 covers expired positions here as well, and since block 991700 goes on to the
  next position.\<close>

fun next_cover_v7 ::
  "'z fc_eval_scheme \<Rightarrow> (market_index_key \<times> collateral_record) list \<Rightarrow> market_engine \<Rightarrow> (bool \<times> market_engine) res" where
  "next_cover_v7 F [] e = Inr (False, e\<lparr> collateral_itr := [] \<rparr>)"
| "next_cover_v7 F ((k, r) # rest) e =
    bindE (get_price F (cover_of k r) price_default) (\<lambda>p.
      if in_market e p then
        let e = e\<lparr> current_collat_record := r \<rparr>
        in if above_feed e p \<or>
              expiration r \<le> now (me_pending e)
           then Inr (True, e\<lparr> current_ask := Some (cover_of k r), collateral_itr := rest \<rparr>)
           else if get_head_block_num (me_pending e) \<ge> BTS_V0_4_24_FORK_BLOCK_NUM
           then next_cover_v7 F rest e
           else Inr (False, e\<lparr> collateral_itr := [] \<rparr>)
      else Inr (False, e\<lparr> collateral_itr := [] \<rparr>))"

text \<open>Expired positions in the order of their expiration, unless they were called above. The
  collateral record of the engine is not changed here.\<close>

fun next_expired_cover ::
  "'z fc_eval_scheme \<Rightarrow> expiration_index list \<Rightarrow> market_engine \<Rightarrow> (bool \<times> market_engine) res" where
  "next_expired_cover F [] e = Inr (False, e\<lparr> collateral_expiration_itr := [] \<rparr>)"
| "next_expired_cover F (x # rest) e =
    (if ei_quote_id x \<noteq> me_quote_id e \<or> ei_expiration x > now (me_pending e)
     then Inr (False, e\<lparr> collateral_expiration_itr := x # rest \<rparr>)
     else case map_of (collateral_db (me_db e)) (ei_key x) of
       None \<Rightarrow> Inl key_not_found_exception
     | Some r \<Rightarrow>
         bindE (get_price F (cover_of (ei_key x) r) price_default) (\<lambda>p.
           if \<not> above_feed e p
           then Inr (True, e\<lparr> current_ask := Some (cover_of (ei_key x) r), collateral_expiration_itr := rest \<rparr>)
           else next_expired_cover F rest e))"

definition next_limit_ask :: "'z fc_eval_scheme \<Rightarrow> market_engine \<Rightarrow> (bool \<times> market_engine) res" where
  "next_limit_ask F e =
    (case ask_itr e of
       [] \<Rightarrow> Inr (False, e)
     | (k, r) # rest \<Rightarrow>
         let ask = limit_order ask_order k r
         in bindE (get_price F ask price_default) (\<lambda>p.
              if in_market e p then Inr (True, e\<lparr> ask_itr := rest, current_ask := Some ask \<rparr>)
              else Inr (False, e\<lparr> ask_itr := rest \<rparr>)))"

definition next_cover :: "'z fc_eval_scheme \<Rightarrow> market_engine \<Rightarrow> (bool \<times> market_engine) res" where
  "next_cover F e =
    (if me_v7 e then
       (if current_bid e = None \<or> collateral_itr e = [] then Inr (False, e)
        else next_cover_v7 F (collateral_itr e) e)
     else bindE (next_called_cover F e) (\<lambda>(called, e).
            if called then Inr (True, e) else next_expired_cover F (collateral_expiration_itr e) e))"

definition get_next_ask :: "'z fc_eval_scheme \<Rightarrow> market_engine \<Rightarrow> (bool \<times> market_engine) res" where
  "get_next_ask F e =
    (if (case current_ask e of None \<Rightarrow> False | Some a \<Rightarrow> 0 <s or_balance (state a)) then Inr (True, e)
     else bindE (next_cover F (e\<lparr> current_ask := None, orders_filled := orders_filled e + 1 \<rparr>)) (\<lambda>(cover, e).
            if cover then Inr (True, e) else next_limit_ask F e))"

section \<open>Paying the parties\<close>

text \<open>\<^verbatim>\<open>withdraw_condition( withdraw_with_signature( owner ), id ).get_address()\<close> and the record there,
  or a new one.\<close>

definition payout_condition :: "'z fc_cond_scheme \<Rightarrow> address \<Rightarrow> asset_id_type \<Rightarrow> withdraw_condition" where
  "payout_condition F owner i = signature_condition F \<lparr> ws_owner = owner, ws_memo = None \<rparr> i 0"

definition pay_out :: "'z fc_cond_scheme \<Rightarrow> address \<Rightarrow> asset_id_type \<Rightarrow> share_type \<Rightarrow> chain \<Rightarrow> chain" where
  "pay_out F owner i amnt s =
    (let r = (case get_balance_record s (get_address F (payout_condition F owner i)) of
                Some r \<Rightarrow> r | None \<Rightarrow> balance_record_of_owner F owner (mk_asset 0 i) 0)
     in store_balance_record F (r\<lparr> balance := balance r + amnt, br_last_update := now s, deposit_date := now s \<rparr>) s)"

text \<open>The members of an optional order are read without a check in the source; an order that is
  not there is undefined behaviour.\<close>

definition the_order :: "market_order option \<Rightarrow> market_order res" where
  "the_order m = (case m of None \<Rightarrow> Inl undefined_behaviour | Some b \<Rightarrow> Inr b)"

definition get_current_cover_age :: "'z fc_eval_scheme \<Rightarrow> market_engine \<Rightarrow> market_order \<Rightarrow> uint32 res" where
  "get_current_cover_age F e a =
    (case mo_expiration a of
       None \<Rightarrow> Inl undefined_behaviour
     | Some t \<Rightarrow> Inr (word_of_int (BTS_BLOCKCHAIN_MAX_SHORT_PERIOD_SEC - tps_elapsed F t (now (me_pending e)))))"

definition old_interest :: "market_engine \<Rightarrow> bool" where
  "old_interest e = (me_v7 e \<and> get_head_block_num (me_pending e) < BTS_V0_4_23_FORK_BLOCK_NUM)"

definition get_current_cover_debt :: "'z fc_eval_scheme \<Rightarrow> market_engine \<Rightarrow> market_order \<Rightarrow> asset res" where
  "get_current_cover_debt F e a =
    bindE (get_balance a) (\<lambda>b.
    bindE (get_current_cover_age F e a) (\<lambda>age.
    bindE ((if old_interest e then get_interest_owed_v1 F else get_interest_owed F)
             b (interest_rate (current_collat_record e)) age) (\<lambda>owed. asset_plus owed b)))"

text \<open>A short: what is left of the order is added to the collateral if it is too small to stay,
  and the collateral of both sides opens a position, or adds to one at the same price.\<close>

definition round_short_collateral :: "asset_record \<Rightarrow> asset \<Rightarrow> asset \<Rightarrow> asset res" where
  "round_short_collateral base b c =
    bindE (asset_minus b c) (\<lambda>rest.
      if amount rest < precision base div 100 \<and> asset_greater b c then asset_plus c rest else Inr c)"

definition open_cover ::
  "'z fc_eval_scheme \<Rightarrow> market_transaction \<Rightarrow> asset \<Rightarrow> market_order \<Rightarrow> chain \<Rightarrow> chain res" where
  "open_cover F mtrx coll b s =
    bindE (asset_div_asset F (bid_paid mtrx) (coll\<lparr> amount := sdiv64 (amount coll * 2) 3 \<rparr>)) (\<lambda>cover_price.
      let cover_index = \<lparr> order_price = cover_price, mk_owner = mk_owner (market_index b) \<rparr>;
          r = (case get_collateral_record s cover_index of None \<Rightarrow> collateral_record_default | Some r \<Rightarrow> r);
          r = r\<lparr> collateral_balance := collateral_balance r + amount coll,
                 payoff_balance := payoff_balance r + amount (bid_paid mtrx),
                 interest_rate := order_price (market_index b),
                 expiration := tps_add F (now s) (word_of_int BTS_BLOCKCHAIN_MAX_SHORT_PERIOD_SEC) \<rparr>
      in if payoff_balance r <s 0 then Inl assert_exception
         else if collateral_balance r <s 0 then Inl assert_exception
         else if \<not> quote_asset_id (interest_rate r) > base_asset_id (interest_rate r) then Inl assert_exception
         else Inr (store_collateral_record cover_index r s))"

definition pay_current_short ::
  "'z fc_eval_scheme \<Rightarrow> market_transaction \<Rightarrow> market_engine \<Rightarrow> (market_transaction \<times> market_engine) res" where
  "pay_current_short F mtrx e =
    bindE (the_order (current_bid e)) (\<lambda>b.
    if mo_type b \<noteq> short_order \<or> bid_type mtrx \<noteq> short_order then Inl assert_exception
    else case short_collateral mtrx of
      None \<Rightarrow> Inl undefined_behaviour
    | Some c0 \<Rightarrow>
        bindE (get_balance b) (\<lambda>bal.
        bindE (round_short_collateral (base_asset e) bal c0) (\<lambda>c.
        bindE (asset_plus c (ask_paid mtrx)) (\<lambda>coll.
        let mtrx = mtrx\<lparr> short_collateral := Some c \<rparr>;
            b = b\<lparr> state := (state b)\<lparr> or_balance := or_balance (state b) - amount c \<rparr> \<rparr>;
            e = e\<lparr> quote_asset := (quote_asset e)\<lparr> current_share_supply :=
                     current_share_supply (quote_asset e) + amount (bid_paid mtrx) \<rparr>,
                   current_bid := Some b \<rparr>
        in if amount (bid_paid mtrx) \<le>s 0 then
             (if amount (bid_paid mtrx) <s 0 then Inl assert_exception else Inr (mtrx, e))
           else
             bindE (open_cover F mtrx coll b (me_pending e)) (\<lambda>s.
             if or_balance (state b) <s 0 then Inl assert_exception
             else Inr (mtrx, e\<lparr> me_pending := store_short_record (market_index b) (state b) s \<rparr>))))))"

definition pay_current_bid ::
  "'z fc_eval_scheme \<Rightarrow> market_transaction \<Rightarrow> market_engine \<Rightarrow> market_engine res" where
  "pay_current_bid F mtrx e =
    bindE (the_order (current_bid e)) (\<lambda>b.
    if mo_type b \<notin> {bid_order, relative_bid_order} \<or> bid_type mtrx \<notin> {bid_order, relative_bid_order}
    then Inl assert_exception
    else
      let b = b\<lparr> state := (state b)\<lparr> or_balance := or_balance (state b) - amount (bid_paid mtrx) \<rparr> \<rparr>
      in if or_balance (state b) <s 0 then Inl assert_exception
         else
           let s = pay_out F (bid_owner mtrx) (me_base_id e) (amount (bid_received mtrx)) (me_pending e)
           in bindE (get_quote_quantity F b price_default) (\<lambda>q.
              bindE (asset_mul_price F q (bid_price mtrx)) (\<lambda>x.
                let dust = amount x = 0;
                    e = (if dust then e\<lparr> quote_asset := (quote_asset e)\<lparr> collected_fees :=
                                           collected_fees (quote_asset e) + amount q \<rparr> \<rparr> else e);
                    b = (if dust then b\<lparr> state := (state b)\<lparr> or_balance := 0 \<rparr> \<rparr> else b)
                in Inr (e\<lparr> current_bid := Some b, me_pending :=
                     (if mo_type b = bid_order then store_bid_record (market_index b) (state b) s
                      else store_relative_bid_record (market_index b) (state b) s) \<rparr>))))"

text \<open>The asset record the rest of an ask is collected in is an argument, given by the update
  function of the variable that the caller passes.\<close>

definition pay_current_ask ::
  "'z fc_eval_scheme \<Rightarrow> ((asset_record \<Rightarrow> asset_record) \<Rightarrow> market_engine \<Rightarrow> market_engine) \<Rightarrow>
    market_transaction \<Rightarrow> market_engine \<Rightarrow> market_engine res" where
  "pay_current_ask F base_asset_arg mtrx e =
    bindE (the_order (current_ask e)) (\<lambda>a.
    if mo_type a \<notin> {ask_order, relative_ask_order} \<or> ask_type mtrx \<notin> {ask_order, relative_ask_order}
    then Inl assert_exception
    else
      let a = a\<lparr> state := (state a)\<lparr> or_balance := or_balance (state a) - amount (ask_paid mtrx) \<rparr> \<rparr>
      in if or_balance (state a) <s 0 then Inl assert_exception
         else
           let s = pay_out F (ask_owner mtrx) (me_quote_id e) (amount (ask_received mtrx)) (me_pending e)
           in bindE (get_quantity F a price_default) (\<lambda>q.
              bindE (asset_mul_price F q (ask_price mtrx)) (\<lambda>x.
                let dust = amount x = 0;
                    e = (if dust then base_asset_arg (\<lambda>r. r\<lparr> collected_fees := collected_fees r + amount q \<rparr>) e else e);
                    a = (if dust then a\<lparr> state := (state a)\<lparr> or_balance := 0 \<rparr> \<rparr> else a)
                in Inr (e\<lparr> current_ask := Some a, me_pending :=
                     (if mo_type a = relative_ask_order then store_relative_ask_record (market_index a) (state a) s
                      else store_ask_record (market_index a) (state a) s) \<rparr>))))"

text \<open>A margin position. The payment is split into principle and interest; a position without
  collateral left is closed at the expense of the fees, one without debt left returns its
  collateral, less five percent if it was called.\<close>

definition split_cover_payment ::
  "'z fc_eval_scheme \<Rightarrow> market_transaction \<Rightarrow> market_engine \<Rightarrow> market_order \<Rightarrow> (asset \<times> asset \<times> share_type) res" where
  "split_cover_payment F mtrx e a =
    (let principle = mk_asset (payoff_balance (current_collat_record e)) (asr_id (quote_asset e));
         apr = interest_rate (current_collat_record e)
     in bindE (get_current_cover_age F e a) (\<lambda>cover_age.
        bindE (get_current_cover_debt F e a) (\<lambda>total_debt.
          if asset_ge (ask_received mtrx) total_debt
          then bindE (asset_minus (ask_received mtrx) principle) (\<lambda>interest_paid.
                 Inr (principle, interest_paid, 0))
          else bindE (get_interest_paid F (ask_received mtrx) apr cover_age) (\<lambda>interest_paid.
               bindE (if old_interest e then get_interest_paid_v1 F (ask_received mtrx) apr cover_age
                      else Inr interest_paid) (\<lambda>interest_paid.
               bindE (asset_minus (ask_received mtrx) interest_paid) (\<lambda>principle_paid.
                 Inr (principle_paid, interest_paid, or_balance (state a) - amount principle_paid)))))))"

definition return_collateral ::
  "'z fc_eval_scheme \<Rightarrow> market_transaction \<Rightarrow> share_type \<Rightarrow> address \<Rightarrow> market_engine \<Rightarrow>
    (market_transaction \<times> market_engine) res" where
  "return_collateral F mtrx left owner e =
    (let called = expiration (current_collat_record e) > now (me_pending e);
         fee = (if called then sdiv64 (left * 5000) 100000 else 0)
     in bindE (if called then
                 (if amount (fees_collected mtrx) \<noteq> 0 then Inl assert_exception
                  else asset_plus (fees_collected mtrx) (mk_asset fee (me_base_id e)))
               else Inr (fees_collected mtrx)) (\<lambda>fees.
          Inr (mtrx\<lparr> fees_collected := fees, returned_collateral := Some (mk_asset (left - fee) 0) \<rparr>,
               e\<lparr> me_pending := pay_out F owner (me_base_id e) (left - fee) (me_pending e) \<rparr>)))"

definition cover_quote_asset :: "share_type \<Rightarrow> share_type \<Rightarrow> share_type \<Rightarrow> share_type \<Rightarrow> asset_record \<Rightarrow> asset_record" where
  "cover_quote_asset principle_paid interest_paid rest c q =
    (let q = q\<lparr> current_share_supply := current_share_supply q - principle_paid,
                collected_fees := collected_fees q + interest_paid \<rparr>
     in if c = 0 then q\<lparr> collected_fees := collected_fees q - rest \<rparr> else q)"

definition store_cover_state :: "market_order \<Rightarrow> share_type \<Rightarrow> share_type \<Rightarrow> market_engine \<Rightarrow> market_engine" where
  "store_cover_state a c rest e =
    (let r = (current_collat_record e)\<lparr> collateral_balance := c, payoff_balance := rest \<rparr>
     in e\<lparr> current_ask := Some (a\<lparr> state := (state a)\<lparr> or_balance := rest \<rparr>, collateral := Some c \<rparr>),
           current_collat_record := r,
           me_pending := store_collateral_record (market_index a) r (me_pending e) \<rparr>)"

definition pay_current_cover ::
  "'z fc_eval_scheme \<Rightarrow> market_transaction \<Rightarrow> market_engine \<Rightarrow> (market_transaction \<times> market_engine) res" where
  "pay_current_cover F mtrx e =
    bindE (the_order (current_ask e)) (\<lambda>a.
    let apr = interest_rate (current_collat_record e)
    in if mo_type a \<noteq> cover_order \<or> ask_type mtrx \<noteq> cover_order then Inl assert_exception
       else if \<not> quote_asset_id apr > base_asset_id apr then Inl assert_exception
       else bindE (split_cover_payment F mtrx e a) (\<lambda>(principle_paid, interest_paid, rest).
         if amount principle_paid <s 0 \<or> amount interest_paid <s 0 \<or> rest <s 0 then Inl assert_exception
         else case collateral a of
           None \<Rightarrow> Inl undefined_behaviour
         | Some c0 \<Rightarrow>
             let c = c0 - amount (ask_paid mtrx);
                 e = e\<lparr> quote_asset := cover_quote_asset (amount principle_paid) (amount interest_paid) rest c
                          (quote_asset e) \<rparr>;
                 rest = (if c = 0 then 0 else rest)
             in if c <s 0 then Inl assert_exception
                else if rest = 0 \<and> 0 <s c
                then bindE (return_collateral F mtrx c (mk_owner (market_index a)) e) (\<lambda>(mtrx, e).
                       Inr (mtrx, store_cover_state a 0 rest e))
                else Inr (mtrx, store_cover_state a c rest e)))"

section \<open>Matching\<close>

definition asset_min :: "asset \<Rightarrow> asset \<Rightarrow> asset" where
  "asset_min a b = (if asset_less b a then b else a)"

definition push_market_transaction :: "market_transaction \<Rightarrow> market_engine \<Rightarrow> market_engine res" where
  "push_market_transaction mtrx e =
    (if (amount (ask_paid mtrx) \<noteq> 0 \<or> amount (ask_received mtrx) \<noteq> 0 \<or>
         asset_id (bid_received mtrx) \<noteq> 0 \<or> amount (bid_paid mtrx) \<noteq> 0) \<and>
        (amount (bid_paid mtrx) <s 0 \<or> amount (ask_paid mtrx) <s 0 \<or>
         amount (bid_received mtrx) <s 0 \<or> amount (ask_received mtrx) <s 0 \<or>
         \<not> asset_ge (bid_paid mtrx) (ask_received mtrx) \<or> \<not> asset_ge (ask_paid mtrx) (bid_received mtrx) \<or>
         amount (fees_collected mtrx) <s 0)
     then Inl assert_exception
     else Inr (e\<lparr> me_transactions := me_transactions e @ [mtrx] \<rparr>))"

text \<open>The transaction of the two orders at their own prices. Version 7 does not pass the feed to
  \<^verbatim>\<open>get_price\<close>.\<close>

definition begin_transaction ::
  "'z fc_eval_scheme \<Rightarrow> market_engine \<Rightarrow> market_order \<Rightarrow> market_order \<Rightarrow> market_transaction res" where
  "begin_transaction F e b a =
    (let relative = (case me_feed_price e of
           Some p \<Rightarrow> if me_v7 e then price_default else p | None \<Rightarrow> price_default)
     in bindE (get_price F b relative) (\<lambda>bp.
        bindE (get_price F a relative) (\<lambda>ap.
          Inr \<lparr> bid_owner = mk_owner (market_index b), ask_owner = mk_owner (market_index a),
                bid_price = bp, ask_price = ap, bid_paid = mk_asset 0 0, bid_received = mk_asset 0 0,
                short_collateral = None, ask_paid = mk_asset 0 0, ask_received = mk_asset 0 0,
                returned_collateral = None, bid_type = mo_type b, ask_type = mo_type a,
                fees_collected = mk_asset 0 0 \<rparr>)))"

text \<open>What the loop does with the two orders before it trades: skip one of them
  (\<^verbatim>\<open>_current_bid.reset(); continue;\<close>), stop (\<^verbatim>\<open>break\<close>), or trade at the prices decided on.\<close>

datatype verdict = skip_bid | skip_ask | stop_matching | trade_at market_transaction

definition beyond_limit :: "market_order \<Rightarrow> price \<Rightarrow> bool" where
  "beyond_limit m p = (case limit_price (state m) of None \<Rightarrow> False | Some l \<Rightarrow> price_less l p)"

definition engine_minimum_ask :: "'z fc_eval_scheme \<Rightarrow> price \<Rightarrow> price res" where
  "engine_minimum_ask F feed_price =
    bindE (u128_div F (u128_mul F (ratio feed_price) (u128_of_int64 F 9)) (u128_of_int64 F 10)) (\<lambda>r.
      Inr (feed_price\<lparr> ratio := r \<rparr>))"

definition judge_bid ::
  "market_engine \<Rightarrow> market_order \<Rightarrow> market_transaction \<Rightarrow> verdict res" where
  "judge_bid e b mtrx =
    (if mo_type b = short_order then
       (if \<not> is_market_issued (quote_asset e) then Inl assert_exception
        else case me_feed_price e of
          None \<Rightarrow> Inr skip_bid
        | Some p \<Rightarrow>
            if beyond_limit b (ask_price mtrx) then Inr skip_bid
            else Inr (trade_at (mtrx\<lparr> bid_price :=
                   (case limit_price (state b) of None \<Rightarrow> p | Some l \<Rightarrow> price_min l p) \<rparr>)))
     else if mo_type b = relative_bid_order \<and> beyond_limit b (ask_price mtrx) then Inr skip_bid
     else Inr (trade_at mtrx))"

definition judge_ask ::
  "'z fc_eval_scheme \<Rightarrow> market_engine \<Rightarrow> market_order \<Rightarrow> market_transaction \<Rightarrow> verdict res" where
  "judge_ask F e a mtrx =
    (if mo_type a = relative_ask_order \<and>
        (case limit_price (state a) of None \<Rightarrow> False | Some l \<Rightarrow> price_greater l (ask_price mtrx))
     then Inr skip_ask
     else if mo_type a = cover_order then
       (if \<not> is_market_issued (quote_asset e) then Inl assert_exception
        else case me_feed_price e of
          None \<Rightarrow> Inr skip_ask
        | Some p \<Rightarrow>
            if price_less (ask_price mtrx) (bid_price mtrx) \<and>
               expiration (current_collat_record e) > now (me_pending e)
            then Inr skip_ask
            else bindE (engine_minimum_ask F p) (\<lambda>m.
              if price_less (bid_price mtrx) m then Inr skip_ask
              else Inr (trade_at (mtrx\<lparr> ask_price := bid_price mtrx \<rparr>))))
     else if price_less (bid_price mtrx) (ask_price mtrx) then Inr stop_matching
     else Inr (trade_at mtrx))"

definition judge ::
  "'z fc_eval_scheme \<Rightarrow> market_engine \<Rightarrow> market_order \<Rightarrow> market_order \<Rightarrow> market_transaction \<Rightarrow> verdict res" where
  "judge F e b a mtrx =
    bindE (judge_bid e b mtrx) (\<lambda>v.
      case v of trade_at mtrx \<Rightarrow> judge_ask F e a mtrx | w \<Rightarrow> Inr w)"

text \<open>Half of the feed price: twice the collateral comes from the short, once from the sale.\<close>

definition collateral_rate :: "'z fc_eval_scheme \<Rightarrow> market_engine \<Rightarrow> price res" where
  "collateral_rate F e =
    (case me_feed_price e of
       None \<Rightarrow> Inl undefined_behaviour
     | Some p \<Rightarrow> bindE (u128_div F (ratio p) (u128_of_int64 F 2)) (\<lambda>r. Inr (p\<lparr> ratio := r \<rparr>)))"

definition trade_short_cover ::
  "'z fc_eval_scheme \<Rightarrow> market_order \<Rightarrow> market_order \<Rightarrow> market_transaction \<Rightarrow> market_engine \<Rightarrow>
    (market_transaction \<times> market_engine) res" where
  "trade_short_cover F b a mtrx e =
    (case collateral a of
       None \<Rightarrow> Inl undefined_behaviour
     | Some c \<Rightarrow>
         let cover_collateral = mk_asset c (me_base_id e)
         in bindE (collateral_rate F e) (\<lambda>rate.
            bindE (asset_mul_price F cover_collateral (bid_price mtrx)) (\<lambda>max_usd.
            bindE (get_current_cover_debt F e a) (\<lambda>cover_debt.
            bindE (get_balance b) (\<lambda>bal.
            bindE (asset_mul_price F bal rate) (\<lambda>usd_for_short_sale.
            let usd = asset_min (asset_min usd_for_short_sale max_usd) cover_debt
            in bindE (if asset_eq usd max_usd then Inr cover_collateral
                      else asset_mul_price F usd (ask_price mtrx)) (\<lambda>paid.
               bindE (if asset_eq usd usd_for_short_sale then Inr bal else asset_mul_price F usd rate) (\<lambda>coll.
               let mtrx = mtrx\<lparr> ask_received := usd, ask_paid := paid, bid_received := paid,
                                bid_paid := usd, short_collateral := Some coll \<rparr>
               in bindE (pay_current_short F mtrx e) (\<lambda>(mtrx, e). pay_current_cover F mtrx e)))))))))"

definition trade_bid_cover ::
  "'z fc_eval_scheme \<Rightarrow> market_order \<Rightarrow> market_order \<Rightarrow> market_transaction \<Rightarrow> market_engine \<Rightarrow>
    (market_transaction \<times> market_engine) res" where
  "trade_bid_cover F b a mtrx e =
    (case collateral a of
       None \<Rightarrow> Inl undefined_behaviour
     | Some c \<Rightarrow>
         let cover_collateral = mk_asset c (me_base_id e)
         in bindE (asset_mul_price F cover_collateral (bid_price mtrx)) (\<lambda>max_usd.
            bindE (get_current_cover_debt F e a) (\<lambda>cover_debt.
            bindE (get_balance b) (\<lambda>usd_for_sale.
            let usd = asset_min (asset_min usd_for_sale max_usd) cover_debt
            in bindE (if asset_eq usd max_usd then Inr cover_collateral
                      else asset_mul_price F usd (ask_price mtrx)) (\<lambda>paid.
               let mtrx = mtrx\<lparr> ask_received := usd, ask_paid := paid, bid_received := paid, bid_paid := usd \<rparr>
               in bindE (pay_current_bid F mtrx e) (\<lambda>e. pay_current_cover F mtrx e))))))"

text \<open>The rest of the ask is collected in the record of the quote asset here.\<close>

definition trade_short_ask ::
  "'z fc_eval_scheme \<Rightarrow> market_order \<Rightarrow> market_order \<Rightarrow> market_transaction \<Rightarrow> market_engine \<Rightarrow>
    (market_transaction \<times> market_engine) res" where
  "trade_short_ask F b a mtrx e =
    bindE (collateral_rate F e) (\<lambda>rate.
    bindE (get_quote_quantity F a price_default) (\<lambda>ask_quantity_usd.
    bindE (get_balance b) (\<lambda>bal.
    bindE (asset_mul_price F bal rate) (\<lambda>short_quantity_usd.
    let usd = asset_min short_quantity_usd ask_quantity_usd
    in bindE (if asset_eq usd short_quantity_usd
              then bindE (asset_mul_price F usd (ask_price mtrx)) (\<lambda>paid. Inr (paid, bal))
              else bindE (get_balance a) (\<lambda>paid. bindE (asset_mul_price F usd rate) (\<lambda>coll. Inr (paid, coll))))
         (\<lambda>(paid, coll).
           let mtrx = mtrx\<lparr> ask_received := usd, ask_paid := paid, short_collateral := Some coll,
                            bid_received := paid, bid_paid := usd \<rparr>
           in bindE (pay_current_short F mtrx e) (\<lambda>(mtrx, e).
              bindE (pay_current_ask F quote_asset_update mtrx e) (\<lambda>e. Inr (mtrx, e))))))))"

definition trade_bid_ask ::
  "'z fc_eval_scheme \<Rightarrow> market_order \<Rightarrow> market_order \<Rightarrow> market_transaction \<Rightarrow> market_engine \<Rightarrow>
    (market_transaction \<times> market_engine) res" where
  "trade_bid_ask F b a mtrx e =
    bindE (get_quantity F b price_default) (\<lambda>bid_quantity_xts.
    bindE (get_quantity F a price_default) (\<lambda>ask_quantity_xts.
    let quantity_xts = asset_min bid_quantity_xts ask_quantity_xts
    in bindE (asset_mul_price F quantity_xts (ask_price mtrx)) (\<lambda>received.
       bindE (asset_mul_price F quantity_xts (bid_price mtrx)) (\<lambda>paid.
       bindE (if asset_eq quantity_xts bid_quantity_xts then get_balance b else Inr paid) (\<lambda>bpaid.
       bindE (if asset_eq quantity_xts ask_quantity_xts then get_balance a else Inr quantity_xts) (\<lambda>apaid.
       bindE (asset_minus bpaid received) (\<lambda>fees.
         let mtrx = mtrx\<lparr> ask_received := received, bid_paid := bpaid, ask_paid := apaid,
                          bid_received := quantity_xts, fees_collected := fees \<rparr>
         in bindE (pay_current_bid F mtrx e) (\<lambda>e.
            bindE (pay_current_ask F base_asset_update mtrx e) (\<lambda>e. Inr (mtrx, e))))))))))"

definition trade ::
  "'z fc_eval_scheme \<Rightarrow> market_order \<Rightarrow> market_order \<Rightarrow> market_transaction \<Rightarrow> market_engine \<Rightarrow>
    (market_transaction \<times> market_engine) res" where
  "trade F b a mtrx e =
    (if mo_type a = cover_order \<and> mo_type b = short_order then trade_short_cover F b a mtrx e
     else if mo_type b \<in> {bid_order, relative_bid_order} \<and> mo_type a = cover_order then trade_bid_cover F b a mtrx e
     else if mo_type a \<in> {ask_order, relative_bid_order} \<and> mo_type b = short_order then trade_short_ask F b a mtrx e
     else if mo_type a \<in> {ask_order, relative_ask_order} \<and> mo_type b \<in> {bid_order, relative_bid_order}
     then trade_bid_ask F b a mtrx e
     else Inr (mtrx, e))"

text \<open>After a trade: the transaction is recorded, and the volume, the prices and the fees are
  kept.\<close>

definition after_trade :: "market_transaction \<Rightarrow> market_engine \<Rightarrow> market_engine res" where
  "after_trade mtrx e =
    bindE (push_market_transaction mtrx e) (\<lambda>e.
    bindE (if asset_id (ask_received mtrx) = 0 then asset_plus (trading_volume e) (ask_received mtrx)
           else if asset_id (bid_received mtrx) = 0 then asset_plus (trading_volume e) (bid_received mtrx)
           else Inr (trading_volume e)) (\<lambda>v.
      let e = e\<lparr> trading_volume := v, me_closing_price := bid_price mtrx, me_opening_price :=
                (if price_eq (me_opening_price e) price_default then bid_price mtrx else me_opening_price e) \<rparr>;
          fees = fees_collected mtrx
      in Inr (if asset_id fees = asr_id (base_asset e)
              then e\<lparr> base_asset := (base_asset e)\<lparr> collected_fees := collected_fees (base_asset e) + amount fees \<rparr> \<rparr>
              else if asset_id fees = asr_id (quote_asset e)
              then e\<lparr> quote_asset := (quote_asset e)\<lparr> collected_fees := collected_fees (quote_asset e) + amount fees \<rparr> \<rparr>
              else e)))"

text \<open>The body of the loop on two orders; \<open>False\<close> ends the loop.\<close>

definition match_orders ::
  "'z fc_eval_scheme \<Rightarrow> market_order \<Rightarrow> market_order \<Rightarrow> market_engine \<Rightarrow> (bool \<times> market_engine) res" where
  "match_orders F b a e =
    bindE (begin_transaction F e b a) (\<lambda>mtrx.
    bindE (judge F e b a mtrx) (\<lambda>v.
      case v of
        skip_bid \<Rightarrow> Inr (True, e\<lparr> current_bid := None \<rparr>)
      | skip_ask \<Rightarrow> Inr (True, e\<lparr> current_ask := None \<rparr>)
      | stop_matching \<Rightarrow> Inr (False, e)
      | trade_at mtrx \<Rightarrow>
          bindE (trade F b a mtrx e) (\<lambda>(mtrx, e).
          bindE (after_trade mtrx e) (\<lambda>e. Inr (True, e)))))"

definition match_step :: "'z fc_eval_scheme \<Rightarrow> market_engine \<Rightarrow> (bool \<times> market_engine) res" where
  "match_step F e =
    bindE (get_next_bid F e) (\<lambda>(go, e).
    if \<not> go then Inr (False, e)
    else bindE (get_next_ask F e) (\<lambda>(go, e).
      if \<not> go then Inr (False, e)
      else if orders_filled e = last_orders_filled e then Inl assert_exception
      else
        let e = e\<lparr> last_orders_filled := orders_filled e \<rparr>
        in bindE (the_order (current_bid e)) (\<lambda>b.
           bindE (the_order (current_ask e)) (\<lambda>a. match_orders F b a e))))"

section \<open>The loop ends\<close>

text \<open>Every round that goes on takes an order from one of the iterators: the assertion on
  \<^verbatim>\<open>_orders_filled\<close> ends the loop otherwise.\<close>

definition cursor_size :: "market_engine \<Rightarrow> nat" where
  "cursor_size e = length (bid_itr e) + length (ask_itr e) + length (relative_bid_itr e) +
    length (short_itr e) + length (collateral_itr e) + length (collateral_expiration_itr e)"

definition same_cursors :: "market_engine \<Rightarrow> market_engine \<Rightarrow> bool" where
  "same_cursors e e' =
    (bid_itr e' = bid_itr e \<and> ask_itr e' = ask_itr e \<and> relative_bid_itr e' = relative_bid_itr e \<and>
     short_itr e' = short_itr e \<and> collateral_itr e' = collateral_itr e \<and>
     collateral_expiration_itr e' = collateral_expiration_itr e \<and>
     orders_filled e' = orders_filled e \<and> last_orders_filled e' = last_orders_filled e)"

lemma same_cursors_refl [simp]: "same_cursors e e"
  by (simp add: same_cursors_def)

lemma same_cursors_trans: "same_cursors e e' \<Longrightarrow> same_cursors e' e'' \<Longrightarrow> same_cursors e e''"
  by (simp add: same_cursors_def)

lemma same_cursors_updates [simp]:
  "same_cursors e (e'\<lparr> current_bid := b \<rparr>) = same_cursors e e'"
  "same_cursors e (e'\<lparr> current_ask := a \<rparr>) = same_cursors e e'"
  "same_cursors e (e'\<lparr> current_collat_record := r \<rparr>) = same_cursors e e'"
  "same_cursors e (e'\<lparr> me_pending := s \<rparr>) = same_cursors e e'"
  "same_cursors e (e'\<lparr> quote_asset := q \<rparr>) = same_cursors e e'"
  "same_cursors e (e'\<lparr> base_asset := q \<rparr>) = same_cursors e e'"
  "same_cursors e (e'\<lparr> trading_volume := v \<rparr>) = same_cursors e e'"
  "same_cursors e (e'\<lparr> me_opening_price := p \<rparr>) = same_cursors e e'"
  "same_cursors e (e'\<lparr> me_closing_price := p \<rparr>) = same_cursors e e'"
  "same_cursors e (e'\<lparr> me_transactions := ts \<rparr>) = same_cursors e e'"
  "same_cursors (e\<lparr> quote_asset := q \<rparr>) e' = same_cursors e e'"
  by (simp_all add: same_cursors_def)

text \<open>What a successful branch looks like, as a disjunction.\<close>

lemma run_cases:
  "((if c then m else n) = Inr y) = (c \<and> m = Inr y \<or> \<not> c \<and> n = Inr y)"
  "((case v of None \<Rightarrow> m | Some w \<Rightarrow> f w) = Inr y) = (v = None \<and> m = Inr y \<or> (\<exists>w. v = Some w \<and> f w = Inr y))"
  "((case l of [] \<Rightarrow> m | x # xs \<Rightarrow> g x xs) = Inr y) = (l = [] \<and> m = Inr y \<or> (\<exists>x xs. l = x # xs \<and> g x xs = Inr y))"
  by (auto split: option.split list.split)

lemma bind_pair: "bindE m (\<lambda>(x, y). k x y) = Inr z \<longleftrightarrow> (\<exists>x y. m = Inr (x, y) \<and> k x y = Inr z)"
  by (cases m) auto

lemma get_next_short_size:
  assumes "get_next_short F e = Inr (go, e')"
  shows "go \<and> cursor_size e' < cursor_size e \<and> orders_filled e' = orders_filled e \<and>
    last_orders_filled e' = last_orders_filled e \<or> \<not> go \<and> e' = e"
  using assms
  by (simp add: get_next_short_def Let_def run_cases split_paired_Ex)
     (elim exE conjE disjE; hypsubst; simp add: cursor_size_def)

lemma next_relative_bid_run:
  "next_relative_bid F e = Inr (Some b) \<Longrightarrow> mo_type b = relative_bid_order \<and> relative_bid_itr e \<noteq> []"
  by (cases "relative_bid_itr e"; cases "me_feed_price e")
     (auto simp: next_relative_bid_def Let_def limit_order_def split: if_split_asm)

lemma next_limit_bid_run:
  "next_limit_bid F rel e = Inr (Some b) \<Longrightarrow> rel = Some b \<or> mo_type b = bid_order \<and> bid_itr e \<noteq> []"
  by (cases "bid_itr e"; cases rel; cases "me_feed_price e")
     (auto simp: next_limit_bid_def Let_def limit_order_def split: if_split_asm)

lemma take_limit_bid_size:
  assumes "take_limit_bid F b e = Inr (go, e')"
    and "mo_type b = relative_bid_order \<and> relative_bid_itr e \<noteq> [] \<or> mo_type b = bid_order \<and> bid_itr e \<noteq> []"
  shows "go \<and> cursor_size e' < cursor_size e \<and> orders_filled e' = orders_filled e \<and>
    last_orders_filled e' = last_orders_filled e"
proof (cases "mo_type b = relative_bid_order")
  case True
  then show ?thesis
    using assms by (auto simp: take_limit_bid_def cursor_size_def neq_Nil_conv)
next
  case False
  then have tl: "length (tl (bid_itr e)) < length (bid_itr e)" using assms(2) by simp
  obtain short e1 where m: "(case me_feed_price e of None \<Rightarrow> Inr (False, e)
      | Some p \<Rightarrow> bindE (get_price F b price_default) (\<lambda>q.
          if price_less q p then get_next_short F e else Inr (False, e))) = Inr (short, e1)"
    and e': "(if short then Inr (True, e1)
      else Inr (True, e1\<lparr> bid_itr := tl (bid_itr e1), current_bid := Some b \<rparr>)) = (Inr (go, e') :: _ res)"
    using assms(1) False unfolding take_limit_bid_def by auto
  have "short \<and> cursor_size e1 < cursor_size e \<and> orders_filled e1 = orders_filled e \<and>
      last_orders_filled e1 = last_orders_filled e \<or> \<not> short \<and> e1 = e"
    using m get_next_short_size [of F e short e1] by (cases "me_feed_price e") (auto split: if_split_asm)
  then show ?thesis
    using e' tl by (cases short) (auto simp: cursor_size_def)
qed

lemma get_next_bid_size:
  assumes "get_next_bid F e = Inr (go, e')"
  shows "e' = e \<or> orders_filled e' = orders_filled e + 1 \<and> last_orders_filled e' = last_orders_filled e \<and>
    cursor_size e' \<le> cursor_size e \<and> (go \<longrightarrow> cursor_size e' < cursor_size e)"
proof -
  let ?e = "e\<lparr> orders_filled := orders_filled e + 1, current_bid := None \<rparr>"
  have size: "cursor_size ?e = cursor_size e" by (simp add: cursor_size_def)
  obtain keep where keep: "(if keep then Inr (True, e) else bindE (next_relative_bid F ?e) (\<lambda>rel.
      bindE (next_limit_bid F rel ?e) (\<lambda>bid.
        case bid of Some b \<Rightarrow> take_limit_bid F b ?e | None \<Rightarrow> get_next_short F ?e))) = Inr (go, e')"
    using assms unfolding get_next_bid_def Let_def bindE_Inr [of "case current_bid e of None \<Rightarrow> _ | Some b \<Rightarrow> _ b"]
    by (elim exE conjE) (rule that)
  consider "e' = e" | rel bid where "next_relative_bid F ?e = Inr rel" "next_limit_bid F rel ?e = Inr bid"
      "(case bid of Some b \<Rightarrow> take_limit_bid F b ?e | None \<Rightarrow> get_next_short F ?e) = Inr (go, e')"
    using keep by (cases keep) auto
  then show ?thesis
  proof cases
    case 2
    show ?thesis
    proof (cases bid)
      case None
      then have "get_next_short F ?e = Inr (go, e')" using 2(3) by simp
      from get_next_short_size [OF this] size show ?thesis by auto
    next
      case (Some b)
      have "mo_type b = relative_bid_order \<and> relative_bid_itr ?e \<noteq> [] \<or> mo_type b = bid_order \<and> bid_itr ?e \<noteq> []"
        using next_limit_bid_run [of F rel ?e b] next_relative_bid_run [of F ?e b] 2(1,2) Some by blast
      moreover have "take_limit_bid F b ?e = Inr (go, e')" using 2(3) Some by simp
      ultimately show ?thesis using take_limit_bid_size [of F b ?e go e'] size by simp
    qed
  qed simp
qed

lemma next_called_cover_size:
  assumes "next_called_cover F e = Inr (go, e')"
  shows "cursor_size e' \<le> cursor_size e \<and> (go \<longrightarrow> cursor_size e' < cursor_size e) \<and>
    orders_filled e' = orders_filled e \<and> last_orders_filled e' = last_orders_filled e"
  using assms
  by (simp add: next_called_cover_def Let_def run_cases split_paired_Ex)
     (elim exE conjE disjE; hypsubst; simp add: cursor_size_def)

lemma next_cover_v7_size:
  assumes "next_cover_v7 F l e = Inr (go, e')" "length l \<le> length (collateral_itr e)" "collateral_itr e \<noteq> []"
  shows "cursor_size e' \<le> cursor_size e \<and> (go \<longrightarrow> cursor_size e' < cursor_size e) \<and>
    orders_filled e' = orders_filled e \<and> last_orders_filled e' = last_orders_filled e"
  using assms
proof (induction l arbitrary: e)
  case Nil
  then have "\<not> go" "e' = e\<lparr> collateral_itr := [] \<rparr>" by simp_all
  then show ?case by (simp add: cursor_size_def)
next
  case (Cons x rest)
  obtain k r where x: "x = (k, r)" by (cases x)
  let ?e = "e\<lparr> current_collat_record := r \<rparr>"
  have size: "cursor_size ?e = cursor_size e" by (simp add: cursor_size_def)
  have "length rest < length (collateral_itr e)" using Cons.prems(2) by simp
  with Cons.prems(1,3) Cons.IH [of ?e] size show ?case
    by (simp add: x Let_def run_cases)
       (elim exE conjE disjE; (hypsubst)?; simp add: cursor_size_def)
qed

lemma next_expired_cover_size:
  assumes "next_expired_cover F l e = Inr (go, e')" "length l \<le> length (collateral_expiration_itr e)"
  shows "cursor_size e' \<le> cursor_size e \<and> (go \<longrightarrow> cursor_size e' < cursor_size e) \<and>
    orders_filled e' = orders_filled e \<and> last_orders_filled e' = last_orders_filled e"
  using assms
proof (induction l arbitrary: e)
  case Nil
  then have "\<not> go" "e' = e\<lparr> collateral_expiration_itr := [] \<rparr>" by simp_all
  then show ?case by (simp add: cursor_size_def)
next
  case (Cons x rest)
  have "length rest < length (collateral_expiration_itr e)" using Cons.prems(2) by simp
  with Cons.prems Cons.IH [of e] show ?case
    by (simp add: run_cases run_simps)
       (elim exE conjE disjE; (hypsubst)?; simp add: cursor_size_def)
qed

lemma next_limit_ask_size:
  assumes "next_limit_ask F e = Inr (go, e')"
  shows "cursor_size e' \<le> cursor_size e \<and> (go \<longrightarrow> cursor_size e' < cursor_size e) \<and>
    orders_filled e' = orders_filled e \<and> last_orders_filled e' = last_orders_filled e"
  using assms
  by (simp add: next_limit_ask_def Let_def run_cases split_paired_Ex)
     (elim exE conjE disjE; hypsubst; simp add: cursor_size_def)

lemma next_cover_size:
  assumes "next_cover F e = Inr (go, e')"
  shows "cursor_size e' \<le> cursor_size e \<and> (go \<longrightarrow> cursor_size e' < cursor_size e) \<and>
    orders_filled e' = orders_filled e \<and> last_orders_filled e' = last_orders_filled e"
proof (cases "me_v7 e")
  case v7: True
  show ?thesis
  proof (cases "current_bid e = None \<or> collateral_itr e = []")
    case True
    then have "\<not> go" "e' = e" using assms v7 by (simp_all add: next_cover_def)
    then show ?thesis by simp
  next
    case False
    then have "next_cover_v7 F (collateral_itr e) e = Inr (go, e')"
      using assms v7 unfolding next_cover_def by (simp only: if_True if_False)
    from next_cover_v7_size [OF this order_refl] False show ?thesis by blast
  qed
next
  case False
  obtain called e1 where e1: "next_called_cover F e = Inr (called, e1)"
    and e': "(if called then Inr (True, e1) else next_expired_cover F (collateral_expiration_itr e1) e1) = Inr (go, e')"
    using assms False unfolding next_cover_def by (simp only: if_False bind_pair) (elim exE conjE, rule that)
  note c = next_called_cover_size [OF e1]
  show ?thesis
  proof (cases called)
    case True
    then have "go" "e' = e1" using e' by simp_all
    then show ?thesis using c True by simp
  next
    case False
    then have "next_expired_cover F (collateral_expiration_itr e1) e1 = Inr (go, e')" using e' by simp
    from next_expired_cover_size [OF this] c show ?thesis by auto
  qed
qed

lemma get_next_ask_size:
  assumes "get_next_ask F e = Inr (go, e')"
  shows "e' = e \<or> orders_filled e' = orders_filled e + 1 \<and> last_orders_filled e' = last_orders_filled e \<and>
    cursor_size e' \<le> cursor_size e \<and> (go \<longrightarrow> cursor_size e' < cursor_size e)"
proof (cases "case current_ask e of None \<Rightarrow> False | Some a \<Rightarrow> 0 <s or_balance (state a)")
  case True
  then show ?thesis using assms by (simp add: get_next_ask_def)
next
  case False
  let ?e = "e\<lparr> current_ask := None, orders_filled := orders_filled e + 1 \<rparr>"
  have size: "cursor_size ?e = cursor_size e" by (simp add: cursor_size_def)
  obtain cover e1 where e1: "next_cover F ?e = Inr (cover, e1)"
    and e': "(if cover then Inr (True, e1) else next_limit_ask F e1) = Inr (go, e')"
    using assms False unfolding get_next_ask_def by (simp only: if_False bind_pair) (elim exE conjE, rule that)
  show ?thesis
    using next_cover_size [OF e1] e' next_limit_ask_size [of F e1 go e'] size
    by (cases cover) auto
qed

lemma pay_current_short_cursors: "pay_current_short F mtrx e = Inr (mtrx', e') \<Longrightarrow> same_cursors e e'"
  by (simp add: pay_current_short_def Let_def run_cases)
     (elim exE conjE disjE; hypsubst; simp)

lemma pay_current_bid_cursors: "pay_current_bid F mtrx e = Inr e' \<Longrightarrow> same_cursors e e'"
  by (simp add: pay_current_bid_def Let_def run_cases)
     (elim exE conjE; hypsubst; simp)

lemma pay_current_ask_cursors:
  "pay_current_ask F upd mtrx e = Inr e' \<Longrightarrow> (\<And>f. same_cursors e (upd f e)) \<Longrightarrow> same_cursors e e'"
  by (simp add: pay_current_ask_def Let_def run_cases)
     (elim exE conjE; hypsubst; simp)

lemma return_collateral_cursors: "return_collateral F mtrx l owner e = Inr (mtrx', e') \<Longrightarrow> same_cursors e e'"
  by (simp add: return_collateral_def Let_def) (elim exE conjE; hypsubst; simp)

lemma store_cover_state_cursors [simp]: "same_cursors e (store_cover_state a c rest e') = same_cursors e e'"
  by (simp add: store_cover_state_def Let_def)

lemma pay_current_cover_cursors:
  assumes "pay_current_cover F mtrx e = Inr (mtrx', e')"
  shows "same_cursors e e'"
  using assms unfolding pay_current_cover_def
  by (simp add: Let_def run_simps run_cases(1) bind_pair)
     (elim exE conjE disjE; (drule return_collateral_cursors)?; hypsubst; simp)

lemma trade_cursors:
  assumes "trade F b a mtrx e = Inr (mtrx', e')"
  shows "same_cursors e e'"
proof -
  have upd: "same_cursors e (quote_asset_update f e)" "same_cursors e (base_asset_update f e)" for f e
    by (simp_all add: same_cursors_def)
  note pay = pay_current_short_cursors pay_current_bid_cursors pay_current_cover_cursors
    pay_current_ask_cursors [OF _ upd(1)] pay_current_ask_cursors [OF _ upd(2)]
  have "trade_short_cover F b a mtrx e = Inr (mtrx', e') \<Longrightarrow> same_cursors e e'"
    by (simp add: trade_short_cover_def Let_def run_simps split_paired_Ex)
       (elim exE conjE, (drule pay)+, erule same_cursors_trans, assumption)
  moreover have "trade_bid_cover F b a mtrx e = Inr (mtrx', e') \<Longrightarrow> same_cursors e e'"
    by (simp add: trade_bid_cover_def Let_def run_simps split_paired_Ex)
       (elim exE conjE, (drule pay)+, erule same_cursors_trans, assumption)
  moreover have "trade_short_ask F b a mtrx e = Inr (mtrx', e') \<Longrightarrow> same_cursors e e'"
    by (simp add: trade_short_ask_def Let_def run_simps split_paired_Ex)
       (elim exE conjE, (drule pay)+, erule same_cursors_trans, assumption)
  moreover have "trade_bid_ask F b a mtrx e = Inr (mtrx', e') \<Longrightarrow> same_cursors e e'"
    by (simp add: trade_bid_ask_def Let_def run_simps split_paired_Ex)
       (elim exE conjE, (drule pay)+, erule same_cursors_trans, assumption)
  ultimately show ?thesis
    using assms unfolding trade_def by (simp add: run_cases) (elim disjE conjE; simp)
qed

lemma after_trade_cursors: "after_trade mtrx e = Inr e' \<Longrightarrow> same_cursors e e'"
  by (simp add: after_trade_def push_market_transaction_def Let_def run_simps)
     (elim exE conjE; hypsubst; simp)

lemma match_orders_cases:
  assumes "match_orders F b a e = Inr (go, e')"
  obtains "go" "e' = e\<lparr> current_bid := None \<rparr>" | "go" "e' = e\<lparr> current_ask := None \<rparr>" | "\<not> go" "e' = e"
  | m0 m m' e1 where "begin_transaction F e b a = Inr m0" "judge F e b a m0 = Inr (trade_at m)"
      "trade F b a m e = Inr (m', e1)" "after_trade m' e1 = Inr e'" "go"
proof -
  obtain m0 v where m0: "begin_transaction F e b a = Inr m0" and v: "judge F e b a m0 = Inr v"
    and e': "(case v of skip_bid \<Rightarrow> Inr (True, e\<lparr> current_bid := None \<rparr>)
      | skip_ask \<Rightarrow> Inr (True, e\<lparr> current_ask := None \<rparr>) | stop_matching \<Rightarrow> Inr (False, e)
      | trade_at m \<Rightarrow> bindE (trade F b a m e) (\<lambda>(m, e). bindE (after_trade m e) (\<lambda>e. Inr (True, e)))) = Inr (go, e')"
    using assms unfolding match_orders_def bindE_Inr by (elim exE conjE) (rule that)
  show thesis
  proof (cases v)
    case (trade_at m)
    with e' obtain m' e1 where "trade F b a m e = Inr (m', e1)" "after_trade m' e1 = Inr e'" "go"
      by (simp add: bind_pair) (elim exE conjE, rule that)
    with m0 v trade_at show thesis by (simp add: that(4))
  qed (use e' in \<open>simp_all add: that(1-3)\<close>)
qed

lemma match_orders_cursors:
  assumes "match_orders F b a e = Inr (go, e')"
  shows "same_cursors e e'"
  using assms
proof (cases rule: match_orders_cases)
  case (4 m0 m m' e1)
  show ?thesis by (rule same_cursors_trans [OF trade_cursors [OF 4(3)] after_trade_cursors [OF 4(4)]])
qed simp_all

definition loop_measure :: "market_engine \<Rightarrow> nat" where
  "loop_measure e = 2 * cursor_size e + (if orders_filled e = last_orders_filled e then 0 else 1)"

lemma match_step_run:
  assumes "match_step F e = Inr (go, e')"
  obtains (no_bid) "get_next_bid F e = Inr (False, e')" "\<not> go"
  | (no_ask) e1 where "get_next_bid F e = Inr (True, e1)" "get_next_ask F e1 = Inr (False, e')" "\<not> go"
  | (found) e1 e2 b a where "get_next_bid F e = Inr (True, e1)" "get_next_ask F e1 = Inr (True, e2)"
      "orders_filled e2 \<noteq> last_orders_filled e2" "current_bid e2 = Some b" "current_ask e2 = Some a"
      "match_orders F b a (e2\<lparr> last_orders_filled := orders_filled e2 \<rparr>) = Inr (go, e')"
proof -
  obtain more1 e1 where e1: "get_next_bid F e = Inr (more1, e1)"
    and rest: "(if \<not> more1 then Inr (False, e1) else bindE (get_next_ask F e1) (\<lambda>(more2, e).
      if \<not> more2 then Inr (False, e)
      else if orders_filled e = last_orders_filled e then Inl assert_exception
      else let e = e\<lparr> last_orders_filled := orders_filled e \<rparr>
        in bindE (the_order (current_bid e)) (\<lambda>b.
           bindE (the_order (current_ask e)) (\<lambda>a. match_orders F b a e)))) = Inr (go, e')"
    using assms unfolding match_step_def bind_pair by (elim exE conjE) (rule that)
  show thesis
  proof (cases more1)
    case False
    then show thesis using rest e1 by (intro no_bid) simp_all
  next
    case more1: True
    then obtain more2 e2 where e2: "get_next_ask F e1 = Inr (more2, e2)"
      and rest: "(if \<not> more2 then Inr (False, e2)
        else if orders_filled e2 = last_orders_filled e2 then Inl assert_exception
        else let e = e2\<lparr> last_orders_filled := orders_filled e2 \<rparr>
          in bindE (the_order (current_bid e)) (\<lambda>b.
             bindE (the_order (current_ask e)) (\<lambda>a. match_orders F b a e))) = Inr (go, e')"
      using rest by (simp only: not_True_eq_False if_False bind_pair) (elim exE conjE, rule that)
    show thesis
    proof (cases more2)
      case False
      then show thesis using rest e1 e2 more1 by (intro no_ask) simp_all
    next
      case True
      then show thesis
        using rest e1 e2 more1 found [of e1 e2]
        by (simp add: run_simps Let_def the_order_def) (elim conjE exE)
    qed
  qed
qed

lemma match_step_measure:
  assumes "match_step F e = Inr (True, e')"
  shows "loop_measure e' < loop_measure e"
  using assms
proof (cases rule: match_step_run)
  case (found e1 e2 b a)
  have "cursor_size e' = cursor_size e2" "orders_filled e' = last_orders_filled e'"
    using match_orders_cursors [OF found(6)] by (simp_all add: same_cursors_def cursor_size_def)
  then have e': "loop_measure e' = 2 * cursor_size e2" by (simp add: loop_measure_def)
  show ?thesis
    using get_next_bid_size [OF found(1)] get_next_ask_size [OF found(2)] found(3)
    unfolding e' by (auto simp: loop_measure_def)
qed simp_all

text \<open>The loop of \<^verbatim>\<open>execute\<close>.\<close>

function match_loop :: "'z fc_eval_scheme \<Rightarrow> market_engine \<Rightarrow> market_engine res" where
  "match_loop F e =
    (case match_step F e of
       Inl x \<Rightarrow> Inl x
     | Inr (go, e') \<Rightarrow> if go then match_loop F e' else Inr e')"
  by pat_completeness auto

termination match_loop
  by (relation "measure (\<lambda>(F, e). loop_measure e)") (simp_all add: match_step_measure)

declare match_loop.simps [simp del]

section \<open>Executing a market\<close>

definition BTS_V0_4_29_FORK_BLOCK_NUM :: uint32 where "BTS_V0_4_29_FORK_BLOCK_NUM = 9999999"

text \<open>The entries of a map below a key, backwards, and from a key on; a lower bound at the end
  of the map stands for the first entry then.\<close>

definition below :: "market_index_key \<Rightarrow> (market_index_key \<times> 'v) list \<Rightarrow> (market_index_key \<times> 'v) list" where
  "below k m = rev (filter (\<lambda>x. market_index_less (fst x) k) (sort_key (\<lambda>x. index_tuple (fst x)) m))"

definition from_key :: "market_index_key \<Rightarrow> (market_index_key \<times> 'v) list \<Rightarrow> (market_index_key \<times> 'v) list" where
  "from_key k m =
    (let l = sort_key (\<lambda>x. index_tuple (fst x)) m;
         r = filter (\<lambda>x. \<not> market_index_less (fst x) k) l
     in if r = [] then l else r)"

definition market_key :: "asset_id_type \<Rightarrow> asset_id_type \<Rightarrow> market_index_key" where
  "market_key quote base = \<lparr> order_price = mk_price 0 base quote, mk_owner = address_default \<rparr>"

definition next_pair :: "asset_id_type \<Rightarrow> asset_id_type \<Rightarrow> market_index_key" where
  "next_pair quote base =
    (if base + 1 = quote then market_key (quote + 1) 0 else market_key quote (base + 1))"

definition expired_from :: "asset_id_type \<Rightarrow> market_index_key \<Rightarrow> expiration_index list \<Rightarrow> expiration_index list" where
  "expired_from quote k idx =
    filter (\<lambda>x. \<not> expiration_index_less x \<lparr> ei_quote_id = quote, ei_expiration = 0, ei_key = k \<rparr>)
      (sort_key (\<lambda>x. (ei_quote_id x, ei_expiration x, index_tuple (ei_key x))) idx)"

text \<open>The checks at the start, and the engine at the first round. Relative asks have an
  iterator in the source that nothing reads.\<close>

definition market_assets :: "bool \<Rightarrow> asset_id_type \<Rightarrow> asset_id_type \<Rightarrow> chain \<Rightarrow> (asset_record \<times> asset_record) res" where
  "market_assets v7 quote base s =
    (case (get_asset_record s quote, get_asset_record s base) of
       (Some q, Some b) \<Rightarrow>
         if \<not> v7 \<and> (is_market_frozen q \<or> is_market_frozen b) then Inl assert_exception else Inr (q, b)
     | _ \<Rightarrow> Inl assert_exception)"

definition check_feeds :: "bool \<Rightarrow> price option \<Rightarrow> asset_record \<Rightarrow> asset_record \<Rightarrow> chain \<Rightarrow> unit res" where
  "check_feeds v7 feed_price q b s =
    (if is_market_issued q \<and>
        (asr_id b = 0 \<or> v7 \<and> get_head_block_num s < BTS_V0_4_28_FORK_BLOCK_NUM) \<and>
        (case get_market_status s (asr_id q, asr_id b) of
           None \<Rightarrow> True | Some m \<Rightarrow> last_valid_feed_price m = None) \<and> feed_price = None
     then Inl insufficient_feeds else Inr ())"

definition begin_market ::
  "bool \<Rightarrow> chain_database \<Rightarrow> asset_id_type \<Rightarrow> asset_id_type \<Rightarrow> price option \<Rightarrow> asset_record \<Rightarrow> asset_record \<Rightarrow>
    chain \<Rightarrow> market_engine" where
  "begin_market v7 d quote base feed_price q b s =
    (let k = next_pair quote base
     in \<lparr> me_v7 = v7, me_db = d, me_pending = s, me_quote_id = quote, me_base_id = base,
          me_feed_price = feed_price, current_bid = None, current_ask = None,
          current_collat_record = collateral_record_default, orders_filled = 0, me_transactions = [],
          bid_itr = below k (bid_db d), ask_itr = from_key (market_key quote base) (ask_db d),
          relative_bid_itr = (if v7 then [] else below k (relative_bid_db d)),
          short_itr = below k (short_db d), collateral_itr = below k (collateral_db d),
          collateral_expiration_itr =
            (if v7 then [] else expired_from quote (market_key quote base) (collateral_expiration_index d)),
          quote_asset = q, base_asset = b, trading_volume = mk_asset 0 base,
          me_opening_price = price_default, me_closing_price = price_default, last_orders_filled = - 1 \<rparr>)"

section \<open>Market history\<close>

text \<open>The entry before the first one from a key on, in the order of \<^verbatim>\<open>market_history_key\<close>.\<close>

definition history_rank :: "market_history_key \<Rightarrow> asset_id_type \<times> asset_id_type \<times> nat \<times> time_point_sec" where
  "history_rank k =
    (mh_base_id k, mh_quote_id k,
     (case granularity k of each_block \<Rightarrow> 0 | each_hour \<Rightarrow> 1 | each_day \<Rightarrow> 2), mh_timestamp k)"

definition history_before ::
  "market_history_key \<Rightarrow> chain_database \<Rightarrow> (market_history_key \<times> market_history_record) option" where
  "history_before k d =
    (case rev (filter (\<lambda>x. history_rank (fst x) < history_rank k)
                (sort_key (\<lambda>x. history_rank (fst x)) (market_history_db d))) of
       [] \<Rightarrow> None | x # rest \<Rightarrow> Some x)"

definition same_history :: "market_history_record \<Rightarrow> market_history_record \<Rightarrow> bool" where
  "same_history a b =
    (price_eq (highest_bid a) (highest_bid b) \<and> price_eq (lowest_ask a) (lowest_ask b) \<and> volume a = volume b)"

text \<open>The hour or day a trade falls into: its record is stored only if the trade widens the
  range of prices.\<close>

definition merge_history ::
  "chain_database \<Rightarrow> market_history_key \<Rightarrow> market_history_record \<Rightarrow> chain \<Rightarrow> chain" where
  "merge_history d old_key new_record s =
    (case map_of (market_history_db d) old_key of
       None \<Rightarrow> store_market_history_record old_key new_record s
     | Some r \<Rightarrow>
         if price_greater (highest_bid new_record) (highest_bid r) \<or>
            price_less (lowest_ask new_record) (lowest_ask r)
         then store_market_history_record old_key
                (r\<lparr> volume := volume r + volume new_record, closing_price := closing_price new_record,
                    highest_bid := price_max (highest_bid new_record) (highest_bid r),
                    lowest_ask := price_min (lowest_ask new_record) (lowest_ask r) \<rparr>) s
         else s)"

definition record_history ::
  "'z fc_eval_scheme \<Rightarrow> time_point_sec \<Rightarrow> market_order \<Rightarrow> market_order \<Rightarrow> market_engine \<Rightarrow> chain res" where
  "record_history F timestamp b a e =
    bindE (get_price F b price_default) (\<lambda>bp.
    bindE (get_price F a price_default) (\<lambda>ap.
      let new_record = \<lparr> highest_bid = bp, lowest_ask = ap, opening_price = me_opening_price e,
            closing_price = me_closing_price e, volume = amount (trading_volume e) \<rparr>;
          key = (\<lambda>g t. \<lparr> mh_quote_id = me_quote_id e, mh_base_id = me_base_id e, granularity = g, mh_timestamp = t \<rparr>);
          same = (case history_before (key each_block (head_block_timestamp (me_db e))) (me_db e) of
                    None \<Rightarrow> False
                  | Some (k, r) \<Rightarrow> mh_quote_id k = me_quote_id e \<and> mh_base_id k = me_base_id e \<and>
                      granularity k = each_block \<and> same_history r new_record);
          s = (if same then me_pending e
               else store_market_history_record (key each_block timestamp) new_record (me_pending e));
          s = merge_history (me_db e) (key each_hour (tps_sub F timestamp (timestamp mod 3600))) new_record s
      in Inr (merge_history (me_db e) (key each_day (tps_sub F timestamp (timestamp mod 86400))) new_record s)))"

definition update_market_history ::
  "'z fc_eval_scheme \<Rightarrow> time_point_sec \<Rightarrow> market_engine \<Rightarrow> market_engine res" where
  "update_market_history F timestamp e =
    (if \<not> 0 <s amount (trading_volume e) then Inr e
     else bindE (get_next_bid F e) (\<lambda>(found, e).
       if \<not> found then Inr e
       else bindE (get_next_ask F e) (\<lambda>(found, e).
         if \<not> found then Inr e
         else bindE (the_order (current_bid e)) (\<lambda>b.
              bindE (the_order (current_ask e)) (\<lambda>a.
              bindE (record_history F timestamp b a e) (\<lambda>s. Inr (e\<lparr> me_pending := s \<rparr>)))))))"

definition market_status_of :: "chain \<Rightarrow> asset_id_type \<Rightarrow> asset_id_type \<Rightarrow> market_status res" where
  "market_status_of s quote base =
    (case get_market_status s (quote, base) of Some m \<Rightarrow> Inr m | None \<Rightarrow> mk_market_status quote base)"


definition open_market ::
  "'z fc_eval_scheme \<Rightarrow> bool \<Rightarrow> chain_database \<Rightarrow> asset_id_type \<Rightarrow> asset_id_type \<Rightarrow> chain \<Rightarrow> market_engine res" where
  "open_market F v7 d quote base s =
    bindE (market_assets v7 quote base s) (\<lambda>(q, b).
    bindE (get_median_delegate_price F quote base (DB d)) (\<lambda>feed_price.
      Inr (begin_market v7 d quote base feed_price q b s)))"

definition run_market :: "'z fc_eval_scheme \<Rightarrow> market_engine \<Rightarrow> market_engine res" where
  "run_market F e =
    bindE (check_feeds (me_v7 e) (me_feed_price e) (quote_asset e) (base_asset e) (me_pending e)) (\<lambda>_.
    bindE (get_next_bid F e) (\<lambda>(_, e).
    bindE (get_next_ask F e) (\<lambda>(_, e). match_loop F e)))"

definition close_market :: "'z fc_eval_scheme \<Rightarrow> time_point_sec \<Rightarrow> market_engine \<Rightarrow> market_engine res" where
  "close_market F timestamp e =
    (let s = store_asset_record (base_asset e) (store_asset_record (quote_asset e) (me_pending e))
     in bindE (market_status_of s (me_quote_id e) (me_base_id e)) (\<lambda>m.
        update_market_history F timestamp
          (e\<lparr> me_pending := store_market_status ((update_feed_price m (me_feed_price e))\<lparr> last_error := None \<rparr>) s \<rparr>)))"

fun commit :: "'z fc_eval_scheme \<Rightarrow> chain \<Rightarrow> chain res" where
  "commit F (Pending p prev) = apply_changes F p prev"
| "commit F (DB d) = Inr (DB d)"

text \<open>The handler of \<^verbatim>\<open>execute\<close> stores the error in the market's status, into the state the
  run was given. That state is only written to by the commit, and the commit of an engine does
  not throw (\<open>execute_commits\<close> in theory Market_Trades), so the handler finds it as it
  was. The feed price is the engine's, none before it has been read.\<close>

definition market_failed ::
  "asset_id_type \<Rightarrow> asset_id_type \<Rightarrow> price option \<Rightarrow> exception \<Rightarrow> chain \<Rightarrow>
    (bool \<times> market_transaction list \<times> chain) res" where
  "market_failed quote base feed_price x s =
    (if x = undefined_behaviour then Inl x
     else bindE (market_status_of s quote base) (\<lambda>m.
       Inr (False, [], store_market_status ((update_feed_price m feed_price)\<lparr> last_error := Some x \<rparr>) s)))"

definition execute ::
  "'z fc_eval_scheme \<Rightarrow> bool \<Rightarrow> chain_database \<Rightarrow> asset_id_type \<Rightarrow> asset_id_type \<Rightarrow> time_point_sec \<Rightarrow> chain \<Rightarrow>
    (bool \<times> market_transaction list \<times> chain) res" where
  "execute F v7 d quote base timestamp prior_state =
    (case open_market F v7 d quote base (Pending pending_empty prior_state) of
       Inl x \<Rightarrow> market_failed quote base None x prior_state
     | Inr e \<Rightarrow>
         (case bindE (run_market F e) (\<lambda>e.
               bindE (close_market F timestamp e) (\<lambda>e.
               bindE (commit F (me_pending e)) (\<lambda>s. Inr (me_transactions e, s)))) of
            Inl x \<Rightarrow> market_failed quote base (me_feed_price e) x prior_state
          | Inr (ts, s) \<Rightarrow> Inr (True, ts, s)))"

text \<open>Canceling shorts: the order's balance goes back to its owner. Nothing calls this at present;
  two hard forks did, with the engines of their time.\<close>

definition cancel_current_short ::
  "'z fc_eval_scheme \<Rightarrow> asset_id_type \<Rightarrow> market_transaction \<Rightarrow> market_engine \<Rightarrow>
    (market_transaction \<times> market_engine) res" where
  "cancel_current_short F quote mtrx e =
    bindE (the_order (current_bid e)) (\<lambda>b.
    if mo_type b \<noteq> short_order \<or> bid_type mtrx \<noteq> short_order then Inl assert_exception
    else bindE (get_balance b) (\<lambda>bal.
      let mtrx = mtrx\<lparr> ask_paid := mk_asset 0 0, ask_received := mk_asset 0 quote, bid_received := bal,
                       bid_paid := mk_asset 0 quote, short_collateral := None \<rparr>;
          b = b\<lparr> state := (state b)\<lparr> or_balance := 0 \<rparr> \<rparr>;
          s = pay_out F (bid_owner mtrx) 0 (amount bal) (me_pending e)
      in Inr (mtrx, e\<lparr> current_bid := Some b, me_pending := store_short_record (market_index b) (state b) s \<rparr>)))"

definition cancel_all_shorts ::
  "'z fc_eval_scheme \<Rightarrow> market_engine \<Rightarrow> (market_transaction list \<times> chain) res" where
  "cancel_all_shorts F e =
    bindE (foldE (\<lambda>(k, r) e.
        let mtrx = \<lparr> bid_owner = mk_owner k, ask_owner = address_default, bid_price = price_default,
              ask_price = price_default, bid_paid = mk_asset 0 0, bid_received = mk_asset 0 0,
              short_collateral = None, ask_paid = mk_asset 0 0, ask_received = mk_asset 0 0,
              returned_collateral = None, bid_type = short_order, ask_type = null_order,
              fees_collected = mk_asset 0 0 \<rparr>
        in bindE (cancel_current_short F (quote_asset_id (order_price k)) mtrx
                   (e\<lparr> current_bid := Some (limit_order short_order k r) \<rparr>)) (\<lambda>(mtrx, e).
           push_market_transaction mtrx e))
      (sort_key (\<lambda>x. index_tuple (fst x)) (short_db (me_db e))) e) (\<lambda>e.
    bindE (commit F (me_pending e)) (\<lambda>s. Inr (me_transactions e, s)))"

text \<open>The markets of a block; \<open>None\<close> up to block 820200, whose markets run the older engines.
  Before block 9999999 the transactions are kept whether or not statistics are tracked.\<close>

definition execute_markets ::
  "'z fc_eval_scheme \<Rightarrow> chain_database \<Rightarrow> time_point_sec \<Rightarrow> chain \<Rightarrow> chain res option" where
  "execute_markets F d timestamp pending_state =
    (let v1 = get_head_block_num pending_state < BTS_V0_4_29_FORK_BLOCK_NUM;
         keep = (v1 \<or> track_stats d)
     in if get_head_block_num pending_state \<le> BTS_V0_4_21_FORK_BLOCK_NUM then None
        else Some (bindE (foldE (\<lambda>(quote, base) (ts, s).
                    if \<not> quote > base then Inl assert_exception
                    else bindE (execute F v1 d quote base timestamp s) (\<lambda>(ok, new_ts, s).
                      Inr (if ok \<and> keep then ts @ new_ts else ts, s)))
                  (get_dirty_markets F (DB d)) ([], pending_state)) (\<lambda>(ts, s).
              if keep then set_market_transactions ts s else Inr s)))"

end
