(* ===== verification/Market_Laws.thy ===== *)
theory Market_Laws
  imports Market_Engine Delegate_Laws
begin

text \<open>
  What the market engine does to the ledger. In a market of limit orders a run of the engine
  moves shares between orders, balances and collected fees and neither creates nor destroys
  any. The proof keeps the book of the engine, the orders its iterators still have, in
  agreement with the records of its pending state.
\<close>

section \<open>The state an engine writes to\<close>

text \<open>The pending state of an engine has no accounts and no transactions, and no null assets.\<close>

definition market_pending :: "chain \<Rightarrow> chain \<Rightarrow> bool" where
  "market_pending prior s =
    (\<exists>p. s = Pending p prior \<and> accounts p = [] \<and> transactions p = [] \<and>
      (\<forall>r \<in> snd ` set (assets p). \<not> asset_is_null r))"

lemma set_update: "set (AList.update k v m) \<subseteq> insert (k, v) (set m)"
  by (induction m) auto

lemma market_pending_fresh: "market_pending prior (Pending pending_empty prior)"
  by (simp add: market_pending_def pending_empty_def)

lemma market_pending_stores [simp]:
  assumes "market_pending prior s"
  shows "market_pending prior (store_balance_record F r1 s)"
    "market_pending prior (store_bid_record k r2 s)"
    "market_pending prior (store_relative_bid_record k r2 s)"
    "market_pending prior (store_ask_record k r2 s)"
    "market_pending prior (store_relative_ask_record k r2 s)"
    "market_pending prior (store_short_record k r2 s)"
    "market_pending prior (store_collateral_record k r3 s)"
    "market_pending prior (store_market_status r4 s)"
    "market_pending prior (store_market_history_record hk r5 s)"
    "\<not> asset_is_null r6 \<Longrightarrow> market_pending prior (store_asset_record r6 s)"
  using assms by (fastforce simp: market_pending_def dest: subsetD [OF set_update])+

text \<open>The engine stores neither accounts nor transactions in its pending state: the part of a
  state that the operations of an engine leave alone.\<close>

fun quiet :: "chain \<Rightarrow> ((account_id_type \<times> account_record) list \<times>
    (transaction_id_type \<times> transaction_record) list \<times> chain) option" where
  "quiet (DB d) = None"
| "quiet (Pending p prev) = Some (accounts p, transactions p, prev)"

lemma quiet_stores [simp]:
  "quiet (store_balance_record F r1 s) = quiet s"
  "quiet (store_bid_record k r2 s) = quiet s"
  "quiet (store_relative_bid_record k r2 s) = quiet s"
  "quiet (store_ask_record k r2 s) = quiet s"
  "quiet (store_relative_ask_record k r2 s) = quiet s"
  "quiet (store_short_record k r2 s) = quiet s"
  "quiet (store_collateral_record k r3 s) = quiet s"
  "quiet (store_market_status r4 s) = quiet s"
  "quiet (store_market_history_record hk r5 s) = quiet s"
  "quiet (store_asset_record r6 s) = quiet s"
  "quiet (pay_out F owner i n s) = quiet s"
  by (cases s; simp add: pay_out_def Let_def split: option.split)+

text \<open>What the commit of an engine stores into: the pending state of the block. Without accounts
  and transactions none of the stores can throw.\<close>

fun is_pending :: "chain \<Rightarrow> bool" where
  "is_pending (DB d) = False"
| "is_pending (Pending p prev) = True"

lemma is_pending_stores [simp]:
  "is_pending (set_property i v s) = is_pending s"
  "is_pending (store_asset_record r1 s) = is_pending s"
  "is_pending (store_balance_record F r2 s) = is_pending s"
  "is_pending (authorize k oid s) = is_pending s"
  "is_pending (store_bid_record k1 r3 s) = is_pending s"
  "is_pending (store_relative_bid_record k1 r3 s) = is_pending s"
  "is_pending (store_ask_record k1 r3 s) = is_pending s"
  "is_pending (store_relative_ask_record k1 r3 s) = is_pending s"
  "is_pending (store_short_record k1 r3 s) = is_pending s"
  "is_pending (store_collateral_record k1 r4 s) = is_pending s"
  "is_pending (store_delegate_slate i1 r5 s) = is_pending s"
  "is_pending (store_slot_record r6 s) = is_pending s"
  "is_pending (store_market_history_record k2 r7 s) = is_pending s"
  "is_pending (store_market_status r8 s) = is_pending s"
  "is_pending (store_asset_proposal r9 s) = is_pending s"
  "is_pending (set_feed r10 s) = is_pending s"
  "is_pending (store_recent_operation x s) = is_pending s"
  "is_pending (store_burn_record k3 v3 s) = is_pending s"
  by (cases s; simp)+

lemma is_pending_fold: "(\<And>x s. is_pending (f x s) = is_pending s) \<Longrightarrow> is_pending (fold f xs s) = is_pending s"
  by (induction xs arbitrary: s) simp_all

lemma commit_quiet:
  assumes "quiet s = Some ([], [], Pending p prev)"
  shows "\<exists>s'. commit F s = Inr s'"
proof -
  obtain q where s: "s = Pending q (Pending p prev)" "accounts q = []" "transactions q = []"
    using assms by (cases s) auto
  have trades: "\<exists>s'. set_market_transactions ts c = Inr s'" if "is_pending c" for ts c
    using that by (cases c) auto
  show ?thesis
    unfolding s commit.simps apply_changes_def Let_def s(2,3) foldE.simps bindE.simps
    by (simp add: bindE_Inr, rule trades) (simp add: is_pending_fold split_beta)
qed

lemma fold_keeps: "(\<And>x s. g (f x s) = g s) \<Longrightarrow> g (fold f xs s) = g s"
  by (induction xs arbitrary: s) simp_all

lemma fold_invariant: "(\<And>x s. x \<in> set xs \<Longrightarrow> P s \<Longrightarrow> P (f x s)) \<Longrightarrow> P s \<Longrightarrow> P (fold f xs s)"
  by (induction xs arbitrary: s) simp_all

lemma live_records_asset:
  "live_records s \<Longrightarrow> \<not> asset_is_null r \<Longrightarrow> live_records (store_asset_record r s)"
  using store_asset_record_get [of r s] by (auto simp: live_records_def)

lemma live_records_cong:
  "get_account_record s' = get_account_record s \<Longrightarrow> get_asset_record s' = get_asset_record s \<Longrightarrow>
    live_records s' = live_records s"
  by (simp add: live_records_def)

lemma market_pending_live:
  assumes "market_pending prior s" "live_records prior"
  shows "live_records s"
  using assms by (force simp: market_pending_def live_records_def gets_Pending map_add_Some_iff dest: map_of_SomeD)

lemma dict_sum_same:
  fixes f :: "'k \<Rightarrow> 'v \<Rightarrow> 'a::ab_group_add"
  assumes "(\<lambda>k. live null (m' k)) = (\<lambda>k. live null (m k))" "finite (dom m)" "finite (dom m')"
    and "\<And>k v. null v \<Longrightarrow> f k v = 0"
  shows "dict_sum f m' = dict_sum f m"
  using dict_sum_live [of m' null f] dict_sum_live [of m null f] assms by simp

text \<open>Two states with the same view have the same surplus.\<close>

lemma surplus_view:
  assumes view: "view s' = (view s)\<lparr> v_properties := x \<rparr>" and live: "live_records s" "live_records s'"
  shows "surplus s' a = surplus s a"
proof -
  have acc: "live account_is_null (get_account_record t i) = get_account_record t i"
    and ast: "live asset_is_null (get_asset_record t i) = get_asset_record t i" if "live_records t" for t i
    using that by (auto simp: live_records_def live_def split: option.split)
  have fields: "\<And>k. get_asset_record s' k = get_asset_record s k" "get_account_record s' = get_account_record s"
    "(\<lambda>k. live balance_is_null (get_balance_record s' k)) = (\<lambda>k. live balance_is_null (get_balance_record s k))"
    "(\<lambda>k. live order_is_null (get_bid_record s' k)) = (\<lambda>k. live order_is_null (get_bid_record s k))"
    "(\<lambda>k. live order_is_null (get_ask_record s' k)) = (\<lambda>k. live order_is_null (get_ask_record s k))"
    "(\<lambda>k. live order_is_null (get_relative_bid_record s' k)) = (\<lambda>k. live order_is_null (get_relative_bid_record s k))"
    "(\<lambda>k. live order_is_null (get_relative_ask_record s' k)) = (\<lambda>k. live order_is_null (get_relative_ask_record s k))"
    "(\<lambda>k. live order_is_null (get_short_record s' k)) = (\<lambda>k. live order_is_null (get_short_record s k))"
    "(\<lambda>k. live collateral_is_null (get_collateral_record s' k)) = (\<lambda>k. live collateral_is_null (get_collateral_record s k))"
    using view acc ast live by (simp_all add: view_def fun_eq_iff)
  have sums: "dict_sum (\<lambda>i. balance_shares a) (get_balance_record s') = dict_sum (\<lambda>i. balance_shares a) (get_balance_record s)"
    "dict_sum (\<lambda>k r. quote_shares a k (or_balance r)) (get_bid_record s') = dict_sum (\<lambda>k r. quote_shares a k (or_balance r)) (get_bid_record s)"
    "dict_sum (\<lambda>k r. base_shares a k (or_balance r)) (get_ask_record s') = dict_sum (\<lambda>k r. base_shares a k (or_balance r)) (get_ask_record s)"
    "dict_sum (\<lambda>k r. quote_shares a k (or_balance r)) (get_relative_bid_record s') = dict_sum (\<lambda>k r. quote_shares a k (or_balance r)) (get_relative_bid_record s)"
    "dict_sum (\<lambda>k r. base_shares a k (or_balance r)) (get_relative_ask_record s') = dict_sum (\<lambda>k r. base_shares a k (or_balance r)) (get_relative_ask_record s)"
    "dict_sum (\<lambda>k r. base_shares a k (or_balance r)) (get_short_record s') = dict_sum (\<lambda>k r. base_shares a k (or_balance r)) (get_short_record s)"
    "dict_sum (\<lambda>k r. base_shares a k (collateral_balance r)) (get_collateral_record s') =
      dict_sum (\<lambda>k r. base_shares a k (collateral_balance r)) (get_collateral_record s)"
    by (rule dict_sum_same, rule fields,
        simp_all add: finite_gets balance_is_null_def balance_shares_def order_is_null_def quote_shares_def
          base_shares_def collateral_is_null_def)+
  show ?thesis
    unfolding surplus_defs sums fields ..
qed

lemma live_records_stores [simp]:
  "live_records (store_balance_record F r1 s) = live_records s"
  "live_records (store_bid_record k r2 s) = live_records s"
  "live_records (store_relative_bid_record k r2 s) = live_records s"
  "live_records (store_ask_record k r2 s) = live_records s"
  "live_records (store_relative_ask_record k r2 s) = live_records s"
  "live_records (store_short_record k r2 s) = live_records s"
  "live_records (store_collateral_record k r3 s) = live_records s"
  "live_records (store_market_status r4 s) = live_records s"
  "live_records (store_market_history_record hk r5 s) = live_records s"
  "live_records (set_property i v s) = live_records s"
  "live_records (authorize ak oid s) = live_records s"
  "live_records (store_delegate_slate si sl s) = live_records s"
  "live_records (store_slot_record r6 s) = live_records s"
  "live_records (store_asset_proposal r7 s) = live_records s"
  "live_records (set_feed r8 s) = live_records s"
  "live_records (store_recent_operation o' s) = live_records s"
  "live_records (store_burn_record bk r9 s) = live_records s"
  by (simp_all add: live_records_def)

lemma commit_market:
  assumes run: "commit F s = Inr s'" and s: "market_pending prior s" and wf: "chain_wf F s"
    and live: "live_records prior"
  shows "surplus s' a = surplus s a" "chain_wf F s'" "live_records s'"
proof -
  obtain p where p: "s = Pending p prior" "accounts p = []" "transactions p = []"
    and assets: "\<And>i r. (i, r) \<in> set (assets p) \<Longrightarrow> \<not> asset_is_null r"
    using s by (force simp: market_pending_def)
  have changes: "apply_changes F p prior = Inr s'" using run p(1) by simp
  show wf': "chain_wf F s'"
    using apply_changes_view [OF wf [unfolded p(1)] changes] by simp
  obtain x where view: "view s' = (view s)\<lparr> v_properties := x \<rparr>"
    using apply_changes_view [OF wf [unfolded p(1)] changes] by (simp add: p(1) view_Pending Let_def)
  define t where "t = fold (\<lambda>(i, r). store_asset_record r) (assets p)
    (fold (\<lambda>(i, v). set_property i v) (properties p) prior)"
  have t: "live_records t"
    unfolding t_def
    by (rule fold_invariant)
       (auto simp: live fold_keeps [of live_records] split_beta intro!: live_records_asset, blast dest: assets)
  obtain t' where t': "set_market_transactions (market_transactions p)
      (fold (\<lambda>(k, v). store_burn_record k v) (burns p)
      (fold (\<lambda>(t, q). fold store_recent_operation q) (recent_operations p)
      (fold (\<lambda>(k, r). set_feed r) (feeds p)
      (fold (\<lambda>(k, r). store_asset_proposal r) (asset_proposals p)
      (fold (\<lambda>(k, r). store_market_status r) (market_statuses p)
      (fold (\<lambda>(k, r). store_market_history_record k r) (market_history p)
      (fold (\<lambda>(t, r). store_slot_record r) (slots p)
      (fold (\<lambda>(i, r). store_delegate_slate i r) (slates p)
      (fold (\<lambda>(k, r). store_collateral_record k r) (collaterals p)
      (fold (\<lambda>(k, r). store_short_record k r) (shorts p)
      (fold (\<lambda>(k, r). store_relative_ask_record k r) (relative_asks p)
      (fold (\<lambda>(k, r). store_ask_record k r) (asks p)
      (fold (\<lambda>(k, r). store_relative_bid_record k r) (relative_bids p)
      (fold (\<lambda>(k, r). store_bid_record k r) (bids p)
      (fold (\<lambda>(k, oid). authorize k oid) (authorizations p)
      (fold (\<lambda>(i, r). store_balance_record F r) (balances p) t)))))))))))))))) = Inr t'"
    and s': "s' = set_dirty_markets F (dirty_markets p) t'"
    using changes p(2,3) by (simp add: apply_changes_def Let_def t_def [symmetric] run_simps) blast
  have "live_records t' = live_records t"
    using live_records_cong [OF set_market_transactions_frame(3,1) [OF t']]
    by (simp add: fold_keeps [of live_records] split_beta)
  then show live': "live_records s'"
    using t by (simp add: s' set_dirty_markets_def)
  show "surplus s' a = surplus s a"
    by (rule surplus_view [OF view market_pending_live [OF s live] live'])
qed

section \<open>Payouts\<close>

text \<open>The balances the owners of a market's orders are paid to: what is there already is of the
  asset paid, and no two owners' balances in the two assets share an address.\<close>

definition payout_id :: "'z fc_cond_scheme \<Rightarrow> asset_id_type \<Rightarrow> address \<Rightarrow> balance_id_type" where
  "payout_id F i owner = get_address F (payout_condition F owner i)"

definition pays_asset :: "'z fc_cond_scheme \<Rightarrow> chain \<Rightarrow> asset_id_type \<Rightarrow> address \<Rightarrow> bool" where
  "pays_asset F s i owner =
    (case get_balance_record s (payout_id F i owner) of
       None \<Rightarrow> True | Some r \<Rightarrow> wc_asset_id (condition r) = i)"

definition payouts_ok ::
  "'z fc_cond_scheme \<Rightarrow> asset_id_type \<Rightarrow> asset_id_type \<Rightarrow> address list \<Rightarrow> chain \<Rightarrow> bool" where
  "payouts_ok F quote base traders s =
    (list_all (pays_asset F s quote) traders \<and> list_all (pays_asset F s base) traders \<and>
     set (map (payout_id F quote) traders) \<inter> set (map (payout_id F base) traders) = {})"

lemma pay_out_record:
  fixes F :: "'z fc_cond_scheme"
  assumes "chain_wf F s" "pays_asset F s i owner"
  obtains r r' where "pay_out F owner i n s = store_balance_record F r' s"
    "balance_id F r' = payout_id F i owner" "wc_asset_id (condition r') = i"
    "opt_val (balance_shares a) (get_balance_record s (payout_id F i owner)) = balance_shares a r"
    "wc_asset_id (condition r) = i" "balance r' = balance r + n"
proof -
  let ?b = "get_balance_record s (payout_id F i owner)"
  define r where "r = (case ?b of Some r \<Rightarrow> r | None \<Rightarrow> balance_record_of_owner F owner (mk_asset 0 i) 0)"
  have new: "condition (balance_record_of_owner F owner (mk_asset 0 i) 0) = payout_condition F owner i"
    "balance (balance_record_of_owner F owner (mk_asset 0 i) 0) = 0"
    by (simp_all add: balance_record_of_owner_def balance_record_of_condition_def payout_condition_def)
  have id: "get_address F (condition r) = payout_id F i owner"
    using wf_gets(2) [OF assms(1), of "payout_id F i owner"] new
    by (cases ?b) (simp_all add: r_def balance_id_def payout_id_def)
  have i: "wc_asset_id (condition r) = i"
    using assms(2) new by (cases ?b) (simp_all add: r_def pays_asset_def payout_condition_def signature_condition_def)
  have old: "opt_val (balance_shares a) ?b = balance_shares a r"
    using new by (cases ?b) (simp_all add: r_def balance_shares_def)
  show thesis
    by (rule that [of "r\<lparr> balance := balance r + n, br_last_update := now s, deposit_date := now s \<rparr>" r])
       (simp_all add: pay_out_def Let_def r_def payout_id_def [symmetric] balance_id_def id [unfolded r_def] i [unfolded r_def]
         old [unfolded r_def])
qed

lemma pay_out_surplus:
  assumes "chain_wf F s" "pays_asset F s i owner"
  shows "surplus (pay_out F owner i n s) a = surplus s a + (if a = i then n else 0)"
proof -
  obtain r r' where r: "pay_out F owner i n s = store_balance_record F r' s"
    "balance_id F r' = payout_id F i owner" "wc_asset_id (condition r') = i"
    "opt_val (balance_shares a) (get_balance_record s (payout_id F i owner)) = balance_shares a r"
    "wc_asset_id (condition r) = i" "balance r' = balance r + n"
    by (rule pay_out_record [OF assms, of n a]) (rule that)
  show ?thesis
    unfolding r(1) surplus_balance [OF assms(1)] using r(2-) by (simp add: balance_shares_def)
qed

lemma pay_out_payouts:
  assumes "chain_wf F s" "payouts_ok F quote base traders s" "owner \<in> set traders" "i = quote \<or> i = base"
  shows "payouts_ok F quote base traders (pay_out F owner i n s)"
proof -
  have paid: "pays_asset F s i owner"
    using assms(2-4) by (auto simp: payouts_ok_def list_all_iff)
  obtain r' where r': "pay_out F owner i n s = store_balance_record F r' s"
    "balance_id F r' = payout_id F i owner" "wc_asset_id (condition r') = i"
    by (rule pay_out_record [OF assms(1) paid, of n i]) (rule that)
  have "payout_id F quote owner' = payout_id F i owner \<Longrightarrow> i = quote"
    "payout_id F base owner' = payout_id F i owner \<Longrightarrow> i = base" if "owner' \<in> set traders" for owner'
    using assms(2-4) that unfolding payouts_ok_def by (metis IntI equals0D image_eqI set_map)+
  then show ?thesis
    using assms(2) r' unfolding payouts_ok_def list_all_iff
    by (auto simp: pays_asset_def store_balance_record_get split: option.splits)
qed

lemma pay_out_frame [simp]:
  "get_bid_record (pay_out F owner i n s) = get_bid_record s"
  "get_relative_bid_record (pay_out F owner i n s) = get_relative_bid_record s"
  "get_ask_record (pay_out F owner i n s) = get_ask_record s"
  "get_asset_record (pay_out F owner i n s) = get_asset_record s"
  "market_pending prior s \<Longrightarrow> market_pending prior (pay_out F owner i n s)"
  "chain_wf F s \<Longrightarrow> chain_wf F (pay_out F owner i n s)"
  by (simp_all add: pay_out_def Let_def)

section \<open>The book\<close>

text \<open>The orders an engine still has: the current one and those its iterators have not passed.
  They agree with the records of the pending state, so that paying an order and storing it
  moves exactly what is paid.\<close>

definition in_pair :: "asset_id_type \<Rightarrow> asset_id_type \<Rightarrow> price \<Rightarrow> bool" where
  "in_pair quote base p = (quote_asset_id p = quote \<and> base_asset_id p = base)"

definition of_type :: "order_type_enum \<Rightarrow> market_order option \<Rightarrow> (market_index_key \<times> order_record) list" where
  "of_type t m =
    (case m of None \<Rightarrow> [] | Some b \<Rightarrow> if mo_type b = t then [(market_index b, state b)] else [])"

lemma of_type_simps [simp]:
  "of_type t None = []"
  "of_type t (Some b) = (if mo_type b = t then [(market_index b, state b)] else [])"
  by (simp_all add: of_type_def)

definition open_bids :: "market_engine \<Rightarrow> (market_index_key \<times> order_record) list" where
  "open_bids e = of_type bid_order (current_bid e) @ bid_itr e"

definition open_relative_bids :: "market_engine \<Rightarrow> (market_index_key \<times> order_record) list" where
  "open_relative_bids e = of_type relative_bid_order (current_bid e) @ relative_bid_itr e"

definition open_asks :: "market_engine \<Rightarrow> (market_index_key \<times> order_record) list" where
  "open_asks e = of_type ask_order (current_ask e) @ ask_itr e"

definition same_limit :: "market_index_key \<times> order_record \<Rightarrow> bool" where
  "same_limit = (\<lambda>(k, r). case limit_price r of None \<Rightarrow> True
     | Some l \<Rightarrow> quote_asset_id l = quote_asset_id (order_price k) \<and> base_asset_id l = base_asset_id (order_price k))"

definition book_agrees ::
  "asset_id_type \<Rightarrow> asset_id_type \<Rightarrow> address list \<Rightarrow> (market_index_key \<Rightarrow> order_record option) \<Rightarrow>
    (market_index_key \<times> order_record) list \<Rightarrow> bool" where
  "book_agrees quote base traders get l =
    (distinct (map fst l) \<and>
     (\<forall>(k, r) \<in> set l. in_pair quote base (order_price k) \<longrightarrow>
       opt_val or_balance (get k) = or_balance r \<and> mk_owner k \<in> set traders))"

lemma book_agrees_append:
  "book_agrees quote base traders get (l @ l') \<Longrightarrow> book_agrees quote base traders get l'"
  by (auto simp: book_agrees_def)

lemma book_agrees_tl:
  "book_agrees quote base traders get (x # l) \<Longrightarrow> book_agrees quote base traders get l"
  by (simp add: book_agrees_def)

text \<open>Storing an order of the book.\<close>

lemma book_agrees_store:
  assumes "book_agrees quote base traders get ((k, r) # l)"
    and "get' = get(k \<mapsto> r') \<or> order_is_null r' \<and> get' = get(k := None)"
  shows "book_agrees quote base traders get' ((k, r') # l)"
  using assms by (fastforce simp: book_agrees_def order_is_null_def image_iff)

lemma book_agrees_head:
  assumes "book_agrees quote base traders get ((k, r) # l)" "in_pair quote base (order_price k)"
  shows "opt_val or_balance (get k) = or_balance r" "mk_owner k \<in> set traders"
  using assms by (simp_all add: book_agrees_def)

lemma surplus_relative_bid:
  "surplus (store_relative_bid_record k r s) a = surplus s a -
    opt_val (\<lambda>r. quote_shares a k (or_balance r)) (get_relative_bid_record s k) + quote_shares a k (or_balance r)"
  using relative_bid_tab.sum_put [of k r s "store_relative_bid_record k r s" "\<lambda>k r. quote_shares a k (or_balance r)"]
  by (simp add: surplus_defs order_is_null_def quote_shares_def)

lemma opt_val_shares:
  "opt_val (\<lambda>r. quote_shares a k (or_balance r)) x = quote_shares a k (opt_val or_balance x)"
  "opt_val (\<lambda>r. base_shares a k (or_balance r)) x = base_shares a k (opt_val or_balance x)"
  by (cases x; simp add: quote_shares_def base_shares_def)+

definition no_margin :: "market_engine \<Rightarrow> bool" where
  "no_margin e =
    (list_all (\<lambda>x. \<not> in_market e (order_price (fst x))) (short_itr e) \<and>
     list_all (\<lambda>x. \<not> in_market e (order_price (fst x))) (collateral_itr e) \<and>
     list_all (\<lambda>x. ei_quote_id x \<noteq> me_quote_id e) (collateral_expiration_itr e))"

definition limit_side ::
  "order_type_enum set \<Rightarrow> asset_id_type \<Rightarrow> asset_id_type \<Rightarrow> market_order option \<Rightarrow> bool" where
  "limit_side ts quote base m =
    (case m of None \<Rightarrow> True | Some b \<Rightarrow> mo_type b \<in> ts \<and> in_pair quote base (order_price (market_index b)))"

lemma limit_side_simps [simp]:
  "limit_side ts quote base None"
  "limit_side ts quote base (Some b) = (mo_type b \<in> ts \<and> in_pair quote base (order_price (market_index b)))"
  by (simp_all add: limit_side_def)

definition book_ok :: "'z fc_cond_scheme \<Rightarrow> chain \<Rightarrow> address list \<Rightarrow> market_engine \<Rightarrow> bool" where
  "book_ok F prior traders e =
    (chain_wf F (me_pending e) \<and> market_pending prior (me_pending e) \<and>
     payouts_ok F (me_quote_id e) (me_base_id e) traders (me_pending e) \<and>
     me_quote_id e \<noteq> me_base_id e \<and> asr_id (quote_asset e) = me_quote_id e \<and> asr_id (base_asset e) = me_base_id e \<and>
     \<not> asset_is_null (quote_asset e) \<and> \<not> asset_is_null (base_asset e) \<and>
     get_asset_record (me_pending e) = get_asset_record prior \<and> no_margin e \<and> list_all same_limit (open_relative_bids e) \<and>
     limit_side {bid_order, relative_bid_order} (me_quote_id e) (me_base_id e) (current_bid e) \<and>
     limit_side {ask_order} (me_quote_id e) (me_base_id e) (current_ask e) \<and>
     book_agrees (me_quote_id e) (me_base_id e) traders (get_bid_record (me_pending e)) (open_bids e) \<and>
     book_agrees (me_quote_id e) (me_base_id e) traders (get_relative_bid_record (me_pending e)) (open_relative_bids e) \<and>
     book_agrees (me_quote_id e) (me_base_id e) traders (get_ask_record (me_pending e)) (open_asks e))"

lemma asset_is_null_fees [simp]: "asset_is_null (r\<lparr> collected_fees := x \<rparr>) = asset_is_null r"
  by (simp add: asset_is_null_def)

lemmas book_defs = book_ok_def no_margin_def in_pair_def open_bids_def open_relative_bids_def open_asks_def
  in_market_def

text \<open>What a market holds less what it states: the fees of both assets are those the engine
  carries.\<close>

definition engine_total :: "market_engine \<Rightarrow> asset_id_type \<Rightarrow> share_type" where
  "engine_total e a =
    surplus (me_pending e) a + (if a = asr_id (quote_asset e) then net_fees (quote_asset e) else 0) +
    (if a = asr_id (base_asset e) then net_fees (base_asset e) else 0)"

section \<open>The next orders of the book\<close>

lemma get_price_pair:
  assumes "get_price F m relative = Inr p" "mo_type m \<in> {bid_order, relative_bid_order, ask_order}"
    and "list_all same_limit (of_type relative_bid_order (Some m))"
  shows "quote_asset_id p = quote_asset_id (order_price (market_index m))"
    "base_asset_id p = base_asset_id (order_price (market_index m))"
  using assms
  by (auto simp: get_price_def Let_def price_plus_def price_min_def run_simps same_limit_def
      split: if_split_asm option.split_asm)

lemma get_next_short_none:
  assumes "no_margin e"
  shows "get_next_short F e = Inr (False, e)"
proof (cases "short_itr e")
  case (Cons x l)
  moreover obtain k r where "x = (k, r)" by (cases x)
  ultimately show ?thesis
    using assms by (simp add: get_next_short_def Let_def limit_order_def get_price_def price_eq_def no_margin_def)
qed (simp add: get_next_short_def)

lemma next_relative_bid_first:
  assumes run: "next_relative_bid F e = Inr rel" and limits: "list_all same_limit (relative_bid_itr e)"
  shows "rel = None \<or> (\<exists>k r l. relative_bid_itr e = (k, r) # l \<and> in_market e (order_price k) \<and>
    rel = Some (limit_order relative_bid_order k r))"
proof (cases "relative_bid_itr e")
  case (Cons x l)
  obtain k r where x: "x = (k, r)" by (cases x)
  have "list_all same_limit (of_type relative_bid_order (Some (limit_order relative_bid_order k r)))"
    using limits Cons x by (simp add: same_limit_def limit_order_def)
  note pair = get_price_pair [OF _ _ this, of F]
  show ?thesis
  proof (cases "me_feed_price e")
    case (Some p)
    then obtain bp where bp: "get_price F (limit_order relative_bid_order k r) p = Inr bp"
      and rel: "rel = (if in_market e bp then Some (limit_order relative_bid_order k r) else None)"
      using run Cons x by (auto simp: next_relative_bid_def Let_def run_simps)
    then show ?thesis
      using Cons x pair [OF bp] by (simp add: in_market_def limit_order_def)
  qed (use run Cons x in \<open>simp add: next_relative_bid_def\<close>)
qed (use run in \<open>simp add: next_relative_bid_def\<close>)

lemma next_limit_bid_first:
  assumes "next_limit_bid F rel e = Inr bid"
  shows "bid = rel \<or> (\<exists>k r l. bid_itr e = (k, r) # l \<and> in_market e (order_price k) \<and>
    bid = Some (limit_order bid_order k r))"
proof (cases "bid_itr e")
  case (Cons x l)
  moreover obtain k r where "x = (k, r)" by (cases x)
  ultimately show ?thesis
    using assms
    by (cases rel; cases "me_feed_price e")
       (auto simp: next_limit_bid_def Let_def limit_order_def get_price_def run_simps split: if_split_asm)
qed (use assms in \<open>simp add: next_limit_bid_def\<close>)

lemma take_limit_bid_run:
  assumes "no_margin e" "take_limit_bid F b e = Inr (go, e')"
  shows "go \<and> (mo_type b = relative_bid_order \<and>
      e' = e\<lparr> relative_bid_itr := tl (relative_bid_itr e), current_bid := Some b \<rparr> \<or>
    mo_type b \<noteq> relative_bid_order \<and> e' = e\<lparr> bid_itr := tl (bid_itr e), current_bid := Some b \<rparr>)"
  using assms(2)
  by (cases "me_feed_price e")
     (simp_all add: take_limit_bid_def get_next_short_none [OF assms(1)] run_cases run_simps,
      (elim disjE exE conjE; simp)+)

definition fresh_bid :: "market_engine \<Rightarrow> market_engine" where
  "fresh_bid e = e\<lparr> orders_filled := orders_filled e + 1, current_bid := None \<rparr>"

lemma get_next_bid_run:
  assumes run: "get_next_bid F e = Inr (go, e')" and ok: "no_margin e" "list_all same_limit (relative_bid_itr e)"
  obtains (keep) b where "go" "e' = e" "current_bid e = Some b"
  | (none) "\<not> go" "e' = fresh_bid e"
  | (bid) k r l where "go" "bid_itr e = (k, r) # l" "in_market e (order_price k)"
      "e' = (fresh_bid e)\<lparr> bid_itr := l, current_bid := Some (limit_order bid_order k r) \<rparr>"
  | (relative) k r l where "go" "relative_bid_itr e = (k, r) # l" "in_market e (order_price k)"
      "e' = (fresh_bid e)\<lparr> relative_bid_itr := l, current_bid := Some (limit_order relative_bid_order k r) \<rparr>"
proof -
  obtain stay where stay: "(case current_bid e of None \<Rightarrow> Inr False
      | Some b \<Rightarrow> bindE (get_quantity F b price_default) (\<lambda>q. Inr (0 <s amount q))) = Inr stay"
    using run unfolding get_next_bid_def by (cases "current_bid e") (auto simp: run_simps)
  have run: "(if stay then Inr (True, e)
      else bindE (next_relative_bid F (fresh_bid e)) (\<lambda>rel_bid.
           bindE (next_limit_bid F rel_bid (fresh_bid e)) (\<lambda>bid.
             case bid of Some b \<Rightarrow> take_limit_bid F b (fresh_bid e)
             | None \<Rightarrow> get_next_short F (fresh_bid e)))) = Inr (go, e')"
    using run unfolding get_next_bid_def stay Let_def fresh_bid_def by (simp only: bindE.simps)
  show thesis
  proof (cases stay)
    case True
    then obtain b where "current_bid e = Some b" using stay by (cases "current_bid e") simp_all
    then show thesis using keep run True by simp
  next
    case False
    have ok': "no_margin (fresh_bid e)" "list_all same_limit (relative_bid_itr (fresh_bid e))"
      using ok by (simp_all add: fresh_bid_def no_margin_def in_market_def)
    obtain rel bid where rel: "next_relative_bid F (fresh_bid e) = Inr rel"
      and bid: "next_limit_bid F rel (fresh_bid e) = Inr bid"
      and rest: "(case bid of Some b \<Rightarrow> take_limit_bid F b (fresh_bid e)
        | None \<Rightarrow> get_next_short F (fresh_bid e)) = Inr (go, e')"
      using run False by (simp only: if_False bindE_Inr) (elim exE conjE, rule that)
    show thesis
    proof (cases bid)
      case None
      then show thesis using rest none get_next_short_none [OF ok'(1), of F] by simp
    next
      case (Some b)
      note take = take_limit_bid_run [OF ok'(1) rest [unfolded Some option.case]]
      from next_relative_bid_first [OF rel ok'(2)] next_limit_bid_first [OF bid]
      consider k r l where "bid_itr e = (k, r) # l" "in_market e (order_price k)" "b = limit_order bid_order k r"
        | k r l where "relative_bid_itr e = (k, r) # l" "in_market e (order_price k)"
            "b = limit_order relative_bid_order k r"
        by (simp add: Some fresh_bid_def in_market_def) blast
      then show thesis
        using take by cases (auto simp: limit_order_def fresh_bid_def intro: that(3,4))
    qed
  qed
qed

text \<open>A move of the iterators changes neither the state nor the assets nor the record of
  transactions.\<close>

definition only_moves :: "market_engine \<Rightarrow> market_engine \<Rightarrow> bool" where
  "only_moves e e' =
    (me_pending e' = me_pending e \<and> quote_asset e' = quote_asset e \<and> base_asset e' = base_asset e \<and>
     me_transactions e' = me_transactions e \<and> me_quote_id e' = me_quote_id e \<and> me_base_id e' = me_base_id e \<and>
     me_v7 e' = me_v7 e \<and> me_feed_price e' = me_feed_price e \<and> me_db e' = me_db e)"

lemma only_moves_total: "only_moves e e' \<Longrightarrow> engine_total e' a = engine_total e a"
  by (simp add: only_moves_def engine_total_def)

lemma only_moves_refl [simp]: "only_moves e e"
  by (simp add: only_moves_def)

lemma only_moves_trans: "only_moves e e1 \<Longrightarrow> only_moves e1 e' \<Longrightarrow> only_moves e e'"
  by (simp add: only_moves_def)

lemma get_next_short_moves: "get_next_short F e = Inr (go, e') \<Longrightarrow> only_moves e e'"
  by (simp add: get_next_short_def Let_def run_cases split_paired_Ex)
     (elim exE conjE disjE; hypsubst; simp add: only_moves_def)

lemma take_limit_bid_moves:
  assumes "take_limit_bid F b e = Inr (go, e')"
  shows "only_moves e e'"
proof (cases "mo_type b = relative_bid_order")
  case True
  then have "e\<lparr> relative_bid_itr := tl (relative_bid_itr e), current_bid := Some b \<rparr> = e'"
    using assms by (simp add: take_limit_bid_def)
  then show ?thesis by (simp add: only_moves_def flip: \<open>_ = e'\<close>)
next
  case False
  obtain short e1 where m: "(case me_feed_price e of None \<Rightarrow> Inr (False, e)
      | Some p \<Rightarrow> bindE (get_price F b price_default) (\<lambda>q.
          if price_less q p then get_next_short F e else Inr (False, e))) = Inr (short, e1)"
    and e': "(if short then Inr (True, e1)
      else Inr (True, e1\<lparr> bid_itr := tl (bid_itr e1), current_bid := Some b \<rparr>)) = (Inr (go, e') :: _ res)"
    using assms False unfolding take_limit_bid_def by auto
  have "only_moves e e1"
    using m get_next_short_moves [of F e short e1] by (cases "me_feed_price e") (auto split: if_split_asm)
  moreover have "only_moves e1 e'"
  proof (cases short)
    case False
    then have "e1\<lparr> bid_itr := tl (bid_itr e1), current_bid := Some b \<rparr> = e'" using e' by simp
    then show ?thesis by (simp add: only_moves_def flip: \<open>_ = e'\<close>)
  qed (use e' in simp)
  ultimately show ?thesis by (rule only_moves_trans)
qed

lemma get_next_bid_moves:
  assumes "get_next_bid F e = Inr (go, e')"
  shows "only_moves e e'"
proof -
  let ?e = "e\<lparr> orders_filled := orders_filled e + 1, current_bid := None \<rparr>"
  obtain keep where keep: "(if keep then Inr (True, e) else bindE (next_relative_bid F ?e) (\<lambda>rel.
      bindE (next_limit_bid F rel ?e) (\<lambda>bid.
        case bid of Some b \<Rightarrow> take_limit_bid F b ?e | None \<Rightarrow> get_next_short F ?e))) = Inr (go, e')"
    using assms unfolding get_next_bid_def Let_def bindE_Inr [of "case current_bid e of None \<Rightarrow> _ | Some b \<Rightarrow> _ b"]
    by (elim exE conjE) (rule that)
  consider "e' = e" | b where "take_limit_bid F b ?e = Inr (go, e')" | "get_next_short F ?e = Inr (go, e')"
    using keep by (cases keep) (auto split: option.split_asm)
  then have "e' = e \<or> only_moves ?e e'"
    by cases (simp_all add: take_limit_bid_moves get_next_short_moves)
  then show ?thesis by (auto simp: only_moves_def)
qed

lemma next_called_cover_moves: "next_called_cover F e = Inr (go, e') \<Longrightarrow> only_moves e e'"
  by (simp add: next_called_cover_def Let_def run_cases split_paired_Ex)
     (elim exE conjE disjE; hypsubst; simp add: only_moves_def)

lemma next_cover_v7_moves: "next_cover_v7 F l e = Inr (go, e') \<Longrightarrow> only_moves e e'"
proof (induction l arbitrary: e)
  case Nil
  then have "e\<lparr> collateral_itr := [] \<rparr> = e'" by simp
  then show ?case by (simp add: only_moves_def flip: \<open>_ = e'\<close>)
next
  case (Cons x rest)
  obtain k r where x: "x = (k, r)" by (cases x)
  let ?e = "e\<lparr> current_collat_record := r \<rparr>"
  have e: "only_moves ?e e' = only_moves e e'" by (simp add: only_moves_def)
  from Cons.prems Cons.IH [of ?e] show ?case
    by (simp add: x Let_def run_cases e)
       (elim exE conjE disjE; (hypsubst)?; simp add: only_moves_def)
qed

lemma next_expired_cover_moves: "next_expired_cover F l e = Inr (go, e') \<Longrightarrow> only_moves e e'"
proof (induction l arbitrary: e)
  case Nil
  then have "e\<lparr> collateral_expiration_itr := [] \<rparr> = e'" by simp
  then show ?case by (simp add: only_moves_def flip: \<open>_ = e'\<close>)
next
  case (Cons x rest)
  from Cons.prems Cons.IH [of e] show ?case
    by (simp add: run_cases run_simps)
       (elim exE conjE disjE; (hypsubst)?; simp add: only_moves_def)
qed

lemma next_cover_moves:
  assumes "next_cover F e = Inr (go, e')"
  shows "only_moves e e'"
proof (cases "me_v7 e")
  case True
  then show ?thesis
    using assms next_cover_v7_moves [of F "collateral_itr e" e go e'] by (simp add: next_cover_def split: if_split_asm)
next
  case False
  then obtain called e1 where e1: "next_called_cover F e = Inr (called, e1)"
    and rest: "(if called then Inr (True, e1) else next_expired_cover F (collateral_expiration_itr e1) e1) = Inr (go, e')"
    using assms unfolding next_cover_def by (simp only: if_False bind_pair) (elim exE conjE, rule that)
  have "only_moves e1 e'"
    using rest next_expired_cover_moves [of F _ e1 go e'] by (cases called) simp_all
  with next_called_cover_moves [OF e1] show ?thesis by (rule only_moves_trans)
qed

lemma next_limit_ask_moves: "next_limit_ask F e = Inr (go, e') \<Longrightarrow> only_moves e e'"
  by (simp add: next_limit_ask_def Let_def run_cases split_paired_Ex)
     (elim exE conjE disjE; hypsubst; simp add: only_moves_def)

lemma get_next_ask_moves:
  assumes "get_next_ask F e = Inr (go, e')"
  shows "only_moves e e'"
proof (cases "case current_ask e of None \<Rightarrow> False | Some a \<Rightarrow> 0 <s or_balance (state a)")
  case True
  then show ?thesis using assms by (simp add: get_next_ask_def)
next
  case False
  then obtain cover e1 where e1: "next_cover F (e\<lparr> current_ask := None, orders_filled := orders_filled e + 1 \<rparr>) = Inr (cover, e1)"
    and rest: "(if cover then Inr (True, e1) else next_limit_ask F e1) = Inr (go, e')"
    using assms unfolding get_next_ask_def by (simp only: if_False bind_pair) (elim exE conjE, rule that)
  have "only_moves e e1"
    using next_cover_moves [OF e1] by (simp add: only_moves_def)
  moreover have "only_moves e1 e'"
    using rest next_limit_ask_moves [of F e1 go e'] by (cases cover) simp_all
  ultimately show ?thesis by (rule only_moves_trans)
qed

lemma get_next_bid_book:
  assumes run: "get_next_bid F e = Inr (go, e')" and ok: "book_ok G prior traders e"
  shows "book_ok G prior traders e' \<and> only_moves e e' \<and> current_ask e' = current_ask e \<and>
    (go \<longrightarrow> current_bid e' \<noteq> None)"
proof -
  have "no_margin e" "list_all same_limit (relative_bid_itr e)"
    using ok by (simp_all add: book_ok_def open_relative_bids_def)
  have books:
    "book_agrees (me_quote_id e) (me_base_id e) traders (get_bid_record (me_pending e)) (bid_itr e)"
    "book_agrees (me_quote_id e) (me_base_id e) traders (get_relative_bid_record (me_pending e)) (relative_bid_itr e)"
    using ok unfolding book_ok_def open_bids_def open_relative_bids_def by (blast intro: book_agrees_append)+
  from run \<open>no_margin e\<close> \<open>list_all same_limit (relative_bid_itr e)\<close> show ?thesis
  proof (cases rule: get_next_bid_run)
    case (keep b)
    then show ?thesis using ok by (simp add: only_moves_def)
  next
    case none
    then show ?thesis
      using ok books by (simp add: fresh_bid_def only_moves_def book_defs)
  next
    case (bid k r l)
    then show ?thesis
      using ok books by (simp add: fresh_bid_def only_moves_def book_defs limit_order_def)
  next
    case (relative k r l)
    then show ?thesis
      using ok books by (simp add: fresh_bid_def only_moves_def book_defs limit_order_def)
  qed
qed

text \<open>Without margin positions the asks come from the book.\<close>

definition fresh_ask ::
  "(market_index_key \<times> collateral_record) list \<Rightarrow> expiration_index list \<Rightarrow> market_engine \<Rightarrow> market_engine" where
  "fresh_ask cs xs e = e\<lparr> current_ask := None, orders_filled := orders_filled e + 1,
     collateral_itr := cs, collateral_expiration_itr := xs \<rparr>"

lemma next_cover_none:
  assumes "no_margin e" "next_cover F e = Inr (go, e')"
  shows "\<not> go \<and> (\<exists>cs xs. e' = e\<lparr> collateral_itr := cs, collateral_expiration_itr := xs \<rparr> \<and>
    set cs \<subseteq> set (collateral_itr e) \<and> set xs \<subseteq> set (collateral_expiration_itr e))"
proof -
  have expired: "next_expired_cover F (collateral_expiration_itr e) (e\<lparr> collateral_itr := cs \<rparr>) =
      Inr (False, e\<lparr> collateral_itr := cs \<rparr>)" for cs
    using assms(1) by (cases "collateral_expiration_itr e") (simp_all add: no_margin_def)
  have kept: "next_expired_cover F (collateral_expiration_itr e) e = Inr (False, e)"
    using expired [of "collateral_itr e"] by simp
  have "next_cover F e = Inr (False, e) \<or> next_cover F e = Inr (False, e\<lparr> collateral_itr := [] \<rparr>)"
  proof (cases "collateral_itr e")
    case Nil
    then show ?thesis
      using kept by (cases "current_bid e") (simp_all add: next_cover_def next_called_cover_def)
  next
    case (Cons x l)
    moreover obtain k r where "x = (k, r)" by (cases x)
    ultimately show ?thesis
      using assms(1) expired [of "[]"] kept
      by (cases "current_bid e")
         (simp_all add: next_cover_def next_called_cover_def get_price_def cover_of_def no_margin_def)
  qed
  then show ?thesis
  proof
    assume "next_cover F e = Inr (False, e)"
    then show ?thesis
      using assms(2) by (intro conjI exI [of _ "collateral_itr e"] exI [of _ "collateral_expiration_itr e"]) simp_all
  next
    assume "next_cover F e = Inr (False, e\<lparr> collateral_itr := [] \<rparr>)"
    then show ?thesis
      using assms(2) by (intro conjI exI [of _ "[]"] exI [of _ "collateral_expiration_itr e"]) simp_all
  qed
qed

lemma next_limit_ask_run:
  assumes "next_limit_ask F e = Inr (go, e')"
  obtains (none) "\<not> go" "e' = e"
  | (other) x l where "\<not> go" "ask_itr e = x # l" "e' = e\<lparr> ask_itr := l \<rparr>"
  | (ask) k r l where "go" "ask_itr e = (k, r) # l" "in_market e (order_price k)"
      "e' = e\<lparr> ask_itr := l, current_ask := Some (limit_order ask_order k r) \<rparr>"
proof (cases "ask_itr e")
  case Nil
  then show thesis using assms none by (simp add: next_limit_ask_def)
next
  case (Cons x l)
  moreover obtain k r where "x = (k, r)" by (cases x)
  ultimately show thesis
    using assms other ask
    by (cases "in_market e (order_price k)") (simp_all add: next_limit_ask_def Let_def get_price_def limit_order_def)
qed

lemma get_next_ask_book:
  assumes run: "get_next_ask F e = Inr (go, e')" and ok: "book_ok G prior traders e"
  shows "book_ok G prior traders e' \<and> only_moves e e' \<and> current_bid e' = current_bid e \<and>
    (go \<longrightarrow> current_ask e' \<noteq> None)"
proof (cases "case current_ask e of None \<Rightarrow> False | Some a \<Rightarrow> 0 <s or_balance (state a)")
  case True
  then show ?thesis
    using run ok by (cases "current_ask e") (simp_all add: get_next_ask_def only_moves_def)
next
  case False
  define e0 where "e0 = e\<lparr> current_ask := None, orders_filled := orders_filled e + 1 \<rparr>"
  obtain cover e1 where cover: "next_cover F e0 = Inr (cover, e1)"
    and rest: "(if cover then Inr (True, e1) else next_limit_ask F e1) = Inr (go, e')"
    using run False unfolding get_next_ask_def e0_def [symmetric] by (simp only: if_False bind_pair) (elim exE conjE, rule that)
  have "no_margin e0"
    using ok by (simp add: e0_def book_defs)
  from next_cover_none [OF this cover] obtain cs xs where c: "\<not> cover"
    and e1: "e1 = e0\<lparr> collateral_itr := cs, collateral_expiration_itr := xs \<rparr>"
    and sets: "set cs \<subseteq> set (collateral_itr e)" "set xs \<subseteq> set (collateral_expiration_itr e)"
    by (auto simp: e0_def)
  have asks: "book_agrees (me_quote_id e) (me_base_id e) traders (get_ask_record (me_pending e)) (ask_itr e)"
    using ok unfolding book_ok_def open_asks_def by (blast intro: book_agrees_append)
  have ok1: "book_ok G prior traders e1" "only_moves e e1" "current_bid e1 = current_bid e"
    using ok sets asks by (auto simp: e1 e0_def book_defs only_moves_def list_all_iff)
  note next_ask = rest [unfolded if_not_P [OF c]]
  from next_ask show ?thesis
  proof (cases rule: next_limit_ask_run)
    case none
    then show ?thesis using ok1 by simp
  next
    case (other x l)
    then show ?thesis
      using ok1 by (auto simp: book_defs only_moves_def e1 e0_def dest: book_agrees_tl)
  next
    case (ask k r l)
    then show ?thesis
      using ok1 by (simp add: book_defs only_moves_def e1 e0_def limit_order_def)
  qed
qed

section \<open>Paying both sides\<close>

lemma pay_current_bid_run:
  assumes run: "pay_current_bid F mtrx e = Inr e'" and b: "current_bid e = Some b"
  obtains n fee where "mo_type b \<in> {bid_order, relative_bid_order}"
    "n + fee = or_balance (state b) - amount (bid_paid mtrx)"
    "e' = e\<lparr> quote_asset := (quote_asset e)\<lparr> collected_fees := collected_fees (quote_asset e) + fee \<rparr>,
       current_bid := Some (b\<lparr> state := (state b)\<lparr> or_balance := n \<rparr> \<rparr>),
       me_pending := (if mo_type b = bid_order then store_bid_record else store_relative_bid_record)
         (market_index b) ((state b)\<lparr> or_balance := n \<rparr>)
         (pay_out F (bid_owner mtrx) (me_base_id e) (amount (bid_received mtrx)) (me_pending e)) \<rparr>"
proof -
  define left where "left = or_balance (state b) - amount (bid_paid mtrx)"
  have types: "mo_type b \<in> {bid_order, relative_bid_order}"
    using run b by (auto simp: pay_current_bid_def the_order_def split: if_split_asm)
  define q where "q = mk_asset left (quote_asset_id (order_price (market_index b)))"
  have q: "get_quote_quantity F (b\<lparr> state := (state b)\<lparr> or_balance := left \<rparr> \<rparr>) price_default = Inr q"
    using types by (auto simp: get_quote_quantity_def get_balance_def q_def)
  obtain x where "asset_mul_price F q (bid_price mtrx) = Inr x"
    using run b types q by (auto simp: pay_current_bid_def the_order_def Let_def left_def [symmetric] split: if_split_asm)
  then show thesis
    using run b types q that [of "if amount x = 0 then 0 else left" "if amount x = 0 then left else 0"]
    by (auto simp: pay_current_bid_def the_order_def Let_def left_def [symmetric] q_def split: if_split_asm)
qed

lemma pay_current_ask_run:
  assumes run: "pay_current_ask F base_asset_update mtrx e = Inr e'" and a: "current_ask e = Some b"
    and t: "mo_type b = ask_order"
  obtains n fee where "n + fee = or_balance (state b) - amount (ask_paid mtrx)"
    "e' = e\<lparr> base_asset := (base_asset e)\<lparr> collected_fees := collected_fees (base_asset e) + fee \<rparr>,
       current_ask := Some (b\<lparr> state := (state b)\<lparr> or_balance := n \<rparr> \<rparr>),
       me_pending := store_ask_record (market_index b) ((state b)\<lparr> or_balance := n \<rparr>)
         (pay_out F (ask_owner mtrx) (me_quote_id e) (amount (ask_received mtrx)) (me_pending e)) \<rparr>"
proof -
  define left where "left = or_balance (state b) - amount (ask_paid mtrx)"
  define q where "q = mk_asset left (base_asset_id (order_price (market_index b)))"
  have q: "get_quantity F (b\<lparr> state := (state b)\<lparr> or_balance := left \<rparr> \<rparr>) price_default = Inr q"
    using t by (simp add: get_quantity_def get_balance_def q_def)
  obtain x where "asset_mul_price F q (ask_price mtrx) = Inr x"
    using run a t q by (auto simp: pay_current_ask_def the_order_def Let_def left_def [symmetric] split: if_split_asm)
  then show thesis
    using run a t q that [of "if amount x = 0 then 0 else left" "if amount x = 0 then left else 0"]
    by (auto simp: pay_current_ask_def the_order_def Let_def left_def [symmetric] q_def split: if_split_asm)
qed

text \<open>A side that is paid gives what it pays and gets what it receives.\<close>

lemma book_owner:
  assumes "book_ok F prior traders e"
  shows "current_bid e = Some b \<Longrightarrow> in_pair (me_quote_id e) (me_base_id e) (order_price (market_index b)) \<and>
      mo_type b \<in> {bid_order, relative_bid_order} \<and> mk_owner (market_index b) \<in> set traders"
    "current_ask e = Some m \<Longrightarrow> in_pair (me_quote_id e) (me_base_id e) (order_price (market_index m)) \<and>
      mo_type m = ask_order \<and> mk_owner (market_index m) \<in> set traders"
  using assms unfolding book_ok_def open_bids_def open_relative_bids_def open_asks_def
  by (auto dest: book_agrees_head(2))

lemma payouts_other_stores [simp]:
  "payouts_ok F quote base traders (store_bid_record k r s) = payouts_ok F quote base traders s"
  "payouts_ok F quote base traders (store_relative_bid_record k r s) = payouts_ok F quote base traders s"
  "payouts_ok F quote base traders (store_ask_record k r s) = payouts_ok F quote base traders s"
  by (simp_all add: payouts_ok_def pays_asset_def [abs_def])

lemma pay_out_book:
  fixes F :: "'z fc_cond_scheme" and n :: share_type
  assumes ok: "book_ok F prior traders e" and own: "owner \<in> set traders" and i: "i = me_quote_id e \<or> i = me_base_id e"
  defines "s \<equiv> pay_out F owner i n (me_pending e)"
  shows "surplus s a = surplus (me_pending e) a + (if a = i then n else 0)"
    "chain_wf F s" "payouts_ok F (me_quote_id e) (me_base_id e) traders s" "market_pending prior s"
    "get_asset_record s = get_asset_record prior" "get_bid_record s = get_bid_record (me_pending e)"
    "get_relative_bid_record s = get_relative_bid_record (me_pending e)"
    "get_ask_record s = get_ask_record (me_pending e)"
proof -
  have wf: "chain_wf F (me_pending e)" "payouts_ok F (me_quote_id e) (me_base_id e) traders (me_pending e)"
    using ok by (simp_all add: book_ok_def)
  then have "pays_asset F (me_pending e) i owner"
    using own i by (auto simp: payouts_ok_def list_all_iff)
  note surplus = pay_out_surplus [OF wf(1) this]
  show "surplus s a = surplus (me_pending e) a + (if a = i then n else 0)"
    "chain_wf F s" "payouts_ok F (me_quote_id e) (me_base_id e) traders s" "market_pending prior s"
    "get_asset_record s = get_asset_record prior" "get_bid_record s = get_bid_record (me_pending e)"
    "get_relative_bid_record s = get_relative_bid_record (me_pending e)"
    "get_ask_record s = get_ask_record (me_pending e)"
    using ok surplus pay_out_payouts [OF wf own i] by (simp_all add: s_def book_ok_def)
qed

lemma pay_current_bid_book:
  assumes run: "pay_current_bid F mtrx e = Inr e'" and ok: "book_ok F prior traders e"
    and b: "current_bid e = Some b" and own: "bid_owner mtrx = mk_owner (market_index b)"
  shows "book_ok F prior traders e'"
    "current_ask e' = current_ask e \<and> me_quote_id e' = me_quote_id e \<and> me_base_id e' = me_base_id e \<and>
      asr_id (quote_asset e') = asr_id (quote_asset e) \<and> asr_id (base_asset e') = asr_id (base_asset e) \<and>
      me_transactions e' = me_transactions e"
    "engine_total e' a = engine_total e a + (if a = me_base_id e then amount (bid_received mtrx) else 0) -
      (if a = me_quote_id e then amount (bid_paid mtrx) else 0)"
proof -
  note o' = book_owner(1) [OF ok b]
  define s where "s = pay_out F (bid_owner mtrx) (me_base_id e) (amount (bid_received mtrx)) (me_pending e)"
  obtain n fee where bal: "n + fee = or_balance (state b) - amount (bid_paid mtrx)"
    and e': "e' = e\<lparr> quote_asset := (quote_asset e)\<lparr> collected_fees := collected_fees (quote_asset e) + fee \<rparr>,
       current_bid := Some (b\<lparr> state := (state b)\<lparr> or_balance := n \<rparr> \<rparr>),
       me_pending := (if mo_type b = bid_order then store_bid_record else store_relative_bid_record)
         (market_index b) ((state b)\<lparr> or_balance := n \<rparr>) s \<rparr>"
    by (rule pay_current_bid_run [OF run b, folded s_def]) (rule that)
  have i: "me_base_id e = me_quote_id e \<or> me_base_id e = me_base_id e" by simp
  have "bid_owner mtrx \<in> set traders" using o' own by simp
  note s = pay_out_book [OF ok this i, where n = "amount (bid_received mtrx)", folded s_def]
  let ?k = "market_index b" and ?r = "(state b)\<lparr> or_balance := n \<rparr>"
  have lim: "same_limit (?k, ?r) = same_limit (?k, state b)"
    by (simp add: same_limit_def)
  have paid: "amount (bid_paid mtrx) = or_balance (state b) - (n + fee)"
    unfolding bal by simp
  consider (abs) "mo_type b = bid_order" | (rel) "mo_type b = relative_bid_order"
    using o' by auto
  then have "book_ok F prior traders e' \<and> surplus (me_pending e') a = surplus s a +
      (if a = me_quote_id e then n - or_balance (state b) else 0)"
  proof cases
    case abs
    have old: "book_agrees (me_quote_id e) (me_base_id e) traders (get_bid_record (me_pending e)) ((?k, state b) # bid_itr e)"
      using ok b abs by (simp add: book_ok_def open_bids_def)
    have new: "book_agrees (me_quote_id e) (me_base_id e) traders (get_bid_record (store_bid_record ?k ?r s)) ((?k, ?r) # bid_itr e)"
      by (rule book_agrees_store [OF old]) (use store_bid_record_get [of ?k ?r s] s(6) in auto)
    have "surplus (store_bid_record ?k ?r s) a = surplus s a + (if a = me_quote_id e then n - or_balance (state b) else 0)"
      unfolding surplus_bid opt_val_shares s(6) book_agrees_head(1) [OF old conjunct1 [OF o']]
      using o' by (simp add: quote_shares_def in_pair_def)
    then show ?thesis
      using ok b abs new s o' by (simp add: book_defs e')
  next
    case rel
    have old: "book_agrees (me_quote_id e) (me_base_id e) traders (get_relative_bid_record (me_pending e))
        ((?k, state b) # relative_bid_itr e)"
      using ok b rel by (simp add: book_ok_def open_relative_bids_def)
    have new: "book_agrees (me_quote_id e) (me_base_id e) traders
        (get_relative_bid_record (store_relative_bid_record ?k ?r s)) ((?k, ?r) # relative_bid_itr e)"
      by (rule book_agrees_store [OF old]) (use store_relative_bid_record_get [of ?k ?r s] s(7) in auto)
    have "surplus (store_relative_bid_record ?k ?r s) a =
        surplus s a + (if a = me_quote_id e then n - or_balance (state b) else 0)"
      unfolding surplus_relative_bid opt_val_shares s(7) book_agrees_head(1) [OF old conjunct1 [OF o']]
      using o' by (simp add: quote_shares_def in_pair_def)
    then show ?thesis
      using ok b rel new s o' lim by (simp add: book_defs e')
  qed
  then show "book_ok F prior traders e'"
    "current_ask e' = current_ask e \<and> me_quote_id e' = me_quote_id e \<and> me_base_id e' = me_base_id e \<and>
      asr_id (quote_asset e') = asr_id (quote_asset e) \<and> asr_id (base_asset e') = asr_id (base_asset e) \<and>
      me_transactions e' = me_transactions e"
    "engine_total e' a = engine_total e a + (if a = me_base_id e then amount (bid_received mtrx) else 0) -
      (if a = me_quote_id e then amount (bid_paid mtrx) else 0)"
    using ok s(1) unfolding paid by (simp_all add: engine_total_def e' net_fees_def book_ok_def)
qed

lemma pay_current_ask_book:
  assumes run: "pay_current_ask F base_asset_update mtrx e = Inr e'" and ok: "book_ok F prior traders e"
    and m: "current_ask e = Some m" and own: "ask_owner mtrx = mk_owner (market_index m)"
  shows "book_ok F prior traders e'"
    "me_quote_id e' = me_quote_id e \<and> me_base_id e' = me_base_id e \<and>
      asr_id (quote_asset e') = asr_id (quote_asset e) \<and> asr_id (base_asset e') = asr_id (base_asset e) \<and>
      me_transactions e' = me_transactions e"
    "engine_total e' a = engine_total e a + (if a = me_quote_id e then amount (ask_received mtrx) else 0) -
      (if a = me_base_id e then amount (ask_paid mtrx) else 0)"
proof -
  note o' = book_owner(2) [OF ok m]
  define s where "s = pay_out F (ask_owner mtrx) (me_quote_id e) (amount (ask_received mtrx)) (me_pending e)"
  obtain n fee where bal: "n + fee = or_balance (state m) - amount (ask_paid mtrx)"
    and e': "e' = e\<lparr> base_asset := (base_asset e)\<lparr> collected_fees := collected_fees (base_asset e) + fee \<rparr>,
       current_ask := Some (m\<lparr> state := (state m)\<lparr> or_balance := n \<rparr> \<rparr>),
       me_pending := store_ask_record (market_index m) ((state m)\<lparr> or_balance := n \<rparr>) s \<rparr>"
    by (rule pay_current_ask_run [OF run m, folded s_def]) (use o' in blast, rule that)
  have i: "me_quote_id e = me_quote_id e \<or> me_quote_id e = me_base_id e" by simp
  have "ask_owner mtrx \<in> set traders" using o' own by simp
  note s = pay_out_book [OF ok this i, where n = "amount (ask_received mtrx)", folded s_def]
  let ?k = "market_index m" and ?r = "(state m)\<lparr> or_balance := n \<rparr>"
  have old: "book_agrees (me_quote_id e) (me_base_id e) traders (get_ask_record (me_pending e)) ((?k, state m) # ask_itr e)"
    using ok m o' by (simp add: book_ok_def open_asks_def)
  have new: "book_agrees (me_quote_id e) (me_base_id e) traders (get_ask_record (store_ask_record ?k ?r s)) ((?k, ?r) # ask_itr e)"
    by (rule book_agrees_store [OF old]) (use store_ask_record_get [of ?k ?r s] s(8) in auto)
  have "surplus (store_ask_record ?k ?r s) a = surplus s a + (if a = me_base_id e then n - or_balance (state m) else 0)"
    unfolding surplus_ask opt_val_shares s(8) book_agrees_head(1) [OF old conjunct1 [OF o']]
    using o' by (simp add: base_shares_def in_pair_def)
  moreover have "amount (ask_paid mtrx) = or_balance (state m) - (n + fee)"
    unfolding bal by simp
  ultimately show "engine_total e' a = engine_total e a +
      (if a = me_quote_id e then amount (ask_received mtrx) else 0) -
      (if a = me_base_id e then amount (ask_paid mtrx) else 0)"
    using ok s(1) by (simp add: engine_total_def e' net_fees_def book_ok_def)
  show "book_ok F prior traders e'"
    "me_quote_id e' = me_quote_id e \<and> me_base_id e' = me_base_id e \<and>
      asr_id (quote_asset e') = asr_id (quote_asset e) \<and> asr_id (base_asset e') = asr_id (base_asset e) \<and>
      me_transactions e' = me_transactions e"
    using ok m new s o' by (simp_all add: book_defs e')
qed

section \<open>A trade\<close>

lemma asset_mul_price_id:
  assumes "asset_mul_price F x p = Inr y" "base_asset_id p \<noteq> quote_asset_id p"
  shows "asset_id x = base_asset_id p \<Longrightarrow> asset_id y = quote_asset_id p"
    "asset_id x = quote_asset_id p \<Longrightarrow> asset_id y = base_asset_id p"
  using assms by (auto simp: asset_mul_price_def run_simps split: if_split_asm)

lemma asset_minus_result:
  "asset_minus x y = Inr z \<Longrightarrow> asset_id z = asset_id x \<and> amount z = amount x - amount y"
  by (auto simp: asset_minus_def split: if_split_asm)

lemma bid_quantity_id:
  assumes ok: "book_ok F prior traders e" and b: "current_bid e = Some b"
    and q: "get_quantity F' b price_default = Inr q"
  shows "asset_id q = me_base_id e"
proof -
  note o' = book_owner(1) [OF ok b]
  have limit: "list_all same_limit (of_type relative_bid_order (Some b))"
    using ok b by (simp add: book_ok_def open_relative_bids_def)
  obtain p where p: "get_price F' b price_default = Inr p"
    and q: "asset_mul_price F' (mk_asset (or_balance (state b)) (quote_asset_id (order_price (market_index b)))) p = Inr q"
    using q o' by (auto simp: get_quantity_def get_balance_def run_simps)
  have "quote_asset_id p = me_quote_id e" "base_asset_id p = me_base_id e"
    using get_price_pair [OF p _ limit] o' by (auto simp: in_pair_def)
  then show ?thesis
    using asset_mul_price_id(2) [OF q] ok o' by (auto simp: book_ok_def in_pair_def)
qed

lemma trade_bid_ask_run:
  assumes run: "trade_bid_ask F b m mtrx e = Inr (mtrx', e')" and ok: "book_ok F prior traders e"
    and b: "current_bid e = Some b" and m: "current_ask e = Some m"
    and price: "in_pair (me_quote_id e) (me_base_id e) (bid_price mtrx)"
  obtains e1 where "pay_current_bid F mtrx' e = Inr e1" "pay_current_ask F base_asset_update mtrx' e1 = Inr e'"
    "bid_owner mtrx' = bid_owner mtrx" "ask_owner mtrx' = ask_owner mtrx"
    "bid_price mtrx' = bid_price mtrx" "ask_price mtrx' = ask_price mtrx"
    "asset_id (fees_collected mtrx') = me_quote_id e"
    "amount (fees_collected mtrx') = amount (bid_paid mtrx') - amount (ask_received mtrx')"
    "amount (ask_paid mtrx') = amount (bid_received mtrx')"
proof -
  have neq: "me_quote_id e \<noteq> me_base_id e" using ok by (simp add: book_ok_def)
  obtain bq aq where bq: "get_quantity F b price_default = Inr bq" and aq: "get_quantity F m price_default = Inr aq"
    using run by (auto simp: trade_bid_ask_def run_simps)
  define qty where "qty = asset_min bq aq"
  obtain received paid bpaid apaid fees e1 where paid: "asset_mul_price F qty (bid_price mtrx) = Inr paid"
    and bpaid: "(if asset_eq qty bq then get_balance b else Inr paid) = Inr bpaid"
    and apaid: "(if asset_eq qty aq then get_balance m else Inr qty) = Inr apaid"
    and fees: "asset_minus bpaid received = Inr fees"
    and pay: "pay_current_bid F (mtrx\<lparr> ask_received := received, bid_paid := bpaid, ask_paid := apaid,
      bid_received := qty, fees_collected := fees \<rparr>) e = Inr e1"
      "pay_current_ask F base_asset_update (mtrx\<lparr> ask_received := received, bid_paid := bpaid, ask_paid := apaid,
      bid_received := qty, fees_collected := fees \<rparr>) e1 = Inr e'"
    and mtrx': "mtrx\<lparr> ask_received := received, bid_paid := bpaid, ask_paid := apaid,
      bid_received := qty, fees_collected := fees \<rparr> = mtrx'"
    using run bq aq unfolding trade_bid_ask_def Let_def
    by (simp add: run_simps) (elim exE conjE, rule that [unfolded qty_def], assumption+)
  note e1 = pay [unfolded mtrx']
  note types = book_owner(1) [OF ok b] book_owner(2) [OF ok m]
  have aq': "get_balance m = Inr aq" "asset_id aq = me_base_id e"
    using aq types by (auto simp: get_quantity_def get_balance_def in_pair_def)
  then have "asset_id qty = me_base_id e"
    using bid_quantity_id [OF ok b bq] by (simp add: qty_def asset_min_def)
  with price neq have "asset_id paid = me_quote_id e"
    unfolding in_pair_def by (metis asset_mul_price_id(1) [OF paid])
  moreover have "get_balance b = Inr bpaid \<Longrightarrow> asset_id bpaid = me_quote_id e"
    using types(1) by (auto simp: get_balance_def in_pair_def)
  ultimately have "asset_id bpaid = me_quote_id e"
    using bpaid by (cases "asset_eq qty bq") simp_all
  moreover have "amount apaid = amount qty"
    using apaid aq'(1) by (cases "asset_eq qty aq") (simp_all add: asset_eq_def)
  ultimately show thesis
    using that [OF e1] asset_minus_result [OF fees] by (simp add: mtrx' [symmetric])
qed

lemma trade_bid_ask_book:
  assumes run: "trade_bid_ask F b m mtrx e = Inr (mtrx', e')" and ok: "book_ok F prior traders e"
    and b: "current_bid e = Some b" and m: "current_ask e = Some m"
    and own: "bid_owner mtrx = mk_owner (market_index b)" "ask_owner mtrx = mk_owner (market_index m)"
    and price: "in_pair (me_quote_id e) (me_base_id e) (bid_price mtrx)"
  shows "book_ok F prior traders e'"
    "asset_id (fees_collected mtrx') = asr_id (quote_asset e')" "asr_id (base_asset e') \<noteq> asr_id (quote_asset e')"
    "engine_total e' a = engine_total e a - (if a = asr_id (quote_asset e') then amount (fees_collected mtrx') else 0)"
    "me_transactions e' = me_transactions e" "bid_price mtrx' = bid_price mtrx" "ask_price mtrx' = ask_price mtrx"
    "me_quote_id e' = me_quote_id e \<and> me_base_id e' = me_base_id e"
proof -
  obtain e1 where e1: "pay_current_bid F mtrx' e = Inr e1" "pay_current_ask F base_asset_update mtrx' e1 = Inr e'"
    and mtrx': "bid_owner mtrx' = bid_owner mtrx" "ask_owner mtrx' = ask_owner mtrx"
      "bid_price mtrx' = bid_price mtrx" "ask_price mtrx' = ask_price mtrx"
      "asset_id (fees_collected mtrx') = me_quote_id e"
      "amount (fees_collected mtrx') = amount (bid_paid mtrx') - amount (ask_received mtrx')"
      "amount (ask_paid mtrx') = amount (bid_received mtrx')"
    by (rule trade_bid_ask_run [OF run ok b m price]) (rule that)
  note bid = pay_current_bid_book [OF e1(1) ok b, unfolded mtrx'(1,2), OF own(1)]
  have m1: "current_ask e1 = Some m" using bid(2) m by simp
  note ask = pay_current_ask_book [OF e1(2) bid(1) m1, unfolded mtrx'(1,2), OF own(2)]
  have ids: "asr_id (quote_asset e) = me_quote_id e" "asr_id (base_asset e) = me_base_id e" "me_quote_id e \<noteq> me_base_id e"
    using ok by (simp_all add: book_ok_def)
  show "book_ok F prior traders e'" by (rule ask(1))
  show "asset_id (fees_collected mtrx') = asr_id (quote_asset e')" "asr_id (base_asset e') \<noteq> asr_id (quote_asset e')"
    "me_transactions e' = me_transactions e" "bid_price mtrx' = bid_price mtrx" "ask_price mtrx' = ask_price mtrx"
    "me_quote_id e' = me_quote_id e \<and> me_base_id e' = me_base_id e"
    using mtrx' bid(2) ask(2) ids by simp_all
  show "engine_total e' a = engine_total e a - (if a = asr_id (quote_asset e') then amount (fees_collected mtrx') else 0)"
    using ask(2,3) bid(2,3) ids mtrx' by simp
qed

lemma after_trade_run:
  assumes "after_trade mtrx e = Inr e'"
  shows "me_transactions e' = me_transactions e @ [mtrx]" "only_moves (e\<lparr> quote_asset := quote_asset e',
      base_asset := base_asset e', me_transactions := me_transactions e' \<rparr>) e'"
    "bid_itr e' = bid_itr e" "relative_bid_itr e' = relative_bid_itr e" "ask_itr e' = ask_itr e"
    "current_bid e' = current_bid e" "current_ask e' = current_ask e" "short_itr e' = short_itr e"
    "collateral_itr e' = collateral_itr e" "collateral_expiration_itr e' = collateral_expiration_itr e"
    "base_asset e' = (if asset_id (fees_collected mtrx) = asr_id (base_asset e)
      then (base_asset e)\<lparr> collected_fees := collected_fees (base_asset e) + amount (fees_collected mtrx) \<rparr> else base_asset e)"
    "quote_asset e' = (if asset_id (fees_collected mtrx) \<noteq> asr_id (base_asset e) \<and>
        asset_id (fees_collected mtrx) = asr_id (quote_asset e)
      then (quote_asset e)\<lparr> collected_fees := collected_fees (quote_asset e) + amount (fees_collected mtrx) \<rparr> else quote_asset e)"
proof -
  obtain e1 vol where e1: "push_market_transaction mtrx e = Inr e1"
    and e': "(let e = e1\<lparr> trading_volume := vol, me_closing_price := bid_price mtrx, me_opening_price :=
                (if price_eq (me_opening_price e1) price_default then bid_price mtrx else me_opening_price e1) \<rparr>;
          fees = fees_collected mtrx
      in if asset_id fees = asr_id (base_asset e)
         then e\<lparr> base_asset := (base_asset e)\<lparr> collected_fees := collected_fees (base_asset e) + amount fees \<rparr> \<rparr>
         else if asset_id fees = asr_id (quote_asset e)
         then e\<lparr> quote_asset := (quote_asset e)\<lparr> collected_fees := collected_fees (quote_asset e) + amount fees \<rparr> \<rparr>
         else e) = e'"
    using assms unfolding after_trade_def bindE_Inr Let_def sum.inject
    by (elim exE conjE) (rule that [unfolded Let_def])
  have e1: "e1 = e\<lparr> me_transactions := me_transactions e @ [mtrx] \<rparr>"
    using e1 by (simp add: push_market_transaction_def split: if_split_asm)
  show "me_transactions e' = me_transactions e @ [mtrx]" "only_moves (e\<lparr> quote_asset := quote_asset e',
      base_asset := base_asset e', me_transactions := me_transactions e' \<rparr>) e'"
    "bid_itr e' = bid_itr e" "relative_bid_itr e' = relative_bid_itr e" "ask_itr e' = ask_itr e"
    "current_bid e' = current_bid e" "current_ask e' = current_ask e" "short_itr e' = short_itr e"
    "collateral_itr e' = collateral_itr e" "collateral_expiration_itr e' = collateral_expiration_itr e"
    "base_asset e' = (if asset_id (fees_collected mtrx) = asr_id (base_asset e)
      then (base_asset e)\<lparr> collected_fees := collected_fees (base_asset e) + amount (fees_collected mtrx) \<rparr> else base_asset e)"
    "quote_asset e' = (if asset_id (fees_collected mtrx) \<noteq> asr_id (base_asset e) \<and>
        asset_id (fees_collected mtrx) = asr_id (quote_asset e)
      then (quote_asset e)\<lparr> collected_fees := collected_fees (quote_asset e) + amount (fees_collected mtrx) \<rparr> else quote_asset e)"
    by (simp_all add: e' [symmetric] e1 Let_def only_moves_def)
qed

lemma after_trade_book:
  assumes run: "after_trade mtrx e = Inr e'" and ok: "book_ok F prior traders e"
    and fees: "asset_id (fees_collected mtrx) = asr_id (quote_asset e)"
  shows "book_ok F prior traders e'"
    "engine_total e' a = engine_total e a + (if a = asr_id (quote_asset e) then amount (fees_collected mtrx) else 0)"
proof -
  note e' = after_trade_run [OF run]
  have ids: "asr_id (base_asset e) \<noteq> asr_id (quote_asset e)"
    using ok by (simp add: book_ok_def)
  show "book_ok F prior traders e'"
    using ok e' fees ids by (simp add: book_defs only_moves_def)
  show "engine_total e' a = engine_total e a + (if a = asr_id (quote_asset e) then amount (fees_collected mtrx) else 0)"
    using e' fees ids by (simp add: engine_total_def only_moves_def net_fees_def)
qed

lemma judge_limit:
  assumes "judge F e b m mtrx = Inr (trade_at mtrx')" "mo_type b \<in> {bid_order, relative_bid_order}" "mo_type m = ask_order"
  shows "mtrx' = mtrx \<and> \<not> price_less (bid_price mtrx) (ask_price mtrx)"
  using assms by (auto simp: judge_def judge_bid_def judge_ask_def run_simps split: if_split_asm)

lemma book_skip:
  assumes "book_ok F prior traders e"
  shows "book_ok F prior traders (e\<lparr> current_bid := None \<rparr>)" "book_ok F prior traders (e\<lparr> current_ask := None \<rparr>)"
  using assms by (auto simp: book_defs dest: book_agrees_append)

lemma match_orders_book:
  assumes run: "match_orders F b m e = Inr (go, e')" and ok: "book_ok F prior traders e"
    and b: "current_bid e = Some b" and m: "current_ask e = Some m"
  shows "book_ok F prior traders e' \<and> (\<forall>a. engine_total e' a = engine_total e a) \<and>
    me_quote_id e' = me_quote_id e \<and> me_base_id e' = me_base_id e"
proof -
  note o' = book_owner(1) [OF ok b] book_owner(2) [OF ok m]
  obtain mtrx v where mtrx: "begin_transaction F e b m = Inr mtrx" and v: "judge F e b m mtrx = Inr v"
    and rest: "(case v of skip_bid \<Rightarrow> Inr (True, e\<lparr> current_bid := None \<rparr>)
      | skip_ask \<Rightarrow> Inr (True, e\<lparr> current_ask := None \<rparr>) | stop_matching \<Rightarrow> Inr (False, e)
      | trade_at mtrx \<Rightarrow> bindE (trade F b m mtrx e) (\<lambda>(mtrx, e).
          bindE (after_trade mtrx e) (\<lambda>e. Inr (True, e)))) = Inr (go, e')"
    using run unfolding match_orders_def bindE_Inr [of "begin_transaction F e b m"]
      bindE_Inr [of "judge F e b m _"] by (elim exE conjE) (rule that)
  show ?thesis
  proof (cases v)
    case (trade_at mtrx1)
    with v o' have [simp]: "mtrx1 = mtrx" using judge_limit [of F e b m mtrx mtrx1] by blast
    have limit: "list_all same_limit (of_type relative_bid_order (Some b))"
      using ok b by (simp add: book_ok_def open_relative_bids_def)
    obtain relative where price: "get_price F b relative = Inr (bid_price mtrx)"
      and own: "bid_owner mtrx = mk_owner (market_index b)" "ask_owner mtrx = mk_owner (market_index m)"
      using mtrx unfolding begin_transaction_def Let_def bindE_Inr by (elim exE conjE) (auto intro: that)
    have pair: "in_pair (me_quote_id e) (me_base_id e) (bid_price mtrx)"
      using get_price_pair [OF price _ limit] o' by (auto simp: in_pair_def)
    obtain mtrx2 e2 where e2: "trade_bid_ask F b m mtrx e = Inr (mtrx2, e2)"
      and after: "after_trade mtrx2 e2 = Inr e'"
      using rest o' unfolding trade_at verdict.case by (auto simp: trade_def)
    note t = trade_bid_ask_book [OF e2 ok b m own pair]
    note u = after_trade_book [OF after t(1,2)]
    show ?thesis
      using u t(4,8) after_trade_run(2) [OF after] by (simp add: only_moves_def)
  qed (use rest ok book_skip [OF ok] in \<open>simp_all add: engine_total_def\<close>, (elim conjE; hypsubst; simp)+)
qed

lemma book_ok_round:
  "book_ok F prior traders (e\<lparr> last_orders_filled := n \<rparr>) = book_ok F prior traders e"
  by (simp add: book_defs)

lemma match_step_book:
  assumes run: "match_step F e = Inr (go, e')" and ok: "book_ok F prior traders e"
  shows "book_ok F prior traders e' \<and> (\<forall>a. engine_total e' a = engine_total e a) \<and>
    me_quote_id e' = me_quote_id e \<and> me_base_id e' = me_base_id e"
  using run
proof (cases rule: match_step_run)
  case no_bid
  then show ?thesis
    using get_next_bid_book [OF no_bid(1) ok] by (simp add: only_moves_total) (simp add: only_moves_def)
next
  case (no_ask e1)
  have e1: "book_ok F prior traders e1" "only_moves e e1" using get_next_bid_book [OF no_ask(1) ok] by blast+
  have "book_ok F prior traders e'" "only_moves e1 e'" using get_next_ask_book [OF no_ask(2) e1(1)] by blast+
  with e1 show ?thesis by (simp add: only_moves_total) (simp add: only_moves_def)
next
  case (found e1 e2 b m)
  have e1: "book_ok F prior traders e1" "only_moves e e1" using get_next_bid_book [OF found(1) ok] by blast+
  have e2: "book_ok F prior traders e2" "only_moves e1 e2" using get_next_ask_book [OF found(2) e1(1)] by blast+
  let ?e = "e2\<lparr> last_orders_filled := orders_filled e2 \<rparr>"
  have "book_ok F prior traders ?e" "current_bid ?e = Some b" "current_ask ?e = Some m"
    using e2 found by (simp_all add: book_ok_round)
  from match_orders_book [OF found(6) this] show ?thesis
    using e1(2) e2(2) by (simp add: only_moves_total) (simp add: engine_total_def only_moves_def)
qed

lemma match_loop_book:
  assumes "match_loop F e = Inr e'" "book_ok F prior traders e"
  shows "book_ok F prior traders e' \<and> (\<forall>a. engine_total e' a = engine_total e a) \<and>
    me_quote_id e' = me_quote_id e \<and> me_base_id e' = me_base_id e"
  using assms
proof (induction F e rule: match_loop.induct)
  case (1 F e)
  obtain go e1 where step: "match_step F e = Inr (go, e1)"
    using 1(2) by (cases "match_step F e") (auto simp: match_loop.simps [of F e])
  note book = match_step_book [OF step 1(3)]
  show ?case
  proof (cases go)
    case True
    then have "match_loop F e1 = Inr e'" using 1(2) step by (simp add: match_loop.simps [of F e])
    then show ?thesis using 1(1) [OF step refl True] book by simp
  next
    case False
    then have "e1 = e'" using 1(2) step by (simp add: match_loop.simps [of F e])
    then show ?thesis using book by simp
  qed
qed

lemma run_market_book:
  assumes run: "run_market F e = Inr e'" and ok: "book_ok F prior traders e"
  shows "book_ok F prior traders e' \<and> (\<forall>a. engine_total e' a = engine_total e a) \<and>
    me_quote_id e' = me_quote_id e \<and> me_base_id e' = me_base_id e"
proof -
  obtain f1 e1 f2 e2 where e1: "get_next_bid F e = Inr (f1, e1)" and e2: "get_next_ask F e1 = Inr (f2, e2)"
    and e': "match_loop F e2 = Inr e'"
    using run unfolding run_market_def bindE_Inr [of "check_feeds _ _ _ _ _"] bind_pair
    by (elim exE conjE) (rule that)
  have "book_ok F prior traders e1" "only_moves e e1" using get_next_bid_book [OF e1 ok] by blast+
  moreover from this have "book_ok F prior traders e2" "only_moves e1 e2" using get_next_ask_book [OF e2] by blast+
  ultimately show ?thesis
    using match_loop_book [OF e'] by (simp add: only_moves_total) (simp add: only_moves_def)
qed

text \<open>Recording the history stores nothing but history.\<close>

lemma surplus_history [simp]: "surplus (store_market_history_record k r s) a = surplus s a"
  by (simp add: surplus_defs)

lemma merge_history_run:
  "surplus (merge_history d k r s) a = surplus s a"
  "chain_wf F s \<Longrightarrow> chain_wf F (merge_history d k r s)"
  "market_pending prior s \<Longrightarrow> market_pending prior (merge_history d k r s)"
  "quiet (merge_history d k r s) = quiet s"
  by (cases "map_of (market_history_db d) k"; simp add: merge_history_def)+

lemma record_history_run:
  assumes "record_history F t b m e = Inr s"
  shows "surplus s a = surplus (me_pending e) a" "chain_wf G (me_pending e) \<Longrightarrow> chain_wf G s"
    "market_pending prior (me_pending e) \<Longrightarrow> market_pending prior s" "quiet s = quiet (me_pending e)"
  using assms by (auto simp: record_history_def Let_def run_simps merge_history_run)

lemma update_market_history_run:
  assumes run: "update_market_history F t e = Inr e'"
  shows "surplus (me_pending e') a = surplus (me_pending e) a \<and> me_transactions e' = me_transactions e \<and>
    (chain_wf G (me_pending e) \<longrightarrow> chain_wf G (me_pending e')) \<and>
    (market_pending prior (me_pending e) \<longrightarrow> market_pending prior (me_pending e')) \<and>
    quiet (me_pending e') = quiet (me_pending e)"
proof (cases "0 <s amount (trading_volume e)")
  case True
  then obtain found1 e1 where e1: "get_next_bid F e = Inr (found1, e1)"
    and rest: "(if \<not> found1 then Inr e1 else bindE (get_next_ask F e1) (\<lambda>(found, e).
         if \<not> found then Inr e
         else bindE (the_order (current_bid e)) (\<lambda>b. bindE (the_order (current_ask e)) (\<lambda>a.
              bindE (record_history F t b a e) (\<lambda>s. Inr (e\<lparr> me_pending := s \<rparr>)))))) = Inr e'"
    using run unfolding update_market_history_def
    by (simp only: not_True_eq_False if_False bind_pair) (elim exE conjE, rule that)
  note m1 = get_next_bid_moves [OF e1]
  show ?thesis
  proof (cases found1)
    case False
    then show ?thesis using rest m1 by (simp add: only_moves_def)
  next
    case True
    then obtain found2 e2 where e2: "get_next_ask F e1 = Inr (found2, e2)"
      and rest: "(if \<not> found2 then Inr e2
         else bindE (the_order (current_bid e2)) (\<lambda>b. bindE (the_order (current_ask e2)) (\<lambda>a.
              bindE (record_history F t b a e2) (\<lambda>s. Inr (e2\<lparr> me_pending := s \<rparr>))))) = Inr e'"
      using rest by (simp only: not_True_eq_False if_False bind_pair) (elim exE conjE, rule that)
    note m2 = get_next_ask_moves [OF e2]
    show ?thesis
    proof (cases found2)
      case False
      then show ?thesis using rest m1 m2 by (simp add: only_moves_def)
    next
      case True
      then obtain b m s where s: "record_history F t b m e2 = Inr s" and e': "e2\<lparr> me_pending := s \<rparr> = e'"
        using rest by (simp only: not_True_eq_False if_False bindE_Inr sum.inject) (elim exE conjE, rule that)
      show ?thesis
        using record_history_run(1,3,4) [OF s] record_history_run(2) [OF s, of G] m1 m2
        by (simp add: only_moves_def flip: e')
    qed
  qed
qed (use run in \<open>simp add: update_market_history_def\<close>)

text \<open>At the end the fees are stored with the assets, so the surplus of the state is the total of
  the engine less the fees stated before.\<close>

definition stated_fees :: "chain \<Rightarrow> asset_id_type \<Rightarrow> share_type" where
  "stated_fees s a = opt_val net_fees (get_asset_record s a)"

lemma close_market_book:
  assumes run: "close_market F t e = Inr e'" and ok: "book_ok F prior traders e"
  shows "surplus (me_pending e') a =
      engine_total e a - (if a = me_quote_id e \<or> a = me_base_id e then stated_fees prior a else 0)"
    "chain_wf F (me_pending e')" "market_pending prior (me_pending e')" "me_transactions e' = me_transactions e"
proof -
  define s where "s = store_asset_record (base_asset e) (store_asset_record (quote_asset e) (me_pending e))"
  have q: "\<not> asset_is_null (quote_asset e)" "\<not> asset_is_null (base_asset e)"
    and ids: "asr_id (quote_asset e) = me_quote_id e" "asr_id (base_asset e) = me_base_id e" "me_quote_id e \<noteq> me_base_id e"
    and prior: "get_asset_record (me_pending e) = get_asset_record prior"
    and wf: "chain_wf F (me_pending e)" "market_pending prior (me_pending e)"
    using ok by (simp_all add: book_ok_def)
  have get: "get_asset_record (store_asset_record (quote_asset e) (me_pending e)) =
      (get_asset_record prior)(me_quote_id e \<mapsto> quote_asset e)"
    using store_asset_record_get [of "quote_asset e" "me_pending e"] q ids prior by auto
  have s: "surplus s a = engine_total e a - (if a = me_quote_id e \<or> a = me_base_id e then stated_fees prior a else 0)"
    unfolding s_def surplus_asset [OF q(2)] surplus_asset [OF q(1)] get
    using ids prior by (simp add: engine_total_def stated_fees_def)
  obtain m where "update_market_history F t (e\<lparr> me_pending :=
      store_market_status ((update_feed_price m (me_feed_price e))\<lparr> last_error := None \<rparr>) s \<rparr>) = Inr e'"
    using run unfolding close_market_def Let_def s_def [symmetric] bindE_Inr by (elim exE conjE) (rule that)
  note h = update_market_history_run [OF this]
  show "surplus (me_pending e') a =
      engine_total e a - (if a = me_quote_id e \<or> a = me_base_id e then stated_fees prior a else 0)"
    using h [of a F prior] unfolding s [symmetric] by simp
  show "chain_wf F (me_pending e')" "market_pending prior (me_pending e')" "me_transactions e' = me_transactions e"
    using h [of a F prior] wf q by (simp_all add: s_def)
qed

section \<open>A market of limit orders\<close>

text \<open>What the conservation theorem assumes of the database: the market has no shorts and no
  margin positions, the limits of relative bids are prices of the market they are in, and
  the state the engine is given has the orders of the database.\<close>

definition limit_market :: "chain_database \<Rightarrow> asset_id_type \<Rightarrow> asset_id_type \<Rightarrow> bool" where
  "limit_market d quote base =
    (quote \<noteq> base \<and>
     list_all (\<lambda>(k, r). \<not> in_pair quote base (order_price k)) (short_db d) \<and>
     list_all (\<lambda>(k, r). \<not> in_pair quote base (order_price k)) (collateral_db d) \<and>
     list_all (\<lambda>x. ei_quote_id x \<noteq> quote) (collateral_expiration_index d) \<and>
     list_all same_limit (relative_bid_db d) \<and>
     distinct (map fst (bid_db d)) \<and> distinct (map fst (relative_bid_db d)) \<and> distinct (map fst (ask_db d)))"

definition market_orders ::
  "asset_id_type \<Rightarrow> asset_id_type \<Rightarrow> (market_index_key \<times> order_record) list \<Rightarrow> (market_index_key \<times> order_record) list" where
  "market_orders quote base m = filter (\<lambda>(k, r). in_pair quote base (order_price k)) m"

definition orders_current :: "chain_database \<Rightarrow> chain \<Rightarrow> asset_id_type \<Rightarrow> asset_id_type \<Rightarrow> bool" where
  "orders_current d s quote base =
    (list_all (\<lambda>(k, r). get_bid_record s k = Some r) (market_orders quote base (bid_db d)) \<and>
     list_all (\<lambda>(k, r). get_relative_bid_record s k = Some r) (market_orders quote base (relative_bid_db d)) \<and>
     list_all (\<lambda>(k, r). get_ask_record s k = Some r) (market_orders quote base (ask_db d)))"

definition market_traders :: "chain_database \<Rightarrow> asset_id_type \<Rightarrow> asset_id_type \<Rightarrow> address list" where
  "market_traders d quote base =
    map (\<lambda>(k, r). mk_owner k) (market_orders quote base (bid_db d) @ market_orders quote base (relative_bid_db d) @
      market_orders quote base (ask_db d))"

lemma book_agrees_sub:
  assumes "set l \<subseteq> set m" "distinct (map fst l)"
    and "list_all (\<lambda>(k, r). get k = Some r) (market_orders quote base m)"
    and "\<And>k r. (k, r) \<in> set (market_orders quote base m) \<Longrightarrow> mk_owner k \<in> set traders"
  shows "book_agrees quote base traders get l"
  using assms by (fastforce simp: book_agrees_def market_orders_def list_all_iff)

lemma below_set: "set (below k m) \<subseteq> set m" "distinct (map fst m) \<Longrightarrow> distinct (map fst (below k m))"
  by (auto simp: below_def distinct_map_filter distinct_map intro: inj_on_subset)

lemma from_key_set: "set (from_key k m) \<subseteq> set m" "distinct (map fst m) \<Longrightarrow> distinct (map fst (from_key k m))"
  by (auto simp: from_key_def Let_def distinct_map_filter distinct_map intro: inj_on_subset)

lemma begin_market_book:
  fixes F :: "'z fc_cond_scheme" and feed_price :: "price option"
  assumes wf: "chain_wf F prior" and live: "live_records prior" and limit: "limit_market d quote base"
    and orders: "orders_current d prior quote base" and pay: "payouts_ok F quote base (market_traders d quote base) prior"
    and assets: "market_assets v7 quote base (Pending pending_empty prior) = Inr (q, b)"
  defines "e \<equiv> begin_market v7 d quote base feed_price q b (Pending pending_empty prior)"
  shows "book_ok F prior (market_traders d quote base) e"
    "engine_total e a = surplus prior a + (if a = quote \<or> a = base then stated_fees prior a else 0)"
proof -
  have same: "get_bid_record (Pending pending_empty prior) = get_bid_record prior"
    "get_relative_bid_record (Pending pending_empty prior) = get_relative_bid_record prior"
    "get_ask_record (Pending pending_empty prior) = get_ask_record prior"
    "get_asset_record (Pending pending_empty prior) = get_asset_record prior"
    "get_balance_record (Pending pending_empty prior) = get_balance_record prior"
    "surplus (Pending pending_empty prior) a = surplus prior a"
    by (simp_all add: gets_Pending pending_empty_def surplus_defs)
  have got: "get_asset_record prior quote = Some q" "get_asset_record prior base = Some b"
    using assets by (auto simp: market_assets_def same split: option.split_asm if_split_asm)
  have ids: "asr_id q = quote" "asr_id b = base" "quote \<noteq> base"
    using wf_gets(1) [OF wf] got limit by (auto simp: limit_market_def)
  have null: "\<not> asset_is_null q" "\<not> asset_is_null b"
    using live got by (auto simp: live_records_def)
  have wf': "chain_wf F (Pending pending_empty prior)" using wf by simp
  have pay': "payouts_ok F quote base (market_traders d quote base) (Pending pending_empty prior)"
    using pay by (simp add: payouts_ok_def pays_asset_def [abs_def] same)
  have margin: "no_margin e"
    using limit below_set(1) [of _ "short_db d"] below_set(1) [of _ "collateral_db d"]
    by (fastforce simp: e_def begin_market_def Let_def no_margin_def in_market_def limit_market_def in_pair_def
        list_all_iff expired_from_def)
  note book = book_agrees_sub [where quote = quote and base = base and traders = "market_traders d quote base"]
  have books: "book_agrees quote base (market_traders d quote base) (get_bid_record prior) (below k (bid_db d))"
    "book_agrees quote base (market_traders d quote base) (get_relative_bid_record prior) (below k (relative_bid_db d))"
    "book_agrees quote base (market_traders d quote base) (get_ask_record prior) (from_key k (ask_db d))"
    "list_all same_limit (below k (relative_bid_db d))" for k
    subgoal using limit orders by (intro book [OF below_set]) (auto simp: limit_market_def orders_current_def market_traders_def)
    subgoal using limit orders by (intro book [OF below_set]) (auto simp: limit_market_def orders_current_def market_traders_def)
    subgoal using limit orders by (intro book [OF from_key_set]) (auto simp: limit_market_def orders_current_def market_traders_def)
    subgoal using limit below_set(1) [of k "relative_bid_db d"] by (auto simp: limit_market_def list_all_iff)
    done
  have empty: "book_agrees quote base ts get []" for ts get by (simp add: book_agrees_def)
  show "book_ok F prior (market_traders d quote base) e"
    using margin books wf' pay' ids null empty market_pending_fresh [of prior]
    by (simp add: book_ok_def open_bids_def open_relative_bids_def open_asks_def)
       (simp add: e_def begin_market_def Let_def same)
  show "engine_total e a = surplus prior a + (if a = quote \<or> a = base then stated_fees prior a else 0)"
    using ids got same(6) by (simp add: e_def begin_market_def Let_def engine_total_def stated_fees_def)
qed

lemma execute_cases:
  assumes "execute F v7 d quote base t prior = Inr (ok, ts, s')"
  obtains (failed) m x feed_price where "market_status_of prior quote base = Inr m" "\<not> ok" "ts = []"
      "s' = store_market_status ((update_feed_price m feed_price)\<lparr> last_error := Some x \<rparr>) prior"
  | (traded) q b feed_price e1 e2 where "ok"
      "market_assets v7 quote base (Pending pending_empty prior) = Inr (q, b)"
      "run_market F (begin_market v7 d quote base feed_price q b (Pending pending_empty prior)) = Inr e1"
      "close_market F t e1 = Inr e2" "commit F (me_pending e2) = Inr s'" "ts = me_transactions e2"
proof -
  have fail: thesis if "market_failed quote base feed_price x prior = Inr (ok, ts, s')" for feed_price x
    using that
    by (simp add: market_failed_def run_cases run_simps) (elim conjE exE, rule failed, assumption+, rule sym, assumption, erule sym)
  show thesis
  proof (cases "open_market F v7 d quote base (Pending pending_empty prior)")
    case (Inl x)
    then show thesis using assms fail by (simp add: execute_def)
  next
    case (Inr e)
    then obtain q b feed_price where assets: "market_assets v7 quote base (Pending pending_empty prior) = Inr (q, b)"
      and e: "e = begin_market v7 d quote base feed_price q b (Pending pending_empty prior)"
      unfolding open_market_def bind_pair
      by (elim exE conjE) (simp only: bindE_Inr sum.inject, elim exE conjE, rule that, assumption, erule sym)
    define run where "run = bindE (run_market F e) (\<lambda>e. bindE (close_market F t e) (\<lambda>e.
      bindE (commit F (me_pending e)) (\<lambda>s. Inr (me_transactions e, s))))"
    have ex: "(case run of Inl x \<Rightarrow> market_failed quote base (me_feed_price e) x prior
        | Inr (ts, s) \<Rightarrow> Inr (True, ts, s)) = Inr (ok, ts, s')"
      using assms Inr by (simp add: execute_def run_def)
    show thesis
    proof (cases run)
      case (Inl x)
      then show thesis using ex fail by simp
    next
      case run: (Inr r)
      then obtain e1 e2 s2 where e: "run_market F e = Inr e1" "close_market F t e1 = Inr e2"
        "commit F (me_pending e2) = Inr s2" and r: "(me_transactions e2, s2) = r"
        unfolding run_def bindE_Inr sum.inject by (elim exE conjE) (rule that)
      have "ok" "ts = me_transactions e2" "s' = s2"
        using ex run by (simp_all flip: r)
      then show thesis
        using traded [OF _ assets] e \<open>e = _\<close> by simp
    qed
  qed
qed

text \<open>C6. Trading moves shares, it neither creates nor destroys them. If a market has limit orders
  only (absolute and relative bids and asks, no shorts and no margin positions), the state the
  engine runs on has the orders of the database, and the balances its traders are paid to
  hold the asset they are paid in, then a run of the engine, of either version, keeps for
  every asset the difference between all holdings (balances, open orders, collected fees,
  collateral, pay) and the stated supply, whether the run succeeds or fails.\<close>

theorem execute_conserves:
  assumes "execute F v7 d quote base t s = Inr (ok, ts, s')" "chain_wf F s" "live_records s"
    and "limit_market d quote base" "orders_current d s quote base"
    and "payouts_ok F quote base (market_traders d quote base) s"
  shows "holdings s' a - stated_supply s' a = holdings s a - stated_supply s a"
  using assms(1)
proof (cases rule: execute_cases)
  case (failed m x feed_price)
  then show ?thesis
    using surplus_other_stores(3) [of _ s a] by (simp add: surplus_def)
next
  case (traded q b feed_price e1 e2)
  note e0 = begin_market_book [OF assms(2-6) traded(2), of feed_price]
  note e1 = run_market_book [OF traded(3) e0(1)]
  note e2 = close_market_book [OF traded(4) conjunct1 [OF e1]]
  have ids: "me_quote_id e1 = quote" "me_base_id e1 = base"
    using e1 by (simp_all add: begin_market_def Let_def)
  show ?thesis
    using commit_market(1) [OF traded(5) e2(3,2) assms(3), of a] e2(1) [of a] e1 e0(2) [of a] ids
    by (simp add: surplus_def)
qed

text \<open>A market with one bid, 20 units for 2 each, and one ask, 10 units at 1.5 each.\<close>

definition ex_order :: "uint128 \<Rightarrow> address \<Rightarrow> share_type \<Rightarrow> market_index_key \<times> order_record" where
  "ex_order p owner n = (\<lparr> order_price = mk_price p 0 1, mk_owner = owner \<rparr>, order_record_default\<lparr> or_balance := n \<rparr>)"

definition ex_market :: chain_database where
  "ex_market = ex_chain\<lparr> head_block_num := 820221,
     asset_db := [(0, ex_asset 0 ''BTS'' 17), (1, ex_asset 1 ''USD'' 20)],
     symbol_index_db := [(''BTS'', 0), (''USD'', 1)],
     bid_db := [ex_order 2000000000000000000 ''bob'' 20], ask_db := [ex_order 1500000000000000000 ''carol'' 10] \<rparr>"

abbreviation ex_state :: chain where
  "ex_state \<equiv> Pending pending_empty (DB ex_market)"

theorem execute_conserves_witness:
  "\<exists>t s'. execute ex_eval_fc True ex_market 1 0 1700000010 ex_state = Inr (True, [t], s') \<and>
    holdings s' 1 - stated_supply s' 1 = holdings ex_state 1 - stated_supply ex_state 1"
proof -
  have "case execute ex_eval_fc True ex_market 1 0 1700000010 ex_state of
      Inr (ok, ts, s') \<Rightarrow> ok \<and> length ts = 1 | Inl x \<Rightarrow> False" by code_simp
  then obtain t s' where run: "execute ex_eval_fc True ex_market 1 0 1700000010 ex_state = Inr (True, [t], s')"
    by (cases "execute ex_eval_fc True ex_market 1 0 1700000010 ex_state") (auto simp: length_Suc_conv)
  have wf: "chain_wf ex_eval_fc ex_state" by code_simp
  have "live_records (DB ex_market)" by (rule live_records_DB) code_simp+
  then have live: "live_records ex_state" by (rule market_pending_live [OF market_pending_fresh])
  have "limit_market ex_market 1 0" "orders_current ex_market ex_state 1 0"
    "payouts_ok ex_eval_fc 1 0 (market_traders ex_market 1 0) ex_state" by code_simp+
  from execute_conserves [OF run wf live this] run show ?thesis by blast
qed

end
