(* ===== verification/Market_Trades.thy ===== *)
theory Market_Trades
  imports Market_Laws
begin

text \<open>
  What holds for every run of the market engine, with shorts and margin positions too: each
  transaction it records respects the prices of both sides, there are at most as many as
  there are orders, and a run that gets to its commit completes it, so that an error is always
  raised before the state the run was given is touched.
\<close>

section \<open>Prices and the number of trades\<close>

text \<open>What the checks on a recorded transaction establish: the ask is not above the bid, and
  neither side gets more than the other gives.\<close>

definition automatic_cancel :: "market_transaction \<Rightarrow> bool" where
  "automatic_cancel t =
    (amount (ask_paid t) = 0 \<and> amount (ask_received t) = 0 \<and> asset_id (bid_received t) = 0 \<and> amount (bid_paid t) = 0)"

definition fair_trade :: "market_transaction \<Rightarrow> bool" where
  "fair_trade t =
    (\<not> price_less (bid_price t) (ask_price t) \<and>
     (\<not> automatic_cancel t \<longrightarrow>
       0 \<le>s amount (bid_paid t) \<and> 0 \<le>s amount (ask_paid t) \<and> 0 \<le>s amount (bid_received t) \<and>
       0 \<le>s amount (ask_received t) \<and> 0 \<le>s amount (fees_collected t) \<and>
       asset_ge (bid_paid t) (ask_received t) \<and> asset_ge (ask_paid t) (bid_received t)))"

definition same_trades :: "market_transaction \<times> market_engine \<Rightarrow> market_transaction \<times> market_engine \<Rightarrow> bool" where
  "same_trades = (\<lambda>(t, e) (t', e'). me_transactions e' = me_transactions e \<and>
     quiet (me_pending e') = quiet (me_pending e) \<and> bid_price t' = bid_price t \<and> ask_price t' = ask_price t)"

lemma same_trades_trans: "same_trades x y \<Longrightarrow> same_trades y z \<Longrightarrow> same_trades x z"
  by (auto simp: same_trades_def)

lemma open_cover_quiet: "open_cover F t c b s = Inr s' \<Longrightarrow> quiet s' = quiet s"
  by (auto simp: open_cover_def Let_def run_simps)

lemma pay_current_short_trades: "pay_current_short F t e = Inr (t', e') \<Longrightarrow> same_trades (t, e) (t', e')"
  by (simp add: pay_current_short_def Let_def run_cases)
     (elim exE conjE disjE; hypsubst; simp add: same_trades_def open_cover_quiet)

lemma pay_current_bid_trades: "pay_current_bid F t e = Inr e' \<Longrightarrow> same_trades (t, e) (t, e')"
  by (simp add: pay_current_bid_def Let_def run_cases)
     (elim exE conjE; hypsubst; simp add: same_trades_def)

lemma pay_current_ask_trades:
  "pay_current_ask F upd t e = Inr e' \<Longrightarrow> (\<And>f. me_transactions (upd f e) = me_transactions e) \<Longrightarrow>
    same_trades (t, e) (t, e')"
  by (simp add: pay_current_ask_def Let_def run_cases)
     (elim exE conjE; hypsubst; simp add: same_trades_def)

lemma return_collateral_trades:
  "return_collateral F t l owner e = Inr (t', e') \<Longrightarrow> same_trades (t, e) (t', e')"
  by (simp add: return_collateral_def Let_def) (elim exE conjE; hypsubst; simp add: same_trades_def)

lemma pay_current_cover_trades:
  assumes "pay_current_cover F t e = Inr (t', e')"
  shows "same_trades (t, e) (t', e')"
  using assms unfolding pay_current_cover_def
  by (simp add: Let_def run_simps run_cases(1) bind_pair)
     (elim exE conjE disjE; (drule return_collateral_trades)?; hypsubst; simp add: same_trades_def store_cover_state_def Let_def)

lemma trade_trades:
  assumes "trade F b a t e = Inr (t', e')"
  shows "same_trades (t, e) (t', e')"
proof -
  have upd: "me_transactions (quote_asset_update f e) = me_transactions e"
    "me_transactions (base_asset_update f e) = me_transactions e" for f and e :: market_engine
    by simp_all
  note pay = pay_current_short_trades pay_current_bid_trades pay_current_cover_trades
    pay_current_ask_trades [OF _ upd(1)] pay_current_ask_trades [OF _ upd(2)]
  have "trade_short_cover F b a t e = Inr (t', e') \<Longrightarrow> same_trades (t, e) (t', e')"
    by (simp add: trade_short_cover_def Let_def run_simps split_paired_Ex)
       (elim exE conjE, (drule pay)+, simp add: same_trades_def)
  moreover have "trade_bid_cover F b a t e = Inr (t', e') \<Longrightarrow> same_trades (t, e) (t', e')"
    by (simp add: trade_bid_cover_def Let_def run_simps split_paired_Ex)
       (elim exE conjE, (drule pay)+, simp add: same_trades_def)
  moreover have "trade_short_ask F b a t e = Inr (t', e') \<Longrightarrow> same_trades (t, e) (t', e')"
    by (simp add: trade_short_ask_def Let_def run_simps split_paired_Ex)
       (elim exE conjE, (drule pay)+, simp add: same_trades_def)
  moreover have "trade_bid_ask F b a t e = Inr (t', e') \<Longrightarrow> same_trades (t, e) (t', e')"
    by (simp add: trade_bid_ask_def Let_def run_simps split_paired_Ex)
       (elim exE conjE, (drule pay)+, hypsubst, simp add: same_trades_def)
  ultimately show ?thesis
    using assms unfolding trade_def by (simp add: run_cases) (elim disjE conjE; simp add: same_trades_def)
qed

lemma judge_fair:
  assumes "judge F e b a t = Inr (trade_at t')"
  shows "\<not> price_less (bid_price t') (ask_price t')"
proof -
  have irrefl: "\<not> price_less p p" for p by (simp add: price_less_def)
  obtain v where v: "(case v of trade_at t \<Rightarrow> judge_ask F e a t | w \<Rightarrow> Inr w) = Inr (trade_at t')"
    using assms unfolding judge_def bindE_Inr by (elim exE conjE) (rule that)
  then obtain t1 where "judge_ask F e a t1 = Inr (trade_at t')" by (cases v) auto
  then show ?thesis
    using irrefl by (auto simp: judge_ask_def run_simps split: if_split_asm option.split_asm)
qed

lemma after_trade_fair:
  assumes run: "after_trade t e = Inr e'" and price: "\<not> price_less (bid_price t) (ask_price t)"
  shows "fair_trade t" "me_transactions e' = me_transactions e @ [t]"
proof -
  obtain e1 where "push_market_transaction t e = Inr e1"
    using run unfolding after_trade_def bindE_Inr by (elim exE conjE) (rule that)
  then show "fair_trade t"
    using price
    by (auto simp: push_market_transaction_def fair_trade_def automatic_cancel_def signed.not_less split: if_split_asm)
  show "me_transactions e' = me_transactions e @ [t]" by (rule after_trade_run(1) [OF run])
qed

text \<open>Rounds left at most: each takes an order from an iterator, the first one apart.\<close>

definition rounds_left :: "market_engine \<Rightarrow> nat" where
  "rounds_left e = cursor_size e + (if orders_filled e = last_orders_filled e then 0 else 1)"

definition trades_ok :: "nat \<Rightarrow> chain \<Rightarrow> market_engine \<Rightarrow> bool" where
  "trades_ok n s e =
    (list_all fair_trade (me_transactions e) \<and> length (me_transactions e) \<le> n \<and> quiet (me_pending e) = quiet s)"

lemma match_orders_trades:
  assumes run: "match_orders F b a e = Inr (go, e')" and ok: "trades_ok n s e"
  shows "trades_ok (if go then Suc n else n) s e'"
  using run
proof (cases rule: match_orders_cases)
  case (4 m0 m m' e1)
  have same: "me_transactions e1 = me_transactions e" "bid_price m' = bid_price m" "ask_price m' = ask_price m"
      "quiet (me_pending e1) = quiet (me_pending e)"
    using trade_trades [OF 4(3)] by (simp_all add: same_trades_def)
  then have "\<not> price_less (bid_price m') (ask_price m')"
    using judge_fair [OF 4(2)] by simp
  from after_trade_fair [OF 4(4) this] show ?thesis
    using ok same 4(5) after_trade_run(2) [OF 4(4)] by (simp add: trades_ok_def only_moves_def)
qed (use ok in \<open>simp_all add: trades_ok_def\<close>)

lemma match_step_trades:
  assumes run: "match_step F e = Inr (go, e')" and ok: "trades_ok n s e"
  shows "trades_ok (if go then Suc n else n) s e' \<and> (go \<longrightarrow> rounds_left e' < rounds_left e)"
  using run
proof (cases rule: match_step_run)
  case no_bid
  then show ?thesis
    using get_next_bid_moves [OF no_bid(1)] ok by (simp add: only_moves_def trades_ok_def)
next
  case (no_ask e1)
  then show ?thesis
    using get_next_bid_moves [OF no_ask(1)] get_next_ask_moves [OF no_ask(2)] ok by (simp add: only_moves_def trades_ok_def)
next
  case (found e1 e2 b a)
  have "me_transactions e2 = me_transactions e" "me_pending e2 = me_pending e"
    using get_next_bid_moves [OF found(1)] get_next_ask_moves [OF found(2)] by (simp_all add: only_moves_def)
  then have "trades_ok n s (e2\<lparr> last_orders_filled := orders_filled e2 \<rparr>)"
    using ok by (simp add: trades_ok_def)
  note trades = match_orders_trades [OF found(6) this]
  have "cursor_size e' = cursor_size e2" "orders_filled e' = last_orders_filled e'"
    using match_orders_cursors [OF found(6)] by (simp_all add: same_cursors_def cursor_size_def)
  then have e': "rounds_left e' = cursor_size e2" by (simp add: rounds_left_def)
  have "rounds_left e' < rounds_left e"
    using get_next_bid_size [OF found(1)] get_next_ask_size [OF found(2)] found(3)
    unfolding e' by (auto simp: rounds_left_def)
  with trades show ?thesis by simp
qed

lemma match_loop_trades:
  assumes "match_loop F e = Inr e'" "trades_ok n s e"
  shows "trades_ok (n + rounds_left e) s e'"
  using assms
proof (induction F e arbitrary: n rule: match_loop.induct)
  case (1 F e)
  obtain go e1 where step: "match_step F e = Inr (go, e1)"
    using 1(2) by (cases "match_step F e") (auto simp: match_loop.simps [of F e])
  note trades = match_step_trades [OF step 1(3)]
  show ?case
  proof (cases go)
    case True
    then have "match_loop F e1 = Inr e'" using 1(2) step by (simp add: match_loop.simps [of F e])
    then have "trades_ok (Suc n + rounds_left e1) s e'" using 1(1) [OF step refl True, of "Suc n"] trades True by simp
    then show ?thesis using trades True by (auto simp: trades_ok_def)
  next
    case False
    then have "e1 = e'" using 1(2) step by (simp add: match_loop.simps [of F e])
    then show ?thesis using trades False by (auto simp: trades_ok_def)
  qed
qed

lemma run_market_trades:
  assumes run: "run_market F e = Inr e'" and "me_transactions e = []"
  shows "trades_ok (cursor_size e + 1) (me_pending e) e'"
proof -
  obtain f1 e1 f2 e2 where e1: "get_next_bid F e = Inr (f1, e1)" and e2: "get_next_ask F e1 = Inr (f2, e2)"
    and e': "match_loop F e2 = Inr e'"
    using run unfolding run_market_def bindE_Inr [of "check_feeds _ _ _ _ _"] bind_pair
    by (elim exE conjE) (rule that)
  have "trades_ok 0 (me_pending e) e2"
    using get_next_bid_moves [OF e1] get_next_ask_moves [OF e2] assms(2) by (simp add: only_moves_def trades_ok_def)
  from match_loop_trades [OF e' this] have "trades_ok (rounds_left e2) (me_pending e) e'" by simp
  moreover have "rounds_left e2 \<le> cursor_size e + 1"
    using get_next_bid_size [OF e1] get_next_ask_size [OF e2] by (auto simp: rounds_left_def)
  ultimately show ?thesis by (auto simp: trades_ok_def)
qed

lemma close_market_trades:
  assumes "close_market F t e = Inr e'"
  shows "me_transactions e' = me_transactions e" "quiet (me_pending e') = quiet (me_pending e)"
proof -
  obtain m where "update_market_history F t (e\<lparr> me_pending := store_market_status m
      (store_asset_record (base_asset e) (store_asset_record (quote_asset e) (me_pending e))) \<rparr>) = Inr e'"
    using assms unfolding close_market_def Let_def bindE_Inr by (elim exE conjE) (rule that)
  from update_market_history_run [OF this, of 0 fc_ref_cond "DB db_empty"] show "me_transactions e' = me_transactions e"
    "quiet (me_pending e') = quiet (me_pending e)" by simp_all
qed

text \<open>The orders and positions of the database.\<close>

definition orders_count :: "chain_database \<Rightarrow> nat" where
  "orders_count d = length (bid_db d) + length (ask_db d) + length (relative_bid_db d) + length (short_db d) +
    length (collateral_db d) + length (collateral_expiration_index d)"

lemma cursor_size_begin:
  "cursor_size (begin_market v7 d quote base feed_price q b s) \<le> orders_count d"
proof -
  have below: "length (below k m) \<le> length m" for k and m :: "(market_index_key \<times> 'v) list"
    unfolding below_def length_rev by (rule order_trans [OF length_filter_le]) simp
  have from_key: "length (from_key k m) \<le> length m" for k and m :: "(market_index_key \<times> 'v) list"
    unfolding from_key_def Let_def by (auto intro: order_trans [OF length_filter_le])
  have expired: "length (expired_from q k l) \<le> length l" for q k l
    unfolding expired_from_def by (rule order_trans [OF length_filter_le]) simp
  show ?thesis
    unfolding cursor_size_def orders_count_def begin_market_def Let_def
    by (simp add: below from_key expired add_mono)
qed

text \<open>C12. Every transaction a run of the engine records, of either version and with shorts and
  margin positions, respects the prices of both sides: the ask price is not above the bid
  price; and unless it is an automatic cancellation, no amount is negative, the bid pays at
  least what the ask receives and the ask pays at least what the bid receives.\<close>

theorem execute_fair:
  assumes "execute F v7 d quote base t s = Inr (ok, ts, s')" "mtrx \<in> set ts"
  shows "\<not> price_less (bid_price mtrx) (ask_price mtrx) \<and>
    (\<not> automatic_cancel mtrx \<longrightarrow>
      0 \<le>s amount (bid_paid mtrx) \<and> 0 \<le>s amount (ask_paid mtrx) \<and> 0 \<le>s amount (bid_received mtrx) \<and>
      0 \<le>s amount (ask_received mtrx) \<and> 0 \<le>s amount (fees_collected mtrx) \<and>
      asset_ge (bid_paid mtrx) (ask_received mtrx) \<and> asset_ge (ask_paid mtrx) (bid_received mtrx))"
  using assms(1)
proof (cases rule: execute_cases)
  case (traded q b feed_price e1 e2)
  have "list_all fair_trade ts"
    using run_market_trades [OF traded(3)] close_market_trades [OF traded(4)] traded(6)
    by (simp add: begin_market_def Let_def trades_ok_def)
  then show ?thesis
    using assms(2) by (simp add: list_all_iff fair_trade_def)
qed (use assms(2) in simp)

text \<open>C10. A run of the engine ends, with at most one transaction more than there are orders and
  positions in the database: every round takes an order from one of the iterators, or the
  assertion against loops fails.\<close>

theorem execute_bounded:
  assumes "execute F v7 d quote base t s = Inr (ok, ts, s')"
  shows "length ts \<le> length (bid_db d) + length (ask_db d) + length (relative_bid_db d) + length (short_db d) +
    length (collateral_db d) + length (collateral_expiration_index d) + 1"
  using assms
proof (cases rule: execute_cases)
  case (traded q b feed_price e1 e2)
  have "length ts \<le> cursor_size (begin_market v7 d quote base feed_price q b (Pending pending_empty s)) + 1"
    using run_market_trades [OF traded(3)] close_market_trades [OF traded(4)] traded(6)
    by (simp add: begin_market_def Let_def trades_ok_def)
  also have "\<dots> \<le> orders_count d + 1"
    using cursor_size_begin by (rule add_right_mono)
  finally show ?thesis by (simp add: orders_count_def)
qed simp

text \<open>C11. A run of the engine is atomic. The state it is given is the pending state of the
  block, and when the orders are matched and the market is closed without an error the commit
  completes: none of the stores it consists of throws. So an error of a run is raised before
  the commit, when the state the run was given has not been touched.\<close>

theorem execute_commits:
  assumes "open_market F v7 d quote base (Pending pending_empty (Pending p prev)) = Inr e"
    and "run_market F e = Inr e1" "close_market F t e1 = Inr e2"
  shows "\<exists>s'. commit F (me_pending e2) = Inr s' \<and>
    execute F v7 d quote base t (Pending p prev) = Inr (True, me_transactions e2, s')"
proof -
  obtain q b feed_price where "e = begin_market v7 d quote base feed_price q b (Pending pending_empty (Pending p prev))"
    using assms(1) unfolding open_market_def bind_pair
    by (elim exE conjE) (simp only: bindE_Inr sum.inject, elim exE conjE, rule that, erule sym)
  then have e: "me_transactions e = []" "me_pending e = Pending pending_empty (Pending p prev)"
    by (simp_all add: begin_market_def Let_def)
  have "quiet (me_pending e2) = Some ([], [], Pending p prev)"
    using run_market_trades [OF assms(2) e(1)] close_market_trades(2) [OF assms(3)] e(2)
    by (simp add: trades_ok_def pending_empty_def)
  then obtain s' where s': "commit F (me_pending e2) = Inr s'"
    using commit_quiet by blast
  then show ?thesis
    using assms by (simp add: execute_def)
qed

section \<open>Examples\<close>

theorem execute_fair_witness:
  "\<exists>mtrx s'. execute ex_eval_fc True ex_market 1 0 1700000010 ex_state = Inr (True, [mtrx], s') \<and>
    \<not> price_less (bid_price mtrx) (ask_price mtrx) \<and> \<not> automatic_cancel mtrx \<and>
    asset_ge (bid_paid mtrx) (ask_received mtrx)"
proof -
  have "case execute ex_eval_fc True ex_market 1 0 1700000010 ex_state of
      Inr (ok, ts, s') \<Rightarrow> ok \<and> length ts = 1 \<and> \<not> automatic_cancel (hd ts) | Inl x \<Rightarrow> False" by code_simp
  then obtain mtrx s' where run: "execute ex_eval_fc True ex_market 1 0 1700000010 ex_state = Inr (True, [mtrx], s')"
    and "\<not> automatic_cancel mtrx"
    by (cases "execute ex_eval_fc True ex_market 1 0 1700000010 ex_state") (auto simp: length_Suc_conv)
  with execute_fair [OF run, of mtrx] show ?thesis by auto
qed

theorem execute_bounded_witness:
  "\<exists>mtrx s'. execute ex_eval_fc False ex_market 1 0 1700000010 ex_state = Inr (True, [mtrx], s') \<and> length [mtrx] \<le> 3"
proof -
  have "case execute ex_eval_fc False ex_market 1 0 1700000010 ex_state of
      Inr (ok, ts, s') \<Rightarrow> ok \<and> length ts = 1 | Inl x \<Rightarrow> False" by code_simp
  then obtain mtrx s' where run: "execute ex_eval_fc False ex_market 1 0 1700000010 ex_state = Inr (True, [mtrx], s')"
    by (cases "execute ex_eval_fc False ex_market 1 0 1700000010 ex_state") (auto simp: length_Suc_conv)
  have "length (bid_db ex_market) + length (ask_db ex_market) + length (relative_bid_db ex_market) +
      length (short_db ex_market) + length (collateral_db ex_market) + length (collateral_expiration_index ex_market) + 1 = 3"
    by code_simp
  with execute_bounded [OF run] run show ?thesis by simp
qed

theorem execute_commits_witness:
  "\<exists>e e1 e2 s'. open_market ex_eval_fc False ex_market 1 0 (Pending pending_empty (Pending pending_empty ex_state)) = Inr e \<and>
    run_market ex_eval_fc e = Inr e1 \<and> close_market ex_eval_fc 1700000010 e1 = Inr e2 \<and> length (me_transactions e2) = 1 \<and>
    execute ex_eval_fc False ex_market 1 0 1700000010 (Pending pending_empty ex_state) = Inr (True, me_transactions e2, s')"
proof -
  let ?s = "Pending pending_empty ex_state"
  have "case open_market ex_eval_fc False ex_market 1 0 (Pending pending_empty ?s) of Inl x \<Rightarrow> False
    | Inr e \<Rightarrow> (case run_market ex_eval_fc e of Inl x \<Rightarrow> False
    | Inr e1 \<Rightarrow> (case close_market ex_eval_fc 1700000010 e1 of Inl x \<Rightarrow> False
    | Inr e2 \<Rightarrow> length (me_transactions e2) = 1))" by code_simp
  then obtain e e1 e2 where run: "open_market ex_eval_fc False ex_market 1 0 (Pending pending_empty ?s) = Inr e"
    "run_market ex_eval_fc e = Inr e1" "close_market ex_eval_fc 1700000010 e1 = Inr e2" "length (me_transactions e2) = 1"
    by (auto split: sum.split_asm)
  from execute_commits [OF run(1-3)] run show ?thesis by blast
qed

end
