(* ===== verification/Forks.thy ===== *)
theory Forks
  imports Delegates
begin

text \<open>
  The tree of blocks in \<^verbatim>\<open>chain_database.cpp\<close>: storing a block in it, marking blocks as linked,
  invalid, unchecked and included, and the way from a block back to the chain.

  A function that changes the tables of the node has the type \<open>'a act\<close>: it takes the node and
  gives a result or an exception together with the node as it is then, for what was stored
  before an exception stays stored. \<open>None\<close> means that the code does not return, or leaves
  what is modelled. A set of block identifiers is a list of them; its order stands for the
  order in which the code happens to go through the set.
\<close>

type_synonym 'a act = "chain_database_impl \<Rightarrow> ('a res \<times> chain_database_impl) option"

definition retA :: "'a \<Rightarrow> 'a act" where
  "retA x n = Some (Inr x, n)"

definition throwA :: "exception \<Rightarrow> 'a act" where
  "throwA e n = Some (Inl e, n)"

definition bindA :: "'a act \<Rightarrow> ('a \<Rightarrow> 'b act) \<Rightarrow> 'b act" where
  "bindA m f n =
    (case m n of
       None \<Rightarrow> None
     | Some (r, n') \<Rightarrow> (case r of Inl e \<Rightarrow> Some (Inl e, n') | Inr x \<Rightarrow> f x n'))"

definition catchA :: "'a act \<Rightarrow> (exception \<Rightarrow> 'a act) \<Rightarrow> 'a act" where
  "catchA m h n =
    (case m n of
       None \<Rightarrow> None
     | Some (r, n') \<Rightarrow> (case r of Inl e \<Rightarrow> h e n' | Inr x \<Rightarrow> Some (Inr x, n')))"

definition readA :: "(chain_database_impl \<Rightarrow> 'a res) \<Rightarrow> 'a act" where
  "readA f n = Some (f n, n)"

definition runA :: "(chain_database_impl \<Rightarrow> 'a run) \<Rightarrow> 'a act" where
  "runA f n = (case f n of None \<Rightarrow> None | Some r \<Rightarrow> Some (r, n))"

definition modifyA :: "(chain_database_impl \<Rightarrow> chain_database_impl) \<Rightarrow> unit act" where
  "modifyA f n = Some (Inr (), f n)"

text \<open>The node is looked at first, for what does not change later.\<close>

definition lookA :: "(chain_database_impl \<Rightarrow> 'a act) \<Rightarrow> 'a act" where
  "lookA g n = g n n"

fun foldA :: "('a \<Rightarrow> 'b \<Rightarrow> 'b act) \<Rightarrow> 'a list \<Rightarrow> 'b \<Rightarrow> 'b act" where
  "foldA f [] s = retA s"
| "foldA f (x # xs) s = bindA (f x s) (foldA f xs)"

lemmas act_defs = retA_def throwA_def bindA_def catchA_def readA_def runA_def modifyA_def lookA_def

text \<open>The runs that end normally.\<close>

lemma act_runs:
  "retA x n = Some (Inr y, n') \<longleftrightarrow> y = x \<and> n' = n"
  "throwA e n = Some (Inr y, n') \<longleftrightarrow> False"
  "bindA m f n = Some (Inr z, n') \<longleftrightarrow> (\<exists>w n1. m n = Some (Inr w, n1) \<and> f w n1 = Some (Inr z, n'))"
  "readA g n = Some (Inr w, n') \<longleftrightarrow> g n = Inr w \<and> n' = n"
  "runA h n = Some (Inr w, n') \<longleftrightarrow> h n = Some (Inr w) \<and> n' = n"
  "modifyA k n = Some (Inr u, n') \<longleftrightarrow> n' = k n"
  "lookA c n = Some (Inr z, n') \<longleftrightarrow> c n n = Some (Inr z, n')"
  by (auto simp: act_defs split: option.split sum.split)

lemma bindA_step: "m n = Some (Inr x, n') \<Longrightarrow> bindA m f n = f x n'"
  by (simp add: bindA_def)

text \<open>\<^verbatim>\<open>fetch\<close> of a table throws for a key it does not have.\<close>

definition fetch_from :: "('k \<times> 'v) list \<Rightarrow> 'k \<Rightarrow> 'v res" where
  "fetch_from m k = (case map_of m k of None \<Rightarrow> Inl key_not_found_exception | Some v \<Rightarrow> Inr v)"

definition fetch_fork :: "block_id_type \<Rightarrow> block_fork_data act" where
  "fetch_fork i = readA (\<lambda>n. fetch_from (fork_db n) i)"

definition store_fork :: "block_id_type \<Rightarrow> block_fork_data \<Rightarrow> unit act" where
  "store_fork i f = modifyA (\<lambda>n. n\<lparr> fork_db := AList.update i f (fork_db n) \<rparr>)"

section \<open>Marking blocks\<close>

text \<open>One round of a loop over the tree: \<open>change\<close> every block of the set and gather the blocks
  that come after them.\<close>

definition mark_level ::
  "(block_fork_data \<Rightarrow> block_fork_data) \<Rightarrow> block_id_type list \<Rightarrow> block_id_type list act" where
  "mark_level change ids =
    foldA (\<lambda>item pending.
        bindA (fetch_fork item) (\<lambda>r.
        bindA (store_fork item (change r)) (\<lambda>_.
          retA (fold List.insert (next_blocks r) pending)))) ids []"

partial_function (option) mark_descendants ::
  "(block_fork_data \<Rightarrow> block_fork_data) \<Rightarrow> block_id_type list \<Rightarrow> chain_database_impl \<Rightarrow>
    (unit res \<times> chain_database_impl) option" where
  "mark_descendants change next_ids n =
    (if next_ids = [] then Some (Inr (), n)
     else case mark_level change next_ids n of
       None \<Rightarrow> None
     | Some (r, n') \<Rightarrow>
         (case r of Inl e \<Rightarrow> Some (Inl e, n') | Inr pending \<Rightarrow> mark_descendants change pending n'))"

definition set_invalid :: "exception \<Rightarrow> block_fork_data \<Rightarrow> block_fork_data" where
  "set_invalid reason f = f\<lparr> is_valid := Some False, invalid_reason := Some reason \<rparr>"

definition set_unchecked :: "block_fork_data \<Rightarrow> block_fork_data" where
  "set_unchecked f = f\<lparr> is_valid := None, invalid_reason := None \<rparr>"

definition recursive_mark_as_invalid :: "block_id_type list \<Rightarrow> exception \<Rightarrow> unit act" where
  "recursive_mark_as_invalid ids reason = mark_descendants (set_invalid reason) ids"

definition mark_invalid :: "block_id_type \<Rightarrow> exception \<Rightarrow> unit act" where
  "mark_invalid bid reason =
    bindA (fetch_fork bid) (\<lambda>f.
    bindA (store_fork bid (set_invalid reason f)) (\<lambda>_.
      recursive_mark_as_invalid (next_blocks f) reason))"

definition mark_as_unchecked :: "block_id_type \<Rightarrow> unit act" where
  "mark_as_unchecked bid =
    bindA (fetch_fork bid) (\<lambda>f.
    bindA (store_fork bid (set_unchecked f)) (\<lambda>_.
      mark_descendants set_unchecked (next_blocks f)))"

definition mark_included :: "block_id_type \<Rightarrow> bool \<Rightarrow> unit act" where
  "mark_included bid included =
    bindA (fetch_fork bid) (\<lambda>f.
      let f = f\<lparr> is_included := included \<rparr>
      in store_fork bid (if included then f\<lparr> is_valid := Some True \<rparr> else f))"

text \<open>\<^verbatim>\<open>recursive_mark_as_linked\<close> also looks for the block with the highest number.\<close>

type_synonym longest = "uint32 \<times> block_id_type \<times> block_fork_data"

definition link_block :: "block_id_type \<Rightarrow> block_id_type list \<times> longest \<Rightarrow> (block_id_type list \<times> longest) act" where
  "link_block item = (\<lambda>(pending, (highest_block_num, last_block_id, longest_fork)).
    bindA (fetch_fork item) (\<lambda>r.
    let r = r\<lparr> is_linked := True \<rparr>;
        pending = fold List.insert (next_blocks r) pending
    in bindA (store_fork item r) (\<lambda>_.
       bindA (readA (\<lambda>n. fetch_from (block_id_to_block_record_db n) item)) (\<lambda>b.
         retA (pending, if block_num b > highest_block_num then (block_num b, item, r)
                        else (highest_block_num, last_block_id, longest_fork))))))"

partial_function (option) link_descendants ::
  "block_id_type list \<Rightarrow> longest \<Rightarrow> chain_database_impl \<Rightarrow> (longest res \<times> chain_database_impl) option" where
  "link_descendants next_ids best n =
    (if next_ids = [] then Some (Inr best, n)
     else case foldA link_block next_ids ([], best) n of
       None \<Rightarrow> None
     | Some (r, n') \<Rightarrow>
         (case r of Inl e \<Rightarrow> Some (Inl e, n') | Inr (pending, best') \<Rightarrow> link_descendants pending best' n'))"

definition block_id_default :: block_id_type where
  "block_id_default = replicate 20 (CHR 0x00)"

definition recursive_mark_as_linked :: "block_id_type list \<Rightarrow> (block_id_type \<times> block_fork_data) act" where
  "recursive_mark_as_linked ids =
    bindA (link_descendants ids (0, block_id_default, block_fork_data_default)) (\<lambda>(_, r). retA r)"

section \<open>Storing a block in the tree\<close>

definition fetch_blocks_at_number :: "chain_database_impl \<Rightarrow> uint32 \<Rightarrow> block_id_type list" where
  "fetch_blocks_at_number n num = (case map_of (fork_number_db n) num of None \<Rightarrow> [] | Some l \<Rightarrow> l)"

text \<open>The block, its record and the list of blocks of its number. The latency is in seconds.\<close>

definition store_block :: "'z fc_block_scheme \<Rightarrow> block_id_type \<Rightarrow> full_block \<Rightarrow> unit act" where
  "store_block F bid b =
    bindA (modifyA (\<lambda>n. n\<lparr> block_id_to_block_data_db := AList.update bid b (block_id_to_block_data_db n) \<rparr>)) (\<lambda>_.
    bindA (readA (\<lambda>n.
        if map_of (block_id_to_block_record_db n) bid \<noteq> None then Inr None
        else bindE (get_current_random_seed F (DB (self n))) (\<lambda>seed.
          Inr (Some (digest_block.extend (digest_block_of F b)
            \<lparr> signee_shares_issued = 0, signee_fees_collected = 0, signee_fees_destroyed = 0,
               random_seed = seed, br_block_size = block_size F b,
               latency = tps_elapsed F (wall_clock (self n)) (timestamp b) \<rparr>)))))
      (\<lambda>new. modifyA (\<lambda>n.
        let n = (case new of None \<Rightarrow> n
                 | Some r \<Rightarrow> n\<lparr> block_id_to_block_record_db := AList.update bid r (block_id_to_block_record_db n) \<rparr>);
            parallel_blocks = fetch_blocks_at_number n (block_num b)
        in if bid \<in> set parallel_blocks then n
           else n\<lparr> fork_number_db := AList.update (block_num b) (parallel_blocks @ [bid]) (fork_number_db n) \<rparr>)))"

text \<open>The block before is told of its new successor; an unknown one gets a placeholder.\<close>

definition add_successor :: "block_id_type \<Rightarrow> block_id_type \<Rightarrow> block_fork_data act" where
  "add_successor prev bid =
    bindA (readA (\<lambda>n. Inr (case map_of (fork_db n) prev of
        Some f \<Rightarrow> f\<lparr> next_blocks := List.insert bid (next_blocks f) \<rparr>
      | None \<Rightarrow> block_fork_data_default\<lparr> next_blocks := [bid], is_linked := False \<rparr>))) (\<lambda>f.
    bindA (store_fork prev f) (\<lambda>_. retA f))"

definition inherit_invalid :: "block_fork_data \<Rightarrow> block_fork_data \<Rightarrow> block_fork_data" where
  "inherit_invalid prev f =
    (if fork_invalid prev then f\<lparr> is_valid := Some False, invalid_reason := invalid_reason prev \<rparr> else f)"

definition store_and_index ::
  "'z fc_block_scheme \<Rightarrow> block_id_type \<Rightarrow> full_block \<Rightarrow> (block_id_type \<times> block_fork_data) act" where
  "store_and_index F bid b =
    bindA (store_block F bid b) (\<lambda>_.
    bindA (add_successor (previous b) bid) (\<lambda>prev.
    bindA (readA (\<lambda>n. Inr (map_of (fork_db n) bid))) (\<lambda>cur.
      case cur of
        Some placeholder \<Rightarrow>
          let f = placeholder\<lparr> is_known := True \<rparr>
          in if is_linked prev then
               let f = inherit_invalid prev (f\<lparr> is_linked := True \<rparr>)
               in bindA (store_fork bid f) (\<lambda>_.
                  if fork_invalid prev then
                    (case invalid_reason prev of
                       None \<Rightarrow> throwA undefined_behaviour
                     | Some reason \<Rightarrow>
                         bindA (recursive_mark_as_invalid (next_blocks f) reason) (\<lambda>_. retA (bid, f)))
                  else recursive_mark_as_linked (next_blocks f))
             else bindA (store_fork bid f) (\<lambda>_. retA (bid, f))
      | None \<Rightarrow>
          let f = inherit_invalid prev
                    (block_fork_data_default\<lparr> is_known := True, is_linked := is_linked prev \<rparr>)
          in bindA (store_fork bid f) (\<lambda>_. retA (bid, f)))))"

section \<open>The way back to the chain\<close>

definition get_block_header :: "block_id_type \<Rightarrow> chain_database_impl \<Rightarrow> signed_block_header res" where
  "get_block_header i n =
    (case map_of (block_id_to_block_record_db n) i of
       None \<Rightarrow> Inl unknown_block | Some r \<Rightarrow> Inr (signed_block_header.truncate r))"

partial_function (option) fork_history ::
  "chain_database_impl \<Rightarrow> block_id_type list \<Rightarrow> block_id_type \<Rightarrow> block_id_type list run" where
  "fork_history n history next_id =
    (case get_block_header next_id n of
       Inl e \<Rightarrow> Some (Inl e)
     | Inr header \<Rightarrow>
         if previous header = block_id_default then Some (Inr (history @ [previous header]))
         else case fetch_from (fork_db n) (previous header) of
           Inl e \<Rightarrow> Some (Inl e)
         | Inr prev_fork_data \<Rightarrow>
             if \<not> is_linked prev_fork_data then Some (Inl assert_exception)
             else if is_included prev_fork_data then Some (Inr (history @ [previous header]))
             else fork_history n (history @ [previous header]) (previous header))"

definition get_fork_history :: "block_id_type \<Rightarrow> chain_database_impl \<Rightarrow> block_id_type list run" where
  "get_fork_history i n = fork_history n [i] i"

end
