(* ===== verification/Chain_Extend.thy ===== *)
theory Chain_Extend
  imports Forks Market_Engine
begin

text \<open>
  Blocks and the chain in \<^verbatim>\<open>chain_database.cpp\<close>: the checks on a header, the transactions of a
  block, \<^verbatim>\<open>extend_chain\<close>, \<^verbatim>\<open>pop_block\<close>, \<^verbatim>\<open>switch_to_fork\<close> and \<^verbatim>\<open>push_block\<close>.

  The assertions with \<^verbatim>\<open>assert\<close> are those of a debug build and are left out, as are the
  observers and the time a block takes to process. \<^verbatim>\<open>clear_pending\<close> also schedules a later task,
  \<^verbatim>\<open>revalidate_pending\<close>, which does not run before the block is done.
\<close>

definition BTS_V0_4_9_FORK_BLOCK_NUM :: uint32 where "BTS_V0_4_9_FORK_BLOCK_NUM = 316001"

definition BTS_BLOCKCHAIN_MAX_UNDO_HISTORY :: uint32 where
  "BTS_BLOCKCHAIN_MAX_UNDO_HISTORY = of_nat BTS_BLOCKCHAIN_NUM_DELEGATES * 16"

text \<open>The identifiers of the checkpoints are given in hexadecimal, which fc reads.\<close>

record fc_node = fc_block +
  ripemd160_of_hex :: "string \<Rightarrow> bytes"

definition CHECKPOINT_BLOCKS :: "(uint32 \<times> string) list" where
  "CHECKPOINT_BLOCKS =
    [(1, ''8abcfb93c52f999e3ef5288c4f837f4f15af5521''),
     (100000, ''96f98d49722848a6a47ad04aece8b9f93c9e9c23''),
     (200000, ''222ddc49db592103c51ad22cdc4140185ef564d9''),
     (300000, ''0d1d0b8f7f1f4590f8e083edc03869383ed74e3e''),
     (400000, ''053d398b6597d5c61365afd100d87b824bf49f65''),
     (500000, ''f02910a7115fb826984ce3a432cb371d5d7a99b8''),
     (600000, ''f278db8722235343c9db9f077fe67c54a5f25f3b''),
     (700000, ''f120ff9b159661b9ac084a0a69c58dcbd79cbb49''),
     (800000, ''0e94ad17c598e42e5ec2f522a05bf4df6a1778da''),
     (900000, ''a78e09bf1fd13bcd7b0959bc0764fe45db0a652d''),
     (1000000, ''20da1352f86f0fc7d5b42f5e96be86ea5b219b6f''),
     (1100000, ''bec7da4758ad453a49a9d9d4128acb92a1fdfd04''),
     (1200000, ''9e514e0f0a17d78be7c0045f9f22a253812c6c92''),
     (1246469, ''68b7e003ca08d50843faaddcf696cfff1954ede3''),
     (1246900, ''b5214c1bc914ea5da6c1bb8f774d07f12b85dbe2''),
     (1279500, ''488313d2c1c85bdec117bac0379f7b17f7cfbed3'')]"

definition last_checkpoint_block_num :: uint32 where
  "last_checkpoint_block_num = fst (last CHECKPOINT_BLOCKS)"

section \<open>Checking a header\<close>

definition verify_header ::
  "'z fc_block_scheme \<Rightarrow> chain_database_impl \<Rightarrow> full_block \<Rightarrow> public_key_type \<Rightarrow> unit res" where
  "verify_header F n b block_signee =
    (let head = head_block_header n; t = wall_clock (self n); digest_data = digest_block_of F b
     in if block_num b > 1 \<and> block_num b \<noteq> block_num head + 1 then Inl block_numbers_not_sequential
        else if previous b \<noteq> head_block_id n then Inl invalid_previous_block_id
        else if timestamp b mod BTS_BLOCKCHAIN_BLOCK_INTERVAL_SEC \<noteq> 0 then Inl invalid_block_time
        else if block_num b > 1 \<and> timestamp b \<le> timestamp head then Inl time_in_past
        else if timestamp b > tps_add F t (BTS_BLOCKCHAIN_BLOCK_INTERVAL_SEC * 2) then Inl time_in_future
        else if \<not> validate_digest F digest_data then Inl invalid_block_digest
        else if \<not> validate_unique digest_data then Inl assert_exception
        else bindE (get_active_delegates F (DB (self n))) (\<lambda>active_delegates.
             bindE (get_slot_signee (self n) (timestamp b) active_delegates) (\<lambda>expected_delegate.
             bindE (signing_key expected_delegate) (\<lambda>k.
               if block_signee \<noteq> k then Inl invalid_delegate_signee else Inr ()))))"

text \<open>The key that signed the block; before the last checkpoint the expected one is taken.\<close>

definition find_block_signee ::
  "'z fc_block_scheme \<Rightarrow> chain_database_impl \<Rightarrow> full_block \<Rightarrow> public_key_type res" where
  "find_block_signee F n b =
    (if last_checkpoint_block_num > block_num b then
       bindE (get_active_delegates F (DB (self n))) (\<lambda>active_delegates.
       bindE (get_slot_signee (self n) (timestamp b) active_delegates) signing_key)
     else signee F False b)"

definition verify_checkpoint :: "'z fc_node_scheme \<Rightarrow> block_id_type \<Rightarrow> full_block \<Rightarrow> unit res" where
  "verify_checkpoint F bid b =
    (case map_of CHECKPOINT_BLOCKS (block_num b) of
       None \<Rightarrow> Inr ()
     | Some h \<Rightarrow> if ripemd160_of_hex F h \<noteq> bid then Inl failed_checkpoint_verification else Inr ())"

section \<open>The changes of a block\<close>

definition apply_transactions ::
  "'z fc_eval_scheme \<Rightarrow> chain_database_impl \<Rightarrow> full_block \<Rightarrow> chain \<Rightarrow> chain res" where
  "apply_transactions F n b pending_state =
    bindE (foldE (\<lambda>t (trx_num, s).
        bindE (evaluate F t (skip_signature_verification n) False (mk_eval_state s (chain_id (self n)))) (\<lambda>e.
        bindE (store_transaction F (signed_transaction_id F t)
                 \<lparr> trx = es_trx e, chain_location = (block_num b, trx_num) \<rparr> (current_state e)) (\<lambda>s.
          Inr (trx_num + 1, s))))
      (user_transactions b) (0, pending_state)) (\<lambda>(_, s). Inr s)"

fun pending_of :: "chain \<Rightarrow> pending_chain_state" where
  "pending_of (Pending p prev) = p"
| "pending_of (DB d) = pending_empty"

text \<open>The undo state has no state below it; in the model, the empty database stands there.\<close>

definition save_undo_state :: "'z fc_ops_scheme \<Rightarrow> block_id_type \<Rightarrow> chain \<Rightarrow> unit act" where
  "save_undo_state F bid pending_state = lookA (\<lambda>n.
     if block_num (head_block_header n) < last_checkpoint_block_num then retA ()
     else
       bindA (readA (\<lambda>n. get_undo_state F (pending_of pending_state) (DB (self n)) (fresh_pending (DB db_empty)))) (\<lambda>u.
       bindA (modifyA (\<lambda>n. n\<lparr> undo_state_db := AList.update bid (pending_of u) (undo_state_db n) \<rparr>)) (\<lambda>_.
       let old = head_block_num (self n) - BTS_BLOCKCHAIN_MAX_UNDO_HISTORY
       in if 0 <s old then
            bindA (readA (\<lambda>n. fetch_from (block_num_to_id_db n) old)) (\<lambda>old_id.
              modifyA (\<lambda>n. n\<lparr> undo_state_db := AList.delete old_id (undo_state_db n) \<rparr>))
          else retA ())))"

text \<open>\<^verbatim>\<open>apply_changes\<close> on the database. An exception in the middle of it leaves the tables partly
  changed; from there on the model says nothing.\<close>

definition write_changes :: "'z fc_ops_scheme \<Rightarrow> pending_chain_state \<Rightarrow> unit act" where
  "write_changes F p n =
    (case apply_changes F p (DB (self n)) of
       Inr (DB d) \<Rightarrow> Some (Inr (), n\<lparr> self := d \<rparr>)
     | _ \<Rightarrow> None)"

definition update_head_block :: "signed_block_header \<Rightarrow> block_id_type \<Rightarrow> chain_database_impl \<Rightarrow> chain_database_impl" where
  "update_head_block header bid n =
    n\<lparr> head_block_header := header, head_block_id := bid,
       self := (self n)\<lparr> head_block_num := block_num header, head_block_timestamp := timestamp header \<rparr> \<rparr>"

definition clear_pending :: "'z fc_ops_scheme \<Rightarrow> full_block \<Rightarrow> chain_database_impl \<Rightarrow> chain_database_impl" where
  "clear_pending F b n =
    n\<lparr> pending_transaction_db := fold (\<lambda>t. AList.delete (transaction_digest F t (chain_id (self n))))
         (user_transactions b) (pending_transaction_db n),
       pending_fee_index := [], pending_trx_state := pending_empty \<rparr>"

section \<open>Repairs of the supply at earlier forks\<close>

definition add_all :: "('k \<Rightarrow> 'v \<Rightarrow> share_type) \<Rightarrow> ('k \<times> 'v) list \<Rightarrow> share_type \<Rightarrow> share_type" where
  "add_all f db = fold (\<lambda>(k, v) t. t + f k v) db"

definition calculate_supply :: "chain_database \<Rightarrow> asset_id_type \<Rightarrow> asset res" where
  "calculate_supply d a =
    (case db_get_asset_record d a of
       None \<Rightarrow> Inl assert_exception
     | Some r \<Rightarrow>
         let base = (\<lambda>k v. if base_asset_id (order_price k) = a then or_balance v else 0);
             quote = (\<lambda>k v. if quote_asset_id (order_price k) = a then or_balance v else 0);
             t = collected_fees r;
             t = add_all (\<lambda>i b. if balance_asset_id b = a then balance b else 0) (balance_db d) t;
             t = add_all base (ask_db d) t;
             t = add_all base (relative_ask_db d) t
         in Inr (mk_asset
              (if a = 0 then
                 let t = add_all (\<lambda>k. or_balance) (short_db d) t;
                     t = add_all (\<lambda>k. collateral_balance) (collateral_db d) t
                 in add_all (\<lambda>i r. case delegate_info r of None \<Rightarrow> 0 | Some di \<Rightarrow> pay_balance di) (account_db d) t
               else add_all quote (relative_bid_db d) (add_all quote (bid_db d) t)) a))"

definition calculate_debt :: "'z fc_eval_scheme \<Rightarrow> chain_database \<Rightarrow> asset_id_type \<Rightarrow> bool \<Rightarrow> asset res" where
  "calculate_debt F d a include_interest =
    (case db_get_asset_record d a of
       None \<Rightarrow> Inl assert_exception
     | Some r \<Rightarrow>
         if \<not> is_market_issued r then Inl assert_exception
         else foldE (\<lambda>(k, c) t.
           if quote_asset_id (order_price k) \<noteq> a then Inr t
           else if base_asset_id (order_price k) \<noteq> 0 then Inl assert_exception
           else let principle = mk_asset (payoff_balance c) a
                in bindE (asset_plus t principle) (\<lambda>t.
                   if \<not> include_interest then Inr t
                   else let start = tps_sub F (expiration c) (word_of_int BTS_BLOCKCHAIN_MAX_SHORT_PERIOD_SEC)
                        in bindE (get_interest_owed F principle (interest_rate c)
                                    (word_of_int (tps_elapsed F (db_now d) start))) (asset_plus t)))
           (collateral_db d) (mk_asset 0 a))"

definition repair_asset :: "'z fc_eval_scheme \<Rightarrow> asset_record \<Rightarrow> unit act" where
  "repair_asset F r =
    bindA (readA (\<lambda>n.
      bindE (calculate_supply (self n) (asr_id r)) (\<lambda>s.
      if is_market_issued r then
        bindE (calculate_debt F (self n) (asr_id r) False) (\<lambda>debt.
          if s \<noteq> debt then
            let difference = amount debt - amount s
            in Inr (r\<lparr> current_share_supply := amount s + difference, collected_fees := collected_fees r + difference \<rparr>)
          else Inr (r\<lparr> current_share_supply := amount s \<rparr>))
      else Inr (r\<lparr> current_share_supply := amount s \<rparr>)))) (\<lambda>r.
    modifyA (\<lambda>n. n\<lparr> self := db_store_asset_record r (self n) \<rparr>))"

definition repair_base_supply :: "unit act" where
  "repair_base_supply =
    bindA (readA (\<lambda>n. case db_get_asset_record (self n) 0 of None \<Rightarrow> Inl assert_exception
      | Some r \<Rightarrow> bindE (calculate_supply (self n) 0) (\<lambda>s. Inr (r\<lparr> current_share_supply := amount s \<rparr>)))) (\<lambda>r.
    modifyA (\<lambda>n. n\<lparr> self := db_store_asset_record r (self n) \<rparr>))"

definition reset_pay_rate :: "'z fc_base_scheme \<Rightarrow> account_record \<Rightarrow> unit act" where
  "reset_pay_rate F r =
    bindA (readA (\<lambda>n. db_store_account_record F
        (r\<lparr> delegate_info := map_option (\<lambda>di. di\<lparr> pay_rate := 3 \<rparr>) (delegate_info r) \<rparr>) (self n))) (\<lambda>d.
      modifyA (\<lambda>n. n\<lparr> self := d \<rparr>))"

definition fork_repairs :: "'z fc_eval_scheme \<Rightarrow> full_block \<Rightarrow> unit act" where
  "fork_repairs F b =
    bindA (lookA (\<lambda>n.
           if block_num b = BTS_V0_4_16_FORK_BLOCK_NUM then repair_base_supply
           else if block_num b = BTS_V0_4_17_FORK_BLOCK_NUM \<or> block_num b = BTS_V0_4_21_FORK_BLOCK_NUM \<or>
                   block_num b = BTS_V0_4_24_FORK_BLOCK_NUM
           then foldA (\<lambda>(i, r) _. repair_asset F r) (asset_db (self n)) ()
           else retA ())) (\<lambda>_. lookA (\<lambda>n.
      if block_num b = BTS_V0_4_24_FORK_BLOCK_NUM
      then foldA (\<lambda>(i, r) _. reset_pay_rate F r)
             (filter (\<lambda>(i, r). is_delegate r \<and> delegate_info r \<noteq> None) (account_db (self n))) ()
      else retA ()))"

section \<open>Extending and shortening the chain\<close>

text \<open>A function that gives a result with a new node.\<close>

definition stateA :: "(chain_database_impl \<Rightarrow> ('a \<times> chain_database_impl) res) \<Rightarrow> 'a act" where
  "stateA f n = (case f n of Inl e \<Rightarrow> Some (Inl e, n) | Inr (x, n') \<Rightarrow> Some (Inr x, n'))"

text \<open>The first part of \<^verbatim>\<open>extend_chain\<close>: the pending state with all changes of the block.\<close>

definition block_changes :: "'z fc_node_scheme \<Rightarrow> block_id_type \<Rightarrow> full_block \<Rightarrow> chain act" where
  "block_changes F bid b =
    bindA (readA (\<lambda>n. find_block_signee F n b)) (\<lambda>block_signee.
    bindA (readA (\<lambda>n. verify_checkpoint F bid b)) (\<lambda>_.
    bindA (readA (\<lambda>n. verify_header F n b block_signee)) (\<lambda>_.
    bindA (runA (\<lambda>n. update_delegate_production_info F n b block_signee (fresh_pending (DB (self n))))) (\<lambda>s.
    bindA (stateA (pay_delegate F block_signee bid s)) (\<lambda>s.
    bindA (if block_num b < BTS_V0_4_9_FORK_BLOCK_NUM then readA (\<lambda>n. apply_transactions F n b s) else retA s) (\<lambda>s.
    bindA (runA (\<lambda>n. execute_markets F (self n) (timestamp b) s)) (\<lambda>s.
    bindA (if block_num b \<ge> BTS_V0_4_9_FORK_BLOCK_NUM then readA (\<lambda>n. apply_transactions F n b s) else retA s) (\<lambda>s.
    bindA (readA (\<lambda>n. update_active_delegate_list F (self n) b s)) (\<lambda>s.
      readA (\<lambda>n. update_random_seed F (previous_secret b) s))))))))))"

definition include_block :: "'z fc_node_scheme \<Rightarrow> block_id_type \<Rightarrow> full_block \<Rightarrow> chain \<Rightarrow> unit act" where
  "include_block F bid b pending_state =
    bindA (save_undo_state F bid pending_state) (\<lambda>_.
    bindA (write_changes F (pending_of pending_state)) (\<lambda>_.
    bindA (mark_included bid True) (\<lambda>_.
    bindA (modifyA (update_head_block (signed_block_header.truncate b) (block_id F b))) (\<lambda>_.
    bindA (modifyA (clear_pending F b)) (\<lambda>_.
    bindA (modifyA (\<lambda>n. n\<lparr> block_num_to_id_db := AList.update (block_num b) bid (block_num_to_id_db n) \<rparr>)) (\<lambda>_.
      fork_repairs F b))))))"

definition purge_transactions :: "chain_database_impl \<Rightarrow> chain_database_impl" where
  "purge_transactions n = n\<lparr> self := (self n)\<lparr> unique_transactions_db :=
     filter (\<lambda>(t, ds). \<not> t < db_now (self n)) (unique_transactions_db (self n)) \<rparr> \<rparr>"

definition extend_chain :: "'z fc_node_scheme \<Rightarrow> full_block \<Rightarrow> unit act" where
  "extend_chain F b =
    (let bid = block_id F b
     in bindA (catchA (bindA (block_changes F bid b) (include_block F bid b))
          (\<lambda>e. if e = undefined_behaviour then throwA e
               else bindA (mark_invalid bid e) (\<lambda>_. throwA e))) (\<lambda>_.
        modifyA purge_transactions))"

definition pop_block :: "'z fc_ops_scheme \<Rightarrow> unit act" where
  "pop_block F = lookA (\<lambda>n.
     let header = head_block_header n; bid = head_block_id n
     in if block_num header = 0 then retA ()
        else
          bindA (mark_included bid False) (\<lambda>_.
          bindA (modifyA (\<lambda>n. n\<lparr> block_num_to_id_db := AList.delete (block_num header) (block_num_to_id_db n) \<rparr>)) (\<lambda>_.
          bindA (readA (\<lambda>n. fetch_from (undo_state_db n) bid)) (\<lambda>undo_state.
          bindA (write_changes F undo_state) (\<lambda>_.
          bindA (modifyA (\<lambda>n. n\<lparr> head_block_id := previous header \<rparr>)) (\<lambda>_.
          bindA (readA (get_block_header (previous header))) (\<lambda>new_header.
            modifyA (update_head_block new_header (previous header)))))))))"

partial_function (option) pop_until ::
  "'z fc_ops_scheme \<Rightarrow> block_id_type \<Rightarrow> chain_database_impl \<Rightarrow> (unit res \<times> chain_database_impl) option" where
  "pop_until F target n =
    (if head_block_id n = target then Some (Inr (), n)
     else case pop_block F n of
       None \<Rightarrow> None
     | Some (r, n') \<Rightarrow> (case r of Inl e \<Rightarrow> Some (Inl e, n') | Inr x \<Rightarrow> pop_until F target n'))"

definition switch_to_fork :: "'z fc_node_scheme \<Rightarrow> block_id_type \<Rightarrow> unit act" where
  "switch_to_fork F bid = lookA (\<lambda>n.
     if bid = head_block_id n then retA ()
     else
       bindA (runA (get_fork_history bid)) (\<lambda>history.
       bindA (pop_until F (last history)) (\<lambda>_.
         foldA (\<lambda>i _. bindA (readA (\<lambda>n. fetch_from (block_id_to_block_data_db n) i)) (extend_chain F))
           (rev (butlast history)) ())))"

section \<open>Receiving a block\<close>

text \<open>The blocks of one number are tried in turn; \<open>True\<close> if one of them is now the head.\<close>

fun try_forks :: "'z fc_node_scheme \<Rightarrow> block_id_type \<Rightarrow> block_id_type list \<Rightarrow> bool act" where
  "try_forks F bid [] = retA False"
| "try_forks F bid (i # is) =
    bindA (fetch_fork i) (\<lambda>f.
    if can_link f then
      bindA (catchA
        (bindA (switch_to_fork F i) (\<lambda>_.
         bindA (readA (\<lambda>n. if map_of (block_id_to_block_record_db n) bid = None then Inl assert_exception else Inr ())) (\<lambda>_.
           retA True)))
        (\<lambda>e. if e = undefined_behaviour then throwA e
             else if e = time_in_future then
               bindA (modifyA (\<lambda>n. n\<lparr> revalidatable_future_blocks_db :=
                 List.insert bid (revalidatable_future_blocks_db n) \<rparr>)) (\<lambda>_. retA False)
             else retA False)) (\<lambda>found. if found then retA True else try_forks F bid is)
    else try_forks F bid is)"

fun try_numbers :: "'z fc_node_scheme \<Rightarrow> block_id_type \<Rightarrow> nat \<Rightarrow> unit act" where
  "try_numbers F bid 0 = retA ()"
| "try_numbers F bid (Suc k) =
    bindA (readA (\<lambda>n. Inr (fetch_blocks_at_number n (of_nat (Suc k))))) (\<lambda>parallel_blocks.
    bindA (try_forks F bid parallel_blocks) (\<lambda>found.
      if found then retA () else try_numbers F bid k))"

definition push_block :: "'z fc_node_scheme \<Rightarrow> full_block \<Rightarrow> block_fork_data act" where
  "push_block F b = lookA (\<lambda>n.
     let head = head_block_num (self n); bid = block_id F b
     in if head > BTS_BLOCKCHAIN_MAX_UNDO_HISTORY \<and> block_num b \<le> head - BTS_BLOCKCHAIN_MAX_UNDO_HISTORY
        then throwA block_older_than_undo_history
        else
          bindA (store_and_index F bid b) (\<lambda>(longest_id, longest_fork).
          bindA (if can_link longest_fork then
                   bindA (readA (\<lambda>n. fetch_from (block_id_to_block_data_db n) longest_id)) (\<lambda>longest_fork_block.
                     if block_num longest_fork_block > head
                     then try_numbers F bid (unat (block_num longest_fork_block)) else retA ())
                 else retA ()) (\<lambda>_.
            readA (\<lambda>n. case map_of (fork_db n) bid of None \<Rightarrow> Inl undefined_behaviour | Some f \<Rightarrow> Inr f))))"

end
