(* ===== verification/Pool.thy ===== *)
theory Pool
  imports Chain_Extend
begin

text \<open>
  The pending transactions of a node and the blocks it makes of them, in \<^verbatim>\<open>chain_database.cpp\<close>:
  \<^verbatim>\<open>evaluate_transaction\<close>, \<^verbatim>\<open>store_pending_transaction\<close>, \<^verbatim>\<open>revalidate_pending\<close>, \<^verbatim>\<open>clear_pending\<close> and
  \<^verbatim>\<open>generate_block\<close>.

  \<open>pending_fee_index\<close> is kept in the order of \<^verbatim>\<open>fee_index\<close>, the highest fee first; how fc orders two
  identifiers is a parameter. As for blocks, \<open>None\<close> is an exception in the middle of \<^verbatim>\<open>apply_changes\<close>.
\<close>

definition BTS_BLOCKCHAIN_MAX_PENDING_QUEUE_SIZE :: nat where "BTS_BLOCKCHAIN_MAX_PENDING_QUEUE_SIZE = 10"

record fc_pool = fc_node +
  ripemd160_less :: "bytes \<Rightarrow> bytes \<Rightarrow> bool"

type_synonym fee_index = "share_type \<times> transaction_id_type"

section \<open>The pending transactions\<close>

fun fee_index_less :: "'z fc_pool_scheme \<Rightarrow> fee_index \<Rightarrow> fee_index \<Rightarrow> bool" where
  "fee_index_less F (fees1, trx1) (fees2, trx2) =
    (if fees1 = fees2 then ripemd160_less F trx1 trx2 else fees2 <s fees1)"

fun put_fee :: "'z fc_pool_scheme \<Rightarrow> fee_index \<Rightarrow> 'v \<Rightarrow> (fee_index \<times> 'v) list \<Rightarrow> (fee_index \<times> 'v) list" where
  "put_fee F k v [] = [(k, v)]"
| "put_fee F k v ((k', v') # m) =
    (if k = k' then (k, v) # m
     else if fee_index_less F k k' then (k, v) # (k', v') # m
     else (k', v') # put_fee F k v m)"

text \<open>\<^verbatim>\<open>apply_changes\<close> of a pending state on the state of the pool.\<close>

definition merge_changes :: "'z fc_ops_scheme \<Rightarrow> chain \<Rightarrow> chain \<Rightarrow> chain option" where
  "merge_changes F s prev_state = (case apply_changes F (pending_of s) prev_state of Inl e \<Rightarrow> None | Inr s' \<Rightarrow> Some s')"

definition evaluate_transaction ::
  "'z fc_eval_scheme \<Rightarrow> signed_transaction \<Rightarrow> share_type \<Rightarrow> transaction_evaluation_state act" where
  "evaluate_transaction F t min_fee n =
    (let pool = Pending (pending_trx_state n) (DB (self n))
     in case evaluate F t False False (mk_eval_state (fresh_pending pool) (chain_id (self n))) of
          Inl e \<Rightarrow> throwA e n
        | Inr e \<Rightarrow>
            if get_fees e 0 + amount (alt_fees_paid e) <s min_fee then throwA insufficient_relay_fee n
            else (case merge_changes F (current_state e) pool of
                    None \<Rightarrow> None
                  | Some s \<Rightarrow> Some (Inr e, n\<lparr> pending_trx_state := pending_of s \<rparr>)))"

definition index_pending :: "'z fc_pool_scheme \<Rightarrow> signed_transaction \<Rightarrow> transaction_evaluation_state \<Rightarrow>
    chain_database_impl \<Rightarrow> chain_database_impl" where
  "index_pending F t e n =
    n\<lparr> pending_fee_index := put_fee F (get_fees e 0, signed_transaction_id F t) e (pending_fee_index n) \<rparr>"

text \<open>The fee a node asks for grows with the square of the overage of the queue.\<close>

definition required_relay_fee :: "bool \<Rightarrow> chain_database_impl \<Rightarrow> share_type" where
  "required_relay_fee override_limits n =
    (let len = length (pending_fee_index n)
     in if \<not> override_limits \<and> len > BTS_BLOCKCHAIN_MAX_PENDING_QUEUE_SIZE then
          let overage = of_nat (len - BTS_BLOCKCHAIN_MAX_PENDING_QUEUE_SIZE)
          in relay_fee n * overage * overage
        else relay_fee n)"

definition store_pending_transaction ::
  "'z fc_pool_scheme \<Rightarrow> signed_transaction \<Rightarrow> bool \<Rightarrow> transaction_evaluation_state option act" where
  "store_pending_transaction F t override_limits = lookA (\<lambda>n.
     let i = transaction_digest F t (chain_id (self n))
     in if map_of (pending_transaction_db n) i \<noteq> None then retA None
        else bindA (evaluate_transaction F t (required_relay_fee override_limits n)) (\<lambda>e.
             bindA (modifyA (index_pending F t e)) (\<lambda>_.
             bindA (modifyA (\<lambda>n. n\<lparr> pending_transaction_db := AList.update i t (pending_transaction_db n) \<rparr>)) (\<lambda>_.
               retA (Some e)))))"

definition revalidate_pending :: "'z fc_pool_scheme \<Rightarrow> unit act" where
  "revalidate_pending F = lookA (\<lambda>n.
    bindA (modifyA (\<lambda>n. n\<lparr> pending_fee_index := [], pending_trx_state := pending_empty \<rparr>)) (\<lambda>_.
    bindA (foldA (\<lambda>(i, t) trx_to_discard.
        catchA (bindA (bindA (readA (\<lambda>n. Inr (relay_fee n))) (evaluate_transaction F t)) (\<lambda>e.
                bindA (modifyA (index_pending F t e)) (\<lambda>_. retA trx_to_discard)))
          (\<lambda>e. if e = undefined_behaviour then throwA e else retA (trx_to_discard @ [i])))
        (pending_transaction_db n) []) (\<lambda>trx_to_discard.
      modifyA (\<lambda>n. n\<lparr> pending_transaction_db := fold AList.delete trx_to_discard (pending_transaction_db n) \<rparr>))))"

definition get_transaction_error ::
  "'z fc_eval_scheme \<Rightarrow> chain_database_impl \<Rightarrow> signed_transaction \<Rightarrow> share_type \<Rightarrow> exception option res" where
  "get_transaction_error F n t min_fee =
    (case evaluate F t False False (mk_eval_state (fresh_pending (DB (self n))) (chain_id (self n))) of
       Inl e \<Rightarrow> if e = undefined_behaviour then Inl e else Inr (Some e)
     | Inr e \<Rightarrow> Inr (if get_fees e 0 <s min_fee then Some insufficient_relay_fee else None))"

definition get_pending_transactions :: "chain_database_impl \<Rightarrow> transaction_evaluation_state list" where
  "get_pending_transactions n = map snd (pending_fee_index n)"

section \<open>Making a block\<close>

definition full_block_default :: full_block where
  "full_block_default =
    \<lparr> previous = block_id_default, block_num = 0, timestamp = 0, bh_transaction_digest = replicate 32 (CHR 0x00),
      bh_next_secret_hash = replicate 20 (CHR 0x00), previous_secret = replicate 20 (CHR 0x00),
      delegate_signature = replicate 65 (CHR 0x00), user_transactions = [] \<rparr>"

record block_limits =
  max_block_transaction_count :: uint64
  max_block_size :: uint64
  max_transaction_size :: uint64
  min_transaction_fee :: share_type

text \<open>What becomes of one pending transaction: it is left out for its size; or its size is counted
  and it is left out as invalid or too cheap; or it is taken into the block.\<close>

datatype choice = Left_out | Counted uint64 | Taken uint64 chain

definition choose_transaction ::
  "'z fc_eval_scheme \<Rightarrow> digest_type \<Rightarrow> block_limits \<Rightarrow> signed_transaction \<Rightarrow> uint64 \<Rightarrow> chain \<Rightarrow> choice run" where
  "choose_transaction F cid limits t block_bytes s =
    (let transaction_size = of_nat (data_size F t)
     in if transaction_size > max_transaction_size limits then Some (Inr Left_out)
        else if block_bytes + transaction_size > max_block_size limits then Some (Inr Left_out)
        else let block_bytes = block_bytes + transaction_size
             in case evaluate F t False False (mk_eval_state (fresh_pending s) cid) of
                  Inl x \<Rightarrow> Some (if x = undefined_behaviour then Inl x else Inr (Counted block_bytes))
                | Inr e \<Rightarrow>
                    if get_fees e 0 + amount (alt_fees_paid e) <s min_transaction_fee limits
                    then Some (Inr (Counted block_bytes))
                    else (case merge_changes F (current_state e) s of
                            None \<Rightarrow> None | Some s' \<Rightarrow> Some (Inr (Taken block_bytes s'))))"

text \<open>The loop over the pending transactions, with those taken so far.\<close>

fun fill_block ::
  "'z fc_eval_scheme \<Rightarrow> digest_type \<Rightarrow> block_limits \<Rightarrow> signed_transaction list \<Rightarrow> uint64 \<Rightarrow> chain \<Rightarrow>
    signed_transaction list \<Rightarrow> signed_transaction list run" where
  "fill_block F cid limits [] block_bytes s ts = Some (Inr ts)"
| "fill_block F cid limits (t # rest) block_bytes s ts =
    bindR (choose_transaction F cid limits t block_bytes s) (\<lambda>c.
      case c of
        Left_out \<Rightarrow> fill_block F cid limits rest block_bytes s ts
      | Counted block_bytes' \<Rightarrow> fill_block F cid limits rest block_bytes' s ts
      | Taken block_bytes' s' \<Rightarrow>
          if of_nat (length (ts @ [t])) \<ge> max_block_transaction_count limits then Some (Inr (ts @ [t]))
          else fill_block F cid limits rest block_bytes' s' (ts @ [t]))"

text \<open>The time allowed for the production of a block is given as the number of pending
  transactions the node gets to look at before it is over.\<close>

definition generate_block ::
  "'z fc_block_scheme \<Rightarrow> chain_database_impl \<Rightarrow> time_point_sec \<Rightarrow> block_limits \<Rightarrow> nat \<Rightarrow> full_block run" where
  "generate_block F n block_timestamp limits in_time =
    (let s = fresh_pending (DB (self n)); block_bytes = block_size F full_block_default
     in bindR (if get_head_block_num s \<ge> BTS_V0_4_9_FORK_BLOCK_NUM
               then execute_markets F (self n) block_timestamp s else Some (Inr s)) (\<lambda>s.
        bindR (if max_block_transaction_count limits > 0 \<and> max_block_size limits > block_bytes
               then fill_block F (chain_id (self n)) limits
                      (map es_trx (take in_time (get_pending_transactions n))) block_bytes s []
               else Some (Inr [])) (\<lambda>ts.
        let head_block = head_block_header n;
            new_block = full_block_default\<lparr>
              user_transactions := ts,
              previous := (if block_num head_block > 0 then block_id F head_block else block_id_default),
              block_num := block_num head_block + 1,
              timestamp := block_timestamp \<rparr>
        in Some (Inr (new_block\<lparr> bh_transaction_digest :=
             calculate_transaction_digest F (digest_block_of F new_block) \<rparr>)))))"

end
