(* ===== verification/Spec2Isabelle.thy ===== *)
theory Spec2Isabelle
  imports Delegate_Laws Market_Trades Pool
begin

text \<open>
  A model of the BitShares blockchain library (\<^verbatim>\<open>src/libraries/blockchain\<close>): what a node
  computes when it evaluates a transaction against the state of the chain, commits the
  changes, and undoes them.

  \<^bold>\<open>The parts of the program.\<close> A transaction is a list of operations with signatures. It is
  evaluated by a \<^verbatim>\<open>transaction_evaluation_state\<close> against a \<^verbatim>\<open>chain_interface\<close>, of which there are
  two implementations: \<^verbatim>\<open>chain_database\<close>, the tables on disk, and \<^verbatim>\<open>pending_chain_state\<close>, a set of
  changes on top of another state. Each operation checks authority and funds, takes shares
  out of the state into the transaction or puts them back, and stores the changed records;
  what is left in the transaction is collected as fees. \<^verbatim>\<open>apply_changes\<close> writes a pending
  state into the state below it and \<^verbatim>\<open>get_undo_state\<close> computes the changes that revert it.

  \<^bold>\<open>The theories.\<close>

  \<^item> \<^verbatim>\<open>Prelude\<close>, \<^verbatim>\<open>Exceptions\<close>: machine integers with their wrap-around, results that may throw,
    dictionaries and sums over them; the exceptions of \<^verbatim>\<open>exceptions.hpp\<close>.
  \<^item> \<^verbatim>\<open>Fc\<close>: the fc library, which is not part of the sources, as a record of functions that
    every definition takes as an argument, with the laws the code relies on as named
    predicates, and a concrete instance that satisfies them.
  \<^item> \<^verbatim>\<open>Asset\<close>, \<^verbatim>\<open>Address\<close>, \<^verbatim>\<open>Withdraw\<close>, \<^verbatim>\<open>Account\<close>, \<^verbatim>\<open>Asset_Record\<close>, \<^verbatim>\<open>Market_Records\<close>: the data of the
    chain (\<^verbatim>\<open>asset.cpp\<close>, \<^verbatim>\<open>address.cpp\<close>, \<^verbatim>\<open>pts_address.cpp\<close>, \<^verbatim>\<open>withdraw_types.cpp\<close>,
    \<^verbatim>\<open>balance_record.cpp\<close>, \<^verbatim>\<open>account_record.cpp\<close>, \<^verbatim>\<open>asset_record.cpp\<close>, \<^verbatim>\<open>market_records.cpp\<close>).
    They show that amounts never wrap unnoticed, that conversions at a price never gain,
    that ratios and addresses are read back from their strings, and that vesting never
    releases more than the balance.
  \<^item> \<^verbatim>\<open>Operations\<close>, \<^verbatim>\<open>Transaction\<close>: the operation structs, their tags and packed form, the
    digest and the builders of transactions (\<^verbatim>\<open>operations.cpp\<close>, \<^verbatim>\<open>transaction.cpp\<close>).
  \<^item> \<^verbatim>\<open>Chain_State\<close>, \<^verbatim>\<open>Chain_Access\<close>: the tables of both implementations as records of
    association lists and every look-up and store of \<^verbatim>\<open>chain_interface\<close>
    (\<^verbatim>\<open>chain_database.cpp\<close>, \<^verbatim>\<open>pending_chain_state.cpp\<close>). A \<open>chain\<close> is a database or a
    pending state on top of a chain.
  \<^item> \<^verbatim>\<open>Chain_Laws\<close>, \<^verbatim>\<open>Chain_Inv\<close>: the interface as a locale, a table with a look-up and a store,
    interpreted for every table of the model, and the well-formedness of states, which
    every store keeps.
  \<^item> \<^verbatim>\<open>Chain_Interface\<close>: names, registration fees, the pay of delegates and the typed
    properties (\<^verbatim>\<open>chain_interface.cpp\<close>).
  \<^item> \<^verbatim>\<open>Pending_State\<close>: commit and undo. The abstract state is the \<open>view\<close>, the tables as maps
    in which a null record and a missing one are the same; \<open>apply_changes\<close> implements the
    overlay of the views and the undo state gives back the view below.
  \<^item> \<^verbatim>\<open>Eval_State\<close>, \<^verbatim>\<open>Balance_Ops\<close>, \<^verbatim>\<open>Account_Ops\<close>, \<^verbatim>\<open>Asset_Ops\<close>, \<^verbatim>\<open>Market_Ops\<close>, \<^verbatim>\<open>Evaluate\<close>: the
    evaluation of transactions, one definition per \<^verbatim>\<open>evaluate\<close> method and version
    (\<^verbatim>\<open>transaction_evaluation_state.cpp\<close>, \<^verbatim>\<open>balance_operations.cpp\<close>, \<^verbatim>\<open>account_operations.cpp\<close>,
    \<^verbatim>\<open>feed_operations.cpp\<close>, \<^verbatim>\<open>asset_operations.cpp\<close>, \<^verbatim>\<open>market_operations.cpp\<close> and the files
    \<^verbatim>\<open>_v1\<close> to \<^verbatim>\<open>_v4\<close>, \<^verbatim>\<open>operation_factory.hpp\<close>).
  \<^item> \<^verbatim>\<open>Evaluate_Laws\<close>: for every operation, what a run that does not throw must have looked like.
  \<^item> \<^verbatim>\<open>Ledger\<close>: the shares of an asset in the tables, and that a transaction conserves them
    against the stated supply.
  \<^item> \<^verbatim>\<open>Authority\<close>, \<^verbatim>\<open>Supply\<close>: who may change a balance, an account and a supply, and what the
    signatures of a transaction count for.
  \<^item> \<^verbatim>\<open>Block\<close>, \<^verbatim>\<open>Delegates\<close>, \<^verbatim>\<open>Delegate_Laws\<close>: blocks and the tables of a node (\<^verbatim>\<open>block.cpp\<close>,
    \<^verbatim>\<open>chain_database_impl.hpp\<close>), and the delegates (\<^verbatim>\<open>chain_database.cpp\<close> and its versions
    \<^verbatim>\<open>_v1\<close> and \<^verbatim>\<open>_v2\<close>): elections and the shuffle, the schedule of slots, pay, and blocks
    produced and missed. They show that the elected are those with the most votes, that an
    active delegate is due within a round, that pay keeps the ledger balanced, and that the
    count of missed blocks ends and is right.
  \<^item> \<^verbatim>\<open>Market_Engine\<close>, \<^verbatim>\<open>Market_Laws\<close>, \<^verbatim>\<open>Market_Trades\<close>: the market engine (\<^verbatim>\<open>market_engine.cpp\<close>
    and \<^verbatim>\<open>execute_markets\<close> of \<^verbatim>\<open>chain_database.cpp\<close>): the choice of the next bid and ask
    among limit orders, relative orders, shorts and covers, the trades, the payments, the
    loop over a market with its termination proof, and the commit. They show that a market
    of limit orders conserves shares, that every trade is at a price its bidder and seller
    accept, that the number of trades is bounded by the size of the book, and that a run that
    gets to its commit completes it.

  \<^bold>\<open>Conventions.\<close> A throwing call has the result \<open>Inl\<close> with the exception; undefined behaviour
  of C++ (reads past a buffer, missing map entries, conversions that lose the value) is the
  exception \<open>undefined_behaviour\<close>, which no handler catches. Overflow in the arithmetic on share
  amounts, which C++ leaves undefined for signed integers, wraps around in two's complement,
  as in the compiled code. Tables ordered by a key are association lists
  kept in the order of the key where an iteration depends on it. There is no fuel: a
  loop of the model is structural or has a termination proof, or, where a 32-bit clock that
  wraps may keep it from ending, is a partial function with the value \<open>None\<close> for not
  returning, and a theorem says when it returns. The rules the theorems call
  current are those of blocks from 820200 on; older versions are modelled but the ledger and
  authority theorems do not cover them.

  \<^bold>\<open>Not modelled.\<close> Logging, the copy of an exception in \<^verbatim>\<open>validation_error\<close>, conversion to and
  from JSON, object, edge and site records (the operations that create them throw), memo
  encryption, and the layers around the library: peer to peer network, wallet, client and
  command line, mail, the wrappers of leveldb, and the copies of the market engine kept for
  early blocks. They are input and output, or rest on libraries outside the sources.
\<close>

end
